(* ===== verification/Prelude.thy ===== *)
theory Prelude
  imports Main
begin

text \<open>
  What every theory of the development shares: the collections of rewrite rules its
  components register into, the outcome of a Go call that may panic, Go's in-place update of
  the first matching slice element, the two's complement reading of \<open>int64\<close>, and the
  decimal text of an integer as \<open>strconv\<close> and \<open>fmt\<close> print and parse it.
\<close>

text \<open>The collections: \<open>status_simps\<close> holds what a lookup in a status returns after an
  update of it, \<open>frame_simps\<close> what an operation leaves alone, \<open>job_simps\<close> the
  reports of the asynchronous jobs.\<close>

named_theorems status_simps
named_theorems frame_simps
named_theorems job_simps

section \<open>Panics\<close>

text \<open>A Go function that may panic returns \<open>Inl\<close> of what went wrong.\<close>

datatype GoPanic =
    NilPointerDereference
  | MultipleJobsToSchedule
  | MultipleJobsToUnschedule
  | MustParseFailure
  | InterfaceConversion

type_synonym 'a go = "GoPanic + 'a"

definition go_bind :: "'a go \<Rightarrow> ('a \<Rightarrow> 'b go) \<Rightarrow> 'b go" where
  "go_bind m f = (case m of Inl p \<Rightarrow> Inl p | Inr x \<Rightarrow> f x)"

lemma go_bind_simps [simp]:
  "go_bind (Inl p) f = Inl p"
  "go_bind (Inr x) f = f x"
  by (simp_all add: go_bind_def)

lemma go_bind_eq_Inr: "go_bind m f = Inr y \<longleftrightarrow> (\<exists>x. m = Inr x \<and> f x = Inr y)"
  by (cases m) auto

lemma go_bind_eq_Inl: "go_bind m f = Inl p \<longleftrightarrow> m = Inl p \<or> (\<exists>x. m = Inr x \<and> f x = Inl p)"
  by (cases m) auto

section \<open>Errors\<close>

text \<open>An \<open>error\<close> value: one made by \<open>errors.New\<close> or \<open>fmt.Errorf\<close>, or a cause
  wrapped with a message, whose text is the message, a colon and the text of the cause.\<close>

datatype GoError = ErrorString string | Wrapped string GoError

fun Error :: "GoError \<Rightarrow> string" where
  "Error (ErrorString m) = m"
| "Error (Wrapped m e) = m @ '': '' @ Error e"

section \<open>Slices\<close>

text \<open>Writing through the pointer to the first element that satisfies a test, which is what
  the loops over \<open>status.Zones\<close> that return \<open>&status.Zones[i]\<close> give their
  callers.\<close>

fun update_first :: "('a \<Rightarrow> bool) \<Rightarrow> ('a \<Rightarrow> 'a) \<Rightarrow> 'a list \<Rightarrow> 'a list" where
  "update_first P f [] = []"
| "update_first P f (x # xs) = (if P x then f x # xs else x # update_first P f xs)"

lemma length_update_first [simp]: "length (update_first P f xs) = length xs"
  by (induction xs) auto

lemma update_first_none: "find P xs = None \<Longrightarrow> update_first P f xs = xs"
  by (induction xs) (auto split: if_splits)

lemma find_update_first_same:
  "(\<And>x. P x \<Longrightarrow> P (f x)) \<Longrightarrow> find P (update_first P f xs) = map_option f (find P xs)"
  by (induction xs) auto

lemma find_update_first_other:
  "(\<And>x. P x \<Longrightarrow> \<not> Q x \<and> \<not> Q (f x)) \<Longrightarrow> find Q (update_first P f xs) = find Q xs"
  by (induction xs) auto

lemma filter_update_first_other:
  "(\<And>x. P x \<Longrightarrow> \<not> Q x \<and> \<not> Q (f x)) \<Longrightarrow> filter Q (update_first P f xs) = filter Q xs"
  by (induction xs) auto

lemma map_update_first_key:
  "(\<And>x. P x \<Longrightarrow> k (f x) = k x) \<Longrightarrow> map k (update_first P f xs) = map k xs"
  by (induction xs) auto

lemma set_update_first_subset:
  "set (update_first P f xs) \<subseteq> set xs \<union> {f x | x. x \<in> set xs \<and> P x}"
  by (induction xs) auto

lemma update_first_ident: "(\<And>x. P x \<Longrightarrow> f x = x) \<Longrightarrow> update_first P f xs = xs"
  by (induction xs) auto

lemma update_first_comp:
  "(\<And>x. P x \<Longrightarrow> P (g x)) \<Longrightarrow>
     update_first P f (update_first P g xs) = update_first P (f \<circ> g) xs"
  by (induction xs) auto

lemma find_append: "find P (xs @ ys) = (case find P xs of None \<Rightarrow> find P ys | Some x \<Rightarrow> Some x)"
  by (induction xs) auto

lemma find_Some_set: "find P xs = Some x \<Longrightarrow> x \<in> set xs \<and> P x"
  by (induction xs) (auto split: if_splits)

lemma find_filter: "find P (filter Q xs) = find (\<lambda>x. Q x \<and> P x) xs"
  by (induction xs) auto

lemma find_None_filter: "find P xs = None \<longleftrightarrow> filter P xs = []"
  by (auto simp: find_None_iff filter_empty_conv)

lemma find_distinct_key:
  assumes "distinct (map k xs)" and "x \<in> set xs" and "P x" and "\<And>y. P y \<Longrightarrow> k y = k x"
  shows "find P xs = Some x"
proof -
  obtain y where y: "find P xs = Some y"
    using assms(2,3) by (cases "find P xs") (auto simp: find_None_iff)
  then have "y \<in> set xs" and "P y" by (auto dest: find_Some_set)
  with assms(1,2,4) have "y = x" by (auto simp: distinct_map inj_on_def)
  with y show ?thesis by simp
qed

text \<open>A history that only grows.\<close>

definition prefix_of :: "'a list \<Rightarrow> 'a list \<Rightarrow> bool" where
  "prefix_of xs ys \<longleftrightarrow> (\<exists>zs. ys = xs @ zs)"

lemma prefix_of_refl [simp, intro]: "prefix_of xs xs"
  by (simp add: prefix_of_def)

lemma prefix_of_trans [trans]: "prefix_of xs ys \<Longrightarrow> prefix_of ys zs \<Longrightarrow> prefix_of xs zs"
  by (auto simp: prefix_of_def)

lemma prefix_of_length: "prefix_of xs ys \<Longrightarrow> length xs \<le> length ys"
  by (auto simp: prefix_of_def)

lemma prefix_of_mem: "prefix_of xs ys \<Longrightarrow> x \<in> set xs \<Longrightarrow> x \<in> set ys"
  by (auto simp: prefix_of_def)

section \<open>64-bit integers\<close>

text \<open>An \<open>int64\<close> is the integer it denotes; arithmetic that may leave the range wraps.\<close>

definition int64_min :: int where "int64_min = - (2 ^ 63)"
definition int64_max :: int where "int64_max = 2 ^ 63 - 1"

definition in_int64 :: "int \<Rightarrow> bool" where
  "in_int64 x \<longleftrightarrow> int64_min \<le> x \<and> x \<le> int64_max"

definition wrap64 :: "int \<Rightarrow> int" where
  "wrap64 x = (x + 2 ^ 63) mod 2 ^ 64 - 2 ^ 63"

lemma wrap64_in_int64: "in_int64 (wrap64 x)"
  by (simp add: in_int64_def wrap64_def int64_min_def int64_max_def)

lemma wrap64_ident: "in_int64 x \<Longrightarrow> wrap64 x = x"
  by (simp add: in_int64_def wrap64_def int64_min_def int64_max_def)

section \<open>Decimal text\<close>

definition digit_char :: "nat \<Rightarrow> char" where
  "digit_char d = char_of (48 + d)"

fun nat_text :: "nat \<Rightarrow> string" where
  "nat_text n = (if n < 10 then [digit_char n] else nat_text (n div 10) @ [digit_char (n mod 10)])"

declare nat_text.simps [simp del]

definition int_text :: "int \<Rightarrow> string" where
  "int_text i = (if i < 0 then CHR ''-'' # nat_text (nat (- i)) else nat_text (nat i))"

definition digit_value :: "char \<Rightarrow> nat option" where
  "digit_value c =
     (if 48 \<le> (of_char c :: nat) \<and> (of_char c :: nat) \<le> 57 then Some (of_char c - 48) else None)"

text \<open>The digits of a base 10 number, most significant first; \<open>None\<close> at the first
  character that is not one.\<close>

fun digits_value :: "nat \<Rightarrow> string \<Rightarrow> nat option" where
  "digits_value acc [] = Some acc"
| "digits_value acc (c # cs) =
     (case digit_value c of None \<Rightarrow> None | Some d \<Rightarrow> digits_value (10 * acc + d) cs)"

text \<open>\<open>strconv.ParseInt(s, 10, 64)\<close>: an optional sign, at least one digit, and a value
  in range; \<open>None\<close> is its error.\<close>

definition unsigned_text :: "string \<Rightarrow> nat option" where
  "unsigned_text s = (if s = [] then None else digits_value 0 s)"

definition ParseInt64 :: "string \<Rightarrow> int option" where
  "ParseInt64 s =
     (let v = (case s of
          [] \<Rightarrow> None
        | c # cs \<Rightarrow>
            if c = CHR ''-'' then map_option (\<lambda>n. - int n) (unsigned_text cs)
            else if c = CHR ''+'' then map_option int (unsigned_text cs)
            else map_option int (unsigned_text s))
      in case v of None \<Rightarrow> None | Some i \<Rightarrow> if in_int64 i then Some i else None)"

lemma digit_value_char: "d < 10 \<Longrightarrow> digit_value (digit_char d) = Some d"
  by (simp add: digit_value_def digit_char_def of_char_of)

lemma digits_value_append:
  "digits_value acc (xs @ ys) =
     (case digits_value acc xs of None \<Rightarrow> None | Some v \<Rightarrow> digits_value v ys)"
  by (induction xs arbitrary: acc) (auto split: option.splits)

lemma digits_value_nat_text: "digits_value 0 (nat_text n) = Some n"
proof (induction n rule: nat_text.induct)
  case (1 n)
  show ?case
  proof (cases "n < 10")
    case True
    then show ?thesis by (subst nat_text.simps) (simp add: digit_value_char)
  next
    case False
    with "1.IH" have ih: "digits_value 0 (nat_text (n div 10)) = Some (n div 10)" by simp
    show ?thesis
      by (subst nat_text.simps) (simp add: False digits_value_append ih digit_value_char)
  qed
qed

lemma nat_text_nonempty [simp]: "nat_text n \<noteq> []"
  by (subst nat_text.simps) simp

lemma nat_text_digit: "c \<in> set (nat_text n) \<Longrightarrow> digit_value c \<noteq> None"
proof (induction n rule: nat_text.induct)
  case (1 n)
  show ?case
  proof (cases "n < 10")
    case True
    with "1.prems" show ?thesis
      by (subst (asm) nat_text.simps) (simp add: digit_value_char)
  next
    case False
    with "1.prems" have "c \<in> set (nat_text (n div 10)) \<or> c = digit_char (n mod 10)"
      by (subst (asm) nat_text.simps) auto
    with "1.IH" False show ?thesis by (auto simp: digit_value_char)
  qed
qed

lemma nat_text_unsigned:
  assumes "nat_text n = c # cs"
  shows "c \<noteq> CHR ''-'' \<and> c \<noteq> CHR ''+''"
proof -
  have "c \<in> set (nat_text n)" using assms by simp
  then have "digit_value c \<noteq> None" by (rule nat_text_digit)
  then show ?thesis by (auto simp: digit_value_def)
qed

lemma ParseInt64_int_text: "in_int64 i \<Longrightarrow> ParseInt64 (int_text i) = Some i"
proof (cases "i < 0")
  case True
  assume "in_int64 i"
  with True show ?thesis
    by (simp add: ParseInt64_def int_text_def unsigned_text_def digits_value_nat_text)
next
  case False
  assume r: "in_int64 i"
  obtain c cs where t: "nat_text (nat i) = c # cs" by (cases "nat_text (nat i)") auto
  have v: "digits_value 0 (c # cs) = Some (nat i)"
    using digits_value_nat_text [of "nat i"] t by simp
  show ?thesis
    using nat_text_unsigned [OF t] v False r
    by (simp add: ParseInt64_def int_text_def unsigned_text_def t del: digits_value.simps)
qed

lemma ParseInt64_range: "ParseInt64 s = Some i \<Longrightarrow> in_int64 i"
  by (auto simp: ParseInt64_def Let_def split: option.splits if_splits)

end
