(* ===== verification/ApiTypes.thy ===== *)
theory ApiTypes
  imports Prelude
begin

text \<open>
  The AnyApplication resource, \<open>api/v1/anyapplication_types.go\<close> and the enumerations beside
  it. A struct is a record whose fields carry the struct's initials; an optional pointer field
  is an \<open>option\<close>. \<open>Ownership.Placements\<close> is an \<open>option\<close> too, because the code tells the nil
  slice from an empty one; no code reads that difference off the other slices, which are plain
  lists. A \<open>metav1.Time\<close> is the integer of its instant. The methods of
  \<open>AnyApplicationStatus\<close> return pointers into \<open>status.Zones\<close> and their callers write through
  them: a lookup is \<open>GetStatusFor\<close>, the write through the pointer it returned is
  \<open>WriteZone\<close>, and both pick the first zone of that id.
\<close>

section \<open>Enumerations\<close>

text \<open>\<open>GlobalStateUnset\<close> is the Go zero value \<open>""\<close>, which a new resource has and which
  \<open>UnmarshalJSON\<close> never produces.\<close>

datatype GlobalState =
    GlobalStateUnset
  | UnknownGlobalState
  | NewGlobalState
  | PlacementGlobalState
  | OperationalGlobalState
  | RelocationGlobalState
  | FailureGlobalState
  | OwnershipTransferGlobalState

fun GlobalState_string :: "GlobalState \<Rightarrow> string" where
  "GlobalState_string GlobalStateUnset = ''''"
| "GlobalState_string UnknownGlobalState = ''Unknown''"
| "GlobalState_string NewGlobalState = ''New''"
| "GlobalState_string PlacementGlobalState = ''Placement''"
| "GlobalState_string OperationalGlobalState = ''Operational''"
| "GlobalState_string RelocationGlobalState = ''Relocation''"
| "GlobalState_string FailureGlobalState = ''Failure''"
| "GlobalState_string OwnershipTransferGlobalState = ''OwnershipTransfer''"

datatype ApplicationConditionType =
    LocalConditionType
  | PlacementConditionType
  | OwnershipTransferConditionType
  | DeploymentConditionType
  | UndeploymentConditionType

fun ApplicationConditionType_string :: "ApplicationConditionType \<Rightarrow> string" where
  "ApplicationConditionType_string LocalConditionType = ''Local''"
| "ApplicationConditionType_string PlacementConditionType = ''Placement''"
| "ApplicationConditionType_string OwnershipTransferConditionType = ''OwnershipTransfer''"
| "ApplicationConditionType_string DeploymentConditionType = ''Deployment''"
| "ApplicationConditionType_string UndeploymentConditionType = ''Undeployment''"

datatype OwnershipTransferStatus =
    OwnershipTransferPulling | OwnershipTransferFailure | OwnershipTransferSuccess

fun OwnershipTransferStatus_string :: "OwnershipTransferStatus \<Rightarrow> string" where
  "OwnershipTransferStatus_string OwnershipTransferPulling = ''Pulling''"
| "OwnershipTransferStatus_string OwnershipTransferFailure = ''Failure''"
| "OwnershipTransferStatus_string OwnershipTransferSuccess = ''Success''"

datatype PlacementStatus =
    PlacementStatusInProgress | PlacementStatusDone | PlacementStatusFailure

fun PlacementStatus_string :: "PlacementStatus \<Rightarrow> string" where
  "PlacementStatus_string PlacementStatusInProgress = ''InProgress''"
| "PlacementStatus_string PlacementStatusDone = ''Done''"
| "PlacementStatus_string PlacementStatusFailure = ''Failure''"

datatype DeploymentStatus =
    DeploymentStatusPull | DeploymentStatusDone | DeploymentStatusFailure

fun DeploymentStatus_string :: "DeploymentStatus \<Rightarrow> string" where
  "DeploymentStatus_string DeploymentStatusPull = ''Pull''"
| "DeploymentStatus_string DeploymentStatusDone = ''Done''"
| "DeploymentStatus_string DeploymentStatusFailure = ''Failure''"

datatype UndeploymentStatus =
    UndeploymentStatusUndeploy | UndeploymentStatusDone | UndeploymentStatusFailure

fun UndeploymentStatus_string :: "UndeploymentStatus \<Rightarrow> string" where
  "UndeploymentStatus_string UndeploymentStatusUndeploy = ''Undeploy''"
| "UndeploymentStatus_string UndeploymentStatusDone = ''Done''"
| "UndeploymentStatus_string UndeploymentStatusFailure = ''Failure''"

text \<open>\<open>PlacementStrategyUnset\<close> is the zero value of a resource whose spec leaves the strategy out.\<close>

datatype PlacementStrategy =
    PlacementStrategyUnset | PlacementStrategyLocal | PlacementStrategyGlobal

fun PlacementStrategy_string :: "PlacementStrategy \<Rightarrow> string" where
  "PlacementStrategy_string PlacementStrategyUnset = ''''"
| "PlacementStrategy_string PlacementStrategyLocal = ''Local''"
| "PlacementStrategy_string PlacementStrategyGlobal = ''Global''"

text \<open>Each enumeration has a \<open>MarshalJSON\<close>, which writes \<open>string(s)\<close>, and an
  \<open>UnmarshalJSON\<close>, a switch over the texts it accepts. The JSON string literal around the text
  is \<open>encoding/json\<close>'s; these are the functions between the text and the constant, the
  error being the message of \<open>errors.New\<close>.\<close>

definition switch_text :: "(string \<times> 'e) list \<Rightarrow> string \<Rightarrow> string \<Rightarrow> string + 'e" where
  "switch_text cases err str =
     (case map_of cases str of Some e \<Rightarrow> Inr e | None \<Rightarrow> Inl err)"

definition GlobalState_UnmarshalJSON :: "string \<Rightarrow> string + GlobalState" where
  "GlobalState_UnmarshalJSON str = switch_text
     [(GlobalState_string UnknownGlobalState, UnknownGlobalState),
      (GlobalState_string NewGlobalState, NewGlobalState),
      (GlobalState_string PlacementGlobalState, PlacementGlobalState),
      (GlobalState_string OperationalGlobalState, OperationalGlobalState),
      (GlobalState_string RelocationGlobalState, RelocationGlobalState),
      (GlobalState_string FailureGlobalState, FailureGlobalState),
      (GlobalState_string OwnershipTransferGlobalState, OwnershipTransferGlobalState)]
     (''invalid GlobalState '' @ [CHR 0x27] @ str @ [CHR 0x27]) str"

definition ApplicationConditionType_UnmarshalJSON :: "string \<Rightarrow> string + ApplicationConditionType" where
  "ApplicationConditionType_UnmarshalJSON str = switch_text
     [(ApplicationConditionType_string LocalConditionType, LocalConditionType),
      (ApplicationConditionType_string PlacementConditionType, PlacementConditionType),
      (ApplicationConditionType_string OwnershipTransferConditionType, OwnershipTransferConditionType),
      (ApplicationConditionType_string DeploymentConditionType, DeploymentConditionType),
      (ApplicationConditionType_string UndeploymentConditionType, UndeploymentConditionType)]
     (''invalid ApplicationConditionType: '' @ str) str"

definition OwnershipTransferStatus_UnmarshalJSON :: "string \<Rightarrow> string + OwnershipTransferStatus" where
  "OwnershipTransferStatus_UnmarshalJSON str = switch_text
     [(OwnershipTransferStatus_string OwnershipTransferPulling, OwnershipTransferPulling),
      (OwnershipTransferStatus_string OwnershipTransferFailure, OwnershipTransferFailure),
      (OwnershipTransferStatus_string OwnershipTransferSuccess, OwnershipTransferSuccess)]
     (''invalid OwnershipTransferStatus: '' @ str) str"

definition PlacementStatus_UnmarshalJSON :: "string \<Rightarrow> string + PlacementStatus" where
  "PlacementStatus_UnmarshalJSON str = switch_text
     [(PlacementStatus_string PlacementStatusDone, PlacementStatusDone),
      (PlacementStatus_string PlacementStatusFailure, PlacementStatusFailure)]
     (''invalid PlacementStatus: '' @ str) str"

definition DeploymentStatus_UnmarshalJSON :: "string \<Rightarrow> string + DeploymentStatus" where
  "DeploymentStatus_UnmarshalJSON str = switch_text
     [(DeploymentStatus_string DeploymentStatusPull, DeploymentStatusPull),
      (DeploymentStatus_string DeploymentStatusDone, DeploymentStatusDone),
      (DeploymentStatus_string DeploymentStatusFailure, DeploymentStatusFailure)]
     (''invalid DeploymentStatus: '' @ str) str"

definition UndeploymentStatus_UnmarshalJSON :: "string \<Rightarrow> string + UndeploymentStatus" where
  "UndeploymentStatus_UnmarshalJSON str = switch_text
     [(UndeploymentStatus_string UndeploymentStatusUndeploy, UndeploymentStatusUndeploy),
      (UndeploymentStatus_string UndeploymentStatusDone, UndeploymentStatusDone),
      (UndeploymentStatus_string UndeploymentStatusFailure, UndeploymentStatusFailure)]
     (''invalid UndeploymentStatus: '' @ str) str"

definition PlacementStrategy_UnmarshalJSON :: "string \<Rightarrow> string + PlacementStrategy" where
  "PlacementStrategy_UnmarshalJSON str = switch_text
     [(PlacementStrategy_string PlacementStrategyLocal, PlacementStrategyLocal),
      (PlacementStrategy_string PlacementStrategyGlobal, PlacementStrategyGlobal)]
     (''invalid placement strategy: '' @ str) str"

section \<open>The resource\<close>

type_synonym Time = int

record HelmParameter =
  hpName :: string
  hpValue :: string
  hpForceString :: bool

record ApplicationSourceHelm =
  helmRepository :: string
  helmReleaseName :: string
  helmChart :: string
  helmVersion :: string
  helmNamespace :: string
  helmValues :: string
  helmParameters :: "HelmParameter list"
  helmSkipCrds :: bool

record ApplicationSourceSpec =
  srcHelmSelector :: "ApplicationSourceHelm option"

record SyncPolicyAutomated =
  spaPrune :: bool
  spaSelfHeal :: bool
  spaAllowEmpty :: bool

record Backoff =
  boDuration :: string
  boFactor :: "int option"
  boMaxDuration :: "string option"

record RetryStrategy =
  rsLimit :: int
  rsBackoff :: "Backoff option"

record SyncPolicySpec =
  spAutomated :: "SyncPolicyAutomated option"
  spSyncOptions :: "string list option"
  spRetry :: "RetryStrategy option"

record PlacementStrategySpec =
  psStrategy :: PlacementStrategy

record RecoverStrategySpec =
  recTolerance :: int
  recMaxRetries :: int

record AnyApplicationSpec =
  specSource :: ApplicationSourceSpec
  specZones :: int
  specSyncPolicy :: SyncPolicySpec
  specPlacementStrategy :: PlacementStrategySpec
  specRecoverStrategy :: RecoverStrategySpec

record Placement =
  plZone :: string
  plNodeAffinity :: "string list"

record ConditionStatus =
  condType :: ApplicationConditionType
  condZoneId :: string
  condStatus :: string
  condLastTransitionTime :: Time
  condReason :: string
  condMsg :: string
  condRetryAttempt :: int

record ZoneStatus =
  zsZoneId :: string
  zsZoneVersion :: int
  zsChartVersion :: string
  zsConditions :: "ConditionStatus list"

record OwnershipStatus =
  osEpoch :: int
  osState :: GlobalState
  osOwner :: string
  osPlacements :: "Placement list option"

record AnyApplicationStatus =
  stOwnership :: OwnershipStatus
  stZones :: "ZoneStatus list"

text \<open>The resource with the fields of \<open>metav1.ObjectMeta\<close> the code reads or writes.\<close>

record AnyApplication =
  appName :: string
  appNamespace :: string
  appResourceVersion :: string
  appDeletionTimestamp :: "Time option"
  appFinalizers :: "string list"
  appSpec :: AnyApplicationSpec
  appStatus :: AnyApplicationStatus

record ObjectKey =
  okNamespace :: string
  okName :: string

definition GetNamespacedName :: "AnyApplication \<Rightarrow> ObjectKey" where
  "GetNamespacedName a = \<lparr>okNamespace = appNamespace a, okName = appName a\<rparr>"

section \<open>The status and its zones\<close>

definition isZone :: "string \<Rightarrow> ZoneStatus \<Rightarrow> bool" where
  "isZone zone z \<longleftrightarrow> zsZoneId z = zone"

definition GetStatusFor :: "AnyApplicationStatus \<Rightarrow> string \<Rightarrow> ZoneStatus option" where
  "GetStatusFor st zone = find (isZone zone) (stZones st)"

definition WriteZone :: "string \<Rightarrow> (ZoneStatus \<Rightarrow> ZoneStatus) \<Rightarrow> AnyApplicationStatus \<Rightarrow> AnyApplicationStatus" where
  "WriteZone zone f st = st\<lparr>stZones := update_first (isZone zone) f (stZones st)\<rparr>"

definition newZoneStatus :: "string \<Rightarrow> ZoneStatus" where
  "newZoneStatus zone =
     \<lparr>zsZoneId = zone, zsZoneVersion = 0, zsChartVersion = '''', zsConditions = []\<rparr>"

text \<open>The status after the call, and the zone the returned pointer reads.\<close>

definition GetOrCreateStatusFor :: "AnyApplicationStatus \<Rightarrow> string \<Rightarrow> AnyApplicationStatus \<times> ZoneStatus" where
  "GetOrCreateStatusFor st zone =
     (case GetStatusFor st zone of
        Some z \<Rightarrow> (st, z)
      | None \<Rightarrow> (st\<lparr>stZones := stZones st @ [newZoneStatus zone]\<rparr>, newZoneStatus zone))"

definition RemoveZone :: "string \<Rightarrow> AnyApplicationStatus \<Rightarrow> AnyApplicationStatus" where
  "RemoveZone zone st = st\<lparr>stZones := filter (\<lambda>existing. \<not> zsZoneId existing = zone) (stZones st)\<rparr>"

definition ZoneExists :: "AnyApplicationStatus \<Rightarrow> string \<Rightarrow> bool" where
  "ZoneExists st zone \<longleftrightarrow> GetStatusFor st zone \<noteq> None"

definition HasZoneStatus :: "AnyApplication \<Rightarrow> string \<Rightarrow> bool" where
  "HasZoneStatus a zoneId \<longleftrightarrow> (\<exists>zone\<in>set (stZones (appStatus a)). zsZoneId zone = zoneId)"

definition FindCondition :: "ZoneStatus \<Rightarrow> ApplicationConditionType \<Rightarrow> ConditionStatus option" where
  "FindCondition z t = find (\<lambda>c. condType c = t) (zsConditions z)"

definition EmptyConditions :: "ZoneStatus \<Rightarrow> bool" where
  "EmptyConditions z \<longleftrightarrow> length (zsConditions z) = 0"

text \<open>The loop body of \<open>AddOrUpdate\<close>: the first condition of the same type and zone is
  overwritten when its status, reason or message differ.\<close>

definition sameCondition :: "ConditionStatus \<Rightarrow> ConditionStatus \<Rightarrow> bool" where
  "sameCondition c d \<longleftrightarrow> condType d = condType c \<and> condZoneId d = condZoneId c"

definition conditionDiffers :: "ConditionStatus \<Rightarrow> ConditionStatus \<Rightarrow> bool" where
  "conditionDiffers c d \<longleftrightarrow>
     condStatus d \<noteq> condStatus c \<or> condReason d \<noteq> condReason c \<or> condMsg d \<noteq> condMsg c"

definition appendCondition :: "ConditionStatus \<Rightarrow> ZoneStatus \<Rightarrow> ZoneStatus" where
  "appendCondition c z = z\<lparr>zsConditions := zsConditions z @ [c]\<rparr>"

definition AddOrUpdate :: "ConditionStatus \<Rightarrow> string \<Rightarrow> AnyApplicationStatus \<Rightarrow> AnyApplicationStatus \<times> bool" where
  "AddOrUpdate toAddOrUpdate zoneId st =
     (let (st', z) = GetOrCreateStatusFor st zoneId
      in case find (sameCondition toAddOrUpdate) (zsConditions z) of
           Some cond \<Rightarrow>
             if conditionDiffers toAddOrUpdate cond
             then (WriteZone zoneId
                     (\<lambda>zs. zs\<lparr>zsConditions := update_first (sameCondition toAddOrUpdate)
                                                (\<lambda>_. toAddOrUpdate) (zsConditions zs)\<rparr>) st', True)
             else (st', False)
         | None \<Rightarrow> (WriteZone zoneId (appendCondition toAddOrUpdate) st', True))"

definition withoutCondition :: "ApplicationConditionType \<Rightarrow> string \<Rightarrow> ZoneStatus \<Rightarrow> ZoneStatus" where
  "withoutCondition t zoneId z =
     z\<lparr>zsConditions := filter (\<lambda>e. \<not> (condType e = t \<and> condZoneId e = zoneId)) (zsConditions z)\<rparr>"

definition Remove :: "ApplicationConditionType \<Rightarrow> string \<Rightarrow> AnyApplicationStatus \<Rightarrow> AnyApplicationStatus \<times> bool" where
  "Remove t zoneId st =
     (case GetStatusFor st zoneId of
        None \<Rightarrow> (st, False)
      | Some z \<Rightarrow>
          (WriteZone zoneId (withoutCondition t zoneId) st,
           length (zsConditions (withoutCondition t zoneId z)) \<noteq> length (zsConditions z)))"

text \<open>\<open>LogStatus\<close> builds this text and prints it.\<close>

definition condLine :: "ConditionStatus \<Rightarrow> string" where
  "condLine c = ''   -- '' @ ApplicationConditionType_string (condType c) @ '', '' @ condStatus c @ [CHR 0x0A]"

definition zoneLines :: "ZoneStatus \<Rightarrow> string" where
  "zoneLines z = '' zone: '' @ zsZoneId z @ [CHR 0x0A] @ ''  - version: '' @ int_text (zsZoneVersion z)
     @ [CHR 0x0A] @ ''  - conditions:'' @ [CHR 0x0A] @ concat (map condLine (zsConditions z))"

definition LogStatus :: "AnyApplicationStatus \<Rightarrow> string" where
  "LogStatus st = ''- status update -'' @ [CHR 0x0A] @ concat (map zoneLines (stZones st)) @ [CHR 0x0A]"

text \<open>The zone version follows the resource version read: the successor of it, or of the zone's
  own version when that is not smaller. Both successors are \<open>int64\<close> additions.\<close>

definition IncrementZoneVersion :: "string \<Rightarrow> AnyApplication \<Rightarrow> AnyApplication" where
  "IncrementZoneVersion zoneId a =
     (case GetStatusFor (appStatus a) zoneId of
        None \<Rightarrow> a
      | Some z \<Rightarrow>
          (let version = (case ParseInt64 (appResourceVersion a) of None \<Rightarrow> 0 | Some v \<Rightarrow> v);
               latest = wrap64 (version + 1);
               latest' = (if latest \<le> zsZoneVersion z then wrap64 (zsZoneVersion z + 1) else latest)
           in a\<lparr>appStatus := WriteZone zoneId (\<lambda>zs. zs\<lparr>zsZoneVersion := latest'\<rparr>) (appStatus a)\<rparr>))"

end
