(* ===== verification/ZoneRegistry.thy ===== *)
theory ZoneRegistry
  imports ApiTypes
begin

text \<open>
  The status as a registry of zones. The interface \<open>zone_registry\<close> is what the controllers rely
  on when they go through \<open>GetStatusFor\<close>, \<open>GetOrCreateStatusFor\<close>, a write through the returned
  pointer and \<open>RemoveZone\<close>; its client lemmas say that such operations on one zone leave every
  other zone and the ownership alone. \<open>AnyApplicationStatus\<close> provides it. The second half is the
  well-formedness of a status, at most one zone per id and at most one condition per type and
  zone inside it, and that every method keeps it.
\<close>

section \<open>The interface\<close>

text \<open>Two statuses that agree on everything but the zone \<open>k\<close>.\<close>

definition zone_frame ::
  "('st \<Rightarrow> string \<Rightarrow> 'z option) \<Rightarrow> ('st \<Rightarrow> 'r) \<Rightarrow> string \<Rightarrow> 'st \<Rightarrow> 'st \<Rightarrow> bool" where
  "zone_frame lookup rest k s s' \<longleftrightarrow> rest s' = rest s \<and> (\<forall>k'. k' \<noteq> k \<longrightarrow> lookup s' k' = lookup s k')"

locale zone_registry =
  fixes lookup :: "'st \<Rightarrow> string \<Rightarrow> 'z option"
    and ensure :: "string \<Rightarrow> 'st \<Rightarrow> 'st"
    and modify :: "string \<Rightarrow> ('z \<Rightarrow> 'z) \<Rightarrow> 'st \<Rightarrow> 'st"
    and drop_zone :: "string \<Rightarrow> 'st \<Rightarrow> 'st"
    and rest :: "'st \<Rightarrow> 'r"
    and blank :: "string \<Rightarrow> 'z"
    and keeps_id :: "('z \<Rightarrow> 'z) \<Rightarrow> bool"
  assumes lookup_ensure:
      "lookup (ensure k s) k' =
         (if k' = k then Some (case lookup s k of None \<Rightarrow> blank k | Some z \<Rightarrow> z) else lookup s k')"
    and lookup_modify:
      "keeps_id f \<Longrightarrow>
         lookup (modify k f s) k' = (if k' = k then map_option f (lookup s k) else lookup s k')"
    and lookup_drop: "lookup (drop_zone k s) k' = (if k' = k then None else lookup s k')"
    and rest_ensure: "rest (ensure k s) = rest s"
    and rest_modify: "rest (modify k f s) = rest s"
    and rest_drop: "rest (drop_zone k s) = rest s"
begin

lemma frame_refl: "zone_frame lookup rest k s s"
  by (simp add: zone_frame_def)

lemma frame_trans:
  "zone_frame lookup rest k s t \<Longrightarrow> zone_frame lookup rest k t u \<Longrightarrow> zone_frame lookup rest k s u"
  by (simp add: zone_frame_def)

lemma frame_ensure: "zone_frame lookup rest k s (ensure k s)"
  by (simp add: zone_frame_def lookup_ensure rest_ensure)

lemma frame_modify: "keeps_id f \<Longrightarrow> zone_frame lookup rest k s (modify k f s)"
  by (simp add: zone_frame_def lookup_modify rest_modify)

lemma frame_drop: "zone_frame lookup rest k s (drop_zone k s)"
  by (simp add: zone_frame_def lookup_drop rest_drop)

lemma frame_modifies:
  "(\<And>f. f \<in> set fs \<Longrightarrow> keeps_id f) \<Longrightarrow> zone_frame lookup rest k s (fold (modify k) fs s)"
proof (induction fs arbitrary: s)
  case Nil
  then show ?case by (simp add: frame_refl)
next
  case (Cons f fs)
  have "zone_frame lookup rest k s (modify k f s)" using Cons.prems by (simp add: frame_modify)
  moreover have "zone_frame lookup rest k (modify k f s) (fold (modify k) fs (modify k f s))"
    using Cons by simp
  ultimately show ?case by (auto intro: frame_trans)
qed

lemma ensure_modify:
  "keeps_id f \<Longrightarrow>
     lookup (modify k f (ensure k s)) k = Some (f (case lookup s k of None \<Rightarrow> blank k | Some z \<Rightarrow> z))"
  by (simp add: lookup_modify lookup_ensure)

end

section \<open>The status provides it\<close>

definition ensureZone :: "string \<Rightarrow> AnyApplicationStatus \<Rightarrow> AnyApplicationStatus" where
  "ensureZone zone st = fst (GetOrCreateStatusFor st zone)"

definition keepsZoneId :: "(ZoneStatus \<Rightarrow> ZoneStatus) \<Rightarrow> bool" where
  "keepsZoneId f \<longleftrightarrow> (\<forall>z. zsZoneId (f z) = zsZoneId z)"

lemma GetStatusFor_zsZoneId: "GetStatusFor st zone = Some z \<Longrightarrow> zsZoneId z = zone"
  by (auto simp: GetStatusFor_def isZone_def dest: find_Some_set)

lemma GetStatusFor_mem: "GetStatusFor st zone = Some z \<Longrightarrow> z \<in> set (stZones st)"
  by (auto simp: GetStatusFor_def dest: find_Some_set)

lemma GetOrCreateStatusFor_snd:
  "snd (GetOrCreateStatusFor st zone) =
     (case GetStatusFor st zone of None \<Rightarrow> newZoneStatus zone | Some z \<Rightarrow> z)"
  by (simp add: GetOrCreateStatusFor_def split: option.splits)

lemma GetOrCreateStatusFor_pair:
  "GetOrCreateStatusFor st zone =
     (ensureZone zone st, case GetStatusFor st zone of None \<Rightarrow> newZoneStatus zone | Some z \<Rightarrow> z)"
  by (simp add: ensureZone_def GetOrCreateStatusFor_snd [symmetric])

lemma ensureZone_cases:
  "ensureZone zone st =
     (if GetStatusFor st zone = None then st\<lparr>stZones := stZones st @ [newZoneStatus zone]\<rparr> else st)"
  by (auto simp: ensureZone_def GetOrCreateStatusFor_def split: option.splits)

lemma stOwnership_ops [simp]:
  "stOwnership (ensureZone zone st) = stOwnership st"
  "stOwnership (WriteZone zone f st) = stOwnership st"
  "stOwnership (RemoveZone zone st) = stOwnership st"
  by (auto simp: ensureZone_cases WriteZone_def RemoveZone_def)

lemma GetStatusFor_ensureZone [status_simps]:
  "GetStatusFor (ensureZone zone st) k =
     (if k = zone then Some (case GetStatusFor st zone of None \<Rightarrow> newZoneStatus zone | Some z \<Rightarrow> z)
      else GetStatusFor st k)"
  by (auto simp: ensureZone_cases GetStatusFor_def find_append isZone_def newZoneStatus_def
      split: option.splits)

lemma GetStatusFor_WriteZone [status_simps]:
  "keepsZoneId f \<Longrightarrow>
     GetStatusFor (WriteZone zone f st) k =
       (if k = zone then map_option f (GetStatusFor st zone) else GetStatusFor st k)"
  by (auto simp: GetStatusFor_def WriteZone_def isZone_def keepsZoneId_def
      intro!: find_update_first_same find_update_first_other)

lemma GetStatusFor_RemoveZone [status_simps]:
  "GetStatusFor (RemoveZone zone st) k = (if k = zone then None else GetStatusFor st k)"
  by (auto simp: GetStatusFor_def RemoveZone_def find_filter isZone_def find_None_iff
      intro!: arg_cong [where f = "\<lambda>P. find P (stZones st)"])

interpretation status: zone_registry
  GetStatusFor ensureZone WriteZone RemoveZone stOwnership newZoneStatus keepsZoneId
  by unfold_locales (auto simp: status_simps)

text \<open>Everything but this zone.\<close>

definition onlyZone :: "string \<Rightarrow> AnyApplicationStatus \<Rightarrow> AnyApplicationStatus \<Rightarrow> bool" where
  "onlyZone = zone_frame GetStatusFor stOwnership"

lemmas onlyZone_refl [intro, simp] = status.frame_refl [folded onlyZone_def]
lemmas onlyZone_trans [trans] = status.frame_trans [folded onlyZone_def]
lemmas onlyZone_ensureZone [frame_simps] = status.frame_ensure [folded onlyZone_def]
lemmas onlyZone_WriteZone [frame_simps] = status.frame_modify [folded onlyZone_def]
lemmas onlyZone_RemoveZone [frame_simps] = status.frame_drop [folded onlyZone_def]

lemma onlyZone_other: "onlyZone zone st st' \<Longrightarrow> k \<noteq> zone \<Longrightarrow> GetStatusFor st' k = GetStatusFor st k"
  by (simp add: onlyZone_def zone_frame_def)

lemma onlyZone_ownership: "onlyZone zone st st' \<Longrightarrow> stOwnership st' = stOwnership st"
  by (simp add: onlyZone_def zone_frame_def)

lemma keepsZoneId_ops [simp, intro]:
  "keepsZoneId (appendCondition c)"
  "keepsZoneId (withoutCondition t k)"
  "keepsZoneId (\<lambda>zs. zs\<lparr>zsConditions := g (zsConditions zs)\<rparr>)"
  "keepsZoneId (\<lambda>zs. zs\<lparr>zsZoneVersion := v\<rparr>)"
  "keepsZoneId (\<lambda>zs. zs\<lparr>zsChartVersion := w\<rparr>)"
  by (simp_all add: keepsZoneId_def appendCondition_def withoutCondition_def)

section \<open>Well-formedness\<close>

definition condKey :: "ConditionStatus \<Rightarrow> ApplicationConditionType \<times> string" where
  "condKey c = (condType c, condZoneId c)"

definition wf_zone :: "ZoneStatus \<Rightarrow> bool" where
  "wf_zone z \<longleftrightarrow> distinct (map condKey (zsConditions z))"

definition wf_status :: "AnyApplicationStatus \<Rightarrow> bool" where
  "wf_status st \<longleftrightarrow> distinct (map zsZoneId (stZones st)) \<and> (\<forall>z\<in>set (stZones st). wf_zone z)"

lemma wf_status_lookup: "wf_status st \<Longrightarrow> GetStatusFor st zone = Some z \<Longrightarrow> wf_zone z"
  by (auto simp: wf_status_def dest: GetStatusFor_mem)

lemma wf_newZoneStatus [simp]: "wf_zone (newZoneStatus zone)"
  by (simp add: wf_zone_def newZoneStatus_def)

lemma wf_status_ensureZone [intro]: "wf_status st \<Longrightarrow> wf_status (ensureZone zone st)"
  by (auto simp: wf_status_def ensureZone_cases GetStatusFor_def find_None_iff isZone_def)
    (auto simp: newZoneStatus_def)

lemma wf_status_RemoveZone [intro]: "wf_status st \<Longrightarrow> wf_status (RemoveZone zone st)"
  by (auto simp: wf_status_def RemoveZone_def intro: distinct_map_filter)

lemma update_first_mem_distinct:
  "distinct (map zsZoneId zs) \<Longrightarrow> z \<in> set (update_first (isZone zone) f zs) \<Longrightarrow>
     z \<in> set zs \<or> (\<exists>y. find (isZone zone) zs = Some y \<and> z = f y)"
  by (induction zs) (auto split: if_splits)

lemma wf_status_WriteZone:
  assumes "wf_status st" and "keepsZoneId f"
    and "\<And>z. GetStatusFor st zone = Some z \<Longrightarrow> wf_zone z \<Longrightarrow> wf_zone (f z)"
  shows "wf_status (WriteZone zone f st)"
proof -
  have "distinct (map zsZoneId (stZones (WriteZone zone f st)))"
    using assms(1,2) by (simp add: wf_status_def WriteZone_def keepsZoneId_def map_update_first_key)
  moreover have "wf_zone z" if "z \<in> set (stZones (WriteZone zone f st))" for z
  proof -
    from that assms(1) have "z \<in> set (stZones st) \<or> (\<exists>y. GetStatusFor st zone = Some y \<and> z = f y)"
      by (auto simp: WriteZone_def GetStatusFor_def wf_status_def dest: update_first_mem_distinct)
    with assms show ?thesis by (auto simp: wf_status_def dest: GetStatusFor_mem)
  qed
  ultimately show ?thesis by (simp add: wf_status_def)
qed

lemma wf_zone_without [intro]: "wf_zone z \<Longrightarrow> wf_zone (withoutCondition t k z)"
  by (simp add: wf_zone_def withoutCondition_def distinct_map_filter)

lemma wf_zone_append:
  "wf_zone z \<Longrightarrow> find (sameCondition c) (zsConditions z) = None \<Longrightarrow> wf_zone (appendCondition c z)"
  by (auto simp: wf_zone_def appendCondition_def find_None_iff sameCondition_def condKey_def)

lemma wf_zone_replace:
  "wf_zone z \<Longrightarrow>
     wf_zone (z\<lparr>zsConditions := update_first (sameCondition c) (\<lambda>_. c) (zsConditions z)\<rparr>)"
  by (subst wf_zone_def, simp, subst map_update_first_key)
    (auto simp: wf_zone_def condKey_def sameCondition_def)

end
