(* ===== verification/StatusMethods.thy ===== *)
theory StatusMethods
  imports ZoneRegistry
begin

text \<open>
  The methods of \<open>AnyApplicationStatus\<close> that change a zone: what \<open>AddOrUpdate\<close>, \<open>Remove\<close> and
  \<open>IncrementZoneVersion\<close> leave behind, that their results tell a change from none, and that
  they stay within their zone and keep the status well formed. The texts of the enumerations
  are at the end.
\<close>

section \<open>AddOrUpdate and Remove\<close>

lemma AddOrUpdate_cases:
  "AddOrUpdate c k st =
     (let z = (case GetStatusFor st k of None \<Rightarrow> newZoneStatus k | Some z \<Rightarrow> z)
      in case find (sameCondition c) (zsConditions z) of
           Some d \<Rightarrow>
             if conditionDiffers c d
             then (WriteZone k (\<lambda>zs. zs\<lparr>zsConditions :=
                     update_first (sameCondition c) (\<lambda>_. c) (zsConditions zs)\<rparr>) (ensureZone k st), True)
             else (ensureZone k st, False)
         | None \<Rightarrow> (WriteZone k (appendCondition c) (ensureZone k st), True))"
  by (simp add: AddOrUpdate_def GetOrCreateStatusFor_pair)

lemma onlyZone_AddOrUpdate [frame_simps]: "onlyZone k st (fst (AddOrUpdate c k st))"
  by (auto simp: AddOrUpdate_cases Let_def frame_simps split: option.splits
      intro: onlyZone_trans [OF onlyZone_ensureZone onlyZone_WriteZone])

lemma onlyZone_Remove [frame_simps]: "onlyZone k st (fst (Remove t k st))"
  by (simp add: Remove_def frame_simps split: option.splits)

lemma wf_status_AddOrUpdate [intro]: "wf_status st \<Longrightarrow> wf_status (fst (AddOrUpdate c k st))"
  by (auto simp: AddOrUpdate_cases Let_def status_simps split: option.splits
      intro!: wf_status_WriteZone wf_zone_append wf_zone_replace)

lemma wf_status_Remove [intro]: "wf_status st \<Longrightarrow> wf_status (fst (Remove t k st))"
  by (auto simp: Remove_def split: option.splits intro!: wf_status_WriteZone)

text \<open>What \<open>AddOrUpdate\<close> does to the list of conditions.\<close>

definition conditionsAt :: "AnyApplicationStatus \<Rightarrow> string \<Rightarrow> ConditionStatus list" where
  "conditionsAt st k = (case GetStatusFor st k of None \<Rightarrow> [] | Some z \<Rightarrow> zsConditions z)"

definition upsertCondition :: "ConditionStatus \<Rightarrow> ConditionStatus list \<Rightarrow> ConditionStatus list" where
  "upsertCondition c cs =
     (case find (sameCondition c) cs of
        None \<Rightarrow> cs @ [c]
      | Some d \<Rightarrow> if conditionDiffers c d then update_first (sameCondition c) (\<lambda>_. c) cs else cs)"

lemma newZone_conditions [simp]: "zsConditions (newZoneStatus k) = []"
  by (simp add: newZoneStatus_def)

lemma conditionsAt_AddOrUpdate:
  "conditionsAt (fst (AddOrUpdate c k st)) k = upsertCondition c (conditionsAt st k)"
  by (auto simp: AddOrUpdate_cases Let_def status_simps conditionsAt_def upsertCondition_def
      appendCondition_def split: option.splits)

lemma update_first_const_ne:
  "find P xs = Some d \<Longrightarrow> d \<noteq> c \<Longrightarrow> update_first P (\<lambda>_. c) xs \<noteq> xs"
  by (induction xs) (auto split: if_splits)

lemma upsertCondition_changes:
  "upsertCondition c cs \<noteq> cs \<longleftrightarrow>
     (\<forall>d. find (sameCondition c) cs = Some d \<longrightarrow> conditionDiffers c d)"
  by (auto simp: upsertCondition_def conditionDiffers_def split: option.splits
      dest!: update_first_const_ne [where c = c])

lemma upsertCondition_own:
  "\<exists>d. find (sameCondition c) (upsertCondition c cs) = Some d \<and> \<not> conditionDiffers c d"
  by (auto simp: upsertCondition_def find_append find_update_first_same sameCondition_def
      conditionDiffers_def split: option.splits)

lemma upsertCondition_other:
  assumes "condKey e \<noteq> condKey c"
  shows "find (sameCondition e) (upsertCondition c cs) = find (sameCondition e) cs"
proof -
  have "\<not> sameCondition e x \<and> \<not> sameCondition e c" if "sameCondition c x" for x
    using assms that by (auto simp: sameCondition_def condKey_def)
  moreover have "\<not> sameCondition e c" using assms by (auto simp: sameCondition_def condKey_def)
  ultimately show ?thesis
    by (auto simp: upsertCondition_def find_append find_update_first_other split: option.splits)
qed

lemma snd_AddOrUpdate:
  "snd (AddOrUpdate c k st) \<longleftrightarrow> upsertCondition c (conditionsAt st k) \<noteq> conditionsAt st k"
  by (auto simp: upsertCondition_changes AddOrUpdate_cases Let_def conditionsAt_def
      split: option.splits)

lemma AddOrUpdate_unchanged: "\<not> snd (AddOrUpdate c k st) \<Longrightarrow> fst (AddOrUpdate c k st) = st"
  by (auto simp: AddOrUpdate_cases Let_def ensureZone_cases split: option.splits if_splits)

lemma WriteZone_id:
  assumes "GetStatusFor st k = Some z" and "f z = z"
  shows "WriteZone k f st = st"
proof -
  have "find P xs = Some z \<Longrightarrow> update_first P f xs = xs" for P xs
    using assms(2) by (induction xs) (auto split: if_splits)
  with assms(1) show ?thesis by (simp add: GetStatusFor_def WriteZone_def)
qed

text \<open>\<open>AddOrUpdate\<close> returns true exactly when it changed the status: the updaters may skip the
  write to the API server on false and never skip one that is needed.\<close>

lemma AddOrUpdate_reports_change: "snd (AddOrUpdate c k st) \<longleftrightarrow> fst (AddOrUpdate c k st) \<noteq> st"
  using snd_AddOrUpdate conditionsAt_AddOrUpdate AddOrUpdate_unchanged by metis

text \<open>After \<open>AddOrUpdate\<close> the zone exists and its condition of that type and zone carries the
  given status, reason and message, and a condition of any other key is found as before.\<close>

lemma AddOrUpdate_readback:
  "(\<exists>d. find (sameCondition c) (conditionsAt (fst (AddOrUpdate c k st)) k) = Some d
        \<and> condStatus d = condStatus c \<and> condReason d = condReason c \<and> condMsg d = condMsg c)
   \<and> (condKey e \<noteq> condKey c \<longrightarrow>
        find (sameCondition e) (conditionsAt (fst (AddOrUpdate c k st)) k) =
        find (sameCondition e) (conditionsAt st k))"
  using upsertCondition_own [of c "conditionsAt st k"]
  by (auto simp: conditionsAt_AddOrUpdate upsertCondition_other conditionDiffers_def)

lemma filter_length_eq: "length (filter P xs) = length xs \<Longrightarrow> filter P xs = xs"
  by (metis filter_id_conv length_filter_less less_irrefl)

lemma zsConditions_update_id: "z\<lparr>zsConditions := xs\<rparr> = z \<longleftrightarrow> xs = zsConditions z"
  by (cases z) auto

lemma Remove_unchanged: "\<not> snd (Remove t k st) \<Longrightarrow> fst (Remove t k st) = st"
proof (cases "GetStatusFor st k")
  case (Some z)
  assume "\<not> snd (Remove t k st)"
  then have "withoutCondition t k z = z"
    by (simp add: Remove_def Some withoutCondition_def zsConditions_update_id filter_length_eq)
  then show ?thesis by (simp add: Remove_def Some WriteZone_id)
qed (simp add: Remove_def)

text \<open>\<open>Remove\<close> returns true exactly when it changed the status; the zone's conditions afterwards are
  those before, in their order, without the ones of that type and zone.\<close>

lemma Remove_reports_change:
  "(snd (Remove t k st) \<longleftrightarrow> fst (Remove t k st) \<noteq> st)
   \<and> conditionsAt (fst (Remove t k st)) k = filter (\<lambda>e. \<not> (condType e = t \<and> condZoneId e = k)) (conditionsAt st k)"
proof (cases "GetStatusFor st k")
  case None
  then show ?thesis by (simp add: Remove_def conditionsAt_def)
next
  case (Some z)
  let ?w = "withoutCondition t k z"
  have look: "GetStatusFor (fst (Remove t k st)) k = Some ?w"
    by (simp add: Remove_def Some status_simps)
  have eq: "length (zsConditions ?w) = length (zsConditions z) \<longleftrightarrow> ?w = z"
    by (auto simp: withoutCondition_def zsConditions_update_id dest!: filter_length_eq)
  have "fst (Remove t k st) = st \<longleftrightarrow> ?w = z"
    using look Some by (auto simp: Remove_def WriteZone_id)
  then have "snd (Remove t k st) \<longleftrightarrow> fst (Remove t k st) \<noteq> st" using eq by (simp add: Remove_def Some)
  moreover have "conditionsAt (fst (Remove t k st)) k =
      filter (\<lambda>e. \<not> (condType e = t \<and> condZoneId e = k)) (conditionsAt st k)"
    by (simp add: conditionsAt_def look Some withoutCondition_def)
  ultimately show ?thesis by blast
qed

section \<open>Versions\<close>

lemma wrap64_succ: "in_int64 x \<Longrightarrow> x < int64_max \<Longrightarrow> wrap64 (x + 1) = x + 1"
  by (rule wrap64_ident) (simp add: in_int64_def)

text \<open>Below the top of the \<open>int64\<close> range the zone's version after
  \<open>IncrementZoneVersion\<close> is larger than its old one and than the resource version that was
  read, so a peer that orders zone states by version sees the write as newer; conditions, chart
  version, other zones and ownership are untouched.\<close>

lemma IncrementZoneVersion_increases:
  assumes "GetStatusFor (appStatus a) k = Some z"
    and "in_int64 (zsZoneVersion z)" and "zsZoneVersion z < int64_max"
    and "\<And>v. ParseInt64 (appResourceVersion a) = Some v \<Longrightarrow> v < int64_max"
  shows "\<exists>w. GetStatusFor (appStatus (IncrementZoneVersion k a)) k = Some (z\<lparr>zsZoneVersion := w\<rparr>)
     \<and> zsZoneVersion z < w
     \<and> (\<forall>v. ParseInt64 (appResourceVersion a) = Some v \<longrightarrow> v < w)
     \<and> onlyZone k (appStatus a) (appStatus (IncrementZoneVersion k a))"
proof -
  define v where "v = (case ParseInt64 (appResourceVersion a) of None \<Rightarrow> 0 | Some v \<Rightarrow> v)"
  have v: "in_int64 v" "v < int64_max"
    using assms(4) ParseInt64_range
    by (auto simp: v_def in_int64_def int64_min_def int64_max_def split: option.splits)
  define w where "w = (if v + 1 \<le> zsZoneVersion z then zsZoneVersion z + 1 else v + 1)"
  have eq: "appStatus (IncrementZoneVersion k a) =
      WriteZone k (\<lambda>zs. zs\<lparr>zsZoneVersion := w\<rparr>) (appStatus a)"
    using v assms(2,3)
    by (simp add: IncrementZoneVersion_def assms(1) v_def [symmetric] Let_def w_def wrap64_succ)
  have pv: "v' < w" if "ParseInt64 (appResourceVersion a) = Some v'" for v'
    using that by (auto simp: v_def w_def)
  show ?thesis
    by (rule exI [of _ w]) (use assms(1) pv in \<open>auto simp: eq status_simps frame_simps w_def\<close>)
qed

text \<open>Resources the witnesses evaluate on.\<close>

definition sampleZone :: ZoneStatus where
  "sampleZone = \<lparr>zsZoneId = ''z'', zsZoneVersion = 3, zsChartVersion = ''1.0.0'', zsConditions = []\<rparr>"

definition sampleSpec :: AnyApplicationSpec where
  "sampleSpec =
     \<lparr>specSource = \<lparr>srcHelmSelector = Some \<lparr>helmRepository = ''https://r'', helmReleaseName = '''',
        helmChart = ''nginx'', helmVersion = ''1.0.0'', helmNamespace = ''n'', helmValues = '''',
        helmParameters = [], helmSkipCrds = False\<rparr>\<rparr>,
      specZones = 1, specSyncPolicy = \<lparr>spAutomated = None, spSyncOptions = None, spRetry = None\<rparr>,
      specPlacementStrategy = \<lparr>psStrategy = PlacementStrategyLocal\<rparr>,
      specRecoverStrategy = \<lparr>recTolerance = 1, recMaxRetries = 3\<rparr>\<rparr>"

definition sampleApp :: "AnyApplicationStatus \<Rightarrow> AnyApplication" where
  "sampleApp st = \<lparr>appName = ''app'', appNamespace = ''n'', appResourceVersion = ''7'',
     appDeletionTimestamp = None, appFinalizers = [], appSpec = sampleSpec, appStatus = st\<rparr>"

definition sampleOwnership :: "GlobalState \<Rightarrow> Placement list option \<Rightarrow> OwnershipStatus" where
  "sampleOwnership s ps = \<lparr>osEpoch = 1, osState = s, osOwner = ''z'', osPlacements = ps\<rparr>"

definition sampleCondition :: "ApplicationConditionType \<Rightarrow> string \<Rightarrow> Time \<Rightarrow> ConditionStatus" where
  "sampleCondition t s at = \<lparr>condType = t, condZoneId = ''z'', condStatus = s,
     condLastTransitionTime = at, condReason = '''', condMsg = '''', condRetryAttempt = 0\<rparr>"

lemmas sample_defs = sampleZone_def sampleSpec_def sampleApp_def sampleOwnership_def sampleCondition_def

lemma AddOrUpdate_readback_example:
  "find (sameCondition (sampleCondition LocalConditionType ''Healthy'' 4))
     (conditionsAt (fst (AddOrUpdate (sampleCondition DeploymentConditionType ''Done'' 5) ''z''
        \<lparr>stOwnership = sampleOwnership NewGlobalState None,
         stZones = [sampleZone\<lparr>zsConditions := [sampleCondition LocalConditionType ''Healthy'' 4]\<rparr>]\<rparr>)) ''z'')
   = Some (sampleCondition LocalConditionType ''Healthy'' 4)"
proof -
  let ?st = "\<lparr>stOwnership = sampleOwnership NewGlobalState None,
    stZones = [sampleZone\<lparr>zsConditions := [sampleCondition LocalConditionType ''Healthy'' 4]\<rparr>]\<rparr>"
  have k: "condKey (sampleCondition LocalConditionType ''Healthy'' 4)
      \<noteq> condKey (sampleCondition DeploymentConditionType ''Done'' 5)"
    by (simp add: condKey_def sampleCondition_def)
  have "find (sameCondition (sampleCondition LocalConditionType ''Healthy'' 4)) (conditionsAt ?st ''z'')
      = Some (sampleCondition LocalConditionType ''Healthy'' 4)"
    by (simp add: conditionsAt_def GetStatusFor_def isZone_def sampleZone_def sameCondition_def)
  then show ?thesis
    using AddOrUpdate_readback [of "sampleCondition DeploymentConditionType ''Done'' 5" "''z''" ?st
        "sampleCondition LocalConditionType ''Healthy'' 4"] k
    by simp
qed

lemma IncrementZoneVersion_increases_example:
  "\<exists>w. GetStatusFor (appStatus (IncrementZoneVersion ''z'' (sampleApp
       \<lparr>stOwnership = sampleOwnership NewGlobalState None, stZones = [sampleZone]\<rparr>))) ''z''
     = Some (sampleZone\<lparr>zsZoneVersion := w\<rparr>) \<and> 7 < w"
proof -
  let ?a = "sampleApp \<lparr>stOwnership = sampleOwnership NewGlobalState None, stZones = [sampleZone]\<rparr>"
  have z: "GetStatusFor (appStatus ?a) ''z'' = Some sampleZone"
    by (simp add: GetStatusFor_def isZone_def sample_defs)
  have r: "in_int64 (zsZoneVersion sampleZone)" "zsZoneVersion sampleZone < int64_max"
    by (simp_all add: in_int64_def int64_min_def int64_max_def sampleZone_def)
  have p: "ParseInt64 (appResourceVersion ?a) = Some 7"
    by (simp add: sampleApp_def) code_simp
  then have "v < int64_max" if "ParseInt64 (appResourceVersion ?a) = Some v" for v
    using that by (simp add: int64_max_def)
  from IncrementZoneVersion_increases [OF z r this] p show ?thesis by auto
qed

section \<open>The texts of the enumerations\<close>

text \<open>Reading back what \<open>MarshalJSON\<close> writes gives the constant again for every declared
  constant of the seven enumerations but one: \<open>PlacementStatusInProgress\<close>, which
  \<open>PlacementStatus.UnmarshalJSON\<close> rejects although it is declared and is the status every placement job
  starts in.\<close>

lemma enumeration_roundtrip:
  "(GlobalState_UnmarshalJSON (GlobalState_string g) = Inr g \<longleftrightarrow> g \<noteq> GlobalStateUnset)
   \<and> ApplicationConditionType_UnmarshalJSON (ApplicationConditionType_string t) = Inr t
   \<and> OwnershipTransferStatus_UnmarshalJSON (OwnershipTransferStatus_string os) = Inr os
   \<and> DeploymentStatus_UnmarshalJSON (DeploymentStatus_string d) = Inr d
   \<and> UndeploymentStatus_UnmarshalJSON (UndeploymentStatus_string u) = Inr u
   \<and> (PlacementStrategy_UnmarshalJSON (PlacementStrategy_string s) = Inr s \<longleftrightarrow> s \<noteq> PlacementStrategyUnset)
   \<and> (PlacementStatus_UnmarshalJSON (PlacementStatus_string p) = Inr p \<longleftrightarrow> p \<noteq> PlacementStatusInProgress)"
proof (intro conjI)
  show "GlobalState_UnmarshalJSON (GlobalState_string g) = Inr g \<longleftrightarrow> g \<noteq> GlobalStateUnset"
    by (cases g) (simp_all add: GlobalState_UnmarshalJSON_def switch_text_def)
  show "ApplicationConditionType_UnmarshalJSON (ApplicationConditionType_string t) = Inr t"
    by (cases t) (simp_all add: ApplicationConditionType_UnmarshalJSON_def switch_text_def)
  show "OwnershipTransferStatus_UnmarshalJSON (OwnershipTransferStatus_string os) = Inr os"
    by (cases os) (simp_all add: OwnershipTransferStatus_UnmarshalJSON_def switch_text_def)
  show "DeploymentStatus_UnmarshalJSON (DeploymentStatus_string d) = Inr d"
    by (cases d) (simp_all add: DeploymentStatus_UnmarshalJSON_def switch_text_def)
  show "UndeploymentStatus_UnmarshalJSON (UndeploymentStatus_string u) = Inr u"
    by (cases u) (simp_all add: UndeploymentStatus_UnmarshalJSON_def switch_text_def)
  show "PlacementStrategy_UnmarshalJSON (PlacementStrategy_string s) = Inr s \<longleftrightarrow> s \<noteq> PlacementStrategyUnset"
    by (cases s) (simp_all add: PlacementStrategy_UnmarshalJSON_def switch_text_def)
  show "PlacementStatus_UnmarshalJSON (PlacementStatus_string p) = Inr p \<longleftrightarrow> p \<noteq> PlacementStatusInProgress"
    by (cases p) (simp_all add: PlacementStatus_UnmarshalJSON_def switch_text_def)
qed

end
