(* ===== verification/StatusUpdater.thy ===== *)
theory StatusUpdater
  imports StatusMethods
begin

text \<open>
  \<open>internal/controller/status/update.go\<close> with \<open>internal/controller/events\<close>: the read, modify, write cycle by
  which the controller and every job change a status. The Kubernetes client, the context, the
  event recorder and \<open>retry.RetryOnConflict\<close> are not under \<open>src/\<close>: they are the fields of \<open>KubeEnv\<close>,
  functions on an opaque state \<open>'s\<close> of everything outside the controller. A call may find that
  state changed by others, so every call returns a new one.
\<close>

record Event =
  evReason :: string
  evMsg :: string

definition LocalStateChangeReason :: string where
  "LocalStateChangeReason = ''Local state change''"

definition GlobalStateChangeReason :: string where
  "GlobalStateChangeReason = ''Global state change''"

definition emptyEvent :: Event where
  "emptyEvent = \<lparr>evReason = '''', evMsg = ''''\<rparr>"

text \<open>An API error, with the two cases the code or \<open>RetryOnConflict\<close> tells apart.\<close>

datatype KubeError = NotFound GoError | Conflict GoError | OtherError GoError

fun kubeErrorCause :: "KubeError \<Rightarrow> GoError" where
  "kubeErrorCause (NotFound e) = e"
| "kubeErrorCause (Conflict e) = e"
| "kubeErrorCause (OtherError e) = e"

fun IsNotFound :: "KubeError \<Rightarrow> bool" where
  "IsNotFound (NotFound _) = True"
| "IsNotFound _ = False"

text \<open>\<open>kGet\<close> and the two updates of \<open>client.Client\<close>, the latter returning the object as the server
  answers it; \<open>ctx.Done()\<close>; the clock; \<open>EventRecorder.Event\<close>.\<close>

record 's KubeEnv =
  kGet :: "ObjectKey \<Rightarrow> 's \<Rightarrow> (KubeError + AnyApplication) \<times> 's"
  kStatusUpdate :: "AnyApplication \<Rightarrow> 's \<Rightarrow> (KubeError + AnyApplication) \<times> 's"
  kUpdate :: "AnyApplication \<Rightarrow> 's \<Rightarrow> (KubeError + AnyApplication) \<times> 's"
  kContextDone :: "'s \<Rightarrow> bool"
  kNowTime :: "'s \<Rightarrow> Time \<times> 's"
  kRecordEvent :: "AnyApplication \<Rightarrow> string \<Rightarrow> string \<Rightarrow> 's \<Rightarrow> 's"
  kRetryOnConflict :: "('s \<Rightarrow> KubeError option \<times> 's) \<Rightarrow> 's \<Rightarrow> KubeError option \<times> 's"

definition IsCancelled :: "'s KubeEnv \<Rightarrow> 's \<Rightarrow> bool" where
  "IsCancelled env s = kContextDone env s"

definition Emit :: "'s KubeEnv \<Rightarrow> AnyApplication \<Rightarrow> Event \<Rightarrow> 's \<Rightarrow> 's" where
  "Emit env application event s = kRecordEvent env application (evReason event) (evMsg event) s"

text \<open>The closures the updater is called with: the new status, whether it changed, and the event.\<close>

type_synonym StatusUpdate = "AnyApplicationStatus \<Rightarrow> string \<Rightarrow> AnyApplicationStatus \<times> bool \<times> Event"

text \<open>The function \<open>UpdateStatus\<close> hands to \<open>RetryOnConflict\<close>: one attempt.\<close>

definition updateAttempt ::
  "'s KubeEnv \<Rightarrow> ObjectKey \<Rightarrow> string \<Rightarrow> StatusUpdate option \<Rightarrow> 's \<Rightarrow> KubeError option \<times> 's" where
  "updateAttempt env name zoneId statusUpdate s =
     (case kGet env name s of
        (Inl err, s1) \<Rightarrow> if IsNotFound err then (None, s1) else (Some err, s1)
      | (Inr application, s1) \<Rightarrow>
          (let (st, updated, eventToSend) =
                 (case statusUpdate of
                    None \<Rightarrow> (appStatus application, False, emptyEvent)
                  | Some f \<Rightarrow> f (appStatus application) zoneId);
               updatedApplication = application\<lparr>appStatus := st\<rparr>
           in if updated then
                (if IsCancelled env s1 then (None, s1)
                 else (case kStatusUpdate env (IncrementZoneVersion zoneId updatedApplication) s1 of
                         (Inl err, s2) \<Rightarrow> (Some err, s2)
                       | (Inr answered, s2) \<Rightarrow> (None, Emit env answered eventToSend s2)))
              else (None, s1)))"

definition UpdateStatus ::
  "'s KubeEnv \<Rightarrow> ObjectKey \<Rightarrow> string \<Rightarrow> StatusUpdate option \<Rightarrow> 's \<Rightarrow> KubeError option \<times> 's" where
  "UpdateStatus env name zoneId statusUpdate =
     kRetryOnConflict env (updateAttempt env name zoneId statusUpdate)"

text \<open>\<open>removed || updated\<close> over the condition types to remove, in their order.\<close>

fun removeConditions :: "ApplicationConditionType list \<Rightarrow> string \<Rightarrow> AnyApplicationStatus \<times> bool \<Rightarrow> AnyApplicationStatus \<times> bool" where
  "removeConditions [] zoneId (st, updated) = (st, updated)"
| "removeConditions (t # ts) zoneId (st, updated) =
     (let (st', removed) = Remove t zoneId st in removeConditions ts zoneId (st', updated \<or> removed))"

definition conditionUpdate ::
  "Event \<Rightarrow> ConditionStatus \<Rightarrow> ApplicationConditionType list \<Rightarrow> StatusUpdate" where
  "conditionUpdate event conditionToUpdate conditionsToRemove st zoneId =
     (let (st', updated) = removeConditions conditionsToRemove zoneId (AddOrUpdate conditionToUpdate zoneId st)
      in (st', updated, event))"

definition UpdateCondition ::
  "'s KubeEnv \<Rightarrow> ObjectKey \<Rightarrow> string \<Rightarrow> Event \<Rightarrow> ConditionStatus \<Rightarrow> ApplicationConditionType list
     \<Rightarrow> 's \<Rightarrow> KubeError option \<times> 's" where
  "UpdateCondition env name zoneId event conditionToUpdate conditionsToRemove =
     UpdateStatus env name zoneId (Some (conditionUpdate event conditionToUpdate conditionsToRemove))"

section \<open>The update of one condition\<close>

lemma removeConditions_onlyZone:
  "removeConditions ts k (st, u) = (st', u') \<Longrightarrow> onlyZone k st st'"
proof (induction ts arbitrary: st u)
  case (Cons t ts)
  have "onlyZone k st (fst (Remove t k st))" by (rule onlyZone_Remove)
  moreover have "onlyZone k (fst (Remove t k st)) st'"
    using Cons by (auto simp: case_prod_unfold Let_def)
  ultimately show ?case by (rule onlyZone_trans)
qed simp

lemma removeConditions_wf: "wf_status st \<Longrightarrow> removeConditions ts k (st, u) = (st', u') \<Longrightarrow> wf_status st'"
  by (induction ts arbitrary: st u) (auto simp: case_prod_unfold Let_def)

lemma removeConditions_reports:
  "removeConditions ts k (st, u) = (st', u') \<Longrightarrow> \<not> u' \<Longrightarrow> \<not> u \<and> st' = st"
proof (induction ts arbitrary: st u)
  case (Cons t ts)
  let ?r = "Remove t k st"
  from Cons.prems have "\<not> (u \<or> snd ?r) \<and> st' = fst ?r"
    by (intro Cons.IH) (auto simp: case_prod_unfold Let_def)
  then show ?case using Remove_unchanged [of t k st] by auto
qed simp

lemma conditionUpdate_eq:
  "conditionUpdate ev c ts st k =
     (let r = removeConditions ts k (AddOrUpdate c k st) in (fst r, snd r, ev))"
  by (simp add: conditionUpdate_def case_prod_unfold Let_def)

lemma conditionUpdate_onlyZone:
  assumes "conditionUpdate ev c ts st k = (st', u, e)"
  shows "onlyZone k st st'"
proof -
  have "removeConditions ts k (fst (AddOrUpdate c k st), snd (AddOrUpdate c k st)) = (st', u)"
    using assms by (auto simp: conditionUpdate_eq Let_def intro: prod_eqI)
  then have "onlyZone k (fst (AddOrUpdate c k st)) st'" by (rule removeConditions_onlyZone)
  with onlyZone_AddOrUpdate show ?thesis by (rule onlyZone_trans)
qed

lemma conditionUpdate_wf:
  assumes "wf_status st" and "conditionUpdate ev c ts st k = (st', u, e)"
  shows "wf_status st'"
proof -
  have "removeConditions ts k (fst (AddOrUpdate c k st), snd (AddOrUpdate c k st)) = (st', u)"
    using assms(2) by (auto simp: conditionUpdate_eq Let_def intro: prod_eqI)
  with wf_status_AddOrUpdate [OF assms(1)] show ?thesis by (rule removeConditions_wf)
qed

text \<open>What a job posts stays in the zone it is posted for, keeps the status well formed, and is
  reported unchanged only when nothing changed.\<close>

lemma conditionUpdate_contract:
  assumes "conditionUpdate ev c ts st k = (st', updated, e)"
  shows "onlyZone k st st' \<and> (wf_status st \<longrightarrow> wf_status st') \<and> (\<not> updated \<longrightarrow> st' = st) \<and> e = ev"
proof -
  obtain st1 u1 where a: "AddOrUpdate c k st = (st1, u1)" by fastforce
  have "st1 = st" if "\<not> u1" using AddOrUpdate_unchanged [of c k st] that by (simp add: a)
  with assms have "\<not> updated \<longrightarrow> st' = st"
    by (auto simp: conditionUpdate_def a split: prod.splits dest: removeConditions_reports)
  moreover have "e = ev" using assms by (auto simp: conditionUpdate_def split: prod.splits)
  ultimately show ?thesis
    using assms conditionUpdate_onlyZone conditionUpdate_wf by blast
qed

lemma conditionUpdate_contract_example:
  "onlyZone ''z'' \<lparr>stOwnership = sampleOwnership NewGlobalState None, stZones = []\<rparr>
     (fst (conditionUpdate emptyEvent (sampleCondition LocalConditionType ''Healthy'' 1)
        [DeploymentConditionType] \<lparr>stOwnership = sampleOwnership NewGlobalState None, stZones = []\<rparr> ''z''))"
  using conditionUpdate_contract [of emptyEvent "sampleCondition LocalConditionType ''Healthy'' 1"
      "[DeploymentConditionType]" "\<lparr>stOwnership = sampleOwnership NewGlobalState None, stZones = []\<rparr>" "''z''"]
  by (metis prod.collapse)

section \<open>The cycle against an API server with optimistic locking\<close>

text \<open>What \<open>RetryOnConflict\<close> documents: it runs the function, again while it answers a conflict,
  and returns the last answer.\<close>

inductive conflict_run ::
  "('s \<Rightarrow> KubeError option \<times> 's) \<Rightarrow> 's \<Rightarrow> KubeError option \<Rightarrow> 's \<Rightarrow> bool" for fn where
  last_try: "fn s = (r, s') \<Longrightarrow> conflict_run fn s r s'"
| try_again: "fn s = (Some (Conflict e), s1) \<Longrightarrow> conflict_run fn s1 r s' \<Longrightarrow> conflict_run fn s r s'"

definition retries_on_conflict :: "'s KubeEnv \<Rightarrow> bool" where
  "retries_on_conflict env \<longleftrightarrow>
     (\<forall>fn s. conflict_run fn s (fst (kRetryOnConflict env fn s)) (snd (kRetryOnConflict env fn s)))"

text \<open>What the API server documents for one object: \<open>log\<close> lists the versions it has stored, newest
  last; resource versions tell them apart; a read answers one of them; a status update is
  accepted only when the newest version is the one the written object was read from, and it
  then stores that version with the written status under a fresh resource version.\<close>

definition stored_step :: "nat \<Rightarrow> AnyApplication list \<Rightarrow> AnyApplication \<Rightarrow> AnyApplication \<Rightarrow> bool" where
  "stored_step n l b ans \<longleftrightarrow> (\<exists>pre post. l = pre @ [b, ans] @ post \<and> n \<le> length pre + 1)"

definition optimistic_store ::
  "'s KubeEnv \<Rightarrow> ObjectKey \<Rightarrow> ('s \<Rightarrow> AnyApplication list) \<Rightarrow> ('s \<Rightarrow> bool) \<Rightarrow> bool" where
  "optimistic_store env name log ok \<longleftrightarrow>
     (\<forall>s. ok s \<longrightarrow> distinct (map appResourceVersion (log s)))
     \<and> (\<forall>s. ok s \<longrightarrow> ok (snd (kGet env name s)) \<and> prefix_of (log s) (log (snd (kGet env name s))))
     \<and> (\<forall>s a. ok s \<and> fst (kGet env name s) = Inr a \<longrightarrow> a \<in> set (log (snd (kGet env name s))))
     \<and> (\<forall>a s. ok s \<longrightarrow> ok (snd (kStatusUpdate env a s))
          \<and> prefix_of (log s) (log (snd (kStatusUpdate env a s))))
     \<and> (\<forall>a s ans. ok s \<and> fst (kStatusUpdate env a s) = Inr ans \<longrightarrow>
          (\<exists>b. stored_step (length (log s)) (log (snd (kStatusUpdate env a s))) b ans
             \<and> appResourceVersion b = appResourceVersion a \<and> appStatus ans = appStatus a))
     \<and> (\<forall>a x y s. ok s \<longrightarrow> ok (kRecordEvent env a x y s) \<and> log (kRecordEvent env a x y s) = log s)"

lemma optimistic_distinct: "optimistic_store env name log ok \<Longrightarrow> ok s \<Longrightarrow> distinct (map appResourceVersion (log s))"
  by (simp add: optimistic_store_def)

lemma optimistic_get:
  assumes "optimistic_store env name log ok" and "ok s" and "kGet env name s = (r, s1)"
  shows "ok s1 \<and> prefix_of (log s) (log s1) \<and> (\<forall>a. r = Inr a \<longrightarrow> a \<in> set (log s1))"
  using assms unfolding optimistic_store_def by (metis fst_conv snd_conv)

lemma optimistic_update:
  assumes "optimistic_store env name log ok" and "ok s" and "kStatusUpdate env a s = (r, s1)"
  shows "ok s1 \<and> prefix_of (log s) (log s1)
     \<and> (\<forall>ans. r = Inr ans \<longrightarrow> (\<exists>b. stored_step (length (log s)) (log s1) b ans
           \<and> appResourceVersion b = appResourceVersion a \<and> appStatus ans = appStatus a))"
  using assms unfolding optimistic_store_def by (metis fst_conv snd_conv)

lemma optimistic_emit:
  "optimistic_store env name log ok \<Longrightarrow> ok s \<Longrightarrow> ok (Emit env a ev s) \<and> log (Emit env a ev s) = log s"
  by (simp add: optimistic_store_def Emit_def)

lemma appResourceVersion_Increment [simp]:
  "appResourceVersion (IncrementZoneVersion k a) = appResourceVersion a"
  by (simp add: IncrementZoneVersion_def Let_def split: option.splits)

text \<open>A step the history took after its first \<open>n\<close> versions is exactly the closure and the version
  bump applied to the version before it.\<close>

definition committed :: "nat \<Rightarrow> AnyApplication list \<Rightarrow> StatusUpdate \<Rightarrow> string \<Rightarrow> bool" where
  "committed n l f k \<longleftrightarrow>
     (\<exists>b ans. stored_step n l b ans
        \<and> appStatus ans = appStatus (IncrementZoneVersion k (b\<lparr>appStatus := fst (f (appStatus b) k)\<rparr>))
        \<and> fst (snd (f (appStatus b) k)))"

lemma stored_step_mono: "stored_step n l b ans \<Longrightarrow> m \<le> n \<Longrightarrow> stored_step m l b ans"
  by (fastforce simp: stored_step_def)

lemma committed_mono: "committed n l f k \<Longrightarrow> m \<le> n \<Longrightarrow> committed m l f k"
  unfolding committed_def by (blast intro: stored_step_mono)

lemma committed_step:
  assumes "optimistic_store env name log ok" and "ok s2" and "a \<in> set (log s2)"
    and "stored_step n (log s2) b ans" and "appResourceVersion b = appResourceVersion a"
    and "appStatus ans = appStatus (IncrementZoneVersion k (a\<lparr>appStatus := fst (f (appStatus a) k)\<rparr>))"
    and "fst (snd (f (appStatus a) k))"
  shows "committed n (log s2) f k"
proof -
  have "b \<in> set (log s2)" using assms(4) by (auto simp: stored_step_def)
  with assms(3,5) optimistic_distinct [OF assms(1,2)] have "b = a"
    by (auto simp: distinct_map inj_on_def)
  with assms(4,6,7) show ?thesis unfolding committed_def by blast
qed

text \<open>What an attempt that does not report an error did.\<close>

definition settled ::
  "'s KubeEnv \<Rightarrow> ('s \<Rightarrow> AnyApplication list) \<Rightarrow> nat \<Rightarrow> StatusUpdate \<Rightarrow> string \<Rightarrow> 's \<Rightarrow> bool" where
  "settled env log n f k s' \<longleftrightarrow>
     committed n (log s') f k \<or> (\<exists>a\<in>set (log s'). \<not> fst (snd (f (appStatus a) k)))"

text \<open>The object is not deleted and the context not cancelled meanwhile.\<close>

definition stays_available :: "'s KubeEnv \<Rightarrow> ObjectKey \<Rightarrow> ('s \<Rightarrow> bool) \<Rightarrow> bool" where
  "stays_available env name ok \<longleftrightarrow>
     (\<forall>t. ok t \<longrightarrow> \<not> IsCancelled env t \<and> (\<forall>e. fst (kGet env name t) = Inl e \<longrightarrow> \<not> IsNotFound e))"

lemma updateAttempt_step:
  assumes "optimistic_store env name log ok" and "ok s" and "stays_available env name ok"
    and "updateAttempt env name k (Some f) s = (r, s')"
  shows "ok s' \<and> prefix_of (log s) (log s') \<and> (r = None \<longrightarrow> settled env log (length (log s)) f k s')"
proof -
  obtain g s1 where g: "kGet env name s = (g, s1)" by fastforce
  note get = optimistic_get [OF assms(1,2) g]
  show ?thesis
  proof (cases g)
    case (Inl e)
    then have "\<not> IsNotFound e" using assms(2,3) g by (auto simp: stays_available_def)
    with Inl show ?thesis using assms(4) get by (auto simp: updateAttempt_def g)
  next
    case (Inr a)
    obtain st u ev where f: "f (appStatus a) k = (st, u, ev)" by (metis prod_cases3)
    let ?b = "IncrementZoneVersion k (a\<lparr>appStatus := st\<rparr>)"
    obtain w s2 where up: "kStatusUpdate env ?b s1 = (w, s2)" by fastforce
    from get have ok1: "ok s1" by blast
    note upd = optimistic_update [OF assms(1) ok1 up]
    have run: "(r, s') = (if u then (case w of Inl err \<Rightarrow> (Some err, s2)
                                       | Inr answered \<Rightarrow> (None, Emit env answered ev s2)) else (None, s1))"
      using assms(3,4) ok1 up by (cases w; cases u) (simp_all add: updateAttempt_def g Inr f stays_available_def)
    show ?thesis
    proof (cases u)
      case False
      with run have "r = None \<and> s' = s1" by simp
      moreover have "settled env log (length (log s)) f k s1"
        using get Inr f False by (force simp: settled_def)
      ultimately show ?thesis using get by blast
    next
      case True
      show ?thesis
      proof (cases w)
        case (Inl e)
        with run True have "r = Some e \<and> s' = s2" by simp
        with get upd show ?thesis by (auto intro: prefix_of_trans)
      next
        case w: (Inr ans)
        obtain b where b: "stored_step (length (log s1)) (log s2) b ans"
            "appResourceVersion b = appResourceVersion a" "appStatus ans = appStatus ?b"
          using upd w by auto
        have "a \<in> set (log s2)" using get upd Inr by (auto intro: prefix_of_mem)
        then have "committed (length (log s1)) (log s2) f k"
          using committed_step [OF assms(1) _ _ b(1,2)] upd b(3) True by (simp add: f)
        then have "settled env log (length (log s)) f k s2"
          using get by (auto simp: settled_def intro: committed_mono prefix_of_length)
        moreover have "s' = Emit env ans ev s2" using run w True by simp
        ultimately show ?thesis
          using optimistic_emit [OF assms(1), of s2] get upd by (auto simp: settled_def intro: prefix_of_trans)
      qed
    qed
  qed
qed

lemma UpdateStatus_settles:
  assumes "optimistic_store env name log ok" and "retries_on_conflict env" and "ok s"
    and "stays_available env name ok"
    and "UpdateStatus env name k (Some f) s = (None, s')"
  shows "ok s' \<and> prefix_of (log s) (log s') \<and> settled env log (length (log s)) f k s'"
proof -
  have run: "conflict_run (updateAttempt env name k (Some f)) s None s'"
    using assms(2,5) by (metis UpdateStatus_def fst_conv retries_on_conflict_def snd_conv)
  have "ok t \<Longrightarrow> ok t' \<and> prefix_of (log t) (log t') \<and> (r = None \<longrightarrow> settled env log (length (log t)) f k t')"
    if "conflict_run (updateAttempt env name k (Some f)) t r t'" for t r t'
    using that
  proof (induction rule: conflict_run.induct)
    case (last_try t r t')
    from updateAttempt_step [OF assms(1) last_try(2) assms(4) last_try(1)] show ?case by blast
  next
    case (try_again t e t1 r t')
    from updateAttempt_step [OF assms(1) try_again(4) assms(4) try_again(1)] try_again(3)
    have *: "prefix_of (log t) (log t1)"
      "ok t' \<and> prefix_of (log t1) (log t') \<and> (r = None \<longrightarrow> settled env log (length (log t1)) f k t')"
      by blast+
    then show ?case
      by (auto simp: settled_def intro: committed_mono prefix_of_trans prefix_of_length)
  qed
  from this [OF run assms(3)] show ?thesis by simp
qed

text \<open>C4: against such a server, while the object exists and the context lives, a status update that
  reports success is atomic: the object's history took during the call a step from one version
  to the next that is exactly the closure (and the version bump of the zone) applied to that
  version, so no concurrent write is lost; or the closure saw nothing to change.\<close>

theorem UpdateStatus_atomic:
  assumes "optimistic_store env name log ok" and "retries_on_conflict env" and "ok s"
    and "stays_available env name ok"
    and "UpdateStatus env name k (Some f) s = (None, s')"
  shows "ok s' \<and> prefix_of (log s) (log s') \<and>
     (committed (length (log s)) (log s') f k \<or> (\<exists>a\<in>set (log s'). \<not> fst (snd (f (appStatus a) k))))"
  using UpdateStatus_settles [OF assms] by (simp add: settled_def)

section \<open>A server that behaves so\<close>

text \<open>The history of one object itself, numbering its versions, and \<open>RetryOnConflict\<close> with a bound
  on the tries.\<close>

fun sampleRetry :: "nat \<Rightarrow> ('s \<Rightarrow> KubeError option \<times> 's) \<Rightarrow> 's \<Rightarrow> KubeError option \<times> 's" where
  "sampleRetry 0 fn s = fn s"
| "sampleRetry (Suc n) fn s =
     (case fn s of (Some (Conflict e), s1) \<Rightarrow> sampleRetry n fn s1 | other \<Rightarrow> other)"

definition sampleEnv :: "AnyApplication list KubeEnv" where
  "sampleEnv = \<lparr>
     kGet = (\<lambda>_ s. (Inr (last s), s)),
     kStatusUpdate = (\<lambda>a s. if appResourceVersion a = appResourceVersion (last s)
        then (let ans = (last s)\<lparr>appStatus := appStatus a, appResourceVersion := int_text (int (length s))\<rparr>
              in (Inr ans, s @ [ans]))
        else (Inl (Conflict (ErrorString ''the object has been modified'')), s)),
     kUpdate = (\<lambda>a s. (Inl (OtherError (ErrorString ''forbidden'')), s)),
     kContextDone = (\<lambda>_. False),
     kNowTime = (\<lambda>s. (int (length s), s)),
     kRecordEvent = (\<lambda>_ _ _ s. s),
     kRetryOnConflict = sampleRetry 4\<rparr>"

definition numbered :: "AnyApplication list \<Rightarrow> bool" where
  "numbered s \<longleftrightarrow> s \<noteq> [] \<and> map appResourceVersion s = map (\<lambda>n. int_text (int n)) [0..<length s]"

lemma sampleRetry_run: "conflict_run fn s (fst (sampleRetry n fn s)) (snd (sampleRetry n fn s))"
proof (induction n arbitrary: s)
  case 0
  then show ?case by (simp add: last_try)
next
  case (Suc n)
  obtain r s1 where fn: "fn s = (r, s1)" by fastforce
  show ?case
  proof (cases "\<exists>e. r = Some (Conflict e)")
    case True
    then obtain e where "fn s = (Some (Conflict e), s1)" using fn by auto
    with Suc [of s1] show ?thesis by (auto intro: try_again)
  next
    case False
    then have "sampleRetry (Suc n) fn s = (r, s1)"
      using fn by (cases r) (auto split: KubeError.splits)
    then show ?thesis using fn by (simp add: last_try)
  qed
qed

lemma int_text_inj: "int_text (int m) = int_text (int n) \<Longrightarrow> m = n"
proof -
  assume "int_text (int m) = int_text (int n)"
  then have "nat_text m = nat_text n" by (simp add: int_text_def)
  then have "Some m = Some n" by (metis digits_value_nat_text)
  then show "m = n" by simp
qed

lemma numbered_distinct: "numbered s \<Longrightarrow> distinct (map appResourceVersion s)"
proof -
  have "inj (\<lambda>n. int_text (int n))" by (rule injI) (rule int_text_inj)
  then have "distinct (map (\<lambda>n. int_text (int n)) [0..<k])" for k
    by (simp add: distinct_map inj_on_def)
  then show "numbered s \<Longrightarrow> ?thesis" by (simp add: numbered_def)
qed

lemma sampleEnv_StatusUpdate:
  assumes "numbered s" and "kStatusUpdate sampleEnv a s = (r, s1)"
  shows "numbered s1 \<and> prefix_of s s1
     \<and> (\<forall>ans. r = Inr ans \<longrightarrow> (\<exists>b. stored_step (length s) s1 b ans
           \<and> appResourceVersion b = appResourceVersion a \<and> appStatus ans = appStatus a))"
proof (cases "appResourceVersion a = appResourceVersion (last s)")
  case False
  with assms show ?thesis by (auto simp: sampleEnv_def)
next
  case True
  let ?ans = "(last s)\<lparr>appStatus := appStatus a, appResourceVersion := int_text (int (length s))\<rparr>"
  from assms(1) obtain pre where s: "s = pre @ [last s]" by (cases s rule: rev_cases) (auto simp: numbered_def)
  have "s @ [?ans] = pre @ [last s, ?ans] @ []" by (subst s) (simp add: s [symmetric])
  moreover from s have "length s = length pre + 1" by (metis length_append_singleton Suc_eq_plus1)
  ultimately have "stored_step (length s) (s @ [?ans]) (last s) ?ans" unfolding stored_step_def by fastforce
  moreover have "r = Inr ?ans \<and> s1 = s @ [?ans]"
    using assms(2) True by (simp add: sampleEnv_def Let_def)
  ultimately show ?thesis using assms(1) True by (auto simp: numbered_def prefix_of_def)
qed

lemma sampleEnv_store: "optimistic_store sampleEnv name (\<lambda>s. s) numbered"
  unfolding optimistic_store_def
proof (intro conjI allI impI)
  fix s a
  assume "numbered s \<and> fst (kGet sampleEnv name s) = Inr a"
  then show "a \<in> set (snd (kGet sampleEnv name s))" by (auto simp: sampleEnv_def numbered_def)
next
  fix s a ans
  assume "numbered s \<and> fst (kStatusUpdate sampleEnv a s) = Inr ans"
  then show "\<exists>b. stored_step (length s) (snd (kStatusUpdate sampleEnv a s)) b ans
      \<and> appResourceVersion b = appResourceVersion a \<and> appStatus ans = appStatus a"
    using sampleEnv_StatusUpdate [of s a "Inr ans"] by (metis prod.collapse)
next
  fix s a
  assume "numbered s"
  from sampleEnv_StatusUpdate [OF this surjective_pairing]
  show "numbered (snd (kStatusUpdate sampleEnv a s))" "prefix_of s (snd (kStatusUpdate sampleEnv a s))"
    by blast+
qed (simp_all add: sampleEnv_def numbered_distinct)

theorem UpdateStatus_atomic_witness:
  "let name = \<lparr>okNamespace = ''default'', okName = ''app''\<rparr>;
       start = [sampleApp \<lparr>stOwnership = sampleOwnership NewGlobalState None, stZones = []\<rparr>
                  \<lparr>appResourceVersion := ''0''\<rparr>];
       f = conditionUpdate emptyEvent (sampleCondition LocalConditionType ''Healthy'' 1) []
   in committed 1 (snd (UpdateStatus sampleEnv name ''z'' (Some f) start)) f ''z''
      \<or> (\<exists>a\<in>set (snd (UpdateStatus sampleEnv name ''z'' (Some f) start)). \<not> fst (snd (f (appStatus a) ''z'')))"
proof -
  let ?name = "\<lparr>okNamespace = ''default'', okName = ''app''\<rparr>"
  let ?start = "[sampleApp \<lparr>stOwnership = sampleOwnership NewGlobalState None, stZones = []\<rparr>
     \<lparr>appResourceVersion := ''0''\<rparr>]"
  let ?f = "conditionUpdate emptyEvent (sampleCondition LocalConditionType ''Healthy'' 1) []"
  have ok: "numbered ?start"
    by (simp add: numbered_def sample_defs int_text_def nat_text.simps) code_simp
  have r: "fst (UpdateStatus sampleEnv ?name ''z'' (Some ?f) ?start) = None" by code_simp
  have run: "UpdateStatus sampleEnv ?name ''z'' (Some ?f) ?start =
      (None, snd (UpdateStatus sampleEnv ?name ''z'' (Some ?f) ?start))"
    by (rule prod_eqI) (simp_all add: r)
  have "retries_on_conflict sampleEnv"
    by (simp add: retries_on_conflict_def sampleEnv_def sampleRetry_run)
  moreover have "stays_available sampleEnv ?name numbered"
    by (simp add: stays_available_def sampleEnv_def IsCancelled_def)
  ultimately show ?thesis
    using UpdateStatus_atomic [OF sampleEnv_store _ ok _ run] by (simp add: Let_def)
qed

end
