(* ===== verification/Config.thy ===== *)
theory Config
  imports Prelude
begin

text \<open>
  \<open>internal/config/config.go\<close>: the runtime configuration and the sync options of a resource.
  Durations are integers (nanoseconds). \<open>time.ParseDuration\<close> computes fractions in floating point,
  so it is an argument of \<open>GetSyncTimeout\<close>, \<open>None\<close> being its error; opening, closing and
  decoding the YAML file are arguments of \<open>LoadConfig\<close>.
\<close>

type_synonym Duration = int

record ApplicationRuntimeConfig =
  cfgZoneId :: string
  cfgPollOperationalStatusInterval :: Duration
  cfgPollSyncStatusInterval :: Duration
  cfgChartVersionPollInterval :: Duration
  cfgDefaultSyncTimeout :: Duration
  cfgDefaultUndeployTimeout :: Duration

text \<open>\<open>strings.SplitN(pair, "=", 2)\<close>: the text before the first equals sign and, when there is
  one, the text after it.\<close>

fun splitEq :: "string \<Rightarrow> string \<times> string option" where
  "splitEq [] = ([], None)"
| "splitEq (c # cs) =
     (if c = CHR ''='' then ([], Some cs) else (c # fst (splitEq cs), snd (splitEq cs)))"

definition pairEntry :: "string \<Rightarrow> string \<times> string" where
  "pairEntry pair =
     (case splitEq pair of (k, Some v) \<Rightarrow> (k, v) | (k, None) \<Rightarrow> (pair, ''''))"

definition parseKeyValuePairs :: "string list \<Rightarrow> (string \<rightharpoonup> string)" where
  "parseKeyValuePairs pairs =
     fold (\<lambda>pair m. m(fst (pairEntry pair) \<mapsto> snd (pairEntry pair))) pairs Map.empty"

definition GetSyncTimeout ::
  "(string \<Rightarrow> Duration option) \<Rightarrow> string list option \<Rightarrow> Duration \<Rightarrow> Duration" where
  "GetSyncTimeout ParseDuration syncOptions defaultTimeout =
     (case syncOptions of
        None \<Rightarrow> defaultTimeout
      | Some opts \<Rightarrow>
          (case parseKeyValuePairs opts ''syncTimeout'' of
             None \<Rightarrow> defaultTimeout
           | Some timeoutStr \<Rightarrow>
               (case ParseDuration timeoutStr of
                  Some timeout \<Rightarrow> timeout
                | None \<Rightarrow> defaultTimeout)))"

text \<open>The zap levels \<open>ParseLevel\<close> chooses from.\<close>

datatype Level = DebugLevel | InfoLevel | WarnLevel | ErrorLevel | PanicLevel

definition ParseLevel :: "string \<Rightarrow> Level" where
  "ParseLevel lvl =
     (if lvl = ''debug'' then DebugLevel
      else if lvl = ''info'' then InfoLevel
      else if lvl = ''warn'' then WarnLevel
      else if lvl = ''error'' then ErrorLevel
      else if lvl = ''none'' then PanicLevel
      else InfoLevel)"

definition ExcludesSet :: "string list \<Rightarrow> (string \<rightharpoonup> bool)" where
  "ExcludesSet excludes = fold (\<lambda>v set. set(v \<mapsto> True)) excludes Map.empty"

section \<open>The configuration file\<close>

record CacheConfig =
  ccExcludes :: "string list"

record LoggingConfig =
  lcDefaultLevel :: string
  lcComponents :: "string \<rightharpoonup> string"

record ApiConfig =
  acBindAddress :: string

text \<open>A peer is its URL.\<close>

record Config =
  cfPeers :: "string list"
  cfRuntime :: ApplicationRuntimeConfig
  cfApi :: ApiConfig
  cfCache :: CacheConfig
  cfLogging :: LoggingConfig

text \<open>The file is closed whatever comes of it, and an error of the closing only logged; an error of
  opening or decoding loses its identity, since it is formatted as a text.\<close>

definition LoadConfig ::
  "(string \<Rightarrow> 'e \<Rightarrow> (GoError + 'h) \<times> 'e) \<Rightarrow> ('h \<Rightarrow> 'e \<Rightarrow> GoError option \<times> 'e) \<Rightarrow> ('h \<Rightarrow> 'e \<Rightarrow> (GoError + Config) \<times> 'e)
     \<Rightarrow> string \<Rightarrow> 'e \<Rightarrow> (GoError + Config) \<times> 'e" where
  "LoadConfig open close decode filePath e =
     (case open filePath e of
        (Inl err, e1) \<Rightarrow> (Inl (ErrorString (''error opening config file: '' @ Error err)), e1)
      | (Inr file, e1) \<Rightarrow>
          (case decode file e1 of
             (Inl err, e2) \<Rightarrow> (Inl (ErrorString (''error decoding config file: '' @ Error err)), snd (close file e2))
           | (Inr config, e2) \<Rightarrow> (Inr config, snd (close file e2))))"

section \<open>What the options mean\<close>

lemma splitEq_join: "splitEq (k @ CHR ''='' # v) = (k, Some v)" if "CHR ''='' \<notin> set k"
  using that by (induction k) auto

lemma splitEq_none: "CHR ''='' \<notin> set s \<Longrightarrow> splitEq s = (s, None)"
  by (induction s) auto

lemma parseKeyValuePairs_snoc:
  "parseKeyValuePairs (pairs @ [p]) =
     (parseKeyValuePairs pairs)(fst (pairEntry p) \<mapsto> snd (pairEntry p))"
  by (simp add: parseKeyValuePairs_def)

lemma parseKeyValuePairs_other:
  "(\<And>p. p \<in> set ps \<Longrightarrow> fst (pairEntry p) \<noteq> k) \<Longrightarrow> parseKeyValuePairs (pairs @ ps) k = parseKeyValuePairs pairs k"
  by (induction ps rule: rev_induct) (auto simp: parseKeyValuePairs_snoc simp flip: append_assoc)

text \<open>The timeout of a resource is the one its last \<open>syncTimeout=\<close> option gives, if that
  text is a duration, and the configured default otherwise; later options of other keys do not
  matter.\<close>

lemma GetSyncTimeout_last_option:
  assumes "\<And>p. p \<in> set later \<Longrightarrow> fst (pairEntry p) \<noteq> ''syncTimeout''"
  shows "GetSyncTimeout pd (Some (earlier @ [''syncTimeout='' @ text] @ later)) dflt =
     (case pd text of Some t \<Rightarrow> t | None \<Rightarrow> dflt)"
proof -
  define opt where "opt = ''syncTimeout='' @ text"
  have "pairEntry opt = (''syncTimeout'', text)"
    by (simp add: pairEntry_def opt_def)
  then have "parseKeyValuePairs ((earlier @ [opt]) @ later) ''syncTimeout'' = Some text"
    using assms by (subst parseKeyValuePairs_other) (simp_all add: parseKeyValuePairs_snoc)
  then show ?thesis by (simp add: GetSyncTimeout_def opt_def)
qed

lemma GetSyncTimeout_last_option_example:
  "GetSyncTimeout (\<lambda>s. if s = ''5m'' then Some 300 else None)
     (Some [''syncTimeout=1m'', ''syncTimeout=5m'', ''prune'']) 60 = 300"
proof -
  have "fst (pairEntry p) \<noteq> ''syncTimeout''" if "p \<in> set [''prune'']" for p
    using that by (simp add: pairEntry_def)
  from GetSyncTimeout_last_option [where later = "[''prune'']", OF this, of "\<lambda>s. if s = ''5m'' then Some 300 else None"
      "[''syncTimeout=1m'']" "''5m''" 60]
  show ?thesis by simp
qed

end
