(* ===== verification/Versions.thy ===== *)
theory Versions
  imports ApiTypes
begin

text \<open>
  \<open>internal/controller/types/chart.go\<close>: chart identities and versions. Parsing, printing and
  comparing semantic versions is the library \<open>Masterminds/semver\<close>; its version and constraint types
  are the type variables \<open>'v\<close> and \<open>'c\<close> and its functions the fields of \<open>Semver\<close>, an argument of
  every definition that calls them. A \<open>*SpecificVersion\<close> that may be nil is an \<open>option\<close>.
\<close>

record ('v, 'c) Semver =
  svNewVersion :: "string \<Rightarrow> GoError + 'v"
  svString :: "'v \<Rightarrow> string"
  svGreaterThan :: "'v \<Rightarrow> 'v \<Rightarrow> bool"
  svEqual :: "'v \<Rightarrow> 'v \<Rightarrow> bool"
  svNewConstraint :: "string \<Rightarrow> GoError + 'c"
  svCheck :: "'c \<Rightarrow> 'v \<Rightarrow> bool"
  svConstraintString :: "'c \<Rightarrow> string"

record ChartId =
  ciRepoUrl :: string
  ciChartName :: string

definition NewChartId :: "AnyApplication \<Rightarrow> ChartId go" where
  "NewChartId application =
     (case srcHelmSelector (specSource (appSpec application)) of
        None \<Rightarrow> Inl NilPointerDereference
      | Some helm \<Rightarrow> Inr \<lparr>ciRepoUrl = helmRepository helm, ciChartName = helmChart helm\<rparr>)"

datatype 'v SpecificVersion = SpecificVersion (version: 'v)

definition SpecificVersion_ToString :: "('v, 'c) Semver \<Rightarrow> 'v SpecificVersion \<Rightarrow> string" where
  "SpecificVersion_ToString sv v = svString sv (version v)"

definition IsNewerThan :: "('v, 'c) Semver \<Rightarrow> 'v SpecificVersion \<Rightarrow> 'v SpecificVersion \<Rightarrow> bool" where
  "IsNewerThan sv v other = svGreaterThan sv (version v) (version other)"

definition SpecificVersion_Equal :: "('v, 'c) Semver \<Rightarrow> 'v SpecificVersion \<Rightarrow> 'v SpecificVersion \<Rightarrow> bool" where
  "SpecificVersion_Equal sv v other = svEqual sv (version v) (version other)"

definition NewFromSemantic :: "'v \<Rightarrow> GoError + 'v SpecificVersion" where
  "NewFromSemantic v = Inr (SpecificVersion v)"

definition NewSpecificVersion :: "('v, 'c) Semver \<Rightarrow> string \<Rightarrow> GoError + 'v SpecificVersion" where
  "NewSpecificVersion sv text =
     (case svNewVersion sv text of
        Inr v \<Rightarrow> Inr (SpecificVersion v)
      | Inl err \<Rightarrow> Inl (Wrapped (''invalid specific version: '' @ text) err))"

datatype 'c VersionRange = VersionRange (constraint: 'c)

definition VersionRange_Contains :: "('v, 'c) Semver \<Rightarrow> 'c VersionRange \<Rightarrow> 'v SpecificVersion \<Rightarrow> bool" where
  "VersionRange_Contains sv r v = svCheck sv (constraint r) (version v)"

definition VersionRange_ToString :: "('v, 'c) Semver \<Rightarrow> 'c VersionRange \<Rightarrow> string" where
  "VersionRange_ToString sv r = svConstraintString sv (constraint r)"

text \<open>The two types behind the interface \<open>ChartVersion\<close>.\<close>

datatype ('v, 'c) ChartVersion = ChartSpecific "'v SpecificVersion" | ChartRange "'c VersionRange"

definition NewChartVersion :: "('v, 'c) Semver \<Rightarrow> string \<Rightarrow> GoError + ('v, 'c) ChartVersion" where
  "NewChartVersion sv text =
     (case svNewVersion sv text of
        Inr v \<Rightarrow> Inr (ChartSpecific (SpecificVersion v))
      | Inl _ \<Rightarrow>
          (case svNewConstraint sv text of
             Inl err \<Rightarrow> Inl (Wrapped (''invalid chart version: '' @ text) err)
           | Inr c \<Rightarrow> Inr (ChartRange (VersionRange c))))"

record 'v ChartKey =
  ckChartId :: ChartId
  ckVersion :: "'v SpecificVersion"

definition ChartKey_ToString :: "('v, 'c) Semver \<Rightarrow> 'v ChartKey \<Rightarrow> string" where
  "ChartKey_ToString sv ck =
     ciRepoUrl (ckChartId ck) @ ''/'' @ ciChartName (ckChartId ck) @ '':''
     @ SpecificVersion_ToString sv (ckVersion ck)"

record ApplicationInstance =
  aiInstanceId :: string
  aiName :: string
  aiNamespace :: string
  aiReleaseName :: string
  aiValuesYaml :: string

definition ApplicationInstance_ToString :: "ApplicationInstance \<Rightarrow> string" where
  "ApplicationInstance_ToString ai =
     aiNamespace ai @ ''/'' @ aiName ai @ '' ('' @ aiInstanceId ai @ '') ''
     @ aiReleaseName ai @ '' values{'' @ aiValuesYaml ai @ ''}''"

text \<open>For the examples: versions are natural numbers with their decimal texts, a constraint is a
  lower bound.\<close>

definition sampleSemver :: "(nat, nat) Semver" where
  "sampleSemver = \<lparr>
     svNewVersion = (\<lambda>s. case unsigned_text s of Some n \<Rightarrow> Inr n | None \<Rightarrow> Inl (ErrorString ''bad version'')),
     svString = nat_text,
     svGreaterThan = (\<lambda>a b. b < a), svEqual = (=),
     svNewConstraint = (\<lambda>_. Inr 0), svCheck = (\<lambda>c v. c \<le> v), svConstraintString = nat_text\<rparr>"

end
