(* ===== verification/AsyncJobs.thy ===== *)
theory AsyncJobs
  imports StatusUpdater Config Versions
begin

text \<open>
  The asynchronous jobs as data: \<open>internal/controller/types/async_job.go\<close>, \<open>job_conditions.go\<close> and
  \<open>application.go\<close>, and the constructors, identities and reported conditions of the five jobs of
  \<open>internal/controller/job\<close> with the factory that builds them. A job holds a pointer to the
  application it is created for; the model keeps the application itself. The clock a job holds
  is read where it is used: \<open>NowTime()\<close> is an argument of the constructors that call it and of
  \<open>GetStatus\<close>. The loggers and the event recorder in the structs are left out.
\<close>

section \<open>Types\<close>

datatype AsyncJobType =
    AsyncJobTypeUnknown
  | AsyncJobTypeDeploy
  | AsyncJobTypeOwnershipTransfer
  | AsyncJobTypeLocalPlacement
  | AsyncJobTypeLocalOperation
  | AsyncJobTypeUndeploy

record ApplicationId =
  aidName :: string
  aidNamespace :: string

record JobId =
  jidJobType :: AsyncJobType
  jidApplicationId :: ApplicationId

definition applicationId :: "AnyApplication \<Rightarrow> ApplicationId" where
  "applicationId application = \<lparr>aidName = appName application, aidNamespace = appNamespace application\<rparr>"

text \<open>A \<open>*SpecificVersion\<close> that may be nil.\<close>

type_synonym 'v VersionPtr = "'v SpecificVersion option"

text \<open>\<open>health.HealthStatusCode\<close> of the gitops-engine library is a string type with these constants.\<close>

type_synonym HealthStatusCode = string

definition HealthStatusUnknown :: HealthStatusCode where "HealthStatusUnknown = ''Unknown''"
definition HealthStatusProgressing :: HealthStatusCode where "HealthStatusProgressing = ''Progressing''"
definition HealthStatusHealthy :: HealthStatusCode where "HealthStatusHealthy = ''Healthy''"
definition HealthStatusDegraded :: HealthStatusCode where "HealthStatusDegraded = ''Degraded''"
definition HealthStatusMissing :: HealthStatusCode where "HealthStatusMissing = ''Missing''"

lemmas health_defs =
  HealthStatusUnknown_def HealthStatusProgressing_def HealthStatusHealthy_def
  HealthStatusDegraded_def HealthStatusMissing_def

record HealthStatus =
  hsStatus :: HealthStatusCode
  hsMessage :: string

section \<open>The five jobs\<close>

record 'v DeployJob =
  djApplication :: AnyApplication
  djVersion :: "'v VersionPtr"
  djConfig :: ApplicationRuntimeConfig
  djStatus :: DeploymentStatus
  djMsg :: string
  djReason :: string
  djJobId :: JobId
  djStartTime :: Time
  djTimeout :: Duration
  djRetryAttempts :: int
  djAttempt :: int

definition NewDeployJob ::
  "(string \<Rightarrow> Duration option) \<Rightarrow> Time \<Rightarrow> ApplicationRuntimeConfig \<Rightarrow> AnyApplication \<Rightarrow> 'v VersionPtr
     \<Rightarrow> 'v DeployJob" where
  "NewDeployJob ParseDuration now cfg application v =
     \<lparr>djApplication = application, djVersion = v, djConfig = cfg,
      djStatus = DeploymentStatusPull, djMsg = '''', djReason = '''',
      djJobId = \<lparr>jidJobType = AsyncJobTypeDeploy, jidApplicationId = applicationId application\<rparr>,
      djStartTime = now,
      djTimeout = GetSyncTimeout ParseDuration (spSyncOptions (specSyncPolicy (appSpec application)))
                    (cfgDefaultSyncTimeout cfg),
      djRetryAttempts = 3, djAttempt = 1\<rparr>"

definition DeployJob_GetStatus :: "Time \<Rightarrow> 'v DeployJob \<Rightarrow> ConditionStatus" where
  "DeployJob_GetStatus now job =
     \<lparr>condType = DeploymentConditionType, condZoneId = cfgZoneId (djConfig job),
      condStatus = DeploymentStatus_string (djStatus job), condLastTransitionTime = now,
      condReason = djReason job, condMsg = djMsg job, condRetryAttempt = 0\<rparr>"

record UndeployJob =
  ujApplication :: AnyApplication
  ujConfig :: ApplicationRuntimeConfig
  ujStatus :: UndeploymentStatus
  ujMsg :: string
  ujReason :: string
  ujJobId :: JobId
  ujVersion :: string
  ujStartTime :: Time
  ujRetryAttempts :: int
  ujAttempt :: int

definition NewUndeployJob :: "Time \<Rightarrow> ApplicationRuntimeConfig \<Rightarrow> AnyApplication \<Rightarrow> UndeployJob" where
  "NewUndeployJob now cfg application =
     \<lparr>ujApplication = application, ujConfig = cfg,
      ujStatus = UndeploymentStatusUndeploy, ujMsg = '''', ujReason = '''',
      ujJobId = \<lparr>jidJobType = AsyncJobTypeUndeploy, jidApplicationId = applicationId application\<rparr>,
      ujVersion = appResourceVersion application,
      ujStartTime = now, ujRetryAttempts = 3, ujAttempt = 1\<rparr>"

definition UndeployJob_GetStatus :: "Time \<Rightarrow> UndeployJob \<Rightarrow> ConditionStatus" where
  "UndeployJob_GetStatus now job =
     \<lparr>condType = UndeploymentConditionType, condZoneId = cfgZoneId (ujConfig job),
      condStatus = UndeploymentStatus_string (ujStatus job), condLastTransitionTime = now,
      condReason = ujReason job, condMsg = ujMsg job, condRetryAttempt = 0\<rparr>"

record LocalOperationJob =
  ojApplication :: AnyApplication
  ojConfig :: ApplicationRuntimeConfig
  ojStatus :: HealthStatusCode
  ojReason :: string
  ojMsg :: string
  ojJobId :: JobId
  ojVersion :: string

definition NewLocalOperationJob :: "ApplicationRuntimeConfig \<Rightarrow> AnyApplication \<Rightarrow> LocalOperationJob" where
  "NewLocalOperationJob cfg application =
     \<lparr>ojApplication = application, ojConfig = cfg,
      ojStatus = HealthStatusProgressing, ojReason = '''', ojMsg = '''',
      ojJobId = \<lparr>jidJobType = AsyncJobTypeLocalOperation, jidApplicationId = applicationId application\<rparr>,
      ojVersion = appResourceVersion application\<rparr>"

definition LocalOperationJob_GetStatus :: "Time \<Rightarrow> LocalOperationJob \<Rightarrow> ConditionStatus" where
  "LocalOperationJob_GetStatus now job =
     \<lparr>condType = LocalConditionType, condZoneId = cfgZoneId (ojConfig job),
      condStatus = ojStatus job, condLastTransitionTime = now,
      condReason = ojReason job, condMsg = ojMsg job, condRetryAttempt = 0\<rparr>"

record LocalPlacementJob =
  pjApplication :: AnyApplication
  pjConfig :: ApplicationRuntimeConfig
  pjStatus :: PlacementStatus
  pjMsg :: string
  pjJobId :: JobId
  pjVersion :: string
  pjReason :: string

definition NewLocalPlacementJob :: "ApplicationRuntimeConfig \<Rightarrow> AnyApplication \<Rightarrow> LocalPlacementJob" where
  "NewLocalPlacementJob cfg application =
     \<lparr>pjApplication = application, pjConfig = cfg,
      pjStatus = PlacementStatusInProgress, pjMsg = '''',
      pjJobId = \<lparr>jidJobType = AsyncJobTypeLocalPlacement, jidApplicationId = applicationId application\<rparr>,
      pjVersion = appResourceVersion application, pjReason = ''''\<rparr>"

definition LocalPlacementJob_GetStatus :: "Time \<Rightarrow> LocalPlacementJob \<Rightarrow> ConditionStatus" where
  "LocalPlacementJob_GetStatus now job =
     \<lparr>condType = PlacementConditionType, condZoneId = cfgZoneId (pjConfig job),
      condStatus = PlacementStatus_string (pjStatus job), condLastTransitionTime = now,
      condReason = pjReason job, condMsg = pjMsg job, condRetryAttempt = 0\<rparr>"

text \<open>The job id of an ownership transfer carries the type of the operation job, as the code has it.\<close>

record OwnershipTransferJob =
  tjApplication :: AnyApplication
  tjConfig :: ApplicationRuntimeConfig
  tjStatus :: OwnershipTransferStatus
  tjJobId :: JobId
  tjReason :: string

definition NewOwnershipTransferJob :: "ApplicationRuntimeConfig \<Rightarrow> AnyApplication \<Rightarrow> OwnershipTransferJob" where
  "NewOwnershipTransferJob cfg application =
     \<lparr>tjApplication = application, tjConfig = cfg, tjStatus = OwnershipTransferPulling,
      tjJobId = \<lparr>jidJobType = AsyncJobTypeLocalOperation, jidApplicationId = applicationId application\<rparr>,
      tjReason = ''''\<rparr>"

definition OwnershipTransferJob_GetStatus :: "Time \<Rightarrow> OwnershipTransferJob \<Rightarrow> ConditionStatus" where
  "OwnershipTransferJob_GetStatus now job =
     \<lparr>condType = OwnershipTransferConditionType, condZoneId = cfgZoneId (tjConfig job),
      condStatus = OwnershipTransferStatus_string (tjStatus job), condLastTransitionTime = now,
      condReason = tjReason job, condMsg = ''Ownership transfer in progress'', condRetryAttempt = 0\<rparr>"

lemmas job_record_defs =
  NewDeployJob_def NewUndeployJob_def NewLocalOperationJob_def NewLocalPlacementJob_def
  NewOwnershipTransferJob_def DeployJob_GetStatus_def UndeployJob_GetStatus_def
  LocalOperationJob_GetStatus_def LocalPlacementJob_GetStatus_def OwnershipTransferJob_GetStatus_def

section \<open>The interface AsyncJob\<close>

datatype 'v AsyncJob =
    Deploy "'v DeployJob"
  | Undeploy UndeployJob
  | LocalOperation LocalOperationJob
  | LocalPlacement LocalPlacementJob
  | OwnershipTransfer OwnershipTransferJob

fun GetJobID :: "'v AsyncJob \<Rightarrow> JobId" where
  "GetJobID (Deploy j) = djJobId j"
| "GetJobID (Undeploy j) = ujJobId j"
| "GetJobID (LocalOperation j) = ojJobId j"
| "GetJobID (LocalPlacement j) = pjJobId j"
| "GetJobID (OwnershipTransfer j) = tjJobId j"

fun GetType :: "'v AsyncJob \<Rightarrow> AsyncJobType" where
  "GetType (Deploy _) = AsyncJobTypeDeploy"
| "GetType (Undeploy _) = AsyncJobTypeUndeploy"
| "GetType (LocalOperation _) = AsyncJobTypeLocalOperation"
| "GetType (LocalPlacement _) = AsyncJobTypeLocalPlacement"
| "GetType (OwnershipTransfer _) = AsyncJobTypeOwnershipTransfer"

fun GetStatus :: "Time \<Rightarrow> 'v AsyncJob \<Rightarrow> ConditionStatus" where
  "GetStatus now (Deploy j) = DeployJob_GetStatus now j"
| "GetStatus now (Undeploy j) = UndeployJob_GetStatus now j"
| "GetStatus now (LocalOperation j) = LocalOperationJob_GetStatus now j"
| "GetStatus now (LocalPlacement j) = LocalPlacementJob_GetStatus now j"
| "GetStatus now (OwnershipTransfer j) = OwnershipTransferJob_GetStatus now j"

fun jobApplication :: "'v AsyncJob \<Rightarrow> AnyApplication" where
  "jobApplication (Deploy j) = djApplication j"
| "jobApplication (Undeploy j) = ujApplication j"
| "jobApplication (LocalOperation j) = ojApplication j"
| "jobApplication (LocalPlacement j) = pjApplication j"
| "jobApplication (OwnershipTransfer j) = tjApplication j"

section \<open>The factory\<close>

text \<open>The interface \<open>AsyncJobFactory\<close>, with the two methods of the jobs the state machines call. The
  implementation is \<open>AsyncJobFactoryImpl\<close>; \<open>start\<close> and \<open>reading\<close> are what its clock answers to the
  constructor and to \<open>GetStatus\<close>.\<close>

record ('v, 'j) AsyncJobFactory =
  facCreateLocalPlacementJob :: "AnyApplication \<Rightarrow> 'j"
  facCreateDeployJob :: "AnyApplication \<Rightarrow> 'v VersionPtr \<Rightarrow> 'j"
  facCreateUndeployJob :: "AnyApplication \<Rightarrow> 'j"
  facCreateOperationJob :: "AnyApplication \<Rightarrow> 'j"
  facCreateOnwershipTransferJob :: "AnyApplication \<Rightarrow> 'j"
  facGetStatus :: "'j \<Rightarrow> ConditionStatus"
  facGetType :: "'j \<Rightarrow> AsyncJobType"

definition AsyncJobFactoryImpl ::
  "(string \<Rightarrow> Duration option) \<Rightarrow> ApplicationRuntimeConfig \<Rightarrow> Time \<Rightarrow> Time
     \<Rightarrow> ('v, 'v AsyncJob) AsyncJobFactory" where
  "AsyncJobFactoryImpl ParseDuration cfg start reading = \<lparr>
     facCreateLocalPlacementJob = (\<lambda>a. LocalPlacement (NewLocalPlacementJob cfg a)),
     facCreateDeployJob = (\<lambda>a v. Deploy (NewDeployJob ParseDuration start cfg a v)),
     facCreateUndeployJob = (\<lambda>a. Undeploy (NewUndeployJob start cfg a)),
     facCreateOperationJob = (\<lambda>a. LocalOperation (NewLocalOperationJob cfg a)),
     facCreateOnwershipTransferJob = (\<lambda>a. OwnershipTransfer (NewOwnershipTransferJob cfg a)),
     facGetStatus = GetStatus reading,
     facGetType = GetType\<rparr>"

lemma AsyncJobFactoryImpl_methods [simp]:
  "facGetStatus (AsyncJobFactoryImpl pd cfg start reading) = GetStatus reading"
  "facGetType (AsyncJobFactoryImpl pd cfg start reading) = GetType"
  by (simp_all add: AsyncJobFactoryImpl_def)

text \<open>What the state machines rely on: a fresh job reports the condition of its kind, for the
  zone of the controller, in its first state and with no retry counted.\<close>

definition freshCondition :: "string \<Rightarrow> ApplicationConditionType \<Rightarrow> string \<Rightarrow> ConditionStatus \<Rightarrow> bool" where
  "freshCondition zone t first c \<longleftrightarrow>
     condType c = t \<and> condZoneId c = zone \<and> condStatus c = first \<and> condRetryAttempt c = 0"

locale job_factory =
  fixes fac :: "('v, 'j) AsyncJobFactory" and zone :: string
  assumes placement_condition:
      "freshCondition zone PlacementConditionType ''InProgress'' (facGetStatus fac (facCreateLocalPlacementJob fac a))"
    and deploy_condition:
      "freshCondition zone DeploymentConditionType ''Pull'' (facGetStatus fac (facCreateDeployJob fac a v))"
    and undeploy_condition:
      "freshCondition zone UndeploymentConditionType ''Undeploy'' (facGetStatus fac (facCreateUndeployJob fac a))"
    and operation_condition:
      "freshCondition zone LocalConditionType ''Progressing'' (facGetStatus fac (facCreateOperationJob fac a))"
    and placement_type: "facGetType fac (facCreateLocalPlacementJob fac a) = AsyncJobTypeLocalPlacement"
    and deploy_type: "facGetType fac (facCreateDeployJob fac a v) = AsyncJobTypeDeploy"
    and undeploy_type: "facGetType fac (facCreateUndeployJob fac a) = AsyncJobTypeUndeploy"
    and operation_type: "facGetType fac (facCreateOperationJob fac a) = AsyncJobTypeLocalOperation"
begin

text \<open>The jobs a state machine may create, and the zone their conditions are for.\<close>

definition created :: "AnyApplication \<Rightarrow> 'j \<Rightarrow> bool" where
  "created a j \<longleftrightarrow> j = facCreateLocalPlacementJob fac a \<or> (\<exists>v. j = facCreateDeployJob fac a v)
     \<or> j = facCreateUndeployJob fac a \<or> j = facCreateOperationJob fac a"

lemma created_zone: "created a j \<Longrightarrow> condZoneId (facGetStatus fac j) = zone"
  using placement_condition deploy_condition undeploy_condition operation_condition
  by (auto simp: created_def freshCondition_def)

lemma created_retry: "created a j \<Longrightarrow> condRetryAttempt (facGetStatus fac j) = 0"
  using placement_condition deploy_condition undeploy_condition operation_condition
  by (auto simp: created_def freshCondition_def)

lemma created_type:
  "created a j \<Longrightarrow>
     (facGetType fac j, condType (facGetStatus fac j)) \<in>
       {(AsyncJobTypeLocalPlacement, PlacementConditionType), (AsyncJobTypeDeploy, DeploymentConditionType),
        (AsyncJobTypeUndeploy, UndeploymentConditionType), (AsyncJobTypeLocalOperation, LocalConditionType)}"
  using placement_condition deploy_condition undeploy_condition operation_condition
    placement_type deploy_type undeploy_type operation_type
  by (auto simp: created_def freshCondition_def)

end

interpretation impl: job_factory "AsyncJobFactoryImpl pd cfg start reading" "cfgZoneId cfg"
  for pd cfg start reading
  by unfold_locales
    (simp_all add: AsyncJobFactoryImpl_def freshCondition_def job_record_defs HealthStatusProgressing_def)

section \<open>What a state machine asks for\<close>

record 'j NextJobs =
  JobsToAdd :: "'j option"
  JobsToRemove :: "AsyncJobType option"

definition noJobs :: "'j NextJobs" where
  "noJobs = \<lparr>JobsToAdd = None, JobsToRemove = None\<rparr>"

text \<open>\<open>NextJobs.Add\<close>, which panics rather than drop a job.\<close>

definition NextJobs_Add :: "'j NextJobs \<Rightarrow> 'j NextJobs \<Rightarrow> 'j NextJobs go" where
  "NextJobs_Add n other =
     go_bind
       (if JobsToAdd n = None then Inr (JobsToAdd other)
        else if JobsToAdd other \<noteq> None then Inl MultipleJobsToSchedule
        else Inr (JobsToAdd n))
       (\<lambda>toAdd. go_bind
          (if JobsToRemove n = None then Inr (JobsToRemove other)
           else if JobsToRemove other \<noteq> None then Inl MultipleJobsToUnschedule
           else Inr (JobsToRemove n))
          (\<lambda>toRemove. Inr \<lparr>JobsToAdd = toAdd, JobsToRemove = toRemove\<rparr>))"

record ('v, 'j) NextStateResult =
  NextState :: "GlobalState option"
  ConditionsToAdd :: "ConditionStatus option"
  ConditionsToRemove :: "ConditionStatus list"
  NewVersion :: "'v VersionPtr option"
  Jobs :: "'j NextJobs"

text \<open>The zero value \<open>types.NextStateResult{}\<close>.\<close>

definition noResult :: "('v, 'j) NextStateResult" where
  "noResult = \<lparr>NextState = None, ConditionsToAdd = None, ConditionsToRemove = [], NewVersion = None, Jobs = noJobs\<rparr>"

record 'j StatusResult =
  Status :: "AnyApplicationStatus option"
  srJobs :: "'j NextJobs"

record JobApplicationCondition =
  jacCondition :: "ConditionStatus option"
  jacJobType :: AsyncJobType

definition EmptyJobConditions :: JobApplicationCondition where
  "EmptyJobConditions = \<lparr>jacCondition = None, jacJobType = AsyncJobTypeUnknown\<rparr>"

definition FromCondition :: "ConditionStatus \<Rightarrow> AsyncJobType \<Rightarrow> JobApplicationCondition" where
  "FromCondition c t = \<lparr>jacCondition = Some c, jacJobType = t\<rparr>"

definition GetConditions :: "JobApplicationCondition \<Rightarrow> ConditionStatus list" where
  "GetConditions j = (case jacCondition j of None \<Rightarrow> [] | Some c \<Rightarrow> [c])"

definition GetJobType :: "JobApplicationCondition \<Rightarrow> AsyncJobType option" where
  "GetJobType j = (case jacCondition j of None \<Rightarrow> None | Some _ \<Rightarrow> Some (jacJobType j))"

lemma NextJobs_Add_panics:
  "NextJobs_Add n other = Inl MultipleJobsToSchedule \<longleftrightarrow> JobsToAdd n \<noteq> None \<and> JobsToAdd other \<noteq> None"
  by (auto simp: NextJobs_Add_def go_bind_eq_Inl split: if_splits)

lemma NextJobs_Add_ok:
  "JobsToRemove n = None \<Longrightarrow> NextJobs_Add n other =
     (if JobsToAdd n \<noteq> None \<and> JobsToAdd other \<noteq> None then Inl MultipleJobsToSchedule
      else Inr \<lparr>JobsToAdd = (case JobsToAdd n of None \<Rightarrow> JobsToAdd other | Some j \<Rightarrow> Some j),
                JobsToRemove = JobsToRemove other\<rparr>)"
  by (auto simp: NextJobs_Add_def split: option.splits)

end
