(* ===== verification/LocalBundle.thy ===== *)
theory LocalBundle
  imports AsyncJobs
begin

text \<open>
  \<open>internal/controller/local\<close>: an application as it is found in the zone, the resources available
  against the resources expected. The resource objects are \<open>unstructured.Unstructured\<close> of the
  Kubernetes library and their health is judged by the gitops-engine library: \<open>'r\<close> and the
  fields of \<open>ResourceApi\<close>. The JSON form of a bundle is in \<open>BundleJson\<close>.
\<close>

record GroupVersionKind =
  gvkGroup :: string
  gvkVersion :: string
  gvkKind :: string

record NamespacedName =
  nnNamespace :: string
  nnName :: string

record ResourceKey =
  rkGroup :: string
  rkKind :: string
  rkNamespace :: string
  rkName :: string

text \<open>The library calls on a resource: its kind and name, \<open>kube.GetResourceKey\<close>, \<open>GetLabels\<close>, the
  \<open>NestedString\<close> read of the chart version label, \<open>health.GetResourceHealth\<close> and \<open>health.IsWorse\<close>,
  and the texts of a kind and a name.\<close>

record 'r ResourceApi =
  raGroupVersionKind :: "'r \<Rightarrow> GroupVersionKind"
  raNamespace :: "'r \<Rightarrow> string"
  raName :: "'r \<Rightarrow> string"
  raResourceKey :: "'r \<Rightarrow> ResourceKey"
  raLabels :: "'r \<Rightarrow> (string \<rightharpoonup> string)"
  raChartVersionLabel :: "'r \<Rightarrow> GoError + string option"
  raGetResourceHealth :: "'r \<Rightarrow> GoError + HealthStatus option"
  raIsWorse :: "HealthStatusCode \<Rightarrow> HealthStatusCode \<Rightarrow> bool"
  raKindString :: "GroupVersionKind \<Rightarrow> string"
  raNameString :: "NamespacedName \<Rightarrow> string"

section \<open>The bundle\<close>

record 'r ApplicationBundle =
  availableResources :: "'r list"
  expectedResources :: "'r list"

definition LoadApplicationBundle :: "'r list \<Rightarrow> 'r list \<Rightarrow> GoError + 'r ApplicationBundle" where
  "LoadApplicationBundle available expected =
     Inr \<lparr>availableResources = available, expectedResources = expected\<rparr>"

definition namespacedName :: "'r ResourceApi \<Rightarrow> 'r \<Rightarrow> NamespacedName" where
  "namespacedName api r = \<lparr>nnNamespace = raNamespace api r, nnName = raName api r\<rparr>"

type_synonym 'r ResourceMap = "GroupVersionKind \<rightharpoonup> (NamespacedName \<rightharpoonup> 'r)"

text \<open>The two-step index \<open>m[gvk][name]\<close>; a missing inner map reads as an empty one.\<close>

definition resourceAt :: "'r ResourceMap \<Rightarrow> GroupVersionKind \<Rightarrow> NamespacedName \<Rightarrow> 'r option" where
  "resourceAt m gvk name = (case m gvk of None \<Rightarrow> None | Some inner \<Rightarrow> inner name)"

definition addResource :: "'r ResourceApi \<Rightarrow> 'r \<Rightarrow> 'r ResourceMap \<Rightarrow> 'r ResourceMap" where
  "addResource api resource m =
     (let gvk = raGroupVersionKind api resource;
          name = namespacedName api resource;
          m' = (if m gvk = None then m(gvk \<mapsto> Map.empty) else m)
      in if resourceAt m' gvk name \<noteq> None then m'
         else (case m' gvk of None \<Rightarrow> m' | Some inner \<Rightarrow> m'(gvk \<mapsto> inner(name \<mapsto> resource))))"

definition toResourceMap :: "'r ResourceApi \<Rightarrow> 'r list \<Rightarrow> 'r ResourceMap" where
  "toResourceMap api rs = fold (addResource api) rs Map.empty"

definition ApplicationBundle_IsDeployed :: "'r ResourceApi \<Rightarrow> 'r ApplicationBundle \<Rightarrow> bool" where
  "ApplicationBundle_IsDeployed api bundle =
     (let available = toResourceMap api (availableResources bundle)
      in list_all (\<lambda>expected. resourceAt available (raGroupVersionKind api expected)
                                (namespacedName api expected) \<noteq> None)
           (expectedResources bundle))"

text \<open>The accumulator and, when the function failed, its error.\<close>

fun foldLeft :: "('t \<Rightarrow> 'a \<Rightarrow> 'a \<times> 'e option) \<Rightarrow> 't list \<Rightarrow> 'a \<Rightarrow> 'a \<times> 'e option" where
  "foldLeft fn [] acc = (acc, None)"
| "foldLeft fn (item # arr) acc =
     (case fn item acc of
        (acc', Some err) \<Rightarrow> (acc', Some err)
      | (acc', None) \<Rightarrow> foldLeft fn arr acc')"

definition determineResourceState :: "'r ResourceApi \<Rightarrow> 'r \<Rightarrow> GoError + HealthStatus option" where
  "determineResourceState api r = raGetResourceHealth api r"

text \<open>The closure over the expected resources that collects their states.\<close>

definition collectState ::
  "'r ResourceApi \<Rightarrow> 'r ResourceMap \<Rightarrow> 'r \<Rightarrow> HealthStatus list \<Rightarrow> HealthStatus list \<times> GoError option" where
  "collectState api available expected acc =
     (let gvk = raGroupVersionKind api expected; name = namespacedName api expected
      in case resourceAt available gvk name of
           None \<Rightarrow> (acc @ [\<lparr>hsStatus = HealthStatusMissing,
                            hsMessage = ''Resource is missing: '' @ raKindString api gvk @ '' ''
                                          @ raNameString api name\<rparr>], None)
         | Some item \<Rightarrow>
             (case determineResourceState api item of
                Inl err \<Rightarrow> (acc, Some err)
              | Inr None \<Rightarrow> (acc, None)
              | Inr (Some st) \<Rightarrow> (acc @ [st], None)))"

definition worseState :: "'r ResourceApi \<Rightarrow> HealthStatus \<Rightarrow> HealthStatusCode \<Rightarrow> HealthStatusCode \<times> GoError option" where
  "worseState api item acc = (if raIsWorse api acc (hsStatus item) then hsStatus item else acc, None)"

definition collectMessage :: "HealthStatus \<Rightarrow> string list \<Rightarrow> string list \<times> GoError option" where
  "collectMessage item acc = (if hsMessage item \<noteq> '''' then acc @ [hsMessage item] else acc, None)"

definition DetermineState ::
  "'r ResourceApi \<Rightarrow> 'r ApplicationBundle \<Rightarrow> (HealthStatusCode \<times> string list) \<times> GoError option" where
  "DetermineState api bundle =
     (let available = toResourceMap api (availableResources bundle)
      in case foldLeft (collectState api available) (expectedResources bundle) [] of
           (_, Some err) \<Rightarrow> ((HealthStatusUnknown, []), Some err)
         | (statuses, None) \<Rightarrow>
             ((fst (foldLeft (worseState api) statuses HealthStatusHealthy),
               fst (foldLeft collectMessage statuses [])), None))"

section \<open>The local application\<close>

record ('v, 'r) LocalApplication =
  laBundle :: "'r ApplicationBundle"
  laConfig :: ApplicationRuntimeConfig
  laStatus :: HealthStatusCode
  laMessages :: "string list"
  laVersion :: "'v SpecificVersion"

definition NewFromUnstructured ::
  "'r ResourceApi \<Rightarrow> 'v SpecificVersion \<Rightarrow> 'r list \<Rightarrow> 'r list \<Rightarrow> ApplicationRuntimeConfig
     \<Rightarrow> GoError + ('v, 'r) LocalApplication option" where
  "NewFromUnstructured api v available expected cfg =
     (if length available = 0 then Inr None
      else case LoadApplicationBundle available expected of
             Inl err \<Rightarrow> Inl err
           | Inr bundle \<Rightarrow>
               (case DetermineState api bundle of
                  (_, Some err) \<Rightarrow> Inl err
                | ((st, messages), None) \<Rightarrow>
                    Inr (Some \<lparr>laBundle = bundle, laConfig = cfg, laStatus = st, laMessages = messages,
                               laVersion = v\<rparr>)))"

definition LocalApplication_IsDeployed :: "'r ResourceApi \<Rightarrow> ('v, 'r) LocalApplication \<Rightarrow> bool" where
  "LocalApplication_IsDeployed api l = ApplicationBundle_IsDeployed api (laBundle l)"

definition LocalApplication_GetStatus :: "('v, 'r) LocalApplication \<Rightarrow> HealthStatusCode" where
  "LocalApplication_GetStatus l = laStatus l"

definition LocalApplication_GetMessages :: "('v, 'r) LocalApplication \<Rightarrow> string list" where
  "LocalApplication_GetMessages l = laMessages l"

definition LocalApplication_GetCondition :: "Time \<Rightarrow> ('v, 'r) LocalApplication \<Rightarrow> ConditionStatus" where
  "LocalApplication_GetCondition now l =
     \<lparr>condType = LocalConditionType, condZoneId = cfgZoneId (laConfig l),
      condStatus = laStatus l, condLastTransitionTime = now,
      condReason = '''', condMsg = '''', condRetryAttempt = 0\<rparr>"

section \<open>The index by kind and name\<close>

definition sameResource :: "'r ResourceApi \<Rightarrow> GroupVersionKind \<Rightarrow> NamespacedName \<Rightarrow> 'r \<Rightarrow> bool" where
  "sameResource api gvk name r \<longleftrightarrow> raGroupVersionKind api r = gvk \<and> namespacedName api r = name"

lemma resourceAt_addResource:
  "resourceAt (addResource api r m) gvk name =
     (case resourceAt m gvk name of
        Some x \<Rightarrow> Some x
      | None \<Rightarrow> if sameResource api gvk name r then Some r else None)"
  by (auto simp: resourceAt_def addResource_def sameResource_def Let_def split: option.splits if_splits)

lemma resourceAt_fold:
  "resourceAt (fold (addResource api) rs m) gvk name =
     (case resourceAt m gvk name of Some x \<Rightarrow> Some x | None \<Rightarrow> find (sameResource api gvk name) rs)"
  by (induction rs arbitrary: m) (auto simp: resourceAt_addResource split: option.splits)

lemma resourceAt_toResourceMap:
  "resourceAt (toResourceMap api rs) gvk name = find (sameResource api gvk name) rs"
  unfolding toResourceMap_def by (subst resourceAt_fold) (simp add: resourceAt_def)

text \<open>A bundle counts as deployed exactly when every expected resource has an available one of the
  same group, version and kind and the same namespaced name.\<close>

lemma IsDeployed_iff:
  "ApplicationBundle_IsDeployed api bundle \<longleftrightarrow>
     (\<lambda>r. (raGroupVersionKind api r, namespacedName api r)) ` set (expectedResources bundle)
     \<subseteq> (\<lambda>r. (raGroupVersionKind api r, namespacedName api r)) ` set (availableResources bundle)"
proof -
  have "find (sameResource api (raGroupVersionKind api e) (namespacedName api e)) rs \<noteq> None \<longleftrightarrow>
      (\<exists>r\<in>set rs. raGroupVersionKind api r = raGroupVersionKind api e \<and> namespacedName api r = namespacedName api e)"
    for e rs
    by (auto simp: find_None_iff sameResource_def simp del: not_None_eq)
  then show ?thesis
    unfolding ApplicationBundle_IsDeployed_def Let_def resourceAt_toResourceMap list_all_iff
    by (simp only: image_subset_iff image_iff prod.inject) metis
qed

section \<open>The worst state\<close>

lemma foldLeft_total:
  "(\<And>item acc. snd (fn item acc) = None) \<Longrightarrow>
     foldLeft fn xs acc = (fold (\<lambda>item acc. fst (fn item acc)) xs acc, None)"
proof (induction xs arbitrary: acc)
  case (Cons x xs)
  obtain acc' where "fn x acc = (acc', None)" using Cons.prems [of x acc] by (metis prod.collapse)
  then show ?case using Cons.IH [OF Cons.prems] by simp
qed simp

definition worst :: "'r ResourceApi \<Rightarrow> HealthStatus list \<Rightarrow> HealthStatusCode \<Rightarrow> HealthStatusCode" where
  "worst api sts acc = fold (\<lambda>item acc. if raIsWorse api acc (hsStatus item) then hsStatus item else acc) sts acc"

lemma worst_foldLeft: "foldLeft (worseState api) sts acc = (worst api sts acc, None)"
  by (subst foldLeft_total) (simp_all add: worseState_def worst_def)

text \<open>What \<open>IsWorse\<close> documents: the codes are ordered by severity.\<close>

definition severity_order :: "'r ResourceApi \<Rightarrow> (HealthStatusCode \<Rightarrow> nat) \<Rightarrow> bool" where
  "severity_order api rank \<longleftrightarrow> (\<forall>a b. raIsWorse api a b \<longleftrightarrow> rank a < rank b)"

lemma worst_upper:
  assumes "severity_order api rank"
  shows "rank acc \<le> rank (worst api sts acc) \<and> (\<forall>h\<in>set sts. rank (hsStatus h) \<le> rank (worst api sts acc))"
proof (induction sts arbitrary: acc)
  case Nil
  then show ?case by (simp add: worst_def)
next
  case (Cons h sts)
  let ?acc = "if raIsWorse api acc (hsStatus h) then hsStatus h else acc"
  have "rank acc \<le> rank ?acc \<and> rank (hsStatus h) \<le> rank ?acc"
    using assms by (auto simp: severity_order_def)
  moreover have "worst api (h # sts) acc = worst api sts ?acc" by (simp add: worst_def)
  ultimately show ?case using Cons [of ?acc] by (auto simp del: if_split intro: le_trans)
qed

lemma worst_mem: "worst api sts acc = acc \<or> (\<exists>h\<in>set sts. worst api sts acc = hsStatus h)"
proof (induction sts arbitrary: acc)
  case (Cons h sts)
  let ?acc = "if raIsWorse api acc (hsStatus h) then hsStatus h else acc"
  have "worst api (h # sts) acc = worst api sts ?acc" by (simp add: worst_def)
  with Cons [of ?acc] show ?case by (auto split: if_splits)
qed (simp add: worst_def)

lemma collectState_mono:
  "foldLeft (collectState api m) es acc = (sts, None) \<Longrightarrow> set acc \<subseteq> set sts"
proof (induction es arbitrary: acc)
  case (Cons e es)
  obtain acc' where "collectState api m e acc = (acc', None)"
    using Cons.prems by (auto split: prod.splits option.splits)
  moreover from this have "set acc \<subseteq> set acc'"
    by (auto simp: collectState_def Let_def split: option.splits sum.splits)
  ultimately show ?case using Cons by (auto dest!: Cons.IH)
qed simp

lemma collectState_missing:
  assumes "foldLeft (collectState api m) es acc = (sts, None)" and "e \<in> set es"
    and "resourceAt m (raGroupVersionKind api e) (namespacedName api e) = None"
  shows "\<exists>h\<in>set sts. hsStatus h = HealthStatusMissing \<and> hsMessage h \<noteq> ''''"
  using assms(1,2)
proof (induction es arbitrary: acc)
  case (Cons x es)
  obtain acc' where x: "collectState api m x acc = (acc', None)"
    using Cons.prems by (auto split: prod.splits option.splits)
  then have rest: "foldLeft (collectState api m) es acc' = (sts, None)" using Cons.prems by simp
  show ?case
  proof (cases "x = e")
    case True
    then have "\<exists>h\<in>set acc'. hsStatus h = HealthStatusMissing \<and> hsMessage h \<noteq> ''''"
      using x assms(3) by (auto simp: collectState_def Let_def)
    then show ?thesis using collectState_mono [OF rest] by blast
  next
    case False
    then show ?thesis using Cons.IH [OF rest] Cons.prems by simp
  qed
qed simp

lemma DetermineState_cases:
  assumes "DetermineState api bundle = ((code, messages), None)"
  obtains sts where
    "foldLeft (collectState api (toResourceMap api (availableResources bundle)))
       (expectedResources bundle) [] = (sts, None)"
    and "code = worst api sts HealthStatusHealthy"
    and "messages = fst (foldLeft collectMessage sts [])"
  using assms by (auto simp: DetermineState_def Let_def worst_foldLeft split: prod.splits option.splits)


text \<open>A library with two kinds of resource, for the examples: the name is the resource.\<close>

definition sampleRank :: "HealthStatusCode \<Rightarrow> nat" where
  "sampleRank c = (if c = ''Healthy'' then 0 else if c = ''Progressing'' then 1
     else if c = ''Degraded'' then 2 else if c = ''Missing'' then 3 else 4)"

definition sampleApi :: "string ResourceApi" where
  "sampleApi = \<lparr>
     raGroupVersionKind = (\<lambda>_. \<lparr>gvkGroup = '''', gvkVersion = ''v1'', gvkKind = ''ConfigMap''\<rparr>),
     raNamespace = (\<lambda>_. ''default''), raName = (\<lambda>r. r),
     raResourceKey = (\<lambda>r. \<lparr>rkGroup = '''', rkKind = ''ConfigMap'', rkNamespace = ''default'', rkName = r\<rparr>),
     raLabels = (\<lambda>_. Map.empty), raChartVersionLabel = (\<lambda>_. Inr (Some ''1.0.0'')),
     raGetResourceHealth = (\<lambda>_. Inr None),
     raIsWorse = (\<lambda>a b. sampleRank a < sampleRank b),
     raKindString = gvkKind, raNameString = nnName\<rparr>"


end
