(* ===== verification/GlobalFsm.thy ===== *)
theory GlobalFsm
  imports LocalBundle
begin

text \<open>
  \<open>internal/controller/global/global_fsm.go\<close>: the state machine of the application as a whole, which
  the owner zone runs, and the operations on conditions that both state machines share. A state
  machine holds a pointer to the application; the global one only reads through it.
\<close>

section \<open>Conditions\<close>

definition getCondition ::
  "ConditionStatus list \<Rightarrow> ApplicationConditionType \<Rightarrow> string \<Rightarrow> ConditionStatus option" where
  "getCondition conditions conditionType zoneId =
     find (\<lambda>c. condType c = conditionType \<and> condZoneId c = zoneId) conditions"

text \<open>\<open>lo.Find\<close> returns a copy of the element, so the \<open>DeepCopyInto\<close> of the other branch writes
  into that copy: a condition already present stays as it is.\<close>

definition addOrUpdateCondition :: "ConditionStatus \<Rightarrow> string \<Rightarrow> AnyApplicationStatus \<Rightarrow> AnyApplicationStatus" where
  "addOrUpdateCondition condition zoneId st =
     (let (st', zoneStatus) = GetOrCreateStatusFor st zoneId
      in case find (sameCondition condition) (zsConditions zoneStatus) of
           None \<Rightarrow> WriteZone zoneId (appendCondition condition) st'
         | Some existing \<Rightarrow> st')"

definition removeCondition :: "ConditionStatus \<Rightarrow> string \<Rightarrow> AnyApplicationStatus \<Rightarrow> AnyApplicationStatus" where
  "removeCondition toRemove zoneId st =
     (case GetStatusFor st zoneId of
        None \<Rightarrow> st
      | Some _ \<Rightarrow>
          WriteZone zoneId
            (\<lambda>zs. zs\<lparr>zsConditions := filter (\<lambda>e. \<not> sameCondition toRemove e) (zsConditions zs)\<rparr>) st)"

definition setNewVersion ::
  "('v, 'c) Semver \<Rightarrow> 'v VersionPtr \<Rightarrow> string \<Rightarrow> AnyApplicationStatus \<Rightarrow> AnyApplicationStatus go" where
  "setNewVersion sv newVersion zoneId st =
     (let (st', _) = GetOrCreateStatusFor st zoneId
      in case newVersion of
           None \<Rightarrow> Inl NilPointerDereference
         | Some v \<Rightarrow> Inr (WriteZone zoneId (\<lambda>zs. zs\<lparr>zsChartVersion := SpecificVersion_ToString sv v\<rparr>) st'))"

section \<open>Failures and the global state\<close>

definition failedCondition :: "ConditionStatus \<Rightarrow> bool" where
  "failedCondition condition =
     (case condType condition of
        LocalConditionType \<Rightarrow>
          condStatus condition = HealthStatusDegraded \<or> condStatus condition = HealthStatusMissing
      | DeploymentConditionType \<Rightarrow>
          condStatus condition = DeploymentStatus_string DeploymentStatusFailure
      | UndeploymentConditionType \<Rightarrow>
          condStatus condition = UndeploymentStatus_string UndeploymentStatusFailure
      | _ \<Rightarrow> False)"

definition isFailureCondition :: "AnyApplication \<Rightarrow> bool" where
  "isFailureCondition application \<longleftrightarrow>
     int (length (filter (\<lambda>z. list_ex failedCondition (zsConditions z)) (stZones (appStatus application))))
       > recTolerance (specRecoverStrategy (appSpec application))"

definition placementExists :: "AnyApplicationStatus \<Rightarrow> bool" where
  "placementExists st \<longleftrightarrow> osPlacements (stOwnership st) \<noteq> None"

text \<open>Ranging over a nil slice is ranging over an empty one.\<close>

definition placementList :: "AnyApplicationStatus \<Rightarrow> Placement list" where
  "placementList st = (case osPlacements (stOwnership st) of None \<Rightarrow> [] | Some ps \<Rightarrow> ps)"

definition placementsContainZone :: "AnyApplicationStatus \<Rightarrow> string \<Rightarrow> bool" where
  "placementsContainZone st currentZone =
     (case osPlacements (stOwnership st) of
        None \<Rightarrow> False
      | Some ps \<Rightarrow> find (\<lambda>p. plZone p = currentZone) ps \<noteq> None)"

fun firstCondition ::
  "ConditionStatus list \<Rightarrow> string \<Rightarrow> ApplicationConditionType list \<Rightarrow> ConditionStatus option" where
  "firstCondition conditions zoneId [] = None"
| "firstCondition conditions zoneId (t # ts) =
     (case getCondition conditions t zoneId of
        Some c \<Rightarrow> Some c
      | None \<Rightarrow> firstCondition conditions zoneId ts)"

definition getHighestZoneCondition :: "ZoneStatus \<Rightarrow> string \<Rightarrow> ConditionStatus option" where
  "getHighestZoneCondition zoneStatus zoneId =
     firstCondition (zsConditions zoneStatus) zoneId
       [LocalConditionType, DeploymentConditionType, UndeploymentConditionType]"

definition placementState :: "AnyApplicationStatus \<Rightarrow> Placement \<Rightarrow> GlobalState \<Rightarrow> GlobalState" where
  "placementState st placement state =
     (case GetStatusFor st (plZone placement) of
        None \<Rightarrow> RelocationGlobalState
      | Some zoneStatus \<Rightarrow>
          (case getHighestZoneCondition zoneStatus (plZone placement) of
             Some condition \<Rightarrow>
               if condType condition = DeploymentConditionType \<or> condType condition = UndeploymentConditionType
               then RelocationGlobalState else state
           | None \<Rightarrow> RelocationGlobalState))"

definition getGlobalState :: "AnyApplicationStatus \<Rightarrow> GlobalState" where
  "getGlobalState st = fold (placementState st) (placementList st) OperationalGlobalState"

section \<open>The state machine\<close>

record ('v, 'j) GlobalFSM =
  gfApplication :: AnyApplication
  gfConfig :: ApplicationRuntimeConfig
  gfJobFactory :: "('v, 'j) AsyncJobFactory"
  gfApplicationPresent :: bool
  gfRunningJobType :: "AsyncJobType option"

definition NewGlobalFSM ::
  "AnyApplication \<Rightarrow> ApplicationRuntimeConfig \<Rightarrow> ('v, 'j) AsyncJobFactory \<Rightarrow> bool \<Rightarrow> AsyncJobType option
     \<Rightarrow> ('v, 'j) GlobalFSM" where
  "NewGlobalFSM application cfg fac present running =
     \<lparr>gfApplication = application, gfConfig = cfg, gfJobFactory = fac,
      gfApplicationPresent = present, gfRunningJobType = running\<rparr>"

definition GlobalFSM_isRunning :: "('v, 'j) GlobalFSM \<Rightarrow> AsyncJobType \<Rightarrow> bool" where
  "GlobalFSM_isRunning g jobType \<longleftrightarrow> gfRunningJobType g = Some jobType"

definition handlePlacementState :: "('v, 'j) GlobalFSM \<Rightarrow> ('v, 'j) NextStateResult" where
  "handlePlacementState g =
     (let spec = appSpec (gfApplication g);
          st = appStatus (gfApplication g);
          zone = cfgZoneId (gfConfig g);
          conditions = (case GetStatusFor st zone of None \<Rightarrow> [] | Some z \<Rightarrow> zsConditions z);
          condition = getCondition conditions PlacementConditionType zone
      in if psStrategy (specPlacementStrategy spec) = PlacementStrategyLocal then
           (if condition = None \<or> \<not> GlobalFSM_isRunning g AsyncJobTypeLocalPlacement then
              (let placementJob = facCreateLocalPlacementJob (gfJobFactory g) (gfApplication g)
               in noResult\<lparr>NextState := Some PlacementGlobalState,
                    ConditionsToAdd := Some (facGetStatus (gfJobFactory g) placementJob),
                    Jobs := \<lparr>JobsToAdd = Some placementJob, JobsToRemove = None\<rparr>\<rparr>)
            else if map_option condStatus condition = Some (PlacementStatus_string PlacementStatusFailure)
            then noResult\<lparr>NextState := Some FailureGlobalState\<rparr>
            else noResult\<lparr>NextState := Some PlacementGlobalState\<rparr>)
         else noResult\<lparr>NextState := Some PlacementGlobalState\<rparr>)"

definition handleFailureState :: "('v, 'j) GlobalFSM \<Rightarrow> ('v, 'j) NextStateResult" where
  "handleFailureState g = noResult\<lparr>NextState := Some FailureGlobalState\<rparr>"

definition GlobalFSM_NextState :: "('v, 'j) GlobalFSM \<Rightarrow> ('v, 'j) NextStateResult" where
  "GlobalFSM_NextState g =
     (let st = appStatus (gfApplication g)
      in if \<not> placementExists st then handlePlacementState g
         else if isFailureCondition (gfApplication g) then handleFailureState g
         else noResult\<lparr>NextState := Some (getGlobalState st)\<rparr>)"

section \<open>The condition operations stay in their zone\<close>

lemma addOrUpdateCondition_cases:
  "addOrUpdateCondition c k st =
     (case find (sameCondition c) (conditionsAt st k) of
        None \<Rightarrow> WriteZone k (appendCondition c) (ensureZone k st)
      | Some _ \<Rightarrow> ensureZone k st)"
  by (auto simp: addOrUpdateCondition_def GetOrCreateStatusFor_pair conditionsAt_def split: option.splits)

lemma removeCondition_write:
  "removeCondition r k st =
     WriteZone k (\<lambda>zs. zs\<lparr>zsConditions := filter (\<lambda>e. \<not> sameCondition r e) (zsConditions zs)\<rparr>) st"
  by (simp add: removeCondition_def GetStatusFor_def WriteZone_def update_first_none split: option.splits)

lemma onlyZone_addOrUpdateCondition [frame_simps]: "onlyZone k st (addOrUpdateCondition c k st)"
  by (auto simp: addOrUpdateCondition_cases frame_simps split: option.splits
      intro: onlyZone_trans [OF onlyZone_ensureZone onlyZone_WriteZone])

lemma onlyZone_removeCondition [frame_simps]: "onlyZone k st (removeCondition r k st)"
  by (simp add: removeCondition_write frame_simps)

lemma onlyZone_setNewVersion: "setNewVersion sv v k st = Inr st' \<Longrightarrow> onlyZone k st st'"
  by (auto simp: setNewVersion_def GetOrCreateStatusFor_pair split: option.splits
      intro: onlyZone_trans [OF onlyZone_ensureZone onlyZone_WriteZone])

lemma setNewVersion_panics: "setNewVersion sv v k st = Inl p \<longleftrightarrow> v = None \<and> p = NilPointerDereference"
  by (auto simp: setNewVersion_def case_prod_unfold split: option.splits)

lemma wf_status_addOrUpdateCondition [intro]: "wf_status st \<Longrightarrow> wf_status (addOrUpdateCondition c k st)"
  by (auto simp: addOrUpdateCondition_cases conditionsAt_def status_simps split: option.splits
      intro!: wf_status_WriteZone wf_zone_append)

lemma wf_zone_filter: "wf_zone z \<Longrightarrow> wf_zone (z\<lparr>zsConditions := filter P (zsConditions z)\<rparr>)"
  by (simp add: wf_zone_def distinct_map_filter)

lemma wf_status_removeCondition [intro]: "wf_status st \<Longrightarrow> wf_status (removeCondition r k st)"
  by (auto simp: removeCondition_write intro!: wf_status_WriteZone wf_zone_filter)

lemma wf_status_setNewVersion: "wf_status st \<Longrightarrow> setNewVersion sv v k st = Inr st' \<Longrightarrow> wf_status st'"
  by (auto simp: setNewVersion_def GetOrCreateStatusFor_pair wf_zone_def split: option.splits
      intro!: wf_status_WriteZone)

lemma conditionsAt_addOrUpdateCondition:
  "conditionsAt (addOrUpdateCondition c k st) k =
     (if find (sameCondition c) (conditionsAt st k) = None then conditionsAt st k @ [c]
      else conditionsAt st k)"
  by (auto simp: addOrUpdateCondition_cases conditionsAt_def status_simps appendCondition_def
      split: option.splits)

lemma conditionsAt_removeCondition:
  "conditionsAt (removeCondition r k st) k = filter (\<lambda>e. \<not> sameCondition r e) (conditionsAt st k)"
  by (auto simp: removeCondition_write conditionsAt_def status_simps split: option.splits)

text \<open>\<open>addOrUpdateCondition\<close> never updates: when the zone already holds a condition of that type and
  zone, its conditions are unchanged, whatever the new status, reason or message is.\<close>

lemma addOrUpdateCondition_keeps_existing:
  assumes "find (sameCondition c) (conditionsAt st k) = Some old"
  shows "conditionsAt (addOrUpdateCondition c k st) k = conditionsAt st k"
  using assms by (simp add: conditionsAt_addOrUpdateCondition)

lemma addOrUpdateCondition_keeps_existing_example:
  "conditionsAt (addOrUpdateCondition (sampleCondition LocalConditionType ''Degraded'' 9) ''z''
     \<lparr>stOwnership = sampleOwnership NewGlobalState None,
      stZones = [sampleZone\<lparr>zsConditions := [sampleCondition LocalConditionType ''Healthy'' 4]\<rparr>]\<rparr>) ''z''
   = [sampleCondition LocalConditionType ''Healthy'' 4]"
proof -
  let ?st = "\<lparr>stOwnership = sampleOwnership NewGlobalState None,
      stZones = [sampleZone\<lparr>zsConditions := [sampleCondition LocalConditionType ''Healthy'' 4]\<rparr>]\<rparr>"
  have c: "conditionsAt ?st ''z'' = [sampleCondition LocalConditionType ''Healthy'' 4]"
    by (simp add: conditionsAt_def GetStatusFor_def isZone_def sampleZone_def)
  have "find (sameCondition (sampleCondition LocalConditionType ''Degraded'' 9)) (conditionsAt ?st ''z'')
      = Some (sampleCondition LocalConditionType ''Healthy'' 4)"
    unfolding c by (simp add: sameCondition_def sampleCondition_def)
  from addOrUpdateCondition_keeps_existing [OF this] c show ?thesis by simp
qed

section \<open>What the global state says\<close>

lemma getCondition_props:
  "getCondition cs t k = Some c \<Longrightarrow> c \<in> set cs \<and> condType c = t \<and> condZoneId c = k"
  by (auto simp: getCondition_def dest: find_Some_set)

lemma getCondition_None: "getCondition cs t k = None \<longleftrightarrow> (\<forall>c\<in>set cs. \<not> (condType c = t \<and> condZoneId c = k))"
  by (auto simp: getCondition_def find_None_iff)

text \<open>A placement's zone is settled when it reports a local condition of its own.\<close>

definition settledZone :: "AnyApplicationStatus \<Rightarrow> string \<Rightarrow> bool" where
  "settledZone st k \<longleftrightarrow> (\<exists>c\<in>set (conditionsAt st k). condType c = LocalConditionType \<and> condZoneId c = k)"

lemma placementState_settled:
  "placementState st p s = (if settledZone st (plZone p) then s else RelocationGlobalState)"
proof (cases "GetStatusFor st (plZone p)")
  case None
  then show ?thesis by (simp add: placementState_def settledZone_def conditionsAt_def)
next
  case (Some z)
  then have "settledZone st (plZone p) \<longleftrightarrow> getCondition (zsConditions z) LocalConditionType (plZone p) \<noteq> None"
    by (auto simp: settledZone_def conditionsAt_def getCondition_None simp del: not_None_eq)
  then show ?thesis
    by (auto simp: placementState_def Some getHighestZoneCondition_def split: option.splits
        dest: getCondition_props)
qed

lemma fold_placementState:
  "fold (placementState st) ps s =
     (if \<forall>p\<in>set ps. settledZone st (plZone p) then s else RelocationGlobalState)"
  by (induction ps arbitrary: s) (auto simp: placementState_settled)

text \<open>C29: the global state of an owner with placements is \<open>Failure\<close> exactly when more zones hold a failed
  condition than are tolerated; otherwise it is \<open>Operational\<close> exactly when every placement's zone
  reports a local condition, and \<open>Relocation\<close> when one does not. No job is scheduled and no
  condition touched.\<close>

theorem GlobalFSM_state_table:
  assumes "placementExists (appStatus (gfApplication g))"
  shows "GlobalFSM_NextState g = noResult\<lparr>NextState := Some
     (if int (card {i. i < length (stZones (appStatus (gfApplication g))) \<and>
            (\<exists>c\<in>set (zsConditions (stZones (appStatus (gfApplication g)) ! i)). failedCondition c)})
         > recTolerance (specRecoverStrategy (appSpec (gfApplication g)))
      then FailureGlobalState
      else if \<forall>p\<in>set (placementList (appStatus (gfApplication g))).
                settledZone (appStatus (gfApplication g)) (plZone p)
      then OperationalGlobalState else RelocationGlobalState)\<rparr>"
  using assms
  by (auto simp: GlobalFSM_NextState_def Let_def handleFailureState_def isFailureCondition_def
      getGlobalState_def fold_placementState length_filter_conv_card list_ex_iff)

definition sampleConfig :: ApplicationRuntimeConfig where
  "sampleConfig = \<lparr>cfgZoneId = ''z'', cfgPollOperationalStatusInterval = 1, cfgPollSyncStatusInterval = 1,
     cfgChartVersionPollInterval = 1, cfgDefaultSyncTimeout = 10, cfgDefaultUndeployTimeout = 10\<rparr>"

definition sampleGlobalFSM :: "AnyApplicationStatus \<Rightarrow> (unit, unit AsyncJob) GlobalFSM" where
  "sampleGlobalFSM st = NewGlobalFSM (sampleApp st) sampleConfig
     (AsyncJobFactoryImpl (\<lambda>_. None) sampleConfig 0 0) True None"

theorem GlobalFSM_state_table_witness:
  "NextState (GlobalFSM_NextState (sampleGlobalFSM
     \<lparr>stOwnership = sampleOwnership NewGlobalState (Some [\<lparr>plZone = ''z'', plNodeAffinity = []\<rparr>]),
      stZones = [sampleZone\<lparr>zsConditions := [sampleCondition LocalConditionType ''Healthy'' 4]\<rparr>]\<rparr>))
   = Some OperationalGlobalState"
proof -
  let ?st = "\<lparr>stOwnership = sampleOwnership NewGlobalState (Some [\<lparr>plZone = ''z'', plNodeAffinity = []\<rparr>]),
      stZones = [sampleZone\<lparr>zsConditions := [sampleCondition LocalConditionType ''Healthy'' 4]\<rparr>]\<rparr>"
  have p: "placementExists (appStatus (gfApplication (sampleGlobalFSM ?st)))"
    by (simp add: placementExists_def sampleGlobalFSM_def NewGlobalFSM_def sample_defs)
  have st: "appStatus (gfApplication (sampleGlobalFSM ?st)) = ?st"
    by (simp add: sampleGlobalFSM_def NewGlobalFSM_def sampleApp_def)
  have tol: "recTolerance (specRecoverStrategy (appSpec (gfApplication (sampleGlobalFSM ?st)))) = 1"
    by (simp add: sampleGlobalFSM_def NewGlobalFSM_def sampleApp_def sampleSpec_def)
  have none: "{i. i < length (stZones ?st) \<and> (\<exists>c\<in>set (zsConditions (stZones ?st ! i)). failedCondition c)} = {}"
    by (auto simp: sample_defs failedCondition_def health_defs)
  have settled: "\<forall>p\<in>set (placementList ?st). settledZone ?st (plZone p)"
    by (simp add: sample_defs placementList_def settledZone_def conditionsAt_def GetStatusFor_def isZone_def)
  show ?thesis
    using GlobalFSM_state_table [OF p] settled unfolding st tol none by simp
qed

end
