(* ===== verification/LocalFsm.thy ===== *)
theory LocalFsm
  imports GlobalFsm
begin

text \<open>
  \<open>internal/controller/global/local_fsm.go\<close>: the state machine of the application in this zone. Its
  handlers write through the pointer to the application when they create the zone's status, so
  a step returns the application with the result. The last section states what the machine
  decides as a table over five facts and shows that the code refines it.
\<close>

record ('v, 'j) LocalFSM =
  lfApplication :: AnyApplication
  lfRecoverStrategy :: RecoverStrategySpec
  lfConfig :: ApplicationRuntimeConfig
  lfJobFactory :: "('v, 'j) AsyncJobFactory"
  lfApplicationPresent :: bool
  lfApplicationDeployed :: bool
  lfNonActiveVersionsPresent :: bool
  lfVersion :: "'v VersionPtr"
  lfNewVersion :: "'v VersionPtr option"
  lfRunningJobType :: "AsyncJobType option"

definition NewLocalFSM ::
  "AnyApplication \<Rightarrow> ApplicationRuntimeConfig \<Rightarrow> ('v, 'j) AsyncJobFactory \<Rightarrow> bool \<Rightarrow> bool \<Rightarrow> bool
     \<Rightarrow> 'v VersionPtr \<Rightarrow> 'v VersionPtr option \<Rightarrow> AsyncJobType option \<Rightarrow> ('v, 'j) LocalFSM" where
  "NewLocalFSM application cfg fac present deployed nonActive v newVersion running =
     \<lparr>lfApplication = application,
      lfRecoverStrategy = specRecoverStrategy (appSpec application),
      lfConfig = cfg, lfJobFactory = fac,
      lfApplicationPresent = present, lfApplicationDeployed = deployed,
      lfNonActiveVersionsPresent = nonActive,
      lfVersion = v, lfNewVersion = newVersion, lfRunningJobType = running\<rparr>"

definition LocalFSM_isRunning :: "('v, 'j) LocalFSM \<Rightarrow> AsyncJobType \<Rightarrow> bool" where
  "LocalFSM_isRunning g jobType \<longleftrightarrow> lfRunningJobType g = Some jobType"

definition addConditionToRemoveList ::
  "ConditionStatus list \<Rightarrow> ConditionStatus list \<Rightarrow> ApplicationConditionType \<Rightarrow> string \<Rightarrow> ConditionStatus list" where
  "addConditionToRemoveList conditionsToRemove conditions conditionType zoneId =
     (case getCondition conditions conditionType zoneId of
        None \<Rightarrow> conditionsToRemove
      | Some condition \<Rightarrow> conditionsToRemove @ [condition])"

text \<open>The status the three handlers start from: \<open>GetOrCreateStatusFor\<close> through the pointer.\<close>

definition zoneOf :: "('v, 'j) LocalFSM \<Rightarrow> AnyApplication \<times> ZoneStatus" where
  "zoneOf g =
     (let (st, z) = GetOrCreateStatusFor (appStatus (lfApplication g)) (cfgZoneId (lfConfig g))
      in ((lfApplication g)\<lparr>appStatus := st\<rparr>, z))"

definition attemptsExhausted :: "('v, 'j) LocalFSM \<Rightarrow> string \<Rightarrow> ConditionStatus option \<Rightarrow> bool" where
  "attemptsExhausted g failure found =
     (case found of
        None \<Rightarrow> False
      | Some c \<Rightarrow> condStatus c = failure \<and> condRetryAttempt c \<ge> recMaxRetries (lfRecoverStrategy g))"

definition handleOperation :: "('v, 'j) LocalFSM \<Rightarrow> AnyApplication \<times> ('v, 'j) NextStateResult" where
  "handleOperation g =
     (let zone = cfgZoneId (lfConfig g);
          (application, z) = zoneOf g;
          conditionsToRemove =
            addConditionToRemoveList [] (zsConditions z) UndeploymentConditionType zone
      in if lfApplicationDeployed g \<and> \<not> LocalFSM_isRunning g AsyncJobTypeLocalOperation then
           (let operationJob = facCreateOperationJob (lfJobFactory g) application
            in (application,
                noResult\<lparr>ConditionsToAdd := Some (facGetStatus (lfJobFactory g) operationJob),
                  ConditionsToRemove := conditionsToRemove,
                  Jobs := \<lparr>JobsToAdd = Some operationJob, JobsToRemove = None\<rparr>\<rparr>))
         else
           (application,
            noResult\<lparr>ConditionsToRemove :=
              (if LocalFSM_isRunning g AsyncJobTypeLocalOperation \<or> length conditionsToRemove > 0
               then addConditionToRemoveList conditionsToRemove (zsConditions z) DeploymentConditionType zone
               else conditionsToRemove)\<rparr>))"

text \<open>When no deployment job is started, the last branch of the code reaches \<open>handleOperation\<close> only
  for an application that is deployed and has no new version.\<close>

definition handleDeploy :: "('v, 'j) LocalFSM \<Rightarrow> AnyApplication \<times> ('v, 'j) NextStateResult" where
  "handleDeploy g =
     (let zone = cfgZoneId (lfConfig g);
          (application, z) = zoneOf g;
          conditionsToRemove =
            addConditionToRemoveList
              (addConditionToRemoveList [] (zsConditions z) LocalConditionType zone)
              (zsConditions z) UndeploymentConditionType zone;
          unchanged = (application, noResult\<lparr>ConditionsToRemove := conditionsToRemove\<rparr>)
      in if \<not> lfApplicationDeployed g \<or> lfNewVersion g \<noteq> None then
           (if \<not> LocalFSM_isRunning g AsyncJobTypeDeploy then
              (if \<not> attemptsExhausted g (DeploymentStatus_string DeploymentStatusFailure)
                     (FindCondition z DeploymentConditionType) then
                 (let v = (case lfNewVersion g of Some newVersion \<Rightarrow> newVersion | None \<Rightarrow> lfVersion g);
                      deployJob = facCreateDeployJob (lfJobFactory g) application v
                  in (application,
                      noResult\<lparr>ConditionsToAdd := Some (facGetStatus (lfJobFactory g) deployJob),
                        ConditionsToRemove := conditionsToRemove,
                        Jobs := \<lparr>JobsToAdd = Some deployJob, JobsToRemove = None\<rparr>,
                        NewVersion := lfNewVersion g\<rparr>))
               else unchanged)
            else unchanged)
         else if lfApplicationDeployed g then handleOperation (g\<lparr>lfApplication := application\<rparr>)
         else unchanged)"

definition handleUndeploy :: "('v, 'j) LocalFSM \<Rightarrow> AnyApplication \<times> ('v, 'j) NextStateResult" where
  "handleUndeploy g =
     (let zone = cfgZoneId (lfConfig g);
          (application, z) = zoneOf g;
          conditionsToRemove =
            addConditionToRemoveList
              (addConditionToRemoveList [] (zsConditions z) LocalConditionType zone)
              (zsConditions z) DeploymentConditionType zone;
          undeploymentCondition = FindCondition z UndeploymentConditionType;
          exhausted = attemptsExhausted g (UndeploymentStatus_string UndeploymentStatusFailure)
                        undeploymentCondition
      in if \<not> LocalFSM_isRunning g AsyncJobTypeUndeploy \<and> lfApplicationPresent g \<and> \<not> exhausted then
           (let undeployJob = facCreateUndeployJob (lfJobFactory g) application
            in (application,
                noResult\<lparr>ConditionsToAdd := Some (facGetStatus (lfJobFactory g) undeployJob),
                  ConditionsToRemove := conditionsToRemove,
                  Jobs := \<lparr>JobsToAdd = Some undeployJob, JobsToRemove = None\<rparr>,
                  NewVersion := (if lfNewVersion g \<noteq> None then Some (lfVersion g) else None)\<rparr>))
         else
           (application,
            noResult\<lparr>ConditionsToRemove :=
              (if map_option condStatus undeploymentCondition
                    = Some (UndeploymentStatus_string UndeploymentStatusDone)
               then addConditionToRemoveList conditionsToRemove (zsConditions z) UndeploymentConditionType zone
               else conditionsToRemove)\<rparr>))"

definition LocalFSM_NextState :: "('v, 'j) LocalFSM \<Rightarrow> AnyApplication \<times> ('v, 'j) NextStateResult" where
  "LocalFSM_NextState g =
     (let st = appStatus (lfApplication g);
          placed = placementsContainZone st (cfgZoneId (lfConfig g));
          undeployOldVersion = lfApplicationPresent g \<and> lfNewVersion g \<noteq> None
      in if \<not> placed \<and> lfApplicationPresent g \<or> lfNonActiveVersionsPresent g \<or> undeployOldVersion
         then handleUndeploy g
         else if placed then
           (if \<not> lfApplicationDeployed g then handleDeploy g else handleOperation g)
         else if \<not> placed \<and> \<not> lfApplicationDeployed g \<and> \<not> lfApplicationPresent g then
           (case GetStatusFor st (cfgZoneId (lfConfig g)) of
              Some z \<Rightarrow> (lfApplication g, noResult\<lparr>ConditionsToRemove := zsConditions z\<rparr>)
            | None \<Rightarrow> (lfApplication g, noResult))
         else (lfApplication g, noResult))"

section \<open>A step touches its own zone only\<close>

lemma zoneOf_pair:
  "zoneOf g = ((lfApplication g)\<lparr>appStatus := ensureZone (cfgZoneId (lfConfig g)) (appStatus (lfApplication g))\<rparr>,
     case GetStatusFor (appStatus (lfApplication g)) (cfgZoneId (lfConfig g)) of
       None \<Rightarrow> newZoneStatus (cfgZoneId (lfConfig g)) | Some z \<Rightarrow> z)"
  by (simp add: zoneOf_def GetOrCreateStatusFor_pair)

lemma ensureZone_idem [simp]: "ensureZone k (ensureZone k st) = ensureZone k st"
  by (subst ensureZone_cases) (simp add: status_simps)

text \<open>A step either leaves the application alone or creates the zone.\<close>

lemma handleOperation_app:
  "fst (handleOperation g) =
     (lfApplication g)\<lparr>appStatus := ensureZone (cfgZoneId (lfConfig g)) (appStatus (lfApplication g))\<rparr>"
  by (simp add: handleOperation_def zoneOf_pair Let_def)

lemma handleDeploy_app:
  "fst (handleDeploy g) =
     (lfApplication g)\<lparr>appStatus := ensureZone (cfgZoneId (lfConfig g)) (appStatus (lfApplication g))\<rparr>"
  by (simp add: handleDeploy_def zoneOf_pair Let_def handleOperation_app)

lemma handleUndeploy_app:
  "fst (handleUndeploy g) =
     (lfApplication g)\<lparr>appStatus := ensureZone (cfgZoneId (lfConfig g)) (appStatus (lfApplication g))\<rparr>"
  by (simp add: handleUndeploy_def zoneOf_pair Let_def)

lemma LocalFSM_NextState_app:
  "fst (LocalFSM_NextState g) = lfApplication g
   \<or> fst (LocalFSM_NextState g) =
       (lfApplication g)\<lparr>appStatus := ensureZone (cfgZoneId (lfConfig g)) (appStatus (lfApplication g))\<rparr>"
  by (simp add: LocalFSM_NextState_def Let_def handleOperation_app handleDeploy_app handleUndeploy_app
      split: option.splits)

section \<open>The decision table\<close>

text \<open>What the machine is to decide, over whether the zone is a placement, whether the active version
  is present and deployed, whether another version is present or a new one known, what is
  running, and whether the retries of the deployment or undeployment are used up.\<close>

datatype LocalDecision = StartUndeploy | StartDeploy | StartOperation | StartNothing

record LocalFacts =
  factPlaced :: bool
  factPresent :: bool
  factDeployed :: bool
  factStale :: bool
  factRunning :: "AsyncJobType option"
  factUndeployExhausted :: bool
  factDeployExhausted :: bool

definition localDecision :: "LocalFacts \<Rightarrow> LocalDecision" where
  "localDecision f =
     (if factStale f \<or> (factPresent f \<and> \<not> factPlaced f) then
        (if factPresent f \<and> factRunning f \<noteq> Some AsyncJobTypeUndeploy \<and> \<not> factUndeployExhausted f
         then StartUndeploy else StartNothing)
      else if \<not> factPlaced f then StartNothing
      else if factDeployed f then
        (if factRunning f \<noteq> Some AsyncJobTypeLocalOperation then StartOperation else StartNothing)
      else
        (if factRunning f \<noteq> Some AsyncJobTypeDeploy \<and> \<not> factDeployExhausted f
         then StartDeploy else StartNothing))"

fun decisionType :: "LocalDecision \<Rightarrow> AsyncJobType option" where
  "decisionType StartUndeploy = Some AsyncJobTypeUndeploy"
| "decisionType StartDeploy = Some AsyncJobTypeDeploy"
| "decisionType StartOperation = Some AsyncJobTypeLocalOperation"
| "decisionType StartNothing = None"

definition localFacts :: "('v, 'j) LocalFSM \<Rightarrow> LocalFacts" where
  "localFacts g =
     (let st = appStatus (lfApplication g);
          k = cfgZoneId (lfConfig g);
          known = (\<lambda>t. find (\<lambda>c. condType c = t) (conditionsAt st k))
      in \<lparr>factPlaced = (k \<in> plZone ` set (placementList st)),
          factPresent = lfApplicationPresent g,
          factDeployed = lfApplicationDeployed g,
          factStale = (lfNonActiveVersionsPresent g \<or> (lfApplicationPresent g \<and> lfNewVersion g \<noteq> None)),
          factRunning = lfRunningJobType g,
          factUndeployExhausted = attemptsExhausted g ''Failure'' (known UndeploymentConditionType),
          factDeployExhausted = attemptsExhausted g ''Failure'' (known DeploymentConditionType)\<rparr>)"

lemma placementsContainZone_iff: "placementsContainZone st k \<longleftrightarrow> k \<in> plZone ` set (placementList st)"
  by (auto simp: placementsContainZone_def placementList_def find_None_iff split: option.splits)

lemma FindCondition_zoneOf:
  "FindCondition (snd (zoneOf g)) t =
     find (\<lambda>c. condType c = t) (conditionsAt (appStatus (lfApplication g)) (cfgZoneId (lfConfig g)))"
  by (simp add: zoneOf_pair FindCondition_def conditionsAt_def split: option.splits)

context job_factory begin

text \<open>The job a handler starts is one of its own kind, and its condition is the one to add.\<close>

definition startedType :: "('v, 'j) NextStateResult \<Rightarrow> AsyncJobType option" where
  "startedType r = map_option (facGetType fac) (JobsToAdd (Jobs r))"

lemma undeploy_decision:
  "lfJobFactory g = fac \<Longrightarrow> startedType (snd (handleUndeploy g)) =
     (if factPresent (localFacts g) \<and> factRunning (localFacts g) \<noteq> Some AsyncJobTypeUndeploy
         \<and> \<not> factUndeployExhausted (localFacts g) then Some AsyncJobTypeUndeploy else None)"
  using FindCondition_zoneOf [of g]
  by (auto simp: handleUndeploy_def case_prod_unfold Let_def startedType_def noResult_def noJobs_def
      undeploy_type localFacts_def LocalFSM_isRunning_def)

lemma deploy_decision:
  "lfJobFactory g = fac \<Longrightarrow> \<not> lfApplicationDeployed g \<Longrightarrow> startedType (snd (handleDeploy g)) =
     (if factRunning (localFacts g) \<noteq> Some AsyncJobTypeDeploy \<and> \<not> factDeployExhausted (localFacts g)
      then Some AsyncJobTypeDeploy else None)"
  using FindCondition_zoneOf [of g]
  by (auto simp: handleDeploy_def case_prod_unfold Let_def startedType_def noResult_def noJobs_def
      deploy_type localFacts_def LocalFSM_isRunning_def)

lemma operation_decision:
  "lfJobFactory g = fac \<Longrightarrow> lfApplicationDeployed g \<Longrightarrow> startedType (snd (handleOperation g)) =
     (if factRunning (localFacts g) \<noteq> Some AsyncJobTypeLocalOperation
      then Some AsyncJobTypeLocalOperation else None)"
  by (simp add: handleOperation_def case_prod_unfold Let_def startedType_def noResult_def noJobs_def
      operation_type localFacts_def LocalFSM_isRunning_def)

lemma local_decision:
  assumes "lfJobFactory g = fac"
  shows "startedType (snd (LocalFSM_NextState g)) = decisionType (localDecision (localFacts g))"
proof -
  have f: "factPlaced (localFacts g) = placementsContainZone (appStatus (lfApplication g)) (cfgZoneId (lfConfig g))"
    "factPresent (localFacts g) = lfApplicationPresent g" "factDeployed (localFacts g) = lfApplicationDeployed g"
    "factStale (localFacts g) =
       (lfNonActiveVersionsPresent g \<or> (lfApplicationPresent g \<and> lfNewVersion g \<noteq> None))"
    by (simp_all add: localFacts_def Let_def placementsContainZone_iff)
  have none: "startedType noResult = None" "startedType (noResult\<lparr>ConditionsToRemove := cs\<rparr>) = None" for cs
    by (simp_all add: startedType_def noResult_def noJobs_def)
  show ?thesis
    using undeploy_decision [OF assms] deploy_decision [OF assms] operation_decision [OF assms]
    by (simp add: LocalFSM_NextState_def Let_def localDecision_def f none split: option.splits)
qed

lemma local_result:
  assumes "lfJobFactory g = fac" and "LocalFSM_NextState g = (a', r)"
  shows "ConditionsToAdd r = map_option (facGetStatus fac) (JobsToAdd (Jobs r))
     \<and> JobsToRemove (Jobs r) = None \<and> NextState r = None
     \<and> (\<forall>j. JobsToAdd (Jobs r) = Some j \<longrightarrow> created a' j)"
  using assms
  by (auto simp: LocalFSM_NextState_def handleUndeploy_def handleDeploy_def handleOperation_def
      case_prod_unfold Let_def noResult_def noJobs_def created_def split: option.splits if_splits)

end

text \<open>C1: the local state machine refines its decision table: the type of the job it schedules is the
  one the table gives for the facts read off the machine, and no job where the table starts
  none.\<close>

theorem LocalFSM_refines_decision:
  "map_option GetType (JobsToAdd (Jobs (snd (LocalFSM_NextState
       (NewLocalFSM application cfg (AsyncJobFactoryImpl pd cfg start reading) present deployed
          nonActive v newVersion running)))))
   = decisionType (localDecision (localFacts
       (NewLocalFSM application cfg (AsyncJobFactoryImpl pd cfg start reading) present deployed
          nonActive v newVersion running)))"
proof -
  let ?g = "NewLocalFSM application cfg (AsyncJobFactoryImpl pd cfg start reading) present deployed
          nonActive v newVersion running"
  have "lfJobFactory ?g = AsyncJobFactoryImpl pd cfg start reading" by (simp add: NewLocalFSM_def)
  from impl.local_decision [OF this] show ?thesis
    by (simp add: impl.startedType_def)
qed

text \<open>The retry bound of the recover strategy is not enforced on the jobs' own reports: a condition
  as the deployment and undeployment jobs write it never counts as exhausted while
  \<open>MaxRetries\<close> is positive, failed or not.\<close>

lemma jobs_never_exhaust_retries:
  assumes "0 < recMaxRetries (lfRecoverStrategy g)"
  shows "\<not> attemptsExhausted g failure (Some (DeployJob_GetStatus now d))
    \<and> \<not> attemptsExhausted g failure (Some (UndeployJob_GetStatus now u))"
  using assms by (simp add: attemptsExhausted_def DeployJob_GetStatus_def UndeployJob_GetStatus_def)

lemma jobs_never_exhaust_retries_example:
  "\<not> attemptsExhausted (NewLocalFSM (sampleApp \<lparr>stOwnership = sampleOwnership NewGlobalState None, stZones = []\<rparr>)
        sampleConfig (AsyncJobFactoryImpl (\<lambda>_. None) sampleConfig 0 0 :: (unit, unit AsyncJob) AsyncJobFactory)
        True True False None None None)
     ''Failure''
     (Some (UndeployJob_GetStatus 9 (NewUndeployJob 0 sampleConfig
        (sampleApp \<lparr>stOwnership = sampleOwnership NewGlobalState None, stZones = []\<rparr>)
        \<lparr>ujStatus := UndeploymentStatusFailure, ujAttempt := 3\<rparr>)))"
  by (rule jobs_never_exhaust_retries [THEN conjunct2]) (simp add: NewLocalFSM_def sample_defs)

end
