(* ===== verification/GlobalApplication.thy ===== *)
theory GlobalApplication
  imports LocalFsm
begin

text \<open>
  \<open>internal/controller/global/global_application.go\<close>: one reconciliation pass over the status of an
  application, \<open>DeriveNewStatus\<close>, which runs the local and the global state machine and merges the
  jobs they schedule. The pass mutates the application through a pointer, so every function
  returns it. The Go map of local applications, keyed by version, is an association list with
  distinct keys. \<open>activeVersion\<close> is never a present nil pointer (\<open>GetTargetVersion\<close> parses it), while
  \<open>newVersion\<close> may be one. The clock reading of \<open>GetCondition\<close> is the argument \<open>now\<close>.
\<close>

record ('v, 'r) GlobalApplication =
  gaLocalApplications :: "('v SpecificVersion \<times> ('v, 'r) LocalApplication) list"
  gaActiveVersion :: "'v SpecificVersion option"
  gaNewVersion :: "'v VersionPtr option"
  gaApplication :: AnyApplication
  gaConfig :: ApplicationRuntimeConfig

definition NewFromLocalApplication ::
  "('v SpecificVersion \<times> ('v, 'r) LocalApplication) list \<Rightarrow> 'v SpecificVersion option
     \<Rightarrow> 'v VersionPtr option \<Rightarrow> AnyApplication \<Rightarrow> ApplicationRuntimeConfig \<Rightarrow> ('v, 'r) GlobalApplication" where
  "NewFromLocalApplication localApplications active new application cfg =
     \<lparr>gaLocalApplications = localApplications, gaActiveVersion = active, gaNewVersion = new,
      gaApplication = application, gaConfig = cfg\<rparr>"

definition GetName :: "('v, 'r) GlobalApplication \<Rightarrow> string" where
  "GetName g = appName (gaApplication g)"

definition GetNamespace :: "('v, 'r) GlobalApplication \<Rightarrow> string" where
  "GetNamespace g = appNamespace (gaApplication g)"

definition getActiveApplication :: "('v, 'r) GlobalApplication \<Rightarrow> ('v, 'r) LocalApplication option" where
  "getActiveApplication g =
     (case gaActiveVersion g of
        None \<Rightarrow> None
      | Some v \<Rightarrow> map_of (gaLocalApplications g) v)"

definition GlobalApplication_IsDeployed :: "'r ResourceApi \<Rightarrow> ('v, 'r) GlobalApplication \<Rightarrow> bool" where
  "GlobalApplication_IsDeployed api g =
     (case gaActiveVersion g of
        None \<Rightarrow> False
      | Some v \<Rightarrow>
          (case map_of (gaLocalApplications g) v of
             None \<Rightarrow> False
           | Some localApplication \<Rightarrow> LocalApplication_IsDeployed api localApplication))"

definition IsPresent :: "('v, 'r) GlobalApplication \<Rightarrow> bool" where
  "IsPresent g =
     (case gaActiveVersion g of
        None \<Rightarrow> False
      | Some v \<Rightarrow> map_of (gaLocalApplications g) v \<noteq> None)"

definition NonActiveVersionsPresent :: "('v, 'r) GlobalApplication \<Rightarrow> bool" where
  "NonActiveVersionsPresent g =
     (let versions = map fst (gaLocalApplications g);
          remaining = (case gaActiveVersion g of
                         None \<Rightarrow> versions
                       | Some v \<Rightarrow> filter (\<lambda>w. w \<noteq> v) versions)
      in length remaining > 0)"

definition IsVersionChanged :: "('v, 'r) GlobalApplication \<Rightarrow> bool" where
  "IsVersionChanged g \<longleftrightarrow> gaNewVersion g \<noteq> None"

definition GlobalApplication_HasZoneStatus :: "('v, 'r) GlobalApplication \<Rightarrow> bool" where
  "GlobalApplication_HasZoneStatus g = HasZoneStatus (gaApplication g) (cfgZoneId (gaConfig g))"

text \<open>\<open>None\<close> is the error.\<close>

definition deriveTargetVersion :: "('v, 'r) GlobalApplication \<Rightarrow> 'v VersionPtr option" where
  "deriveTargetVersion g =
     (case gaNewVersion g of
        Some v \<Rightarrow> Some v
      | None \<Rightarrow> map_option Some (gaActiveVersion g))"

section \<open>The two machines applied\<close>

text \<open>The loops over the conditions to remove and the one to add.\<close>

definition removeListed :: "ConditionStatus list \<Rightarrow> string \<Rightarrow> AnyApplicationStatus \<Rightarrow> AnyApplicationStatus" where
  "removeListed toRemove zoneId st = fold (\<lambda>c. removeCondition c zoneId) toRemove st"

definition addCondition :: "ConditionStatus option \<Rightarrow> string \<Rightarrow> AnyApplicationStatus \<Rightarrow> AnyApplicationStatus" where
  "addCondition toAdd zoneId st =
     (case toAdd of None \<Rightarrow> st | Some c \<Rightarrow> addOrUpdateCondition c zoneId st)"

definition hasJobs :: "'j NextJobs \<Rightarrow> bool" where
  "hasJobs jobs \<longleftrightarrow> JobsToAdd jobs \<noteq> None \<or> JobsToRemove jobs \<noteq> None"

definition localStateMachine ::
  "('v, 'c) Semver \<Rightarrow> AnyApplication \<Rightarrow> ApplicationRuntimeConfig \<Rightarrow> ('v, 'j) AsyncJobFactory \<Rightarrow> bool \<Rightarrow> bool
     \<Rightarrow> bool \<Rightarrow> 'v VersionPtr \<Rightarrow> 'v VersionPtr option \<Rightarrow> AsyncJobType option
     \<Rightarrow> (AnyApplication \<times> bool \<times> 'j NextJobs) go" where
  "localStateMachine sv application cfg fac present deployed nonActive v newVersion running =
     (let zone = cfgZoneId cfg;
          fsm = NewLocalFSM application cfg fac present deployed nonActive v newVersion running;
          (application1, r) = LocalFSM_NextState fsm;
          st = addCondition (ConditionsToAdd r) zone
                 (removeListed (ConditionsToRemove r) zone (appStatus application1));
          jobs = Jobs r;
          stateUpdated = (ConditionsToRemove r \<noteq> [] \<or> ConditionsToAdd r \<noteq> None \<or> NewVersion r \<noteq> None
                          \<or> hasJobs jobs)
      in go_bind
           (case NewVersion r of
              None \<Rightarrow> Inr st
            | Some ver \<Rightarrow> setNewVersion sv ver zone st)
           (\<lambda>st'. Inr (application1\<lparr>appStatus := st'\<rparr>, stateUpdated, jobs)))"

definition globalStateMachine ::
  "AnyApplication \<Rightarrow> ApplicationRuntimeConfig \<Rightarrow> ('v, 'j) AsyncJobFactory \<Rightarrow> bool \<Rightarrow> AsyncJobType option
     \<Rightarrow> AnyApplication \<times> bool \<times> 'j NextJobs" where
  "globalStateMachine application cfg fac available running =
     (let zone = cfgZoneId cfg;
          fsm = NewGlobalFSM application cfg fac available running;
          r = GlobalFSM_NextState fsm;
          st = addCondition (ConditionsToAdd r) zone
                 (removeListed (ConditionsToRemove r) zone (appStatus application));
          state = osState (stOwnership st);
          nextState = (case NextState r of None \<Rightarrow> state | Some s \<Rightarrow> s);
          st' = st\<lparr>stOwnership := (stOwnership st)\<lparr>osState := nextState\<rparr>\<rparr>
      in (application\<lparr>appStatus := st'\<rparr>,
          hasJobs (Jobs r) \<or> ConditionsToRemove r \<noteq> [] \<or> ConditionsToAdd r \<noteq> None \<or> state \<noteq> nextState,
          Jobs r))"

text \<open>The last step of \<open>updateState\<close>: a zone left without conditions is dropped.\<close>

definition dropEmptyZone :: "string \<Rightarrow> AnyApplication \<times> bool \<Rightarrow> AnyApplication \<times> bool" where
  "dropEmptyZone zone p =
     (case GetStatusFor (appStatus (fst p)) zone of
        None \<Rightarrow> p
      | Some zoneStatus \<Rightarrow>
          if EmptyConditions zoneStatus
          then ((fst p)\<lparr>appStatus := RemoveZone zone (appStatus (fst p))\<rparr>, True) else p)"

definition updateState ::
  "('v, 'c) Semver \<Rightarrow> AnyApplication \<Rightarrow> ApplicationRuntimeConfig \<Rightarrow> ('v, 'j) AsyncJobFactory \<Rightarrow> bool \<Rightarrow> bool
     \<Rightarrow> bool \<Rightarrow> 'v VersionPtr \<Rightarrow> 'v VersionPtr option \<Rightarrow> AsyncJobType option
     \<Rightarrow> (AnyApplication \<times> bool \<times> 'j NextJobs) go" where
  "updateState sv application cfg fac present deployed nonActive v newVersion running =
     (let zone = cfgZoneId cfg; st = appStatus application
      in go_bind
           (if placementsContainZone st zone \<or> present \<or> ZoneExists st zone
            then localStateMachine sv application cfg fac present deployed nonActive v newVersion running
            else Inr (application, False, noJobs))
           (\<lambda>(application1, updated1, jobs1).
              go_bind
                (if osOwner (stOwnership (appStatus application1)) = zone
                 then (let (application2, updated2, jobs2) =
                             globalStateMachine application1 cfg fac deployed running
                       in go_bind (NextJobs_Add jobs1 jobs2)
                            (\<lambda>jobs. Inr (application2, updated1 \<or> updated2, jobs)))
                 else Inr (application1, updated1, jobs1))
                (\<lambda>(application3, updated3, jobs3).
                   let (application4, updated4) = dropEmptyZone zone (application3, updated3)
                   in Inr (application4, updated4, jobs3))))"

definition updateJobConditions ::
  "JobApplicationCondition \<Rightarrow> string \<Rightarrow> AnyApplicationStatus \<Rightarrow> AnyApplicationStatus \<times> bool" where
  "updateJobConditions jobConditions zoneId st =
     (fold (\<lambda>c. addOrUpdateCondition c zoneId) (GetConditions jobConditions) st,
      GetConditions jobConditions \<noteq> [])"

text \<open>As in \<open>addOrUpdateCondition\<close>, the other branch writes into a copy.\<close>

definition updateLocalCondition ::
  "ConditionStatus \<Rightarrow> ApplicationRuntimeConfig \<Rightarrow> AnyApplicationStatus \<Rightarrow> AnyApplicationStatus" where
  "updateLocalCondition condition cfg st =
     (let (st', zoneStatus) = GetOrCreateStatusFor st (cfgZoneId cfg)
      in case find (\<lambda>c. condZoneId c = cfgZoneId cfg \<and> condType c = condType condition) (zsConditions zoneStatus) of
           None \<Rightarrow> WriteZone (cfgZoneId cfg) (appendCondition condition) st'
         | Some found \<Rightarrow> st')"

definition initOwnership :: "string \<Rightarrow> AnyApplicationStatus \<Rightarrow> AnyApplicationStatus" where
  "initOwnership zone current =
     (if osState (stOwnership current) = GlobalStateUnset
      then current\<lparr>stOwnership := (stOwnership current)\<lparr>osOwner := zone, osEpoch := 1,
                                    osState := NewGlobalState\<rparr>\<rparr>
      else current)"

definition DeriveNewStatus ::
  "'r ResourceApi \<Rightarrow> ('v, 'c) Semver \<Rightarrow> Time \<Rightarrow> ('v, 'r) GlobalApplication \<Rightarrow> JobApplicationCondition
     \<Rightarrow> ('v, 'j) AsyncJobFactory \<Rightarrow> (AnyApplication \<times> 'j StatusResult) go" where
  "DeriveNewStatus api sv now g jobConditions fac =
     (let zone = cfgZoneId (gaConfig g);
          current = initOwnership zone (appStatus (gaApplication g));
          (current1, updated1) =
            (case getActiveApplication g of
               None \<Rightarrow> (current, False)
             | Some localApp \<Rightarrow>
                 if LocalApplication_IsDeployed api localApp
                 then (updateLocalCondition (LocalApplication_GetCondition now localApp) (gaConfig g) current, True)
                 else (current, False));
          (current2, updated2) = updateJobConditions jobConditions zone current1;
          application = (gaApplication g)\<lparr>appStatus := current2\<rparr>
      in case deriveTargetVersion g of
           None \<Rightarrow> Inr (application, \<lparr>Status = None, srJobs = noJobs\<rparr>)
         | Some newVersion \<Rightarrow>
             go_bind
               (updateState sv application (gaConfig g) fac (IsPresent g)
                  (GlobalApplication_IsDeployed api g) (NonActiveVersionsPresent g) newVersion
                  (gaNewVersion g) (GetJobType jobConditions))
               (\<lambda>(application', globalUpdated, nextJobs).
                  Inr (application',
                       \<lparr>Status = (if globalUpdated \<or> updated2 \<or> updated1
                                  then Some (appStatus application') else None),
                        srJobs = nextJobs\<rparr>)))"

section \<open>What a pass leaves alone\<close>

text \<open>Every other zone, and the ownership up to its state.\<close>

definition passFrame :: "string \<Rightarrow> AnyApplicationStatus \<Rightarrow> AnyApplicationStatus \<Rightarrow> bool" where
  "passFrame k st st' \<longleftrightarrow>
     (\<forall>k'. k' \<noteq> k \<longrightarrow> GetStatusFor st' k' = GetStatusFor st k')
     \<and> stOwnership st' = (stOwnership st)\<lparr>osState := osState (stOwnership st')\<rparr>"

lemma ownership_state_id [simp]: "o1\<lparr>osState := osState o1\<rparr> = (o1 :: OwnershipStatus)"
  by (cases o1) simp

lemma passFrame_refl [intro, simp]: "passFrame k st st"
  by (simp add: passFrame_def)

lemma passFrame_trans [trans]: "passFrame k st st' \<Longrightarrow> passFrame k st' st'' \<Longrightarrow> passFrame k st st''"
  unfolding passFrame_def by (metis (no_types, lifting) OwnershipStatus.fold_congs(2)
      OwnershipStatus.surjective OwnershipStatus.update_convs(2))

lemma passFrame_onlyZone: "onlyZone k st st' \<Longrightarrow> passFrame k st st'"
  by (simp add: passFrame_def onlyZone_def zone_frame_def)

lemma passFrame_owner: "passFrame k st st' \<Longrightarrow> osOwner (stOwnership st') = osOwner (stOwnership st)"
  by (metis OwnershipStatus.select_convs(3) OwnershipStatus.surjective OwnershipStatus.update_convs(2) passFrame_def)

lemma onlyZone_removeListed [frame_simps]: "onlyZone k st (removeListed cs k st)"
  unfolding removeListed_def
  by (induction cs arbitrary: st) (auto intro: onlyZone_trans [OF onlyZone_removeCondition])

lemma onlyZone_addCondition [frame_simps]: "onlyZone k st (addCondition c k st)"
  by (simp add: addCondition_def frame_simps split: option.split)

lemma wf_status_removeListed [intro]: "wf_status st \<Longrightarrow> wf_status (removeListed cs k st)"
  unfolding removeListed_def by (induction cs arbitrary: st) auto

lemma wf_status_addCondition [intro]: "wf_status st \<Longrightarrow> wf_status (addCondition c k st)"
  by (auto simp: addCondition_def split: option.split)

lemma localStateMachine_cases:
  assumes "localStateMachine sv a cfg fac present deployed nonActive v nv running = Inr (a', u, jobs)"
  obtains a1 r st where
    "LocalFSM_NextState (NewLocalFSM a cfg fac present deployed nonActive v nv running) = (a1, r)"
    and "st = addCondition (ConditionsToAdd r) (cfgZoneId cfg)
                (removeListed (ConditionsToRemove r) (cfgZoneId cfg) (appStatus a1))"
    and "(NewVersion r = None \<and> appStatus a' = st)
         \<or> (\<exists>w. NewVersion r = Some w \<and> setNewVersion sv w (cfgZoneId cfg) st = Inr (appStatus a'))"
    and "a' = a1\<lparr>appStatus := appStatus a'\<rparr>" and "jobs = Jobs r"
    and "u \<longleftrightarrow> ConditionsToRemove r \<noteq> [] \<or> ConditionsToAdd r \<noteq> None \<or> NewVersion r \<noteq> None \<or> hasJobs jobs"
proof -
  obtain a1 r where f: "LocalFSM_NextState (NewLocalFSM a cfg fac present deployed nonActive v nv running) = (a1, r)"
    by fastforce
  then show ?thesis
    using assms that [OF f] by (auto simp: localStateMachine_def Let_def go_bind_eq_Inr split: option.splits)
qed

lemma localStateMachine_frame:
  assumes "localStateMachine sv a cfg fac present deployed nonActive v nv running = Inr (a', u, jobs)"
  shows "onlyZone (cfgZoneId cfg) (appStatus a) (appStatus a') \<and> a' = a\<lparr>appStatus := appStatus a'\<rparr>
    \<and> (wf_status (appStatus a) \<longrightarrow> wf_status (appStatus a'))"
proof -
  let ?k = "cfgZoneId cfg"
  from localStateMachine_cases [OF assms] obtain a1 r st where
    f: "LocalFSM_NextState (NewLocalFSM a cfg fac present deployed nonActive v nv running) = (a1, r)"
    and st: "st = addCondition (ConditionsToAdd r) ?k (removeListed (ConditionsToRemove r) ?k (appStatus a1))"
    and st': "(NewVersion r = None \<and> appStatus a' = st)
         \<or> (\<exists>w. NewVersion r = Some w \<and> setNewVersion sv w ?k st = Inr (appStatus a'))"
    and a': "a' = a1\<lparr>appStatus := appStatus a'\<rparr>" by metis
  have g: "lfApplication (NewLocalFSM a cfg fac present deployed nonActive v nv running) = a"
    "lfConfig (NewLocalFSM a cfg fac present deployed nonActive v nv running) = cfg"
    by (simp_all add: NewLocalFSM_def)
  have a1: "a1 = a \<or> a1 = a\<lparr>appStatus := ensureZone ?k (appStatus a)\<rparr>"
    using LocalFSM_NextState_app [of "NewLocalFSM a cfg fac present deployed nonActive v nv running"]
    unfolding g by (simp add: f)
  have "onlyZone ?k (appStatus a) (appStatus a1) \<and> (wf_status (appStatus a) \<longrightarrow> wf_status (appStatus a1))"
    using a1 by (auto simp: frame_simps)
  moreover have "onlyZone ?k (appStatus a1) st \<and> (wf_status (appStatus a1) \<longrightarrow> wf_status st)"
    unfolding st by (auto intro: onlyZone_trans frame_simps)
  moreover have "onlyZone ?k st (appStatus a') \<and> (wf_status st \<longrightarrow> wf_status (appStatus a'))"
    using st' by (auto intro: onlyZone_setNewVersion wf_status_setNewVersion)
  moreover have "a' = a\<lparr>appStatus := appStatus a'\<rparr>" using a1 a' by (metis AnyApplication.update_convs(7) AnyApplication.surjective)
  ultimately show ?thesis by (blast intro: onlyZone_trans)
qed

lemma globalStateMachine_frame:
  assumes "globalStateMachine a cfg fac available running = (a', u, jobs)"
  shows "passFrame (cfgZoneId cfg) (appStatus a) (appStatus a') \<and> a' = a\<lparr>appStatus := appStatus a'\<rparr>
    \<and> (wf_status (appStatus a) \<longrightarrow> wf_status (appStatus a'))"
proof -
  define r where "r = GlobalFSM_NextState (NewGlobalFSM a cfg fac available running)"
  define st where "st = addCondition (ConditionsToAdd r) (cfgZoneId cfg)
                 (removeListed (ConditionsToRemove r) (cfgZoneId cfg) (appStatus a))"
  have o: "onlyZone (cfgZoneId cfg) (appStatus a) st \<and> (wf_status (appStatus a) \<longrightarrow> wf_status st)"
    unfolding st_def by (auto intro: onlyZone_trans frame_simps)
  obtain s where a': "a' = a\<lparr>appStatus := st\<lparr>stOwnership := (stOwnership st)\<lparr>osState := s\<rparr>\<rparr>\<rparr>"
    using assms by (auto simp: globalStateMachine_def Let_def r_def st_def)
  have "GetStatusFor (st\<lparr>stOwnership := x\<rparr>) k = GetStatusFor st k" for x k
    by (simp add: GetStatusFor_def)
  moreover have "wf_status (st\<lparr>stOwnership := x\<rparr>) = wf_status st" for x by (simp add: wf_status_def)
  ultimately show ?thesis
    using o by (simp add: a' passFrame_def onlyZone_def zone_frame_def)
qed

lemma dropEmptyZone_frame:
  assumes "dropEmptyZone k (a, u) = (a', u')"
  shows "onlyZone k (appStatus a) (appStatus a') \<and> a' = a\<lparr>appStatus := appStatus a'\<rparr>
    \<and> (wf_status (appStatus a) \<longrightarrow> wf_status (appStatus a'))"
  using assms by (auto simp: dropEmptyZone_def frame_simps split: option.splits if_splits)

text \<open>The three stages of a pass that does not panic.\<close>

lemma updateState_stages:
  assumes "updateState sv a cfg fac present deployed nonActive v nv running = Inr (a', u, jobs)"
  obtains a1 u1 jobs1 a2 u2 where
    "(if placementsContainZone (appStatus a) (cfgZoneId cfg) \<or> present \<or> ZoneExists (appStatus a) (cfgZoneId cfg)
      then localStateMachine sv a cfg fac present deployed nonActive v nv running
      else Inr (a, False, noJobs)) = Inr (a1, u1, jobs1)"
    and "(osOwner (stOwnership (appStatus a1)) \<noteq> cfgZoneId cfg \<and> a2 = a1 \<and> u2 = u1 \<and> jobs = jobs1)
      \<or> (osOwner (stOwnership (appStatus a1)) = cfgZoneId cfg \<and>
          (\<exists>u3 jobs2. globalStateMachine a1 cfg fac deployed running = (a2, u3, jobs2)
             \<and> NextJobs_Add jobs1 jobs2 = Inr jobs \<and> u2 = (u1 \<or> u3)))"
    and "dropEmptyZone (cfgZoneId cfg) (a2, u2) = (a', u)"
proof -
  let ?k = "cfgZoneId cfg"
  from assms obtain a1 u1 jobs1 where l:
    "(if placementsContainZone (appStatus a) ?k \<or> present \<or> ZoneExists (appStatus a) ?k
      then localStateMachine sv a cfg fac present deployed nonActive v nv running
      else Inr (a, False, noJobs)) = Inr (a1, u1, jobs1)"
    and rest: "go_bind
        (if osOwner (stOwnership (appStatus a1)) = ?k
         then (let (application2, updated2, jobs2) = globalStateMachine a1 cfg fac deployed running
               in go_bind (NextJobs_Add jobs1 jobs2) (\<lambda>jobs. Inr (application2, u1 \<or> updated2, jobs)))
         else Inr (a1, u1, jobs1))
        (\<lambda>(application3, updated3, jobs3).
           let (application4, updated4) = dropEmptyZone ?k (application3, updated3)
           in Inr (application4, updated4, jobs3)) = Inr (a', u, jobs)"
    unfolding updateState_def Let_def by (auto simp: go_bind_eq_Inr)
  show ?thesis
  proof (cases "osOwner (stOwnership (appStatus a1)) = ?k")
    case True
    obtain a2 u3 jobs2 where g: "globalStateMachine a1 cfg fac deployed running = (a2, u3, jobs2)"
      using prod_cases3 by blast
    obtain a4 u4 where d: "dropEmptyZone ?k (a2, u1 \<or> u3) = (a4, u4)" by fastforce
    from rest True have "NextJobs_Add jobs1 jobs2 = Inr jobs \<and> a4 = a' \<and> u4 = u"
      by (auto simp: g d go_bind_eq_Inr)
    with that [OF l, of a2 "u1 \<or> u3"] g d True show ?thesis by blast
  next
    case False
    with rest have "jobs1 = jobs" "dropEmptyZone ?k (a1, u1) = (a', u)"
      by (auto split: prod.splits)
    with that [OF l, of a1 u1] False show ?thesis by blast
  qed
qed

lemma updateState_frame:
  assumes "updateState sv a cfg fac present deployed nonActive v nv running = Inr (a', u, jobs)"
  shows "passFrame (cfgZoneId cfg) (appStatus a) (appStatus a')
    \<and> (osOwner (stOwnership (appStatus a)) \<noteq> cfgZoneId cfg \<longrightarrow>
         stOwnership (appStatus a') = stOwnership (appStatus a))
    \<and> (wf_status (appStatus a) \<longrightarrow> wf_status (appStatus a'))"
proof -
  let ?k = "cfgZoneId cfg"
  from updateState_stages [OF assms] obtain a1 u1 jobs1 a2 u2 where
    l: "(if placementsContainZone (appStatus a) ?k \<or> present \<or> ZoneExists (appStatus a) ?k
      then localStateMachine sv a cfg fac present deployed nonActive v nv running
      else Inr (a, False, noJobs)) = Inr (a1, u1, jobs1)"
    and g: "(osOwner (stOwnership (appStatus a1)) \<noteq> ?k \<and> a2 = a1 \<and> u2 = u1 \<and> jobs = jobs1)
      \<or> (osOwner (stOwnership (appStatus a1)) = ?k \<and>
          (\<exists>u3 jobs2. globalStateMachine a1 cfg fac deployed running = (a2, u3, jobs2)
             \<and> NextJobs_Add jobs1 jobs2 = Inr jobs \<and> u2 = (u1 \<or> u3)))"
    and d: "dropEmptyZone ?k (a2, u2) = (a', u)" by metis
  have 1: "onlyZone ?k (appStatus a) (appStatus a1) \<and> (wf_status (appStatus a) \<longrightarrow> wf_status (appStatus a1))"
    using l localStateMachine_frame by (fastforce split: if_splits)
  have 2: "passFrame ?k (appStatus a1) (appStatus a2) \<and> (wf_status (appStatus a1) \<longrightarrow> wf_status (appStatus a2))"
    using g globalStateMachine_frame by blast
  have 3: "onlyZone ?k (appStatus a2) (appStatus a') \<and> (wf_status (appStatus a2) \<longrightarrow> wf_status (appStatus a'))"
    using dropEmptyZone_frame [OF d] by blast
  have "osOwner (stOwnership (appStatus a)) \<noteq> ?k \<Longrightarrow> stOwnership (appStatus a') = stOwnership (appStatus a)"
    using 1 3 g by (auto dest!: onlyZone_ownership)
  with 1 2 3 show ?thesis by (blast intro: passFrame_trans passFrame_onlyZone)
qed

lemma onlyZone_updateJobConditions: "onlyZone k st (fst (updateJobConditions jc k st))"
  by (cases "jacCondition jc") (simp_all add: updateJobConditions_def GetConditions_def frame_simps)

lemma wf_updateJobConditions: "wf_status st \<Longrightarrow> wf_status (fst (updateJobConditions jc k st))"
  by (cases "jacCondition jc") (auto simp: updateJobConditions_def GetConditions_def)

lemma updateLocalCondition_eq:
  "condZoneId c = cfgZoneId cfg \<Longrightarrow> updateLocalCondition c cfg st = addOrUpdateCondition c (cfgZoneId cfg) st"
proof -
  assume "condZoneId c = cfgZoneId cfg"
  then have "(\<lambda>d. condZoneId d = cfgZoneId cfg \<and> condType d = condType c) = sameCondition c"
    by (auto simp: sameCondition_def fun_eq_iff)
  then show ?thesis by (simp add: updateLocalCondition_def addOrUpdateCondition_def)
qed

lemma LocalApplication_GetCondition_zone:
  "condZoneId (LocalApplication_GetCondition now l) = cfgZoneId (laConfig l)"
  by (simp add: LocalApplication_GetCondition_def)

text \<open>The configuration a local application holds is the controller's.\<close>

definition sameConfig :: "('v, 'r) GlobalApplication \<Rightarrow> bool" where
  "sameConfig g \<longleftrightarrow> (\<forall>l\<in>snd ` set (gaLocalApplications g). laConfig l = gaConfig g)"

lemma getActiveApplication_config: "sameConfig g \<Longrightarrow> getActiveApplication g = Some l \<Longrightarrow> laConfig l = gaConfig g"
  by (force simp: sameConfig_def getActiveApplication_def split: option.splits dest: map_of_SomeD)

text \<open>The status the state machines start from.\<close>

definition passStart ::
  "'r ResourceApi \<Rightarrow> Time \<Rightarrow> ('v, 'r) GlobalApplication \<Rightarrow> JobApplicationCondition \<Rightarrow> AnyApplicationStatus" where
  "passStart api now g jc =
     (let zone = cfgZoneId (gaConfig g);
          current = initOwnership zone (appStatus (gaApplication g))
      in fst (updateJobConditions jc zone
           (case getActiveApplication g of
              None \<Rightarrow> current
            | Some l \<Rightarrow>
                if LocalApplication_IsDeployed api l
                then updateLocalCondition (LocalApplication_GetCondition now l) (gaConfig g) current
                else current)))"

lemma passStart_frame:
  assumes "sameConfig g"
  shows "onlyZone (cfgZoneId (gaConfig g)) (initOwnership (cfgZoneId (gaConfig g)) (appStatus (gaApplication g)))
       (passStart api now g jc)
    \<and> (wf_status (initOwnership (cfgZoneId (gaConfig g)) (appStatus (gaApplication g))) \<longrightarrow>
         wf_status (passStart api now g jc))"
proof (cases "getActiveApplication g")
  case None
  then show ?thesis by (simp add: passStart_def Let_def onlyZone_updateJobConditions wf_updateJobConditions)
next
  case (Some l)
  have u: "updateLocalCondition (LocalApplication_GetCondition now l) (gaConfig g) st =
      addOrUpdateCondition (LocalApplication_GetCondition now l) (cfgZoneId (gaConfig g)) st" for st
    using getActiveApplication_config [OF assms Some]
    by (simp add: updateLocalCondition_eq LocalApplication_GetCondition_zone)
  let ?st = "initOwnership (cfgZoneId (gaConfig g)) (appStatus (gaApplication g))"
  let ?c = "LocalApplication_GetCondition now l"
  show ?thesis
  proof (cases "LocalApplication_IsDeployed api l")
    case True
    let ?st1 = "addOrUpdateCondition ?c (cfgZoneId (gaConfig g)) ?st"
    have "passStart api now g jc = fst (updateJobConditions jc (cfgZoneId (gaConfig g)) ?st1)"
      by (simp add: passStart_def Let_def Some True u)
    moreover have "onlyZone (cfgZoneId (gaConfig g)) ?st (fst (updateJobConditions jc (cfgZoneId (gaConfig g)) ?st1))"
      using onlyZone_addOrUpdateCondition onlyZone_updateJobConditions by (rule onlyZone_trans)
    ultimately show ?thesis by (auto intro: wf_updateJobConditions)
  next
    case False
    then show ?thesis
      by (simp add: passStart_def Let_def Some onlyZone_updateJobConditions wf_updateJobConditions)
  qed
qed

lemma DeriveNewStatus_eq:
  assumes "deriveTargetVersion g = Some v"
  shows "\<exists>early. DeriveNewStatus api sv now g jc fac =
     go_bind
       (updateState sv ((gaApplication g)\<lparr>appStatus := passStart api now g jc\<rparr>) (gaConfig g) fac (IsPresent g)
          (GlobalApplication_IsDeployed api g) (NonActiveVersionsPresent g) v (gaNewVersion g) (GetJobType jc))
       (\<lambda>(a', u, jobs).
          Inr (a', \<lparr>Status = (if u \<or> early then Some (appStatus a') else None), srJobs = jobs\<rparr>))"
proof (cases "getActiveApplication g")
  case None
  then show ?thesis
    by (intro exI [of _ "GetConditions jc \<noteq> []"], cases "GetConditions jc = []")
      (simp_all add: DeriveNewStatus_def passStart_def Let_def assms updateJobConditions_def)
next
  case (Some l)
  then show ?thesis
    by (intro exI [of _ "GetConditions jc \<noteq> [] \<or> LocalApplication_IsDeployed api l"],
        cases "GetConditions jc = []"; cases "LocalApplication_IsDeployed api l")
      (simp_all add: DeriveNewStatus_def passStart_def Let_def assms updateJobConditions_def)
qed

lemma DeriveNewStatus_run:
  assumes "DeriveNewStatus api sv now g jc fac = Inr (a', res)" and "deriveTargetVersion g = Some v"
  obtains u where
    "updateState sv ((gaApplication g)\<lparr>appStatus := passStart api now g jc\<rparr>) (gaConfig g) fac (IsPresent g)
       (GlobalApplication_IsDeployed api g) (NonActiveVersionsPresent g) v (gaNewVersion g) (GetJobType jc)
     = Inr (a', u, srJobs res)"
    and "u \<Longrightarrow> Status res = Some (appStatus a')"
    and "\<And>st. Status res = Some st \<Longrightarrow> st = appStatus a'"
  using assms
  by (auto simp: DeriveNewStatus_def passStart_def Let_def case_prod_unfold go_bind_eq_Inr
      split: option.splits if_splits)

lemma initOwnership_zones [simp]: "stZones (initOwnership k st) = stZones st"
  by (simp add: initOwnership_def)

lemma wf_initOwnership [simp]: "wf_status (initOwnership k st) = wf_status st"
  by (simp add: wf_status_def)

lemma GetStatusFor_initOwnership [simp]: "GetStatusFor (initOwnership k st) z = GetStatusFor st z"
  by (simp add: GetStatusFor_def)

lemma DeriveNewStatus_status:
  assumes "DeriveNewStatus api sv now g jc fac = Inr (a', res)" and "Status res = Some st" and "sameConfig g"
  shows "passFrame (cfgZoneId (gaConfig g))
      (initOwnership (cfgZoneId (gaConfig g)) (appStatus (gaApplication g))) st
    \<and> (osOwner (stOwnership (initOwnership (cfgZoneId (gaConfig g)) (appStatus (gaApplication g))))
         \<noteq> cfgZoneId (gaConfig g) \<longrightarrow>
       stOwnership st = stOwnership (appStatus (gaApplication g)))
    \<and> (wf_status (appStatus (gaApplication g)) \<longrightarrow> wf_status st)"
proof -
  let ?k = "cfgZoneId (gaConfig g)" and ?c = "initOwnership (cfgZoneId (gaConfig g)) (appStatus (gaApplication g))"
  obtain v where v: "deriveTargetVersion g = Some v"
    using assms(1,2) by (cases "deriveTargetVersion g")
      (auto simp: DeriveNewStatus_def Let_def case_prod_unfold split: option.splits)
  from DeriveNewStatus_run [OF assms(1) v] assms(2) obtain u where run:
    "updateState sv ((gaApplication g)\<lparr>appStatus := passStart api now g jc\<rparr>) (gaConfig g) fac (IsPresent g)
       (GlobalApplication_IsDeployed api g) (NonActiveVersionsPresent g) v (gaNewVersion g) (GetJobType jc)
     = Inr (a', u, srJobs res)" and st: "st = appStatus a'" by metis
  from passStart_frame [OF assms(3)] have s: "onlyZone ?k ?c (passStart api now g jc)"
    and w: "wf_status ?c \<longrightarrow> wf_status (passStart api now g jc)" by blast+
  from updateState_frame [OF run] have p: "passFrame ?k (passStart api now g jc) st"
    and o: "osOwner (stOwnership (passStart api now g jc)) \<noteq> ?k \<longrightarrow>
      stOwnership st = stOwnership (passStart api now g jc)"
    and w': "wf_status (passStart api now g jc) \<longrightarrow> wf_status st"
    by (simp_all add: st)
  have "osOwner (stOwnership ?c) \<noteq> ?k \<Longrightarrow> stOwnership ?c = stOwnership (appStatus (gaApplication g))"
    by (simp add: initOwnership_def split: if_splits)
  with s w p o w' onlyZone_ownership [OF s] show ?thesis
    by (auto intro: passFrame_trans passFrame_onlyZone)
qed

text \<open>C2: a pass over a status that is well formed gives a well-formed status, changes no zone but the
  controller's, and changes the ownership only when the controller's zone is the owner (of a
  resource without a state it becomes the owner), and then only its state.\<close>

theorem DeriveNewStatus_own_zone:
  assumes "DeriveNewStatus api sv now g jc fac = Inr (a', res)" and "Status res = Some st"
    and "sameConfig g" and "wf_status (appStatus (gaApplication g))"
  shows "wf_status st
    \<and> (\<forall>k. k \<noteq> cfgZoneId (gaConfig g) \<longrightarrow> GetStatusFor st k = GetStatusFor (appStatus (gaApplication g)) k)
    \<and> (let own = stOwnership (appStatus (gaApplication g)); zone = cfgZoneId (gaConfig g)
       in stOwnership st =
            (if osState own = GlobalStateUnset
             then own\<lparr>osOwner := zone, osEpoch := 1, osState := osState (stOwnership st)\<rparr>
             else if osOwner own = zone then own\<lparr>osState := osState (stOwnership st)\<rparr>
             else own))"
proof -
  note s = DeriveNewStatus_status [OF assms(1,2,3)]
  have "stOwnership st = (stOwnership (initOwnership (cfgZoneId (gaConfig g)) (appStatus (gaApplication g))))
      \<lparr>osState := osState (stOwnership st)\<rparr>"
    using s by (simp add: passFrame_def)
  moreover have "GetStatusFor st k = GetStatusFor (appStatus (gaApplication g)) k"
    if "k \<noteq> cfgZoneId (gaConfig g)" for k
    using s that by (simp add: passFrame_def)
  ultimately show ?thesis
    using s assms(4)
    by (cases "osState (stOwnership (appStatus (gaApplication g))) = GlobalStateUnset")
      (simp_all add: initOwnership_def Let_def)
qed

section \<open>Examples\<close>

text \<open>An application of one resource in zone z, with the library of \<open>LocalBundle\<close> and the versions of
  \<open>Versions\<close>.\<close>

definition sampleLocal :: "(nat, string) LocalApplication" where
  "sampleLocal = \<lparr>laBundle = \<lparr>availableResources = [''a''], expectedResources = [''a'']\<rparr>,
     laConfig = sampleConfig, laStatus = ''Healthy'', laMessages = [], laVersion = SpecificVersion 1\<rparr>"

definition samplePass :: "AnyApplicationStatus \<Rightarrow> (nat, string) GlobalApplication" where
  "samplePass st = NewFromLocalApplication [(SpecificVersion 1, sampleLocal)] (Some (SpecificVersion 1)) None
     (sampleApp st) sampleConfig"

definition sampleFactory :: "(nat, nat AsyncJob) AsyncJobFactory" where
  "sampleFactory = AsyncJobFactoryImpl (\<lambda>_. None) sampleConfig 0 5"

lemma samplePass_config: "sameConfig (samplePass st)"
  by (simp add: sameConfig_def samplePass_def NewFromLocalApplication_def sampleLocal_def)

theorem DeriveNewStatus_own_zone_witness:
  "\<exists>a res st.
     DeriveNewStatus sampleApi sampleSemver 5
       (samplePass \<lparr>stOwnership = sampleOwnership NewGlobalState (Some [\<lparr>plZone = ''z'', plNodeAffinity = []\<rparr>]),
                   stZones = [newZoneStatus ''y'']\<rparr>)
       EmptyJobConditions sampleFactory = Inr (a, res)
     \<and> Status res = Some st \<and> wf_status st \<and> GetStatusFor st ''y'' = Some (newZoneStatus ''y'')"
proof -
  let ?st = "\<lparr>stOwnership = sampleOwnership NewGlobalState (Some [\<lparr>plZone = ''z'', plNodeAffinity = []\<rparr>]),
      stZones = [newZoneStatus ''y'']\<rparr>"
  let ?r = "DeriveNewStatus sampleApi sampleSemver 5 (samplePass ?st) EmptyJobConditions sampleFactory"
  have "case ?r of Inr (a, res) \<Rightarrow> (case Status res of Some st \<Rightarrow> True | None \<Rightarrow> False) | Inl _ \<Rightarrow> False"
    by code_simp
  then obtain a res st where r: "?r = Inr (a, res)" "Status res = Some st"
    by (auto split: sum.splits option.splits)
  have k: "cfgZoneId (gaConfig (samplePass ?st)) = ''z''" "appStatus (gaApplication (samplePass ?st)) = ?st"
    by (simp_all add: samplePass_def NewFromLocalApplication_def sampleConfig_def sampleApp_def)
  have "wf_status (appStatus (gaApplication (samplePass ?st)))"
    unfolding k by (simp add: wf_status_def)
  from DeriveNewStatus_own_zone [OF r samplePass_config this] have "wf_status st"
    "GetStatusFor st ''y'' = GetStatusFor ?st ''y''" unfolding k by simp_all
  moreover have "GetStatusFor ?st ''y'' = Some (newZoneStatus ''y'')"
    by (simp add: GetStatusFor_def isZone_def newZoneStatus_def)
  ultimately show ?thesis using r by auto
qed

section \<open>A scheduled job has its condition in the status\<close>

definition hasCondition :: "AnyApplicationStatus \<Rightarrow> string \<Rightarrow> ApplicationConditionType \<Rightarrow> bool" where
  "hasCondition st k t \<longleftrightarrow> (\<exists>c\<in>set (conditionsAt st k). condType c = t \<and> condZoneId c = k)"

lemma hasCondition_addOrUpdate:
  "condZoneId c = k \<Longrightarrow> hasCondition (addOrUpdateCondition c k st) k (condType c)"
  by (auto simp: hasCondition_def conditionsAt_addOrUpdateCondition sameCondition_def
      dest!: find_Some_set)

lemma hasCondition_mono:
  "hasCondition st k t \<Longrightarrow> hasCondition (addOrUpdateCondition c k st) k t"
  by (auto simp: hasCondition_def conditionsAt_addOrUpdateCondition)

lemma conditionsAt_setNewVersion: "setNewVersion sv v k st = Inr st' \<Longrightarrow> conditionsAt st' k = conditionsAt st k"
  by (auto simp: setNewVersion_def GetOrCreateStatusFor_pair conditionsAt_def status_simps
      split: option.splits)

lemma conditionsAt_ownership [simp]: "conditionsAt (st\<lparr>stOwnership := own\<rparr>) k = conditionsAt st k"
  by (simp add: conditionsAt_def GetStatusFor_def)

lemma hasCondition_dropEmptyZone:
  "dropEmptyZone k (a, u) = (a', u') \<Longrightarrow> hasCondition (appStatus a) k t \<Longrightarrow> a' = a \<and> u' = u"
  by (auto simp: dropEmptyZone_def hasCondition_def conditionsAt_def EmptyConditions_def
      split: option.splits if_splits)

context job_factory begin

lemma global_result:
  assumes "gfJobFactory g = fac" and "GlobalFSM_NextState g = r"
  shows "ConditionsToAdd r = map_option (facGetStatus fac) (JobsToAdd (Jobs r))
     \<and> ConditionsToRemove r = [] \<and> JobsToRemove (Jobs r) = None
     \<and> (\<forall>j. JobsToAdd (Jobs r) = Some j \<longrightarrow> created (gfApplication g) j)"
  using assms
  by (auto simp: GlobalFSM_NextState_def handlePlacementState_def handleFailureState_def Let_def
      noResult_def noJobs_def created_def split: if_splits)

lemma local_recorded:
  assumes "localStateMachine sv a cfg fac present deployed nonActive v nv running = Inr (a', u, jobs)"
    and "cfgZoneId cfg = zone"
  shows "JobsToRemove jobs = None
    \<and> (\<forall>j. JobsToAdd jobs = Some j \<longrightarrow> u \<and> hasCondition (appStatus a') zone (condType (facGetStatus fac j)))"
proof -
  from localStateMachine_cases [OF assms(1)] obtain a1 r st where
    f: "LocalFSM_NextState (NewLocalFSM a cfg fac present deployed nonActive v nv running) = (a1, r)"
    and st: "st = addCondition (ConditionsToAdd r) zone (removeListed (ConditionsToRemove r) zone (appStatus a1))"
    and st': "(NewVersion r = None \<and> appStatus a' = st)
         \<or> (\<exists>w. NewVersion r = Some w \<and> setNewVersion sv w zone st = Inr (appStatus a'))"
    and jobs: "jobs = Jobs r"
    and u: "u \<longleftrightarrow> ConditionsToRemove r \<noteq> [] \<or> ConditionsToAdd r \<noteq> None \<or> NewVersion r \<noteq> None \<or> hasJobs jobs"
    unfolding assms(2) by metis
  have "lfJobFactory (NewLocalFSM a cfg fac present deployed nonActive v nv running) = fac"
    by (simp add: NewLocalFSM_def)
  note r = local_result [OF this f]
  have "u \<and> hasCondition (appStatus a') zone (condType (facGetStatus fac j))" if "JobsToAdd jobs = Some j" for j
  proof -
    have add: "ConditionsToAdd r = Some (facGetStatus fac j)" and z: "condZoneId (facGetStatus fac j) = zone"
      using r that jobs created_zone by auto
    have "hasCondition st zone (condType (facGetStatus fac j))"
      using hasCondition_addOrUpdate [OF z] by (simp add: st add addCondition_def)
    moreover have "conditionsAt (appStatus a') zone = conditionsAt st zone"
      using st' conditionsAt_setNewVersion by blast
    ultimately show ?thesis using u add by (simp add: hasCondition_def)
  qed
  with r jobs show ?thesis by simp
qed

lemma global_recorded:
  assumes "globalStateMachine a cfg fac available running = (a', u, jobs)" and "cfgZoneId cfg = zone"
  shows "JobsToRemove jobs = None
    \<and> (\<forall>j. JobsToAdd jobs = Some j \<longrightarrow> u \<and> hasCondition (appStatus a') zone (condType (facGetStatus fac j)))
    \<and> (\<forall>t. hasCondition (appStatus a) zone t \<longrightarrow> hasCondition (appStatus a') zone t)"
proof -
  let ?g = "NewGlobalFSM a cfg fac available running"
  define r where "r = GlobalFSM_NextState ?g"
  have "gfJobFactory ?g = fac" by (simp add: NewGlobalFSM_def)
  note r = global_result [OF this r_def [symmetric]]
  have a': "conditionsAt (appStatus a') k = conditionsAt (addCondition (ConditionsToAdd r) zone (appStatus a)) k" for k
    using assms r by (auto simp: globalStateMachine_def Let_def r_def removeListed_def)
  have jobs: "jobs = Jobs r" and u: "u \<longleftrightarrow> hasJobs jobs \<or> u"
    using assms r by (auto simp: globalStateMachine_def Let_def r_def)
  have "hasCondition (appStatus a') zone t \<longleftrightarrow>
      hasCondition (addCondition (ConditionsToAdd r) zone (appStatus a)) zone t" for t
    by (simp add: hasCondition_def a')
  then show ?thesis
    using r jobs u created_zone hasCondition_addOrUpdate hasCondition_mono
    by (auto simp: addCondition_def hasJobs_def split: option.splits)
qed

lemma updateState_recorded:
  assumes "updateState sv a cfg fac present deployed nonActive v nv running = Inr (a', u, jobs)"
    and "cfgZoneId cfg = zone" and "JobsToAdd jobs = Some j"
  shows "u \<and> hasCondition (appStatus a') zone (condType (facGetStatus fac j))"
proof -
  from updateState_stages [OF assms(1)] obtain a1 u1 jobs1 a2 u2 where
    l: "(if placementsContainZone (appStatus a) zone \<or> present \<or> ZoneExists (appStatus a) zone
      then localStateMachine sv a cfg fac present deployed nonActive v nv running
      else Inr (a, False, noJobs)) = Inr (a1, u1, jobs1)"
    and g: "(osOwner (stOwnership (appStatus a1)) \<noteq> zone \<and> a2 = a1 \<and> u2 = u1 \<and> jobs = jobs1)
      \<or> (osOwner (stOwnership (appStatus a1)) = zone \<and>
          (\<exists>u3 jobs2. globalStateMachine a1 cfg fac deployed running = (a2, u3, jobs2)
             \<and> NextJobs_Add jobs1 jobs2 = Inr jobs \<and> u2 = (u1 \<or> u3)))"
    and d: "dropEmptyZone zone (a2, u2) = (a', u)"
    unfolding assms(2) by metis
  let ?t = "condType (facGetStatus fac j)"
  have 1: "JobsToRemove jobs1 = None
      \<and> (\<forall>j. JobsToAdd jobs1 = Some j \<longrightarrow> u1 \<and> hasCondition (appStatus a1) zone (condType (facGetStatus fac j)))"
  proof (cases "placementsContainZone (appStatus a) zone \<or> present \<or> ZoneExists (appStatus a) zone")
    case True
    with l have "localStateMachine sv a cfg fac present deployed nonActive v nv running = Inr (a1, u1, jobs1)"
      by simp
    from local_recorded [OF this assms(2)] show ?thesis .
  next
    case False
    with l show ?thesis by (auto simp: noJobs_def)
  qed
  have "u2 \<and> hasCondition (appStatus a2) zone ?t"
  proof (cases "osOwner (stOwnership (appStatus a1)) = zone")
    case False
    with g 1 assms(3) show ?thesis by simp
  next
    case True
    with g obtain u3 jobs2 where G: "globalStateMachine a1 cfg fac deployed running = (a2, u3, jobs2)"
      and add: "NextJobs_Add jobs1 jobs2 = Inr jobs" and u2: "u2 = (u1 \<or> u3)" by blast
    from add 1 assms(3) have "JobsToAdd jobs1 = Some j \<or> JobsToAdd jobs2 = Some j"
      by (auto simp: NextJobs_Add_ok split: option.splits if_splits)
    with global_recorded [OF G assms(2)] 1 u2 show ?thesis by blast
  qed
  with hasCondition_dropEmptyZone [OF d] show ?thesis by blast
qed

end

text \<open>C9: every job a pass schedules is announced: the pass returns a status, and in it the controller's
  zone holds a condition of the job's kind for that zone.\<close>

theorem DeriveNewStatus_announces_job:
  assumes "DeriveNewStatus api sv now g jc (AsyncJobFactoryImpl pd (gaConfig g) start reading) = Inr (a', res)"
    and "JobsToAdd (srJobs res) = Some j"
  shows "\<exists>st. Status res = Some st
    \<and> hasCondition st (cfgZoneId (gaConfig g)) (condType (GetStatus reading j))"
proof -
  obtain v where v: "deriveTargetVersion g = Some v"
    using assms by (cases "deriveTargetVersion g")
      (auto simp: DeriveNewStatus_def Let_def case_prod_unfold noJobs_def split: option.splits)
  from DeriveNewStatus_run [OF assms(1) v] obtain u where
    "updateState sv ((gaApplication g)\<lparr>appStatus := passStart api now g jc\<rparr>) (gaConfig g)
       (AsyncJobFactoryImpl pd (gaConfig g) start reading) (IsPresent g)
       (GlobalApplication_IsDeployed api g) (NonActiveVersionsPresent g) v (gaNewVersion g) (GetJobType jc)
     = Inr (a', u, srJobs res)" and "u \<Longrightarrow> Status res = Some (appStatus a')" by metis
  with impl.updateState_recorded [OF this(1) refl assms(2)] show ?thesis by simp
qed

theorem DeriveNewStatus_announces_job_witness:
  "\<exists>a res st j.
     DeriveNewStatus sampleApi sampleSemver 5
       (samplePass \<lparr>stOwnership = sampleOwnership NewGlobalState (Some [\<lparr>plZone = ''z'', plNodeAffinity = []\<rparr>]),
                   stZones = []\<rparr>)
       EmptyJobConditions (AsyncJobFactoryImpl (\<lambda>_. None) sampleConfig 0 5) = Inr (a, res)
     \<and> JobsToAdd (srJobs res) = Some j \<and> Status res = Some st
     \<and> hasCondition st ''z'' (condType (GetStatus 5 j))"
proof -
  let ?st = "\<lparr>stOwnership = sampleOwnership NewGlobalState (Some [\<lparr>plZone = ''z'', plNodeAffinity = []\<rparr>]),
      stZones = []\<rparr>"
  have cfg: "gaConfig (samplePass ?st) = sampleConfig"
    by (simp add: samplePass_def NewFromLocalApplication_def)
  let ?r = "DeriveNewStatus sampleApi sampleSemver 5 (samplePass ?st) EmptyJobConditions
      (AsyncJobFactoryImpl (\<lambda>_. None) sampleConfig 0 5)"
  have "case ?r of Inr (a, res) \<Rightarrow> (case JobsToAdd (srJobs res) of Some j \<Rightarrow> True | None \<Rightarrow> False) | Inl _ \<Rightarrow> False"
    by code_simp
  then obtain a res j where r: "?r = Inr (a, res)" and j: "JobsToAdd (srJobs res) = Some j"
    by (auto split: sum.splits option.splits)
  obtain st where "Status res = Some st" "hasCondition st (cfgZoneId (gaConfig (samplePass ?st))) (condType (GetStatus 5 j))"
    using DeriveNewStatus_announces_job [of sampleApi sampleSemver 5 "samplePass ?st" EmptyJobConditions
        "\<lambda>_. None" 0 5 a res j] r j unfolding cfg by auto
  then show ?thesis using r j unfolding cfg by (auto simp: sampleConfig_def)
qed

section \<open>Panics\<close>

lemma noResult_sel [simp]:
  "NextState noResult = None" "ConditionsToAdd noResult = None" "ConditionsToRemove noResult = []"
  "NewVersion noResult = None" "Jobs noResult = noJobs"
  by (simp_all add: noResult_def)

lemma noJobs_sel [simp]: "JobsToAdd noJobs = None" "JobsToRemove noJobs = None"
  by (simp_all add: noJobs_def)

lemma handlers_NewVersion:
  "NewVersion (snd (handleOperation g)) = None"
  "NewVersion (snd (handleDeploy g)) \<in> {None, lfNewVersion g}"
  "NewVersion (snd (handleUndeploy g)) \<in> {None, Some (lfVersion g)}"
  by (simp_all add: handleOperation_def handleDeploy_def handleUndeploy_def case_prod_unfold Let_def)

lemma LocalFSM_NewVersion:
  "NewVersion (snd (LocalFSM_NextState g)) \<in> {None, lfNewVersion g, Some (lfVersion g)}"
  using handlers_NewVersion [of g]
  by (simp add: LocalFSM_NextState_def Let_def split: option.splits) blast

text \<open>With real version pointers the local machine's step never panics.\<close>

lemma localStateMachine_total:
  assumes "nv \<noteq> Some None" and "v \<noteq> None"
  shows "\<exists>a' u jobs. localStateMachine sv a cfg fac present deployed nonActive v nv running = Inr (a', u, jobs)"
proof -
  let ?g = "NewLocalFSM a cfg fac present deployed nonActive v nv running"
  have "NewVersion (snd (LocalFSM_NextState ?g)) \<noteq> Some None"
    using LocalFSM_NewVersion [of ?g] assms by (auto simp: NewLocalFSM_def)
  then have "\<exists>st'. (case NewVersion (snd (LocalFSM_NextState ?g)) of None \<Rightarrow> Inr st
      | Some ver \<Rightarrow> setNewVersion sv ver (cfgZoneId cfg) st) = Inr st'" for st
    by (auto simp: setNewVersion_def case_prod_unfold split: option.splits)
  then show ?thesis
    unfolding localStateMachine_def Let_def case_prod_unfold by (metis go_bind_simps(2))
qed

lemma globalStateMachine_idle:
  assumes "placementExists (appStatus a)"
  shows "snd (snd (globalStateMachine a cfg fac available running)) = noJobs"
  using assms
  by (simp add: globalStateMachine_def Let_def GlobalFSM_NextState_def NewGlobalFSM_def handleFailureState_def)

lemma NextJobs_Add_noJobs: "NextJobs_Add n noJobs = Inr n"
  by (simp add: NextJobs_Add_def)

lemma updateState_total:
  assumes "nv \<noteq> Some None" and "v \<noteq> None" and "placementExists (appStatus a)"
  shows "\<exists>r. updateState sv a cfg fac present deployed nonActive v nv running = Inr r"
proof -
  let ?l = "if placementsContainZone (appStatus a) (cfgZoneId cfg) \<or> present \<or> ZoneExists (appStatus a) (cfgZoneId cfg)
      then localStateMachine sv a cfg fac present deployed nonActive v nv running
      else Inr (a, False, noJobs)"
  obtain a1 u1 jobs1 where l: "?l = Inr (a1, u1, jobs1)"
    using localStateMachine_total [OF assms(1,2)] by (metis (no_types, lifting))
  then have "stOwnership (appStatus a1) = stOwnership (appStatus a)"
    using localStateMachine_frame onlyZone_ownership by (fastforce split: if_splits)
  then have "placementExists (appStatus a1)" using assms(3) by (simp add: placementExists_def)
  from globalStateMachine_idle [OF this, of cfg fac deployed running] obtain a2 u2 where
    "globalStateMachine a1 cfg fac deployed running = (a2, u2, noJobs)" by (metis prod.collapse)
  then show ?thesis
    unfolding updateState_def Let_def l by (simp add: NextJobs_Add_noJobs case_prod_unfold)
qed

text \<open>C28: once the placements of an application are decided, a pass never panics, provided the new
  version is not a nil pointer: the two machines then never schedule a job each.\<close>

theorem DeriveNewStatus_no_panic:
  assumes "osPlacements (stOwnership (appStatus (gaApplication g))) \<noteq> None"
    and "gaNewVersion g \<noteq> Some None" and "sameConfig g"
  shows "\<exists>r. DeriveNewStatus api sv now g jc fac = Inr r"
proof (cases "deriveTargetVersion g")
  case None
  then show ?thesis by (simp add: DeriveNewStatus_def Let_def case_prod_unfold)
next
  case (Some v)
  let ?a = "(gaApplication g)\<lparr>appStatus := passStart api now g jc\<rparr>"
  have "v \<noteq> None" using Some assms(2) by (auto simp: deriveTargetVersion_def split: option.splits)
  moreover have "stOwnership (passStart api now g jc) =
      stOwnership (initOwnership (cfgZoneId (gaConfig g)) (appStatus (gaApplication g)))"
    using passStart_frame [OF assms(3)] onlyZone_ownership by blast
  then have "placementExists (appStatus ?a)"
    using assms(1) by (simp add: placementExists_def initOwnership_def split: if_splits)
  ultimately obtain a' u jobs where "updateState sv ?a (gaConfig g) fac (IsPresent g)
       (GlobalApplication_IsDeployed api g) (NonActiveVersionsPresent g) v (gaNewVersion g) (GetJobType jc)
     = Inr (a', u, jobs)"
    using updateState_total [OF assms(2)] by (metis prod_cases3)
  with DeriveNewStatus_eq [OF Some, of api sv now jc fac] show ?thesis by auto
qed

theorem DeriveNewStatus_no_panic_witness:
  "\<exists>r. DeriveNewStatus sampleApi sampleSemver 5
       (samplePass \<lparr>stOwnership = sampleOwnership NewGlobalState (Some []), stZones = []\<rparr>)
       EmptyJobConditions sampleFactory = Inr r"
  by (rule DeriveNewStatus_no_panic [OF _ _ samplePass_config])
    (simp_all add: samplePass_def NewFromLocalApplication_def sampleApp_def sampleOwnership_def)

lemma handleUndeploy_starts:
  assumes "lfApplicationPresent g" and "lfRunningJobType g \<noteq> Some AsyncJobTypeUndeploy"
    and "find (\<lambda>c. condType c = UndeploymentConditionType)
           (conditionsAt (appStatus (lfApplication g)) (cfgZoneId (lfConfig g))) = None"
  shows "JobsToAdd (Jobs (snd (handleUndeploy g))) \<noteq> None"
  using assms FindCondition_zoneOf [of g UndeploymentConditionType]
  by (simp add: handleUndeploy_def case_prod_unfold Let_def LocalFSM_isRunning_def attemptsExhausted_def)

lemma localStateMachine_jobs:
  "localStateMachine sv a cfg fac present deployed nonActive v nv running = Inr (a', u, jobs) \<Longrightarrow>
     jobs = Jobs (snd (LocalFSM_NextState (NewLocalFSM a cfg fac present deployed nonActive v nv running)))"
  by (erule localStateMachine_cases) simp

lemma globalStateMachine_places:
  assumes "\<not> placementExists (appStatus a)"
    and "psStrategy (specPlacementStrategy (appSpec a)) = PlacementStrategyLocal"
    and "running \<noteq> Some AsyncJobTypeLocalPlacement"
  shows "JobsToAdd (snd (snd (globalStateMachine a cfg fac available running))) \<noteq> None"
  using assms
  by (simp add: globalStateMachine_def Let_def GlobalFSM_NextState_def NewGlobalFSM_def
      handlePlacementState_def GlobalFSM_isRunning_def)

lemma updateState_two_jobs:
  assumes "\<not> placementExists (appStatus a)" and "present" and "nv \<noteq> Some None" and "v \<noteq> None"
    and "psStrategy (specPlacementStrategy (appSpec a)) = PlacementStrategyLocal"
    and "osOwner (stOwnership (appStatus a)) = cfgZoneId cfg" and "running = None"
    and "find (\<lambda>c. condType c = UndeploymentConditionType) (conditionsAt (appStatus a) (cfgZoneId cfg)) = None"
  shows "updateState sv a cfg fac present deployed nonActive v nv running = Inl MultipleJobsToSchedule"
proof -
  let ?g = "NewLocalFSM a cfg fac present deployed nonActive v nv running"
  obtain a1 u1 jobs1 where l: "localStateMachine sv a cfg fac present deployed nonActive v nv running = Inr (a1, u1, jobs1)"
    using localStateMachine_total [OF assms(3,4)] by blast
  have g: "lfApplicationPresent ?g" "lfRunningJobType ?g = None" "lfApplication ?g = a" "lfConfig ?g = cfg"
    using assms by (simp_all add: NewLocalFSM_def)
  have "\<not> placementsContainZone (appStatus a) (cfgZoneId cfg)"
    using assms(1) by (simp add: placementExists_def placementsContainZone_def)
  then have "LocalFSM_NextState ?g = handleUndeploy ?g" using g by (simp add: LocalFSM_NextState_def Let_def)
  with handleUndeploy_starts [of ?g] g assms(8) localStateMachine_jobs [OF l] have two: "JobsToAdd jobs1 \<noteq> None" by simp
  moreover from localStateMachine_frame [OF l] have o: "stOwnership (appStatus a1) = stOwnership (appStatus a)"
    by (blast dest: onlyZone_ownership)
  moreover from localStateMachine_frame [OF l] have "a1 = a\<lparr>appStatus := appStatus a1\<rparr>" by blast
  moreover have "appSpec (a\<lparr>appStatus := appStatus a1\<rparr>) = appSpec a" by simp
  ultimately have sp: "appSpec a1 = appSpec a" by metis
  have "JobsToAdd (snd (snd (globalStateMachine a1 cfg fac deployed running))) \<noteq> None"
    using assms(1,5,7) o sp by (intro globalStateMachine_places) (simp_all add: placementExists_def)
  with two have "NextJobs_Add jobs1 (snd (snd (globalStateMachine a1 cfg fac deployed running)))
      = Inl MultipleJobsToSchedule" by (simp add: NextJobs_Add_panics)
  moreover have "present = True" using assms(2) by simp
  ultimately show ?thesis
    using assms(6) l by (simp add: updateState_def Let_def o case_prod_unfold)
qed

text \<open>C37: without placements the two machines can collide: in the owner's zone, under the local placement
  strategy, an application whose active version is still present while no job runs and no
  undeployment is recorded gets an undeployment and a placement job at once, and the pass
  panics.\<close>

theorem DeriveNewStatus_two_jobs_panic:
  assumes "osPlacements (stOwnership (appStatus (gaApplication g))) = None"
    and "psStrategy (specPlacementStrategy (appSpec (gaApplication g))) = PlacementStrategyLocal"
    and "osOwner (stOwnership (initOwnership (cfgZoneId (gaConfig g)) (appStatus (gaApplication g))))
           = cfgZoneId (gaConfig g)"
    and "IsPresent g" and "gaNewVersion g \<noteq> Some None" and "sameConfig g"
    and "find (\<lambda>c. condType c = UndeploymentConditionType)
           (conditionsAt (appStatus (gaApplication g)) (cfgZoneId (gaConfig g))) = None"
  shows "DeriveNewStatus api sv now g EmptyJobConditions fac = Inl MultipleJobsToSchedule"
proof -
  let ?k = "cfgZoneId (gaConfig g)" and ?s = "passStart api now g EmptyJobConditions"
  let ?c = "initOwnership (cfgZoneId (gaConfig g)) (appStatus (gaApplication g))"
  obtain v where v: "deriveTargetVersion g = Some v" "v \<noteq> None"
    using assms(4,5) by (cases "gaNewVersion g") (auto simp: deriveTargetVersion_def IsPresent_def split: option.splits)
  have c: "conditionsAt ?c ?k = conditionsAt (appStatus (gaApplication g)) ?k" by (simp add: conditionsAt_def)
  have none: "find (\<lambda>c. condType c = UndeploymentConditionType) (conditionsAt ?s ?k) = None"
  proof (cases "getActiveApplication g")
    case None
    then show ?thesis
      using assms(7) c by (simp add: passStart_def Let_def updateJobConditions_def GetConditions_def EmptyJobConditions_def)
  next
    case (Some l)
    then have "condZoneId (LocalApplication_GetCondition now l) = ?k"
      using getActiveApplication_config [OF assms(6)] by (simp add: LocalApplication_GetCondition_zone)
    moreover have "condType (LocalApplication_GetCondition now l) = LocalConditionType"
      by (simp add: LocalApplication_GetCondition_def)
    ultimately show ?thesis
      using assms(7) c Some
      by (auto simp: passStart_def Let_def updateJobConditions_def GetConditions_def EmptyJobConditions_def
          updateLocalCondition_eq conditionsAt_addOrUpdateCondition find_append split: option.splits)
  qed
  have o: "stOwnership ?s = stOwnership ?c" using passStart_frame [OF assms(6)] onlyZone_ownership by blast
  have "updateState sv ((gaApplication g)\<lparr>appStatus := ?s\<rparr>) (gaConfig g) fac (IsPresent g)
      (GlobalApplication_IsDeployed api g) (NonActiveVersionsPresent g) v (gaNewVersion g)
      (GetJobType EmptyJobConditions) = Inl MultipleJobsToSchedule"
    using assms(1-5) v(2) none o
    by (intro updateState_two_jobs)
      (simp_all add: placementExists_def initOwnership_def GetJobType_def EmptyJobConditions_def split: if_splits)
  with DeriveNewStatus_eq [OF v(1), of api sv now EmptyJobConditions fac] show ?thesis by auto
qed

theorem DeriveNewStatus_two_jobs_panic_witness:
  "DeriveNewStatus sampleApi sampleSemver 5
     (samplePass \<lparr>stOwnership = \<lparr>osEpoch = 0, osState = GlobalStateUnset, osOwner = '''', osPlacements = None\<rparr>,
                 stZones = []\<rparr>)
     EmptyJobConditions sampleFactory = Inl MultipleJobsToSchedule"
  by (rule DeriveNewStatus_two_jobs_panic [OF _ _ _ _ _ samplePass_config])
    (simp_all add: samplePass_def NewFromLocalApplication_def sampleApp_def sampleSpec_def initOwnership_def
      IsPresent_def conditionsAt_def GetStatusFor_def)

section \<open>A retired zone\<close>

lemma conditionsAt_removeListed:
  "conditionsAt (removeListed cs k st) k = filter (\<lambda>e. \<forall>c\<in>set cs. \<not> sameCondition c e) (conditionsAt st k)"
  unfolding removeListed_def
  by (induction cs arbitrary: st) (auto simp: conditionsAt_removeCondition intro: filter_cong)

lemma conditionsAt_removeAllOwn: "conditionsAt (removeListed (conditionsAt st k) k st) k = []"
  by (auto simp: conditionsAt_removeListed filter_empty_conv sameCondition_def)

lemma ZoneExists_removeListed: "ZoneExists (removeListed cs k st) k = ZoneExists st k"
  unfolding removeListed_def ZoneExists_def
  by (induction cs arbitrary: st) (auto simp: removeCondition_write status_simps)

lemma dropEmptyZone_empty:
  assumes "conditionsAt (appStatus a) k = []"
  shows "GetStatusFor (appStatus (fst (dropEmptyZone k (a, u)))) k = None"
  using assms by (auto simp: dropEmptyZone_def conditionsAt_def EmptyConditions_def status_simps split: option.splits)

lemma LocalFSM_retires:
  assumes "GetStatusFor (appStatus a) (cfgZoneId cfg) = Some z" and "\<not> placementsContainZone (appStatus a) (cfgZoneId cfg)"
  shows "LocalFSM_NextState (NewLocalFSM a cfg fac False False False v nv running) =
     (a, noResult\<lparr>ConditionsToRemove := conditionsAt (appStatus a) (cfgZoneId cfg)\<rparr>)"
  using assms by (simp add: LocalFSM_NextState_def NewLocalFSM_def Let_def conditionsAt_def)

lemma globalStateMachine_zones:
  assumes "placementExists (appStatus a)"
  shows "stZones (appStatus (fst (globalStateMachine a cfg fac available running))) = stZones (appStatus a)"
  using assms
  by (simp add: globalStateMachine_def Let_def GlobalFSM_NextState_def NewGlobalFSM_def handleFailureState_def
      addCondition_def removeListed_def)

lemma updateState_retires:
  assumes "ZoneExists (appStatus a) (cfgZoneId cfg)" and "\<not> placementsContainZone (appStatus a) (cfgZoneId cfg)"
    and "placementExists (appStatus a) \<or> osOwner (stOwnership (appStatus a)) \<noteq> cfgZoneId cfg"
  shows "\<exists>a'. updateState sv a cfg fac False False False v nv running = Inr (a', True, noJobs)
     \<and> GetStatusFor (appStatus a') (cfgZoneId cfg) = None"
proof -
  let ?k = "cfgZoneId cfg"
  let ?st = "removeListed (conditionsAt (appStatus a) ?k) ?k (appStatus a)"
  obtain z where z: "GetStatusFor (appStatus a) ?k = Some z" using assms(1) by (auto simp: ZoneExists_def)
  obtain u where l: "localStateMachine sv a cfg fac False False False v nv running = Inr (a\<lparr>appStatus := ?st\<rparr>, u, noJobs)"
    by (simp add: localStateMachine_def Let_def LocalFSM_retires [OF z assms(2)] addCondition_def)
  have own: "stOwnership ?st = stOwnership (appStatus a)" using onlyZone_removeListed onlyZone_ownership by blast
  have e: "ZoneExists ?st ?k" using assms(1) by (simp add: ZoneExists_removeListed)
  have c: "conditionsAt ?st ?k = []" by (rule conditionsAt_removeAllOwn)
  have drop: "\<exists>a'. dropEmptyZone ?k (x, w) = (a', True) \<and> GetStatusFor (appStatus a') ?k = None"
    if "conditionsAt (appStatus x) ?k = []" and "GetStatusFor (appStatus x) ?k \<noteq> None" for x w
    using that by (auto simp: dropEmptyZone_def conditionsAt_def EmptyConditions_def status_simps)
  show ?thesis
  proof (cases "osOwner (stOwnership (appStatus a)) = ?k")
    case False
    obtain a' where "dropEmptyZone ?k (a\<lparr>appStatus := ?st\<rparr>, u) = (a', True)"
        "GetStatusFor (appStatus a') ?k = None"
      using drop [of "a\<lparr>appStatus := ?st\<rparr>" u] c e by (auto simp: ZoneExists_def)
    then show ?thesis using False assms(1) own by (simp add: updateState_def Let_def l)
  next
    case True
    let ?a = "a\<lparr>appStatus := ?st\<rparr>"
    have p: "placementExists (appStatus ?a)" using assms(3) True own by (simp add: placementExists_def)
    obtain a2 u2 where g: "globalStateMachine ?a cfg fac False running = (a2, u2, noJobs)"
      using globalStateMachine_idle [OF p, of cfg fac False running] by (metis prod.collapse)
    have look: "GetStatusFor (appStatus a2) ?k = GetStatusFor ?st ?k"
      using globalStateMachine_zones [OF p, of cfg fac False running] g by (simp add: GetStatusFor_def)
    then have c2: "conditionsAt (appStatus a2) ?k = []" using c by (simp add: conditionsAt_def)
    have "GetStatusFor (appStatus a2) ?k \<noteq> None" using e look by (simp add: ZoneExists_def)
    from drop [OF c2 this, of "u \<or> u2"] show ?thesis
      using assms(1) True own g by (auto simp: updateState_def Let_def l NextJobs_Add_noJobs)
  qed
qed



end
