(* ===== verification/JobCycles.thy ===== *)
theory JobCycles
  imports AsyncJobs
begin

text \<open>
  What the jobs of \<open>internal/controller/job\<close> do: the cycle each runs at every tick, the reports it
  posts through the status updater, and the ticker loop around it. A cycle gets the interface
  \<open>Applications\<close> (\<open>types/applications.go\<close>) and the Kubernetes client through its context; both work
  on the state \<open>'s\<close>. It returns whether the job has completed, and the job, which a Go method
  mutates; a panic ends it. The select of a loop takes a tick or the end of the context: a run
  is given the number of ticks that come first and \<open>wait\<close>, what happens outside between them.
\<close>

section \<open>The interface Applications\<close>

record 'v AggregatedStatus =
  asHealthStatus :: "HealthStatus option"
  asChartVersion :: "'v VersionPtr"

text \<open>The library's result for one resource, as far as it is read.\<close>

record ResourceSyncResult =
  rsrHookPhase :: string
  rsrSyncPhase :: string
  rsrStatus :: string

record 'v SyncResult =
  syAggregatedStatus :: "'v AggregatedStatus"
  syApplicationResourcesDeployed :: bool
  syApplicationResourcesPresent :: bool
  syOperationPhaseStats :: "string \<rightharpoonup> int"
  sySyncPhaseStats :: "string \<rightharpoonup> int"
  syResultCodeStats :: "string \<rightharpoonup> int"
  syTotal :: int

definition NewSyncResult :: "'v SyncResult" where
  "NewSyncResult = \<lparr>syAggregatedStatus = \<lparr>asHealthStatus = None, asChartVersion = None\<rparr>,
     syApplicationResourcesDeployed = False, syApplicationResourcesPresent = False,
     syOperationPhaseStats = Map.empty, sySyncPhaseStats = Map.empty, syResultCodeStats = Map.empty,
     syTotal = 0\<rparr>"

text \<open>\<open>m[k] += 1\<close> on a Go map, where a missing key reads as 0.\<close>

definition increment :: "(string \<rightharpoonup> int) \<Rightarrow> string \<Rightarrow> (string \<rightharpoonup> int)" where
  "increment m k = m(k \<mapsto> (case m k of None \<Rightarrow> 0 | Some n \<Rightarrow> n) + 1)"

definition AddResult :: "ResourceSyncResult \<Rightarrow> 'v SyncResult \<Rightarrow> 'v SyncResult" where
  "AddResult r s = s\<lparr>syTotal := syTotal s + 1,
     syOperationPhaseStats := increment (syOperationPhaseStats s) (rsrHookPhase r),
     sySyncPhaseStats := increment (sySyncPhaseStats s) (rsrSyncPhase r),
     syResultCodeStats := increment (syResultCodeStats s) (rsrStatus r)\<rparr>"

record 'v DeleteResult =
  dlVersion :: "'v VersionPtr"
  dlTotal :: int
  dlDeleted :: int
  dlDeleteFailed :: int
  dlApplicationResourcesPresent :: bool

definition IsApplicationResourcesPresent :: "'v DeleteResult list \<Rightarrow> bool" where
  "IsApplicationResourcesPresent results \<longleftrightarrow> list_ex dlApplicationResourcesPresent results"

text \<open>The methods the jobs call. \<open>SyncVersion\<close> always returns a result beside its error.\<close>

record ('s, 'v) Applications =
  apGetAllPresentVersions :: "AnyApplication \<Rightarrow> 's \<Rightarrow> (GoError + 'v SpecificVersion list) \<times> 's"
  apGetTargetVersion :: "AnyApplication \<Rightarrow> 'v SpecificVersion option"
  apDetermineTargetVersion :: "AnyApplication \<Rightarrow> 's \<Rightarrow> (GoError + 'v VersionPtr) go \<times> 's"
  apGetAggregatedStatusVersion :: "AnyApplication \<Rightarrow> 'v VersionPtr \<Rightarrow> 's \<Rightarrow> 'v AggregatedStatus go \<times> 's"
  apSyncVersion :: "AnyApplication \<Rightarrow> 'v VersionPtr \<Rightarrow> 's \<Rightarrow> ('v SyncResult \<times> GoError option) go \<times> 's"
  apCleanup :: "AnyApplication \<Rightarrow> 's \<Rightarrow> (GoError + 'v DeleteResult list) go \<times> 's"

record ('s, 'v, 'c) JobContext =
  jcKube :: "'s KubeEnv"
  jcApplications :: "('s, 'v) Applications"
  jcSemver :: "('v, 'c) Semver"
  jcDurationString :: "Duration \<Rightarrow> string"

text \<open>\<open>strings.TrimSpace(s) != ""\<close> for text whose characters are bytes of ASCII.\<close>

definition isSpace :: "char \<Rightarrow> bool" where
  "isSpace c \<longleftrightarrow> c \<in> {CHR 0x09, CHR 0x0A, CHR 0x0B, CHR 0x0C, CHR 0x0D, CHR 0x20}"

definition blankText :: "string \<Rightarrow> bool" where
  "blankText s \<longleftrightarrow> list_all isSpace s"

section \<open>The ticker loop\<close>

text \<open>The outcome of a cycle: a panic, or whether the job has completed, with the job.\<close>

type_synonym ('j, 's) cycle = "'j \<Rightarrow> 's \<Rightarrow> (bool \<times> 'j) go \<times> 's"

fun runCycles :: "('j, 's) cycle \<Rightarrow> ('s \<Rightarrow> 's) \<Rightarrow> nat \<Rightarrow> ('j, 's) cycle" where
  "runCycles cycle wait 0 job s = (Inr (False, job), s)"
| "runCycles cycle wait (Suc n) job s =
     (case cycle job s of
        (Inl p, s1) \<Rightarrow> (Inl p, s1)
      | (Inr (completed, job1), s1) \<Rightarrow>
          if completed then (Inr (True, job1), s1) else runCycles cycle wait n job1 (wait s1))"

section \<open>The deployment job\<close>

definition DeployJob_updateStatus :: "('s, 'v, 'c) JobContext \<Rightarrow> 'v DeployJob \<Rightarrow> 's \<Rightarrow> 's" where
  "DeployJob_updateStatus ctx job s =
     (let (now, s1) = kNowTime (jcKube ctx) s
      in snd (UpdateCondition (jcKube ctx) (GetNamespacedName (djApplication job)) (cfgZoneId (djConfig job))
                \<lparr>evReason = LocalStateChangeReason, evMsg = djMsg job\<rparr>
                (DeployJob_GetStatus now job) [UndeploymentConditionType, LocalConditionType] s1))"

definition DeployJob_AttemptFailure ::
  "('s, 'v, 'c) JobContext \<Rightarrow> string \<Rightarrow> string \<Rightarrow> 'v DeployJob \<Rightarrow> 's \<Rightarrow> 'v DeployJob \<times> 's" where
  "DeployJob_AttemptFailure ctx msg reason job s =
     (let job' = job\<lparr>djStatus := DeploymentStatusPull, djMsg := ''Deployment failure: '' @ msg,
                      djReason := reason\<rparr>
      in (job', DeployJob_updateStatus ctx job' s))"

definition DeployJob_Fail ::
  "('s, 'v, 'c) JobContext \<Rightarrow> string \<Rightarrow> string \<Rightarrow> 'v DeployJob \<Rightarrow> 's \<Rightarrow> 'v DeployJob \<times> 's" where
  "DeployJob_Fail ctx msg reason job s =
     (let job' = job\<lparr>djStatus := DeploymentStatusFailure, djMsg := ''Deployment failure: '' @ msg,
                      djReason := reason\<rparr>
      in (job', DeployJob_updateStatus ctx job' s))"

definition DeployJob_Success :: "('s, 'v, 'c) JobContext \<Rightarrow> 'v DeployJob \<Rightarrow> 's \<Rightarrow> 'v DeployJob \<times> 's" where
  "DeployJob_Success ctx job s =
     (let job' = job\<lparr>djStatus := DeploymentStatusDone,
                      djMsg := ''Deployment state changed to '' @ [CHR 0x27]
                        @ DeploymentStatus_string DeploymentStatusDone @ [CHR 0x27] @ ''. '',
                      djReason := ''''\<rparr>
      in (job', DeployJob_updateStatus ctx job' s))"

definition retryMessage :: "'v DeployJob \<Rightarrow> HealthStatus \<Rightarrow> string" where
  "retryMessage job h =
     (let msg = ''Retrying deployment (attempt '' @ int_text (djAttempt job) @ '' of ''
                @ int_text (djRetryAttempts job) @ '').''
      in if \<not> blankText (hsMessage h) then msg @ ''. HealthStatusMsg: '' @ hsMessage h else msg)"

definition DeployJob_runSyncCycle :: "('s, 'v, 'c) JobContext \<Rightarrow> ('v DeployJob, 's) cycle" where
  "DeployJob_runSyncCycle ctx job s =
     (case apSyncVersion (jcApplications ctx) (djApplication job) (djVersion job) s of
        (Inl p, s1) \<Rightarrow> (Inl p, s1)
      | (Inr (syncResult, err), s1) \<Rightarrow>
          (let healthStatus = asHealthStatus (syAggregatedStatus syncResult)
           in case err of
                Some e \<Rightarrow>
                  (let (job', s2) = DeployJob_Fail ctx (Error e) ''SyncError'' job s1
                   in (Inr (True, job'), s2))
              | None \<Rightarrow>
                  if syApplicationResourcesDeployed syncResult then
                    (let (job', s2) = DeployJob_Success ctx job s1 in (Inr (True, job'), s2))
                  else
                    (let (now, s2) = kNowTime (jcKube ctx) s1
                     in if djStartTime job + djTimeout job < now then
                          (if djAttempt job < djRetryAttempts job then
                             (let (now', s3) = kNowTime (jcKube ctx) s2;
                                  job1 = job\<lparr>djAttempt := djAttempt job + 1, djStartTime := now'\<rparr>
                              in case healthStatus of
                                   None \<Rightarrow> (Inl NilPointerDereference, s3)
                                 | Some h \<Rightarrow>
                                     (let (job2, s4) = DeployJob_AttemptFailure ctx (retryMessage job1 h)
                                                         ''Timeout'' job1 s3
                                      in (Inr (False, job2), s4)))
                           else
                             (let (job', s3) = DeployJob_Fail ctx
                                    (''Deployment timed out after '' @ jcDurationString ctx (djTimeout job))
                                    ''Timeout'' job s2
                              in (Inr (True, job'), s3)))
                        else (Inr (False, job), s2))))"

text \<open>The first cycle runs at once, the others at the ticks.\<close>

definition DeployJob_Run :: "('s, 'v, 'c) JobContext \<Rightarrow> ('s \<Rightarrow> 's) \<Rightarrow> nat \<Rightarrow> ('v DeployJob, 's) cycle" where
  "DeployJob_Run ctx wait ticks = runCycles (DeployJob_runSyncCycle ctx) wait (Suc ticks)"

section \<open>The undeployment job\<close>

definition UndeployJob_updateStatus :: "('s, 'v, 'c) JobContext \<Rightarrow> UndeployJob \<Rightarrow> 's \<Rightarrow> 's" where
  "UndeployJob_updateStatus ctx job s =
     (let (now, s1) = kNowTime (jcKube ctx) s
      in snd (UpdateCondition (jcKube ctx) (GetNamespacedName (ujApplication job)) (cfgZoneId (ujConfig job))
                \<lparr>evReason = LocalStateChangeReason, evMsg = ujMsg job\<rparr>
                (UndeployJob_GetStatus now job) [LocalConditionType, DeploymentConditionType] s1))"

definition UndeployJob_AttemptFailure ::
  "('s, 'v, 'c) JobContext \<Rightarrow> string \<Rightarrow> string \<Rightarrow> UndeployJob \<Rightarrow> 's \<Rightarrow> UndeployJob \<times> 's" where
  "UndeployJob_AttemptFailure ctx msg reason job s =
     (let job' = job\<lparr>ujStatus := UndeploymentStatusUndeploy, ujMsg := ''Undeploy failure: '' @ msg,
                      ujReason := reason\<rparr>
      in (job', UndeployJob_updateStatus ctx job' s))"

definition UndeployJob_Fail ::
  "('s, 'v, 'c) JobContext \<Rightarrow> string \<Rightarrow> string \<Rightarrow> UndeployJob \<Rightarrow> 's \<Rightarrow> UndeployJob \<times> 's" where
  "UndeployJob_Fail ctx msg reason job s =
     (let job' = job\<lparr>ujMsg := ''Undeploy failure: '' @ msg, ujStatus := UndeploymentStatusFailure,
                      ujReason := reason\<rparr>
      in (job', UndeployJob_updateStatus ctx job' s))"

definition UndeployJob_Success ::
  "('s, 'v, 'c) JobContext \<Rightarrow> string \<Rightarrow> UndeployJob \<Rightarrow> 's \<Rightarrow> UndeployJob \<times> 's" where
  "UndeployJob_Success ctx details job s =
     (let job' = job\<lparr>ujStatus := UndeploymentStatusDone,
                      ujMsg := ''Undeploy state changed to '' @ [CHR 0x27]
                        @ UndeploymentStatus_string UndeploymentStatusDone @ [CHR 0x27] @ ''.'' @ details,
                      ujReason := ''''\<rparr>
      in (job', UndeployJob_updateStatus ctx job' s))"

definition UndeployJob_Progress ::
  "('s, 'v, 'c) JobContext \<Rightarrow> string \<Rightarrow> UndeployJob \<Rightarrow> 's \<Rightarrow> UndeployJob \<times> 's" where
  "UndeployJob_Progress ctx details job s =
     (let job' = job\<lparr>ujMsg := details, ujReason := ''''\<rparr>
      in (job', UndeployJob_updateStatus ctx job' s))"

definition UndeployJob_maybeRetry ::
  "('s, 'v, 'c) JobContext \<Rightarrow> string \<Rightarrow> string \<Rightarrow> UndeployJob \<Rightarrow> 's \<Rightarrow> (bool \<times> UndeployJob) \<times> 's" where
  "UndeployJob_maybeRetry ctx reason failureMsg job s =
     (if ujAttempt job < ujRetryAttempts job then
        (let (now, s1) = kNowTime (jcKube ctx) s;
             job1 = job\<lparr>ujAttempt := ujAttempt job + 1, ujStartTime := now\<rparr>;
             (job2, s2) = UndeployJob_AttemptFailure ctx
               (failureMsg @ '' Retrying undeployment (attempt '' @ int_text (ujAttempt job1) @ '' of ''
                  @ int_text (ujRetryAttempts job1) @ '').'') reason job1 s1
         in ((False, job2), s2))
      else
        (let (job1, s1) = UndeployJob_Fail ctx
               (''Failure after '' @ int_text (ujRetryAttempts job) @ '' attempts.'') reason job s
         in ((True, job1), s1)))"

text \<open>The text over the results; a result whose version is a nil pointer makes \<open>ToString\<close> panic.\<close>

fun formatDeleteResultsMessage :: "('v, 'c) Semver \<Rightarrow> 'v DeleteResult list \<Rightarrow> string go" where
  "formatDeleteResultsMessage sv [] = Inr ''''"
| "formatDeleteResultsMessage sv (r # rs) =
     (case dlVersion r of
        None \<Rightarrow> Inl NilPointerDereference
      | Some v \<Rightarrow>
          go_bind (formatDeleteResultsMessage sv rs)
            (\<lambda>details. Inr (''Version '' @ SpecificVersion_ToString sv v @ '' (Total='' @ int_text (dlTotal r)
               @ '', Deleted='' @ int_text (dlDeleted r) @ '', DeleteFailed=''
               @ int_text (dlDeleteFailed r) @ ''). '' @ details)))"

text \<open>On an error \<open>Cleanup\<close> returns nil results, whose text is empty.\<close>

definition UndeployJob_runInner :: "('s, 'v, 'c) JobContext \<Rightarrow> (UndeployJob, 's) cycle" where
  "UndeployJob_runInner ctx job s =
     (case apGetAllPresentVersions (jcApplications ctx) (ujApplication job) s of
        (Inl err, s1) \<Rightarrow>
          (let (r, s2) = UndeployJob_maybeRetry ctx ''SyncError'' (''Undeployment failed: '' @ Error err) job s1
           in (Inr r, s2))
      | (Inr versions, s1) \<Rightarrow>
          if versions = [] then
            (let (job', s2) = UndeployJob_Success ctx ''No versions found, undeployment is complete'' job s1
             in (Inr (True, job'), s2))
          else
            (case apCleanup (jcApplications ctx) (ujApplication job) s1 of
               (Inl p, s2) \<Rightarrow> (Inl p, s2)
             | (Inr (Inl err), s2) \<Rightarrow>
                 (let (r, s3) = UndeployJob_maybeRetry ctx ''SyncError''
                                  (''Undeployment failed: '' @ Error err) job s2
                  in (Inr r, s3))
             | (Inr (Inr results), s2) \<Rightarrow>
                 (case formatDeleteResultsMessage (jcSemver ctx) results of
                    Inl p \<Rightarrow> (Inl p, s2)
                  | Inr details \<Rightarrow>
                      if \<not> IsApplicationResourcesPresent results then
                        (let (job', s3) = UndeployJob_Success ctx details job s2
                         in (Inr (True, job'), s3))
                      else
                        (let (now, s3) = kNowTime (jcKube ctx) s2
                         in if ujStartTime job + cfgDefaultUndeployTimeout (ujConfig job) < now then
                              (let (r, s4) = UndeployJob_maybeRetry ctx ''Timeout''
                                               ''Undeployment timed out'' job s3
                               in (Inr r, s4))
                            else
                              (let (job', s4) = UndeployJob_Progress ctx details job s3
                               in (Inr (False, job'), s4))))))"

definition UndeployJob_Run :: "('s, 'v, 'c) JobContext \<Rightarrow> ('s \<Rightarrow> 's) \<Rightarrow> nat \<Rightarrow> (UndeployJob, 's) cycle" where
  "UndeployJob_Run ctx wait ticks = runCycles (UndeployJob_runInner ctx) wait (Suc ticks)"

section \<open>The operation job\<close>

definition LocalOperationJob_updateStatus :: "('s, 'v, 'c) JobContext \<Rightarrow> LocalOperationJob \<Rightarrow> 's \<Rightarrow> 's" where
  "LocalOperationJob_updateStatus ctx job s =
     (let (now, s1) = kNowTime (jcKube ctx) s
      in snd (UpdateCondition (jcKube ctx) (GetNamespacedName (ojApplication job)) (cfgZoneId (ojConfig job))
                \<lparr>evReason = LocalStateChangeReason, evMsg = ojMsg job\<rparr>
                (LocalOperationJob_GetStatus now job) [DeploymentConditionType, UndeploymentConditionType] s1))"

definition LocalOperationJob_Fail ::
  "('s, 'v, 'c) JobContext \<Rightarrow> HealthStatusCode \<Rightarrow> string \<Rightarrow> string \<Rightarrow> LocalOperationJob \<Rightarrow> 's
     \<Rightarrow> LocalOperationJob \<times> 's" where
  "LocalOperationJob_Fail ctx st msg reason job s =
     (let job' = job\<lparr>ojMsg := ''Operation Failure: '' @ msg, ojReason := reason, ojStatus := st\<rparr>
      in (job', LocalOperationJob_updateStatus ctx job' s))"

definition LocalOperationJob_Success ::
  "('s, 'v, 'c) JobContext \<Rightarrow> HealthStatusCode \<Rightarrow> LocalOperationJob \<Rightarrow> 's \<Rightarrow> LocalOperationJob \<times> 's" where
  "LocalOperationJob_Success ctx st job s =
     (let job' = job\<lparr>ojMsg := ''Operation state changed to '' @ [CHR 0x27] @ st @ [CHR 0x27] @ ''. '',
                      ojReason := '''', ojStatus := st\<rparr>
      in (job', LocalOperationJob_updateStatus ctx job' s))"

text \<open>The switch on the health of the current version. The status and message it writes first are
  overwritten by \<open>Fail\<close> and \<open>Success\<close>; in the default case they stay, and nothing is posted.\<close>

definition switchHealth ::
  "('s, 'v, 'c) JobContext \<Rightarrow> HealthStatus \<Rightarrow> LocalOperationJob \<Rightarrow> 's \<Rightarrow> (bool \<times> LocalOperationJob) \<times> 's" where
  "switchHealth ctx h job s =
     (let job1 = job\<lparr>ojStatus := hsStatus h, ojMsg := hsMessage h\<rparr>
      in if hsStatus h = HealthStatusHealthy \<or> hsStatus h = HealthStatusProgressing then
           (let (job2, s1) = LocalOperationJob_Success ctx (hsStatus h) job1 s in ((False, job2), s1))
         else if hsStatus h = HealthStatusDegraded \<or> hsStatus h = HealthStatusUnknown then
           (let (job2, s1) = LocalOperationJob_Fail ctx (hsStatus h) '''' ''HealthCheckFailed'' job1 s
            in ((True, job2), s1))
         else if hsStatus h = HealthStatusMissing then
           (let (job2, s1) = LocalOperationJob_Fail ctx HealthStatusMissing
                               ''Application resources are missing'' ''ResourcesMissing'' job1 s
            in ((True, job2), s1))
         else ((False, job1), s))"

definition LocalOperationJob_runInner :: "('s, 'v, 'c) JobContext \<Rightarrow> (LocalOperationJob, 's) cycle" where
  "LocalOperationJob_runInner ctx job s =
     (case apDetermineTargetVersion (jcApplications ctx) (ojApplication job) s of
        (Inl p, s1) \<Rightarrow> (Inl p, s1)
      | (Inr (Inl err), s1) \<Rightarrow>
          (let (job', s2) = LocalOperationJob_Fail ctx HealthStatusDegraded
                 (''Failed to determine target version: '' @ Error err) ''TargetVersionUnavailable'' job s1
           in (Inr (True, job'), s2))
      | (Inr (Inr None), s1) \<Rightarrow> (Inl NilPointerDereference, s1)
      | (Inr (Inr (Some newTargetVersion)), s1) \<Rightarrow>
          (let current = apGetTargetVersion (jcApplications ctx) (ojApplication job)
           in if (case current of None \<Rightarrow> True
                  | Some currentVersion \<Rightarrow>
                      \<not> SpecificVersion_Equal (jcSemver ctx) newTargetVersion currentVersion) then
                (let (job', s2) = LocalOperationJob_Fail ctx HealthStatusProgressing
                       (''New version '' @ [CHR 0x27]
                        @ SpecificVersion_ToString (jcSemver ctx) newTargetVersion @ [CHR 0x27] @ '' is available'')
                       ''SyncRequired'' job s1
                 in (Inr (True, job'), s2))
              else
                (case apGetAggregatedStatusVersion (jcApplications ctx) (ojApplication job) current s1 of
                   (Inl p, s2) \<Rightarrow> (Inl p, s2)
                 | (Inr aggregated, s2) \<Rightarrow>
                     (case asHealthStatus aggregated of
                        None \<Rightarrow> (Inl NilPointerDereference, s2)
                      | Some h \<Rightarrow>
                          (let (r, s3) = switchHealth ctx h job s2 in (Inr r, s3))))))"

definition LocalOperationJob_Run ::
  "('s, 'v, 'c) JobContext \<Rightarrow> ('s \<Rightarrow> 's) \<Rightarrow> nat \<Rightarrow> (LocalOperationJob, 's) cycle" where
  "LocalOperationJob_Run ctx wait ticks job s = runCycles (LocalOperationJob_runInner ctx) wait ticks job (wait s)"

section \<open>The placement and ownership transfer jobs\<close>

definition placementUpdate :: "string \<Rightarrow> ConditionStatus \<Rightarrow> Event \<Rightarrow> StatusUpdate" where
  "placementUpdate zone condition event st zoneId =
     (let st1 = st\<lparr>stOwnership := (stOwnership st)\<lparr>osPlacements := Some [\<lparr>plZone = zone, plNodeAffinity = []\<rparr>]\<rparr>\<rparr>
      in (fst (AddOrUpdate condition zoneId st1), True, event))"

definition LocalPlacementJob_Run :: "'s KubeEnv \<Rightarrow> LocalPlacementJob \<Rightarrow> 's \<Rightarrow> LocalPlacementJob \<times> 's" where
  "LocalPlacementJob_Run env job s =
     (let job1 = job\<lparr>pjStatus := PlacementStatusDone\<rparr>;
          (now, s1) = kNowTime env s;
          condition = LocalPlacementJob_GetStatus now job1;
          zone = cfgZoneId (pjConfig job);
          event = \<lparr>evReason = LocalStateChangeReason,
                   evMsg = pjMsg job @ '' Placement set to zone '' @ [CHR 0x27] @ zone @ [CHR 0x27]\<rparr>
      in case UpdateStatus env (GetNamespacedName (pjApplication job)) zone
                (Some (placementUpdate zone condition event)) s1 of
           (None, s2) \<Rightarrow> (job1, s2)
         | (Some err, s2) \<Rightarrow>
             (job1\<lparr>pjStatus := PlacementStatusFailure,
                   pjMsg := ''Cannot Update Application Condition. '' @ Error (kubeErrorCause err)\<rparr>, s2))"

definition OwnershipTransferJob_Run :: "OwnershipTransferJob \<Rightarrow> 's \<Rightarrow> OwnershipTransferJob \<times> 's" where
  "OwnershipTransferJob_Run job s = (job, s)"

section \<open>Loops that end\<close>

text \<open>A loop whose cycles that do not complete use up a budget by at least \<open>d\<close> completes before the
  budget is gone, whatever the ticks bring.\<close>

lemma runCycles_completes:
  fixes budget :: "'j \<Rightarrow> 's \<Rightarrow> int"
  assumes step: "\<And>job s. okj job s \<Longrightarrow>
      (\<exists>job' s'. cycle job s = (Inr (True, job'), s') \<and> good job')
      \<or> (\<exists>job' s'. cycle job s = (Inr (False, job'), s') \<and> okj job' (wait s')
            \<and> budget job' (wait s') + d \<le> budget job s)"
    and pos: "\<And>job s. okj job s \<Longrightarrow> 0 \<le> budget job s" and "0 < d"
    and "okj job s" and "budget job s < int n * d"
  shows "\<exists>job' s'. runCycles cycle wait n job s = (Inr (True, job'), s') \<and> good job'"
  using assms(4,5)
proof (induction n arbitrary: job s)
  case 0
  with pos [of job s] show ?case by simp
next
  case (Suc n)
  from step [OF Suc.prems(1)] show ?case
  proof
    assume "\<exists>job' s'. cycle job s = (Inr (True, job'), s') \<and> good job'"
    then show ?thesis by auto
  next
    assume "\<exists>job' s'. cycle job s = (Inr (False, job'), s') \<and> okj job' (wait s')
            \<and> budget job' (wait s') + d \<le> budget job s"
    then obtain job' s' where c: "cycle job s = (Inr (False, job'), s')" "okj job' (wait s')"
      "budget job' (wait s') + d \<le> budget job s" by blast
    then have "budget job' (wait s') < int n * d" using Suc.prems(2) by (simp add: algebra_simps)
    from Suc.IH [OF c(2) this] c(1) show ?thesis by simp
  qed
qed

text \<open>Time as the environment's clock tells it: it never goes back, and \<open>RetryOnConflict\<close> only runs the
  function it is given.\<close>

definition clock_env :: "'s KubeEnv \<Rightarrow> ('s \<Rightarrow> Time) \<Rightarrow> bool" where
  "clock_env env clk \<longleftrightarrow>
     (\<forall>s. clk s \<le> fst (kNowTime env s) \<and> fst (kNowTime env s) \<le> clk (snd (kNowTime env s)))
     \<and> (\<forall>k s. clk s \<le> clk (snd (kGet env k s)))
     \<and> (\<forall>a s. clk s \<le> clk (snd (kStatusUpdate env a s)))
     \<and> (\<forall>a x y s. clk s \<le> clk (kRecordEvent env a x y s))
     \<and> (\<forall>fn. (\<forall>s. clk s \<le> clk (snd (fn s))) \<longrightarrow> (\<forall>s. clk s \<le> clk (snd (kRetryOnConflict env fn s))))"

lemma clock_now:
  "clock_env env clk \<Longrightarrow> kNowTime env s = (t, s') \<Longrightarrow> clk s \<le> t \<and> t \<le> clk s'"
  unfolding clock_env_def by (metis fst_conv snd_conv)

lemma clock_attempt:
  assumes "clock_env env clk"
  shows "clk s \<le> clk (snd (updateAttempt env name k f s))"
proof -
  obtain g s1 where g: "kGet env name s = (g, s1)" by fastforce
  have 1: "clk s \<le> clk s1" using assms g unfolding clock_env_def by (metis snd_conv)
  show ?thesis
  proof (cases g)
    case (Inl e)
    then show ?thesis using 1 by (simp add: updateAttempt_def g)
  next
    case (Inr a)
    obtain st u ev where f: "(case f of None \<Rightarrow> (appStatus a, False, emptyEvent) | Some h \<Rightarrow> h (appStatus a) k) = (st, u, ev)"
      by (metis prod_cases3)
    obtain w s2 where w: "kStatusUpdate env (IncrementZoneVersion k (a\<lparr>appStatus := st\<rparr>)) s1 = (w, s2)" by fastforce
    have 2: "clk s1 \<le> clk s2" using assms w unfolding clock_env_def by (metis snd_conv)
    have 3: "clk s2 \<le> clk (Emit env b ev s2)" for b using assms by (simp add: clock_env_def Emit_def)
    from 1 2 3 show ?thesis
      by (cases w) (auto simp: updateAttempt_def g Inr f w intro: order_trans [OF order_trans])
  qed
qed

lemma clock_UpdateStatus: "clock_env env clk \<Longrightarrow> clk s \<le> clk (snd (UpdateStatus env name k f s))"
  unfolding UpdateStatus_def using clock_attempt [of env clk] by (auto simp: clock_env_def)

lemma clock_UpdateCondition:
  "clock_env env clk \<Longrightarrow> clk s \<le> clk (snd (UpdateCondition env name k ev c ts s))"
  by (simp add: UpdateCondition_def clock_UpdateStatus)

lemma clock_post:
  assumes "clock_env env clk"
  shows "clk s \<le> clk (let (now, s1) = kNowTime env s in snd (UpdateCondition env name k ev (c now) ts s1))"
proof -
  obtain now s1 where n: "kNowTime env s = (now, s1)" by fastforce
  then have "clk s \<le> clk s1" using clock_now [OF assms n] by simp
  with clock_UpdateCondition [OF assms, of s1 name k ev "c now" ts] show ?thesis by (simp add: n)
qed

lemma clock_DeployJob_updateStatus:
  "clock_env (jcKube ctx) clk \<Longrightarrow> clk s \<le> clk (DeployJob_updateStatus ctx job s)"
  unfolding DeployJob_updateStatus_def by (rule clock_post)

lemma clock_UndeployJob_updateStatus:
  "clock_env (jcKube ctx) clk \<Longrightarrow> clk s \<le> clk (UndeployJob_updateStatus ctx job s)"
  unfolding UndeployJob_updateStatus_def by (rule clock_post)

section \<open>The deployment job always ends\<close>

text \<open>What the job relies on: for its application and version \<open>SyncVersion\<close> does not panic, tells the
  health when it succeeds, and takes no negative time.\<close>

definition sync_reliable ::
  "('s, 'v) Applications \<Rightarrow> AnyApplication \<Rightarrow> 'v VersionPtr \<Rightarrow> ('s \<Rightarrow> Time) \<Rightarrow> bool" where
  "sync_reliable apps a v clk \<longleftrightarrow>
     (\<forall>s. \<exists>r err s'. apSyncVersion apps a v s = (Inr (r, err), s') \<and> clk s \<le> clk s'
        \<and> (err = None \<longrightarrow> asHealthStatus (syAggregatedStatus r) \<noteq> None))"

definition deployBudget :: "int \<Rightarrow> ('s \<Rightarrow> Time) \<Rightarrow> 'v DeployJob \<Rightarrow> 's \<Rightarrow> int" where
  "deployBudget d clk job s =
     (djRetryAttempts job - djAttempt job) * (max (djTimeout job) 0 + 2 * d)
     + max 0 (djStartTime job + djTimeout job - clk s + d)"

definition deployReady :: "('s, 'v) Applications \<Rightarrow> ('s \<Rightarrow> Time) \<Rightarrow> 'v DeployJob \<Rightarrow> bool" where
  "deployReady apps clk job \<longleftrightarrow>
     sync_reliable apps (djApplication job) (djVersion job) clk \<and> djAttempt job \<le> djRetryAttempts job"

lemma deployBudget_nonneg: "deployReady apps clk job \<Longrightarrow> 0 < d \<Longrightarrow> 0 \<le> deployBudget d clk job s"
  unfolding deployBudget_def deployReady_def by (intro add_nonneg_nonneg mult_nonneg_nonneg) auto

lemma deployBudget_wait:
  assumes "now \<le> djStartTime job + djTimeout job" and "clk s \<le> now" and "clk s + d \<le> t" and "0 < d"
    and "clk s' = t"
  shows "deployBudget d clk job s' + d \<le> deployBudget d clk job s"
  using assms unfolding deployBudget_def by (simp add: max_def)

lemma deployBudget_retry:
  assumes "djAttempt job < djRetryAttempts job" and "0 < d" and "now + d \<le> clk s'"
    and "job' = job\<lparr>djAttempt := djAttempt job + 1, djStartTime := now, djStatus := x, djMsg := y, djReason := z\<rparr>"
  shows "deployBudget d clk job' s' + d \<le> deployBudget d clk job s"
proof -
  have "max 0 (now + djTimeout job - clk s' + d) \<le> max (djTimeout job) 0" using assms(3) by simp
  moreover have "(djRetryAttempts job - (djAttempt job + 1)) * w + w = (djRetryAttempts job - djAttempt job) * w"
    for w by (simp add: algebra_simps)
  ultimately show ?thesis
    using assms(2) by (simp add: deployBudget_def assms(4)) (smt (verit, ccfv_SIG))
qed

lemma DeployJob_cycle:
  assumes env: "clock_env (jcKube ctx) clk" and "0 < d" and tick: "\<And>s. clk s + d \<le> clk (wait s)"
    and ready: "deployReady (jcApplications ctx) clk job"
  shows "(\<exists>job' s'. DeployJob_runSyncCycle ctx job s = (Inr (True, job'), s')
            \<and> djStatus job' \<in> {DeploymentStatusDone, DeploymentStatusFailure})
      \<or> (\<exists>job' s'. DeployJob_runSyncCycle ctx job s = (Inr (False, job'), s')
            \<and> deployReady (jcApplications ctx) clk job'
            \<and> deployBudget d clk job' (wait s') + d \<le> deployBudget d clk job s)"
proof -
  obtain r err s1 where sync: "apSyncVersion (jcApplications ctx) (djApplication job) (djVersion job) s = (Inr (r, err), s1)"
    and c1: "clk s \<le> clk s1" and h: "err = None \<longrightarrow> asHealthStatus (syAggregatedStatus r) \<noteq> None"
    using ready unfolding deployReady_def sync_reliable_def by meson
  show ?thesis
  proof (cases "err = None \<and> \<not> syApplicationResourcesDeployed r")
    case False
    then show ?thesis
      by (cases err) (auto simp: DeployJob_runSyncCycle_def sync Let_def DeployJob_Fail_def DeployJob_Success_def)
  next
    case True
    then obtain hs where hs: "asHealthStatus (syAggregatedStatus r) = Some hs" using h by auto
    obtain now s2 where n: "kNowTime (jcKube ctx) s1 = (now, s2)" by fastforce
    obtain now' s3 where n': "kNowTime (jcKube ctx) s2 = (now', s3)" by fastforce
    note t = clock_now [OF env n] clock_now [OF env n']
    show ?thesis
    proof (cases "djStartTime job + djTimeout job < now")
      case False
      have "deployBudget d clk job (wait s2) + d \<le> deployBudget d clk job s"
        by (rule deployBudget_wait [where now = now]) (use False t c1 tick [of s2] assms(2) in auto)
      then show ?thesis using True False ready by (simp add: DeployJob_runSyncCycle_def sync n)
    next
      case timed: True
      show ?thesis
      proof (cases "djAttempt job < djRetryAttempts job")
        case False
        then show ?thesis
          using True timed by (simp add: DeployJob_runSyncCycle_def sync n Let_def DeployJob_Fail_def)
      next
        case retry: True
        define job1 where "job1 = job\<lparr>djAttempt := djAttempt job + 1, djStartTime := now'\<rparr>"
        define job2 where "job2 = job1\<lparr>djStatus := DeploymentStatusPull,
          djMsg := ''Deployment failure: '' @ retryMessage job1 hs, djReason := ''Timeout''\<rparr>"
        have run: "DeployJob_runSyncCycle ctx job s = (Inr (False, job2), DeployJob_updateStatus ctx job2 s3)"
          using True timed retry
          by (simp add: DeployJob_runSyncCycle_def sync n n' hs Let_def DeployJob_AttemptFailure_def job1_def job2_def)
        have later: "now' + d \<le> clk (wait (DeployJob_updateStatus ctx job2 s3))"
          using t tick [of "DeployJob_updateStatus ctx job2 s3"] clock_DeployJob_updateStatus [OF env, of s3 job2]
          by linarith
        have "deployBudget d clk job2 (wait (DeployJob_updateStatus ctx job2 s3)) + d \<le> deployBudget d clk job s"
          by (rule deployBudget_retry [where clk = clk and now = now']) (use retry assms(2) later in \<open>simp_all add: job2_def job1_def\<close>)
        moreover have "deployReady (jcApplications ctx) clk job2"
          using ready retry by (simp add: deployReady_def job2_def job1_def)
        ultimately show ?thesis using run by blast
      qed
    qed
  qed
qed


text \<open>An environment that is its clock: nothing is stored, every reading is the state.\<close>

definition sampleClock :: "int KubeEnv" where
  "sampleClock = \<lparr>
     kGet = (\<lambda>_ s. (Inl (NotFound (ErrorString ''not found'')), s)),
     kStatusUpdate = (\<lambda>a s. (Inr a, s)), kUpdate = (\<lambda>a s. (Inr a, s)),
     kContextDone = (\<lambda>_. False), kNowTime = (\<lambda>s. (s, s)), kRecordEvent = (\<lambda>_ _ _ s. s),
     kRetryOnConflict = (\<lambda>fn. fn)\<rparr>"

definition sampleStuck :: "(int, nat) Applications" where
  "sampleStuck = \<lparr>
     apGetAllPresentVersions = (\<lambda>_ s. (Inr [SpecificVersion 1], s)),
     apGetTargetVersion = (\<lambda>_. Some (SpecificVersion 1)),
     apDetermineTargetVersion = (\<lambda>_ s. (Inr (Inr (Some (SpecificVersion 2))), s)),
     apGetAggregatedStatusVersion = (\<lambda>_ _ s. (Inr \<lparr>asHealthStatus = None, asChartVersion = None\<rparr>, s)),
     apSyncVersion = (\<lambda>_ _ s. (Inr (NewSyncResult\<lparr>syAggregatedStatus :=
        \<lparr>asHealthStatus = Some \<lparr>hsStatus = ''Progressing'', hsMessage = ''''\<rparr>, asChartVersion = None\<rparr>\<rparr>, None), s)),
     apCleanup = (\<lambda>_ s. (Inr (Inr [\<lparr>dlVersion = Some (SpecificVersion 1), dlTotal = 1, dlDeleted = 0,
        dlDeleteFailed = 1, dlApplicationResourcesPresent = True\<rparr>]), s))\<rparr>"

definition sampleJobConfig :: ApplicationRuntimeConfig where
  "sampleJobConfig = \<lparr>cfgZoneId = ''z'', cfgPollOperationalStatusInterval = 1, cfgPollSyncStatusInterval = 1,
     cfgChartVersionPollInterval = 1, cfgDefaultSyncTimeout = 10, cfgDefaultUndeployTimeout = 10\<rparr>"

definition sampleContext :: "(int, nat, nat) JobContext" where
  "sampleContext = \<lparr>jcKube = sampleClock, jcApplications = sampleStuck,
     jcSemver = \<lparr>svNewVersion = (\<lambda>_. Inr 1), svString = nat_text, svGreaterThan = (\<lambda>a b. b < a), svEqual = (=),
       svNewConstraint = (\<lambda>_. Inr 0), svCheck = (\<lambda>_ _. True), svConstraintString = nat_text\<rparr>,
     jcDurationString = int_text\<rparr>"

lemma sampleClock_env: "clock_env (jcKube sampleContext) (\<lambda>s. s)"
  by (simp add: clock_env_def sampleContext_def sampleClock_def)

definition sampleDeploy :: "nat DeployJob" where
  "sampleDeploy = NewDeployJob (\<lambda>_. None) 0 sampleJobConfig
     (sampleApp \<lparr>stOwnership = sampleOwnership NewGlobalState None, stZones = []\<rparr>) (Some (SpecificVersion 1))"


section \<open>The undeployment job\<close>

definition cleanup_reliable :: "('s, 'v) Applications \<Rightarrow> AnyApplication \<Rightarrow> ('s \<Rightarrow> Time) \<Rightarrow> bool" where
  "cleanup_reliable apps a clk \<longleftrightarrow>
     (\<forall>s. clk s \<le> clk (snd (apGetAllPresentVersions apps a s)))
     \<and> (\<forall>s. \<exists>r s'. apCleanup apps a s = (Inr r, s') \<and> clk s \<le> clk s'
          \<and> (\<forall>rs. r = Inr rs \<longrightarrow> (\<forall>x\<in>set rs. dlVersion x \<noteq> None)))"

definition undeployBudget :: "int \<Rightarrow> ('s \<Rightarrow> Time) \<Rightarrow> UndeployJob \<Rightarrow> 's \<Rightarrow> int" where
  "undeployBudget d clk job s =
     (ujRetryAttempts job - ujAttempt job) * (max (cfgDefaultUndeployTimeout (ujConfig job)) 0 + 2 * d)
     + max 0 (ujStartTime job + cfgDefaultUndeployTimeout (ujConfig job) - clk s + d)"

definition undeployReady :: "('s, 'v) Applications \<Rightarrow> ('s \<Rightarrow> Time) \<Rightarrow> UndeployJob \<Rightarrow> bool" where
  "undeployReady apps clk job \<longleftrightarrow>
     cleanup_reliable apps (ujApplication job) clk \<and> ujAttempt job \<le> ujRetryAttempts job"

lemma undeployBudget_nonneg: "undeployReady apps clk job \<Longrightarrow> 0 < d \<Longrightarrow> 0 \<le> undeployBudget d clk job s"
  unfolding undeployBudget_def undeployReady_def by (intro add_nonneg_nonneg mult_nonneg_nonneg) auto

lemma undeployBudget_wait:
  assumes "now \<le> ujStartTime job + cfgDefaultUndeployTimeout (ujConfig job)" and "clk s \<le> now"
    and "clk s + d \<le> clk s'" and "0 < d"
  shows "undeployBudget d clk (job\<lparr>ujMsg := x, ujReason := y\<rparr>) s' + d \<le> undeployBudget d clk job s"
  using assms unfolding undeployBudget_def by (simp add: max_def)

lemma undeployBudget_retry:
  assumes "ujAttempt job < ujRetryAttempts job" and "0 < d" and "now + d \<le> clk s'"
    and "job' = job\<lparr>ujAttempt := ujAttempt job + 1, ujStartTime := now, ujStatus := x, ujMsg := y, ujReason := z\<rparr>"
  shows "undeployBudget d clk job' s' + d \<le> undeployBudget d clk job s"
proof -
  let ?T = "cfgDefaultUndeployTimeout (ujConfig job)"
  have "max 0 (now + ?T - clk s' + d) \<le> max ?T 0" using assms(3) by simp
  moreover have "(ujRetryAttempts job - (ujAttempt job + 1)) * w + w = (ujRetryAttempts job - ujAttempt job) * w"
    for w by (simp add: algebra_simps)
  ultimately show ?thesis
    using assms(2) by (simp add: undeployBudget_def assms(4)) (smt (verit, ccfv_SIG))
qed

text \<open>What a cycle achieves: the job is over, or it goes on with a smaller budget.\<close>

definition undeployProgress ::
  "int \<Rightarrow> ('s \<Rightarrow> Time) \<Rightarrow> ('s \<Rightarrow> 's) \<Rightarrow> ('s, 'v) Applications \<Rightarrow> UndeployJob \<Rightarrow> 's \<Rightarrow> bool \<times> UndeployJob \<Rightarrow> 's \<Rightarrow> bool"
  where
  "undeployProgress d clk wait apps job s r s' \<longleftrightarrow>
     (if fst r then ujStatus (snd r) \<in> {UndeploymentStatusDone, UndeploymentStatusFailure}
      else undeployReady apps clk (snd r) \<and> undeployBudget d clk (snd r) (wait s') + d \<le> undeployBudget d clk job s)"

lemma maybeRetry_progress:
  assumes env: "clock_env (jcKube ctx) clk" and "0 < d" and tick: "\<And>s. clk s + d \<le> clk (wait s)"
    and ready: "undeployReady apps clk job"
    and run: "UndeployJob_maybeRetry ctx reason msg job s1 = (r, s')"
  shows "undeployProgress d clk wait apps job s r s'"
proof (cases "ujAttempt job < ujRetryAttempts job")
  case False
  then show ?thesis
    using run by (auto simp: UndeployJob_maybeRetry_def undeployProgress_def UndeployJob_Fail_def Let_def)
next
  case True
  obtain now s2 where n: "kNowTime (jcKube ctx) s1 = (now, s2)" by fastforce
  obtain x y z where r: "r = (False, job\<lparr>ujAttempt := ujAttempt job + 1, ujStartTime := now,
      ujStatus := x, ujMsg := y, ujReason := z\<rparr>)" and s': "s' = UndeployJob_updateStatus ctx (snd r) s2"
    using run True by (auto simp: UndeployJob_maybeRetry_def n UndeployJob_AttemptFailure_def Let_def)
  have later: "now + d \<le> clk (wait s')"
    using clock_now [OF env n] tick [of s'] clock_UndeployJob_updateStatus [OF env, of s2 "snd r"] s' by simp
  have "undeployBudget d clk (snd r) (wait s') + d \<le> undeployBudget d clk job s"
    by (rule undeployBudget_retry [where clk = clk and now = now]) (use True assms(2) later r in simp_all)
  then show ?thesis using True ready r by (simp add: undeployProgress_def undeployReady_def)
qed

lemma formatDeleteResultsMessage_total:
  "(\<forall>x\<in>set rs. dlVersion x \<noteq> None) \<Longrightarrow> \<exists>t. formatDeleteResultsMessage sv rs = Inr t"
  by (induction rs) auto

lemma UndeployJob_cycle:
  assumes env: "clock_env (jcKube ctx) clk" and "0 < d" and tick: "\<And>s. clk s + d \<le> clk (wait s)"
    and ready: "undeployReady (jcApplications ctx) clk job"
  shows "\<exists>r s'. UndeployJob_runInner ctx job s = (Inr r, s')
     \<and> undeployProgress d clk wait (jcApplications ctx) job s r s'"
proof -
  let ?P = "\<lambda>r s'. undeployProgress d clk wait (jcApplications ctx) job s r s'"
  note retry = maybeRetry_progress [OF env assms(2) tick ready]
  have over: "?P (True, job\<lparr>ujStatus := UndeploymentStatusDone, ujMsg := x, ujReason := y\<rparr>) s'" for x y s'
    by (simp add: undeployProgress_def)
  have ready': "cleanup_reliable (jcApplications ctx) (ujApplication job) clk"
    using ready by (simp add: undeployReady_def)
  obtain g s1 where g: "apGetAllPresentVersions (jcApplications ctx) (ujApplication job) s = (g, s1)" by fastforce
  have c1: "clk s \<le> clk s1" using ready' g unfolding cleanup_reliable_def by (metis snd_conv)
  show ?thesis
  proof (cases "\<exists>vs. g = Inr vs \<and> vs \<noteq> []")
    case False
    then show ?thesis
      using retry [of _ _ s1] over
      by (cases g) (auto simp: UndeployJob_runInner_def g UndeployJob_Success_def Let_def split: prod.split)
  next
    case True
    then obtain vs where vs: "g = Inr vs" "vs \<noteq> []" by blast
    obtain c s2 where c: "apCleanup (jcApplications ctx) (ujApplication job) s1 = (Inr c, s2)"
      and c2: "clk s1 \<le> clk s2" and ver: "\<forall>rs. c = Inr rs \<longrightarrow> (\<forall>x\<in>set rs. dlVersion x \<noteq> None)"
      using ready' unfolding cleanup_reliable_def by meson
    show ?thesis
    proof (cases c)
      case (Inl e)
      then show ?thesis
        using retry [of _ _ s2] by (auto simp: UndeployJob_runInner_def g vs c split: prod.split)
    next
      case (Inr rs)
      then obtain t where t: "formatDeleteResultsMessage (jcSemver ctx) rs = Inr t"
        using ver formatDeleteResultsMessage_total by blast
      obtain now s3 where n: "kNowTime (jcKube ctx) s2 = (now, s3)" by fastforce
      show ?thesis
      proof (cases "IsApplicationResourcesPresent rs
          \<and> \<not> ujStartTime job + cfgDefaultUndeployTimeout (ujConfig job) < now")
        case False
        then show ?thesis
          using retry [of _ _ s3] over
          by (auto simp: UndeployJob_runInner_def g vs c Inr t n UndeployJob_Success_def Let_def split: prod.split)
      next
        case goes_on: True
        let ?j = "job\<lparr>ujMsg := t, ujReason := ''''\<rparr>"
        let ?s = "UndeployJob_updateStatus ctx ?j s3"
        have run: "UndeployJob_runInner ctx job s = (Inr (False, ?j), ?s)"
          using goes_on by (simp add: UndeployJob_runInner_def g vs c Inr t n UndeployJob_Progress_def Let_def)
        have "clk s + d \<le> clk (wait ?s)"
          using clock_now [OF env n] c1 c2 tick [of ?s] clock_UndeployJob_updateStatus [OF env, of s3 ?j] by linarith
        then have "undeployBudget d clk ?j (wait ?s) + d \<le> undeployBudget d clk job s"
          using goes_on clock_now [OF env n] c1 c2 assms(2) by (intro undeployBudget_wait [where now = now]) auto
        then show ?thesis using run ready by (auto simp: undeployProgress_def undeployReady_def)
      qed
    qed
  qed
qed

text \<open>C21: an undeployment job ends too, within the number of ticks its timeout and attempts allow, whether
  resources stay, deletions fail or the reads keep failing.\<close>

theorem UndeployJob_terminates:
  assumes "clock_env (jcKube ctx) clk" and "0 < d" and "\<And>s. clk s + d \<le> clk (wait s)"
    and "cleanup_reliable (jcApplications ctx) (ujApplication job) clk"
    and "ujAttempt job \<le> ujRetryAttempts job"
    and "(ujRetryAttempts job - ujAttempt job) * (max (cfgDefaultUndeployTimeout (ujConfig job)) 0 + 2 * d)
       + max 0 (ujStartTime job + cfgDefaultUndeployTimeout (ujConfig job) - clk s + d) < (int ticks + 1) * d"
  shows "\<exists>job' s'. UndeployJob_Run ctx wait ticks job s = (Inr (True, job'), s')
     \<and> ujStatus job' \<in> {UndeploymentStatusDone, UndeploymentStatusFailure}"
  unfolding UndeployJob_Run_def
proof (rule runCycles_completes [where okj = "\<lambda>job s. undeployReady (jcApplications ctx) clk job"
      and budget = "undeployBudget d clk" and d = d])
  show "undeployBudget d clk job s < int (Suc ticks) * d"
    using assms(6) by (simp add: undeployBudget_def algebra_simps)
  show "0 \<le> undeployBudget d clk job s" if "undeployReady (jcApplications ctx) clk job" for job s
    using undeployBudget_nonneg [OF that assms(2)] .
  show "undeployReady (jcApplications ctx) clk job" using assms(4,5) by (simp add: undeployReady_def)
  fix job s
  assume "undeployReady (jcApplications ctx) clk job"
  then obtain b job' s' where "UndeployJob_runInner ctx job s = (Inr (b, job'), s')"
    and "undeployProgress d clk wait (jcApplications ctx) job s (b, job') s'"
    using UndeployJob_cycle [OF assms(1,2,3)] by (metis surj_pair)
  then show "(\<exists>job' s'. UndeployJob_runInner ctx job s = (Inr (True, job'), s')
        \<and> ujStatus job' \<in> {UndeploymentStatusDone, UndeploymentStatusFailure})
      \<or> (\<exists>job' s'. UndeployJob_runInner ctx job s = (Inr (False, job'), s')
        \<and> undeployReady (jcApplications ctx) clk job'
        \<and> undeployBudget d clk job' (wait s') + d \<le> undeployBudget d clk job s)"
    by (cases b) (auto simp: undeployProgress_def)
qed (fact assms(2))

definition sampleUndeploy :: UndeployJob where
  "sampleUndeploy = NewUndeployJob 0 sampleJobConfig
     (sampleApp \<lparr>stOwnership = sampleOwnership NewGlobalState None, stZones = []\<rparr>)"

theorem UndeployJob_terminates_witness:
  "\<exists>job' s'. UndeployJob_Run sampleContext (\<lambda>s. s + 1) 35 sampleUndeploy 0 = (Inr (True, job'), s')
     \<and> ujStatus job' \<in> {UndeploymentStatusDone, UndeploymentStatusFailure}"
proof -
  have r: "cleanup_reliable (jcApplications sampleContext) (ujApplication sampleUndeploy) (\<lambda>s. s)"
    by (simp add: cleanup_reliable_def sampleContext_def sampleStuck_def)
  show ?thesis
    by (rule UndeployJob_terminates [OF sampleClock_env _ _ r, where d = 1])
      (simp_all add: sampleUndeploy_def NewUndeployJob_def sampleJobConfig_def)
qed

text \<open>C14: an undeployment job reports done only for an application of which nothing was left: no version was
  present, or the cleanup just made left no resource; and it reports failure only in its last
  attempt.\<close>

theorem UndeployJob_done_means_absent:
  assumes "UndeployJob_runInner ctx job s = (Inr (True, job'), s')"
  shows "(ujStatus job' = UndeploymentStatusDone
       \<and> (\<exists>s1. apGetAllPresentVersions (jcApplications ctx) (ujApplication job) s = (Inr [], s1)
           \<or> (\<exists>vs s2 rs. apGetAllPresentVersions (jcApplications ctx) (ujApplication job) s = (Inr vs, s1)
               \<and> apCleanup (jcApplications ctx) (ujApplication job) s1 = (Inr (Inr rs), s2)
               \<and> (\<forall>r\<in>set rs. \<not> dlApplicationResourcesPresent r))))
     \<or> (ujStatus job' = UndeploymentStatusFailure \<and> ujRetryAttempts job \<le> ujAttempt job)"
proof -
  have retry: "ujStatus j = UndeploymentStatusFailure \<and> ujRetryAttempts job \<le> ujAttempt job"
    if "UndeployJob_maybeRetry ctx reason msg job t = ((True, j), t')" for reason msg t j t'
    using that by (auto simp: UndeployJob_maybeRetry_def UndeployJob_Fail_def Let_def split: if_splits prod.splits)
  obtain g s1 where g: "apGetAllPresentVersions (jcApplications ctx) (ujApplication job) s = (g, s1)" by fastforce
  show ?thesis
  proof (cases "\<exists>vs. g = Inr vs \<and> vs \<noteq> []")
    case False
    then show ?thesis
      using assms g retry
      by (cases g) (auto simp: UndeployJob_runInner_def UndeployJob_Success_def Let_def split: prod.splits)
  next
    case True
    then obtain vs where vs: "g = Inr vs" "vs \<noteq> []" by blast
    obtain c s2 where c: "apCleanup (jcApplications ctx) (ujApplication job) s1 = (c, s2)" by fastforce
    consider (panic) p where "c = Inl p" | (err) e where "c = Inr (Inl e)" | (ok) rs where "c = Inr (Inr rs)"
      by (cases c) (metis sum.exhaust)+
    then show ?thesis
    proof cases
      case panic
      then show ?thesis using assms by (simp add: UndeployJob_runInner_def g vs c)
    next
      case err
      then show ?thesis
        using assms retry by (auto simp: UndeployJob_runInner_def g vs c split: prod.splits)
    next
      case ok
      obtain t where t: "formatDeleteResultsMessage (jcSemver ctx) rs = Inr t"
        using assms by (cases "formatDeleteResultsMessage (jcSemver ctx) rs")
          (simp_all add: UndeployJob_runInner_def g vs c ok)
      show ?thesis
      proof (cases "IsApplicationResourcesPresent rs")
        case True
        then show ?thesis
          using assms retry
          by (auto simp: UndeployJob_runInner_def g vs c ok t UndeployJob_Progress_def Let_def
              split: prod.splits if_splits)
      next
        case False
        then have "\<forall>r\<in>set rs. \<not> dlApplicationResourcesPresent r"
          by (auto simp: IsApplicationResourcesPresent_def list_ex_iff)
        moreover have "ujStatus job' = UndeploymentStatusDone"
          using assms False
          by (auto simp: UndeployJob_runInner_def g vs c ok t UndeployJob_Success_def Let_def)
        ultimately show ?thesis using g vs c ok by auto
      qed
    qed
  qed
qed

theorem UndeployJob_done_means_absent_witness:
  "ujStatus (snd (projr (fst (UndeployJob_runInner sampleContext (sampleUndeploy\<lparr>ujAttempt := 3\<rparr>) 11))))
     = UndeploymentStatusFailure"
proof -
  let ?j = "sampleUndeploy\<lparr>ujAttempt := 3\<rparr>"
  obtain job' s' where r: "UndeployJob_runInner sampleContext ?j 11 = (Inr (True, job'), s')"
    by (simp add: UndeployJob_runInner_def sampleContext_def sampleStuck_def sampleClock_def sampleUndeploy_def
        NewUndeployJob_def sampleJobConfig_def IsApplicationResourcesPresent_def UndeployJob_maybeRetry_def
        UndeployJob_Fail_def Let_def)
  from UndeployJob_done_means_absent [OF r]
  have "ujStatus job' = UndeploymentStatusFailure"
    by (auto simp: sampleContext_def sampleStuck_def)
  then show ?thesis using r by simp
qed

section \<open>The operation job\<close>

text \<open>A cycle of the operation job on a healthy answer goes on exactly when the target version is still
  the deployed one and its health is none of degraded, unknown and missing; what it reports is
  that health, or that a sync is required.\<close>

lemma LocalOperationJob_cycle_table:
  assumes "apDetermineTargetVersion (jcApplications ctx) (ojApplication job) s = (Inr (Inr (Some target)), s1)"
    and "apGetAggregatedStatusVersion (jcApplications ctx) (ojApplication job)
           (apGetTargetVersion (jcApplications ctx) (ojApplication job)) s1 = (Inr aggregated, s2)"
    and "asHealthStatus aggregated = Some h"
  shows "\<exists>b job' s'. LocalOperationJob_runInner ctx job s = (Inr (b, job'), s')
    \<and> (let same = (\<exists>v. apGetTargetVersion (jcApplications ctx) (ojApplication job) = Some v
                     \<and> SpecificVersion_Equal (jcSemver ctx) target v)
       in (b \<longleftrightarrow> \<not> same \<or> hsStatus h \<in> {HealthStatusDegraded, HealthStatusUnknown, HealthStatusMissing})
          \<and> ojStatus job' = (if same then hsStatus h else HealthStatusProgressing)
          \<and> (\<not> same \<longrightarrow> ojReason job' = ''SyncRequired''))"
proof (cases "apGetTargetVersion (jcApplications ctx) (ojApplication job)")
  case None
  then show ?thesis
    using assms(1) by (auto simp: LocalOperationJob_runInner_def LocalOperationJob_Fail_def Let_def)
next
  case (Some v)
  show ?thesis
  proof (cases "SpecificVersion_Equal (jcSemver ctx) target v")
    case False
    then show ?thesis
      using assms(1) Some by (auto simp: LocalOperationJob_runInner_def LocalOperationJob_Fail_def Let_def)
  next
    case True
    have run: "LocalOperationJob_runInner ctx job s =
        (Inr (fst (switchHealth ctx h job s2)), snd (switchHealth ctx h job s2))"
      using assms Some True by (simp add: LocalOperationJob_runInner_def Let_def case_prod_unfold)
    show ?thesis
      unfolding run using Some True
      by (auto simp: switchHealth_def Let_def LocalOperationJob_Fail_def LocalOperationJob_Success_def health_defs)
  qed
qed

lemma LocalOperationJob_cycle_table_example:
  "\<exists>job' s'. LocalOperationJob_runInner
       (sampleContext\<lparr>jcApplications := sampleStuck\<lparr>apGetAggregatedStatusVersion := \<lambda>_ _ s.
          (Inr \<lparr>asHealthStatus = Some \<lparr>hsStatus = ''Healthy'', hsMessage = ''''\<rparr>, asChartVersion = None\<rparr>, s)\<rparr>\<rparr>)
       (NewLocalOperationJob sampleJobConfig
          (sampleApp \<lparr>stOwnership = sampleOwnership NewGlobalState None, stZones = []\<rparr>)) 0
     = (Inr (True, job'), s') \<and> ojReason job' = ''SyncRequired''"
proof -
  let ?ctx = "sampleContext\<lparr>jcApplications := sampleStuck\<lparr>apGetAggregatedStatusVersion := \<lambda>_ _ s.
          (Inr \<lparr>asHealthStatus = Some \<lparr>hsStatus = ''Healthy'', hsMessage = ''''\<rparr>, asChartVersion = None\<rparr>, s)\<rparr>\<rparr>"
  let ?job = "NewLocalOperationJob sampleJobConfig
          (sampleApp \<lparr>stOwnership = sampleOwnership NewGlobalState None, stZones = []\<rparr>)"
  have "apDetermineTargetVersion (jcApplications ?ctx) (ojApplication ?job) 0 = (Inr (Inr (Some (SpecificVersion 2))), 0)"
    "apGetAggregatedStatusVersion (jcApplications ?ctx) (ojApplication ?job)
        (apGetTargetVersion (jcApplications ?ctx) (ojApplication ?job)) 0
      = (Inr \<lparr>asHealthStatus = Some \<lparr>hsStatus = ''Healthy'', hsMessage = ''''\<rparr>, asChartVersion = None\<rparr>, 0)"
    by (simp_all add: sampleStuck_def)
  from LocalOperationJob_cycle_table [OF this] show ?thesis
    by (auto simp: sampleContext_def sampleStuck_def SpecificVersion_Equal_def Let_def)
qed

end
