(* ===== verification/JobRegistry.thy ===== *)
theory JobRegistry
  imports AsyncJobs
begin

text \<open>
  \<open>internal/controller/job/jobs.go\<close>: the table of running jobs, one worker goroutine per job, and the
  interface \<open>AsyncJobs\<close> the reconciler uses. The table is a \<open>sync.Map\<close>, so each of its calls is
  one atomic step; a worker's \<open>Stop\<close> is a sequence of such steps, run by whoever called it, and
  other goroutines may act in between. The state keeps every worker ever made, by number, and
  the \<open>Stop\<close> calls that are under way. \<open>StopAll\<close> cancels the context that the contexts of all jobs
  come from.
\<close>

section \<open>Workers and the table\<close>

text \<open>A worker's goroutine is queued by \<open>go\<close>, runs the job, or has returned from it.\<close>

datatype WorkerPhase = Queued | Running | Returned

record 'v JobWorker =
  jwJob :: "'v AsyncJob"
  jwStopped :: bool
  jwCancelFunc :: bool
  jwCancelled :: bool
  jwPhase :: WorkerPhase

definition NewJobWorker :: "'v AsyncJob \<Rightarrow> 'v JobWorker" where
  "NewJobWorker job = \<lparr>jwJob = job, jwStopped = False, jwCancelFunc = False, jwCancelled = False,
     jwPhase = Queued\<rparr>"

text \<open>Where a call of \<open>JobWorker.Stop\<close> is: before its compare-and-swap, before the cancel, and in the
  cleanup function before its \<open>Load\<close> and before its \<open>Delete\<close>.\<close>

datatype StopCall = AtSwap nat | AtCancel nat | AtLoad nat | AtDelete ApplicationId

record 'v Jobs =
  jbTable :: "ApplicationId \<rightharpoonup> nat"
  jbWorkers :: "'v JobWorker list"
  jbStops :: "StopCall list"
  jbCancelled :: bool

definition NewJobs :: "'v Jobs" where
  "NewJobs = \<lparr>jbTable = Map.empty, jbWorkers = [], jbStops = [], jbCancelled = False\<rparr>"

definition StopAll :: "'v Jobs \<Rightarrow> 'v Jobs" where
  "StopAll j = j\<lparr>jbCancelled := True\<rparr>"

text \<open>What a running job sees: its own context is cancelled, or the one it comes from.\<close>

definition workerCancelled :: "'v Jobs \<Rightarrow> nat \<Rightarrow> bool" where
  "workerCancelled j w \<longleftrightarrow> jbCancelled j \<or> jwCancelled (jbWorkers j ! w)"

definition jobOwner :: "'v AsyncJob \<Rightarrow> ApplicationId" where
  "jobOwner job = jidApplicationId (GetJobID job)"

text \<open>\<open>Execute\<close> up to \<open>go worker.Run\<close>, \<open>GetCurrent\<close>, and \<open>Stop\<close> up to the call of the worker's \<open>Stop\<close>.\<close>

definition Execute :: "'v AsyncJob \<Rightarrow> 'v Jobs \<Rightarrow> 'v Jobs" where
  "Execute job j = j\<lparr>jbTable := (jbTable j)(jobOwner job \<mapsto> length (jbWorkers j)),
     jbWorkers := jbWorkers j @ [NewJobWorker job]\<rparr>"

definition GetCurrent :: "ApplicationId \<Rightarrow> 'v Jobs \<Rightarrow> 'v AsyncJob option" where
  "GetCurrent aid j =
     (case jbTable j aid of
        None \<Rightarrow> None
      | Some w \<Rightarrow> if w < length (jbWorkers j) then Some (jwJob (jbWorkers j ! w)) else None)"

definition Stop :: "ApplicationId \<Rightarrow> 'v Jobs \<Rightarrow> 'v Jobs" where
  "Stop aid j =
     (case jbTable j aid of
        None \<Rightarrow> j
      | Some w \<Rightarrow> j\<lparr>jbTable := (jbTable j)(aid := None), jbStops := AtSwap w # jbStops j\<rparr>)"

definition updateWorker :: "nat \<Rightarrow> ('v JobWorker \<Rightarrow> 'v JobWorker) \<Rightarrow> 'v Jobs \<Rightarrow> 'v Jobs" where
  "updateWorker w f j = j\<lparr>jbWorkers := (jbWorkers j)[w := f (jbWorkers j ! w)]\<rparr>"

text \<open>\<open>JobWorker.Run\<close>: its context and cancel function, then the job, then its own \<open>Stop\<close>.\<close>

definition beginRun :: "nat \<Rightarrow> 'v Jobs \<Rightarrow> 'v Jobs" where
  "beginRun w = updateWorker w (\<lambda>k. k\<lparr>jwCancelFunc := True, jwPhase := Running\<rparr>)"

definition endRun :: "nat \<Rightarrow> 'v Jobs \<Rightarrow> 'v Jobs" where
  "endRun w j = (updateWorker w (\<lambda>k. k\<lparr>jwPhase := Returned\<rparr>) j)\<lparr>jbStops := AtSwap w # jbStops j\<rparr>"

text \<open>One step of a \<open>Stop\<close> call: its effect and where the call is afterwards, if it goes on.\<close>

fun stopStep :: "StopCall \<Rightarrow> 'v Jobs \<Rightarrow> 'v Jobs \<times> StopCall option" where
  "stopStep (AtSwap w) j =
     (if jwStopped (jbWorkers j ! w) then (j, None)
      else (updateWorker w (\<lambda>k. k\<lparr>jwStopped := True\<rparr>) j, Some (AtCancel w)))"
| "stopStep (AtCancel w) j =
     (if jwCancelFunc (jbWorkers j ! w) then (updateWorker w (\<lambda>k. k\<lparr>jwCancelled := True\<rparr>) j, Some (AtLoad w))
      else (j, Some (AtLoad w)))"
| "stopStep (AtLoad w) j =
     (let jobID = GetJobID (jwJob (jbWorkers j ! w))
      in case jbTable j (jidApplicationId jobID) of
           None \<Rightarrow> (j, None)
         | Some w' \<Rightarrow>
             if GetJobID (jwJob (jbWorkers j ! w')) = jobID then (j, Some (AtDelete (jidApplicationId jobID)))
             else (j, None))"
| "stopStep (AtDelete aid) j = (j\<lparr>jbTable := (jbTable j)(aid := None)\<rparr>, None)"

definition advanceStop :: "nat \<Rightarrow> 'v Jobs \<Rightarrow> 'v Jobs" where
  "advanceStop i j =
     (let (j', nxt) = stopStep (jbStops j ! i) j;
          others = take i (jbStops j) @ drop (Suc i) (jbStops j)
      in j'\<lparr>jbStops := (case nxt of None \<Rightarrow> others | Some c \<Rightarrow> c # others)\<rparr>)"

section \<open>The steps\<close>

inductive jobs_step :: "'v Jobs \<Rightarrow> 'v Jobs \<Rightarrow> bool" where
  execute: "jobs_step j (Execute job j)"
| stop: "jobs_step j (Stop aid j)"
| begins: "w < length (jbWorkers j) \<Longrightarrow> jwPhase (jbWorkers j ! w) = Queued \<Longrightarrow> jobs_step j (beginRun w j)"
| returns: "w < length (jbWorkers j) \<Longrightarrow> jwPhase (jbWorkers j ! w) = Running \<Longrightarrow> jobs_step j (endRun w j)"
| stopping: "i < length (jbStops j) \<Longrightarrow> jobs_step j (advanceStop i j)"
| shutdown: "jobs_step j (StopAll j)"

inductive jobs_reachable :: "'v Jobs \<Rightarrow> bool" where
  init: "jobs_reachable NewJobs"
| step: "jobs_reachable j \<Longrightarrow> jobs_step j j' \<Longrightarrow> jobs_reachable j'"

inductive_cases jobs_stepE: "jobs_step j j'"

section \<open>The interface AsyncJobs\<close>

text \<open>What the reconciler relies on: a job executed is the current one of its application, a stopped
  application has none, and other applications are not disturbed.\<close>

locale async_jobs =
  fixes execute :: "'job \<Rightarrow> 's \<Rightarrow> 's" and current :: "'id \<Rightarrow> 's \<Rightarrow> 'job option" and halt :: "'id \<Rightarrow> 's \<Rightarrow> 's"
    and owner :: "'job \<Rightarrow> 'id" and ok :: "'s \<Rightarrow> bool"
  assumes current_execute: "ok s \<Longrightarrow> current aid (execute job s) = (if aid = owner job then Some job else current aid s)"
    and current_halt: "ok s \<Longrightarrow> current aid' (halt aid s) = (if aid' = aid then None else current aid' s)"
    and ok_execute: "ok s \<Longrightarrow> ok (execute job s)"
    and ok_halt: "ok s \<Longrightarrow> ok (halt aid s)"
begin

lemma current_replace:
  "ok s \<Longrightarrow> current aid (execute job (halt (owner job) s)) = (if aid = owner job then Some job else current aid s)"
  by (simp add: current_execute current_halt ok_halt)

end

text \<open>The table only names workers that exist, each under the application of its job.\<close>

definition tableOk :: "'v Jobs \<Rightarrow> bool" where
  "tableOk j \<longleftrightarrow> (\<forall>aid w. jbTable j aid = Some w \<longrightarrow> w < length (jbWorkers j) \<and> jobOwner (jwJob (jbWorkers j ! w)) = aid)"

lemma GetCurrent_Execute:
  "tableOk j \<Longrightarrow> GetCurrent aid (Execute job j) = (if aid = jobOwner job then Some job else GetCurrent aid j)"
  by (fastforce simp: GetCurrent_def Execute_def NewJobWorker_def tableOk_def nth_append split: option.split)

lemma GetCurrent_Stop: "GetCurrent aid' (Stop aid j) = (if aid' = aid then None else GetCurrent aid' j)"
  by (auto simp: GetCurrent_def Stop_def split: option.split)

lemma tableOk_Execute: "tableOk j \<Longrightarrow> tableOk (Execute job j)"
  by (auto simp: tableOk_def Execute_def NewJobWorker_def nth_append less_Suc_eq)

lemma tableOk_Stop: "tableOk j \<Longrightarrow> tableOk (Stop aid j)"
  by (auto simp: tableOk_def Stop_def split: option.split if_splits)

interpretation table: async_jobs Execute GetCurrent Stop jobOwner tableOk
  by unfold_locales (simp_all add: GetCurrent_Execute GetCurrent_Stop tableOk_Execute tableOk_Stop)

section \<open>No dead job stays in the table\<close>

text \<open>The invariant over what it reads of a state: how many workers there are, the table, the owner of
  each worker's job, which workers are stopped, returned and cancelled, and the calls under
  way. A stopped worker that is still in the table has a call that will clean its entry.\<close>

definition registry_inv ::
  "nat \<Rightarrow> (ApplicationId \<rightharpoonup> nat) \<Rightarrow> (nat \<Rightarrow> ApplicationId) \<Rightarrow> (nat \<Rightarrow> bool) \<Rightarrow> (nat \<Rightarrow> bool) \<Rightarrow> (nat \<Rightarrow> bool)
     \<Rightarrow> StopCall set \<Rightarrow> bool" where
  "registry_inv n tbl own stopped returned cancelled calls \<longleftrightarrow>
     (\<forall>a w. tbl a = Some w \<longrightarrow> w < n \<and> own w = a)
     \<and> (\<forall>w. AtSwap w \<in> calls \<longrightarrow> w < n)
     \<and> (\<forall>w. AtCancel w \<in> calls \<longrightarrow> w < n \<and> stopped w)
     \<and> (\<forall>w. AtLoad w \<in> calls \<longrightarrow> w < n \<and> stopped w)
     \<and> (\<forall>w<n. returned w \<longrightarrow> stopped w \<or> AtSwap w \<in> calls)
     \<and> (\<forall>w<n. cancelled w \<longrightarrow> stopped w)
     \<and> (\<forall>a w. tbl a = Some w \<and> stopped w \<longrightarrow> AtCancel w \<in> calls \<or> AtLoad w \<in> calls \<or> AtDelete a \<in> calls)"

definition jobs_inv :: "'v Jobs \<Rightarrow> bool" where
  "jobs_inv j \<longleftrightarrow> registry_inv (length (jbWorkers j)) (jbTable j)
     (\<lambda>w. jobOwner (jwJob (jbWorkers j ! w))) (\<lambda>w. jwStopped (jbWorkers j ! w))
     (\<lambda>w. jwPhase (jbWorkers j ! w) = Returned) (\<lambda>w. jwCancelled (jbWorkers j ! w)) (set (jbStops j))"

lemma registry_inv_cong:
  assumes "\<And>w. w < n \<Longrightarrow> own' w = own w \<and> stopped' w = stopped w \<and> returned' w = returned w \<and> cancelled' w = cancelled w"
  shows "registry_inv n tbl own' stopped' returned' cancelled' calls = registry_inv n tbl own stopped returned cancelled calls"
  using assms unfolding registry_inv_def by (smt (verit, best))

lemma jobs_inv_tableOk: "jobs_inv j \<Longrightarrow> tableOk j"
  by (simp add: jobs_inv_def registry_inv_def tableOk_def)

lemma jobs_inv_init: "jobs_inv NewJobs"
  by (simp add: jobs_inv_def NewJobs_def registry_inv_def)

lemma updateWorker_nth:
  "w < length (jbWorkers j) \<Longrightarrow> w' < length (jbWorkers j) \<Longrightarrow>
     jbWorkers (updateWorker w f j) ! w' = (if w' = w then f (jbWorkers j ! w) else jbWorkers j ! w')"
  by (simp add: updateWorker_def nth_list_update)

lemma updateWorker_sel [simp]:
  "jbTable (updateWorker w f j) = jbTable j"
  "jbStops (updateWorker w f j) = jbStops j"
  "length (jbWorkers (updateWorker w f j)) = length (jbWorkers j)"
  by (simp_all add: updateWorker_def)

lemma jobs_inv_execute:
  assumes "jobs_inv j"
  shows "jobs_inv (Execute job j)"
proof -
  have "registry_inv (Suc (length (jbWorkers j))) ((jbTable j)(jobOwner job \<mapsto> length (jbWorkers j)))
     (\<lambda>w. if w = length (jbWorkers j) then jobOwner job else jobOwner (jwJob (jbWorkers j ! w)))
     (\<lambda>w. w \<noteq> length (jbWorkers j) \<and> jwStopped (jbWorkers j ! w))
     (\<lambda>w. w \<noteq> length (jbWorkers j) \<and> jwPhase (jbWorkers j ! w) = Returned)
     (\<lambda>w. w \<noteq> length (jbWorkers j) \<and> jwCancelled (jbWorkers j ! w)) (set (jbStops j))"
    using assms by (auto simp: jobs_inv_def registry_inv_def less_Suc_eq)
  then show ?thesis
    unfolding jobs_inv_def by (subst registry_inv_cong [rotated])
      (auto simp: Execute_def NewJobWorker_def nth_append less_Suc_eq)
qed

lemma jobs_inv_stop: "jobs_inv j \<Longrightarrow> jobs_inv (Stop aid j)"
  by (auto simp: jobs_inv_def registry_inv_def Stop_def split: option.split if_splits)

lemma jobs_inv_begins:
  assumes "jobs_inv j" and "w < length (jbWorkers j)"
  shows "jobs_inv (beginRun w j)"
proof -
  have "registry_inv (length (jbWorkers j)) (jbTable j)
     (\<lambda>x. jobOwner (jwJob (jbWorkers j ! x))) (\<lambda>x. jwStopped (jbWorkers j ! x))
     (\<lambda>x. x \<noteq> w \<and> jwPhase (jbWorkers j ! x) = Returned) (\<lambda>x. jwCancelled (jbWorkers j ! x)) (set (jbStops j))"
    using assms by (auto simp: jobs_inv_def registry_inv_def)
  then show ?thesis
    unfolding jobs_inv_def beginRun_def by (subst registry_inv_cong [rotated]) (auto simp: updateWorker_nth assms)
qed

lemma jobs_inv_returns:
  assumes "jobs_inv j" and "w < length (jbWorkers j)"
  shows "jobs_inv (endRun w j)"
proof -
  have "registry_inv (length (jbWorkers j)) (jbTable j)
     (\<lambda>x. jobOwner (jwJob (jbWorkers j ! x))) (\<lambda>x. jwStopped (jbWorkers j ! x))
     (\<lambda>x. x = w \<or> jwPhase (jbWorkers j ! x) = Returned) (\<lambda>x. jwCancelled (jbWorkers j ! x))
     (insert (AtSwap w) (set (jbStops j)))"
    using assms by (auto simp: jobs_inv_def registry_inv_def)
  then show ?thesis
    unfolding jobs_inv_def endRun_def by (subst registry_inv_cong [rotated]) (auto simp: updateWorker_nth assms)
qed

text \<open>A \<open>Stop\<close> call is taken out of those under way and put back where it is afterwards.\<close>

lemma others_set:
  assumes "i < length xs"
  shows "set xs = insert (xs ! i) (set (take i xs @ drop (Suc i) xs))"
  using id_take_nth_drop [OF assms] by (metis Un_insert_right list.simps(15) set_append)

lemma registry_inv_swap:
  assumes "registry_inv n tbl own stopped returned cancelled (insert (AtSwap w) calls)"
  shows "stopped w \<Longrightarrow> registry_inv n tbl own stopped returned cancelled calls"
    and "registry_inv n tbl own (\<lambda>x. x = w \<or> stopped x) returned cancelled (insert (AtCancel w) calls)"
  using assms by (auto simp: registry_inv_def)

lemma registry_inv_cancel:
  assumes "registry_inv n tbl own stopped returned cancelled (insert (AtCancel w) calls)"
  shows "registry_inv n tbl own stopped returned cancelled (insert (AtLoad w) calls)"
    and "registry_inv n tbl own stopped returned (\<lambda>x. x = w \<or> cancelled x) (insert (AtLoad w) calls)"
  using assms by (auto simp: registry_inv_def)

lemma registry_inv_load:
  assumes "registry_inv n tbl own stopped returned cancelled (insert (AtLoad w) calls)"
  shows "tbl (own w) \<noteq> Some w \<Longrightarrow> registry_inv n tbl own stopped returned cancelled calls"
    and "registry_inv n tbl own stopped returned cancelled (insert (AtDelete (own w)) calls)"
proof -
  have own: "tbl a = Some x \<Longrightarrow> own x = a" for a x using assms by (simp add: registry_inv_def)
  have clean: "tbl a = Some x \<Longrightarrow> stopped x \<Longrightarrow> x \<noteq> w \<Longrightarrow> AtCancel x \<in> calls \<or> AtLoad x \<in> calls \<or> AtDelete a \<in> calls"
    for a x using assms by (auto simp: registry_inv_def)
  show "registry_inv n tbl own stopped returned cancelled calls" if "tbl (own w) \<noteq> Some w"
  proof -
    have "x \<noteq> w" if "tbl a = Some x" for a x using own that \<open>tbl (own w) \<noteq> Some w\<close> by blast
    then show ?thesis using assms clean by (auto simp: registry_inv_def)
  qed
  have "AtDelete (own w) = AtDelete a" if "tbl a = Some w" for a using own that by simp
  then show "registry_inv n tbl own stopped returned cancelled (insert (AtDelete (own w)) calls)"
    using assms clean by (auto simp: registry_inv_def)
qed

lemma registry_inv_delete:
  assumes "registry_inv n tbl own stopped returned cancelled (insert (AtDelete a) calls)"
  shows "registry_inv n (tbl(a := None)) own stopped returned cancelled calls"
  using assms by (auto simp: registry_inv_def)

lemma jobs_inv_stopStep:
  assumes "registry_inv (length (jbWorkers j)) (jbTable j)
     (\<lambda>w. jobOwner (jwJob (jbWorkers j ! w))) (\<lambda>w. jwStopped (jbWorkers j ! w))
     (\<lambda>w. jwPhase (jbWorkers j ! w) = Returned) (\<lambda>w. jwCancelled (jbWorkers j ! w)) (insert c (set others))"
    and "stopStep c j = (j', nxt)"
  shows "jobs_inv (j'\<lparr>jbStops := (case nxt of None \<Rightarrow> others | Some c' \<Rightarrow> c' # others)\<rparr>)"
proof (cases c)
  case (AtSwap w)
  have w: "w < length (jbWorkers j)" using assms(1) AtSwap by (simp add: registry_inv_def)
  show ?thesis
  proof (cases "jwStopped (jbWorkers j ! w)")
    case True
    then show ?thesis
      using registry_inv_swap(1) [OF assms(1) [unfolded AtSwap]] assms(2) AtSwap by (auto simp: jobs_inv_def)
  next
    case False
    then have "j' = updateWorker w (\<lambda>k. k\<lparr>jwStopped := True\<rparr>) j" "nxt = Some (AtCancel w)"
      using assms(2) AtSwap by auto
    then show ?thesis
      using registry_inv_swap(2) [OF assms(1) [unfolded AtSwap]] w
      unfolding jobs_inv_def by (subst registry_inv_cong [rotated]) (auto simp: updateWorker_nth)
  qed
next
  case (AtCancel w)
  have w: "w < length (jbWorkers j)" using assms(1) AtCancel by (simp add: registry_inv_def)
  show ?thesis
  proof (cases "jwCancelFunc (jbWorkers j ! w)")
    case True
    then have "j' = updateWorker w (\<lambda>k. k\<lparr>jwCancelled := True\<rparr>) j" "nxt = Some (AtLoad w)"
      using assms(2) AtCancel by auto
    then show ?thesis
      using registry_inv_cancel(2) [OF assms(1) [unfolded AtCancel]] w
      unfolding jobs_inv_def by (subst registry_inv_cong [rotated]) (auto simp: updateWorker_nth)
  next
    case False
    then show ?thesis
      using registry_inv_cancel(1) [OF assms(1) [unfolded AtCancel]] assms(2) AtCancel by (auto simp: jobs_inv_def)
  qed
next
  case (AtLoad w)
  note inv = registry_inv_load [OF assms(1) [unfolded AtLoad]]
  show ?thesis
    using inv assms(2) AtLoad by (auto simp: jobs_inv_def jobOwner_def Let_def split: option.splits if_splits)
next
  case (AtDelete a)
  then show ?thesis
    using registry_inv_delete [OF assms(1) [unfolded AtDelete]] assms(2) by (auto simp: jobs_inv_def)
qed

lemma jobs_inv_stopping:
  assumes "jobs_inv j" and "i < length (jbStops j)"
  shows "jobs_inv (advanceStop i j)"
proof -
  let ?others = "take i (jbStops j) @ drop (Suc i) (jbStops j)"
  obtain j' nxt where s: "stopStep (jbStops j ! i) j = (j', nxt)" by fastforce
  show ?thesis
    using jobs_inv_stopStep [OF _ s, of ?others] assms(1) others_set [OF assms(2)]
    by (simp add: jobs_inv_def advanceStop_def s Let_def)
qed

lemma jobs_inv_shutdown: "jobs_inv j \<Longrightarrow> jobs_inv (StopAll j)"
  by (simp add: jobs_inv_def StopAll_def)

lemma jobs_inv_step: "jobs_inv j \<Longrightarrow> jobs_step j j' \<Longrightarrow> jobs_inv j'"
  by (erule jobs_stepE)
    (auto intro: jobs_inv_execute jobs_inv_stop jobs_inv_begins jobs_inv_returns jobs_inv_stopping jobs_inv_shutdown)

text \<open>After a shutdown every job is cancelled, also one that starts later.\<close>

lemma stopStep_cancelled: "stopStep c j = (j', nxt) \<Longrightarrow> jbCancelled j' = jbCancelled j"
  by (cases c) (auto simp: updateWorker_def Let_def split: if_splits option.splits)

lemma shutdown_stays: "jobs_step j j' \<Longrightarrow> jbCancelled j \<Longrightarrow> workerCancelled j' w"
  by (erule jobs_stepE)
    (auto simp: workerCancelled_def Execute_def Stop_def beginRun_def endRun_def updateWorker_def advanceStop_def StopAll_def Let_def
      split: option.splits prod.splits dest: stopStep_cancelled)

lemma jobs_reachable_inv: "jobs_reachable j \<Longrightarrow> jobs_inv j"
  by (induction rule: jobs_reachable.induct) (auto intro: jobs_inv_init jobs_inv_step)

text \<open>C15: when no \<open>Stop\<close> is under way, every entry of the table is alive: its worker exists, has neither
  returned nor been stopped or cancelled but by a shutdown of all, and runs a job of the application it is
  filed under.\<close>

theorem jobs_table_alive:
  assumes "jobs_reachable j" and "jbStops j = []" and "jbTable j aid = Some w"
  shows "w < length (jbWorkers j) \<and> jobOwner (jwJob (jbWorkers j ! w)) = aid
    \<and> \<not> jwStopped (jbWorkers j ! w) \<and> \<not> jwCancelled (jbWorkers j ! w) \<and> jwPhase (jbWorkers j ! w) \<noteq> Returned
    \<and> GetCurrent aid j = Some (jwJob (jbWorkers j ! w))"
proof -
  have inv: "registry_inv (length (jbWorkers j)) (jbTable j)
     (\<lambda>w. jobOwner (jwJob (jbWorkers j ! w))) (\<lambda>w. jwStopped (jbWorkers j ! w))
     (\<lambda>w. jwPhase (jbWorkers j ! w) = Returned) (\<lambda>w. jwCancelled (jbWorkers j ! w)) {}"
    using jobs_reachable_inv [OF assms(1)] assms(2) by (simp add: jobs_inv_def)
  then have "w < length (jbWorkers j) \<and> jobOwner (jwJob (jbWorkers j ! w)) = aid \<and> \<not> jwStopped (jbWorkers j ! w)"
    using assms(3) by (auto simp: registry_inv_def)
  moreover from inv have "\<And>x. x < length (jbWorkers j) \<Longrightarrow> \<not> jwStopped (jbWorkers j ! x) \<Longrightarrow>
      jwPhase (jbWorkers j ! x) \<noteq> Returned \<and> \<not> jwCancelled (jbWorkers j ! x)"
    unfolding registry_inv_def by blast
  ultimately show ?thesis using assms(3) by (simp add: GetCurrent_def)
qed

definition sampleJob :: "unit AsyncJob" where
  "sampleJob = LocalOperation (NewLocalOperationJob
     \<lparr>cfgZoneId = ''z'', cfgPollOperationalStatusInterval = 1, cfgPollSyncStatusInterval = 1,
      cfgChartVersionPollInterval = 1, cfgDefaultSyncTimeout = 10, cfgDefaultUndeployTimeout = 10\<rparr>
     (sampleApp \<lparr>stOwnership = sampleOwnership NewGlobalState None, stZones = []\<rparr>))"

lemma sampleJob_owner: "jobOwner sampleJob = \<lparr>aidName = ''app'', aidNamespace = ''n''\<rparr>"
  by (simp add: sampleJob_def jobOwner_def NewLocalOperationJob_def applicationId_def sampleApp_def)

theorem jobs_table_alive_witness:
  "jwPhase (jbWorkers (Execute sampleJob NewJobs) ! 0) \<noteq> Returned"
proof -
  have "jobs_reachable (Execute sampleJob NewJobs)"
    by (rule jobs_reachable.step [OF jobs_reachable.init jobs_step.execute])
  from jobs_table_alive [OF this, of "jobOwner sampleJob" 0] show ?thesis
    by (simp add: Execute_def NewJobs_def)
qed

lemmas run_defs = Execute_def Stop_def NewJobs_def NewJobWorker_def beginRun_def endRun_def updateWorker_def
  advanceStop_def sampleJob_owner

lemma reach_execute: "jobs_reachable j \<Longrightarrow> jobs_reachable (Execute job j)"
  by (rule jobs_reachable.step [OF _ jobs_step.execute])

lemma reach_stop: "jobs_reachable j \<Longrightarrow> jobs_reachable (Stop aid j)"
  by (rule jobs_reachable.step [OF _ jobs_step.stop])

lemma reach_advance: "jobs_reachable j \<Longrightarrow> i < length (jbStops j) \<Longrightarrow> jobs_reachable (advanceStop i j)"
  by (rule jobs_reachable.step [OF _ jobs_step.stopping])

lemma reach_begin:
  "jobs_reachable j \<Longrightarrow> w < length (jbWorkers j) \<Longrightarrow> jwPhase (jbWorkers j ! w) = Queued \<Longrightarrow> jobs_reachable (beginRun w j)"
  by (rule jobs_reachable.step [OF _ jobs_step.begins])

lemma reach_end:
  "jobs_reachable j \<Longrightarrow> w < length (jbWorkers j) \<Longrightarrow> jwPhase (jbWorkers j ! w) = Running \<Longrightarrow> jobs_reachable (endRun w j)"
  by (rule jobs_reachable.step [OF _ jobs_step.returns])

text \<open>A job stopped before its goroutine begins is not stopped: the \<open>Stop\<close> completes without a
  cancel function to call, and the goroutine then runs the job, uncancelled and in no table.\<close>

lemma jobs_stop_before_begin:
  "\<exists>j :: unit Jobs. jobs_reachable j \<and> jbStops j = [] \<and> jbTable j = Map.empty
     \<and> length (jbWorkers j) = 1 \<and> jwPhase (jbWorkers j ! 0) = Running
     \<and> jwStopped (jbWorkers j ! 0) \<and> \<not> jwCancelled (jbWorkers j ! 0)"
proof -
  let ?a = "jobOwner sampleJob"
  let ?j = "advanceStop 0 (advanceStop 0 (advanceStop 0 (Stop ?a (Execute sampleJob NewJobs))))"
  have "jobs_reachable (Stop ?a (Execute sampleJob NewJobs))"
    by (intro reach_stop reach_execute jobs_reachable.init)
  then have "jobs_reachable ?j"
    by (intro reach_advance) (simp_all add: run_defs)
  then have "jobs_reachable (beginRun 0 ?j)"
    by (rule reach_begin) (simp_all add: run_defs)
  moreover have "jbStops (beginRun 0 ?j) = [] \<and> jbTable (beginRun 0 ?j) = Map.empty
      \<and> length (jbWorkers (beginRun 0 ?j)) = 1 \<and> jwPhase (jbWorkers (beginRun 0 ?j) ! 0) = Running
      \<and> jwStopped (jbWorkers (beginRun 0 ?j) ! 0) \<and> \<not> jwCancelled (jbWorkers (beginRun 0 ?j) ! 0)"
    by (simp add: run_defs)
  ultimately show ?thesis by blast
qed

text \<open>Another job of the same application.\<close>

definition otherJob :: "unit AsyncJob" where
  "otherJob = LocalPlacement (NewLocalPlacementJob
     \<lparr>cfgZoneId = ''z'', cfgPollOperationalStatusInterval = 1, cfgPollSyncStatusInterval = 1,
      cfgChartVersionPollInterval = 1, cfgDefaultSyncTimeout = 10, cfgDefaultUndeployTimeout = 10\<rparr>
     (sampleApp \<lparr>stOwnership = sampleOwnership NewGlobalState None, stZones = []\<rparr>))"

lemma otherJob_owner: "jobOwner otherJob = jobOwner sampleJob" "GetJobID otherJob \<noteq> GetJobID sampleJob"
  by (simp_all add: sampleJob_def otherJob_def jobOwner_def NewLocalOperationJob_def NewLocalPlacementJob_def applicationId_def sampleApp_def)


end
