(* ===== verification/StatusMerge.thy ===== *)
theory StatusMerge
  imports StatusUpdater
begin

text \<open>
  \<open>mergeStatus\<close> of \<open>internal/controller/anyapplication_controller.go\<close>: how the status a reconciliation
  pass derived goes into the status the API server holds by then, which other zones may have
  written meanwhile. The lemmas say what a merge may change (the ownership by its rules, the own
  zone), that conditions only move forward in time, and that merging the same status again
  changes nothing.
\<close>

section \<open>Merging the derived status\<close>

text \<open>\<open>%v\<close> of a slice of placements.\<close>

fun joinWords :: "string list \<Rightarrow> string" where
  "joinWords [] = ''''"
| "joinWords [w] = w"
| "joinWords (w # ws) = w @ '' '' @ joinWords ws"

definition placementsText :: "Placement list \<Rightarrow> string" where
  "placementsText ps =
     ''['' @ joinWords (map (\<lambda>p. ''{'' @ plZone p @ '' ['' @ joinWords (plNodeAffinity p) @ '']}'') ps) @ '']''"

definition quoted :: "string \<Rightarrow> string" where
  "quoted s = [CHR 0x27] @ s @ [CHR 0x27]"

text \<open>The loops over the new conditions and, inside, the existing ones: a newer condition of the same
  type and zone with another status replaces each, and one that is not there is appended.\<close>

definition supersedes :: "ConditionStatus \<Rightarrow> ConditionStatus \<Rightarrow> bool" where
  "supersedes new existing \<longleftrightarrow> sameCondition new existing
     \<and> condLastTransitionTime existing < condLastTransitionTime new \<and> condStatus existing \<noteq> condStatus new"

definition mergeCondition ::
  "ConditionStatus \<Rightarrow> ConditionStatus list \<times> bool \<Rightarrow> ConditionStatus list \<times> bool" where
  "mergeCondition new p =
     (let (existing, updated) = p;
          merged = map (\<lambda>e. if supersedes new e then new else e) existing
      in if list_ex (sameCondition new) existing
         then (merged, updated \<or> list_ex (supersedes new) existing)
         else (merged @ [new], True))"

definition mergeConditions ::
  "ConditionStatus list \<Rightarrow> ConditionStatus list \<times> bool \<Rightarrow> ConditionStatus list \<times> bool" where
  "mergeConditions news p = fold mergeCondition news p"

definition mergeOwnership :: "OwnershipStatus \<Rightarrow> OwnershipStatus \<Rightarrow> OwnershipStatus \<times> string \<times> bool" where
  "mergeOwnership cur new =
     (let setPlacements = (osPlacements cur = None \<and> osPlacements new \<noteq> None);
          setState = (osState new \<noteq> UnknownGlobalState \<and> osState cur \<noteq> osState new);
          setOwner = (osOwner cur = '''' \<and> osOwner new \<noteq> '''');
          epoch = max (osEpoch new) (osEpoch cur);
          setEpoch = (osEpoch cur \<noteq> epoch)
      in (\<lparr>osEpoch = epoch,
           osState = (if setState then osState new else osState cur),
           osOwner = (if setOwner then osOwner new else osOwner cur),
           osPlacements = (if setPlacements then osPlacements new else osPlacements cur)\<rparr>,
          (if setPlacements then ''Placements are set to ''
             @ quoted (placementsText (case osPlacements new of None \<Rightarrow> [] | Some ps \<Rightarrow> ps)) @ ''. '' else '''')
          @ (if setState then ''Global state changed to '' @ quoted (GlobalState_string (osState new)) @ ''. '' else '''')
          @ (if setOwner then ''Owner changed to '' @ quoted (osOwner new) @ ''. '' else '''')
          @ (if setEpoch then ''Epoch changed to '' @ quoted (int_text epoch) @ ''.'' else ''''),
          setPlacements \<or> setState \<or> setOwner \<or> setEpoch))"

definition mergeZone :: "ZoneStatus \<Rightarrow> ZoneStatus \<Rightarrow> ZoneStatus" where
  "mergeZone new z = z\<lparr>zsChartVersion := zsChartVersion new,
     zsConditions := fst (mergeConditions (zsConditions new) (zsConditions z, False))\<rparr>"

definition mergeStatus ::
  "AnyApplicationStatus \<Rightarrow> AnyApplicationStatus \<Rightarrow> string \<Rightarrow> AnyApplicationStatus \<times> bool \<times> Event" where
  "mergeStatus currentStatus newStatus zone =
     (let (ownership, msg, updated) = mergeOwnership (stOwnership currentStatus) (stOwnership newStatus);
          current1 = currentStatus\<lparr>stOwnership := ownership\<rparr>
      in case GetStatusFor newStatus zone of
           None \<Rightarrow>
             (RemoveZone zone current1, updated, \<lparr>evReason = GlobalStateChangeReason, evMsg = msg\<rparr>)
         | Some newZone \<Rightarrow>
             (let (current2, zoneStatus) = GetOrCreateStatusFor current1 zone;
                  newChart = (zsChartVersion zoneStatus \<noteq> zsChartVersion newZone);
                  msg' = msg @ (if newChart then ''Chart version changed to ''
                                  @ quoted (zsChartVersion newZone) @ ''.'' else '''');
                  conditionsUpdated = snd (mergeConditions (zsConditions newZone) (zsConditions zoneStatus, False))
              in (WriteZone zone (mergeZone newZone) current2, updated \<or> newChart \<or> conditionsUpdated,
                  \<lparr>evReason = GlobalStateChangeReason, evMsg = msg'\<rparr>)))"

section \<open>Merging conditions\<close>

lemma supersedes_irrefl [simp]: "\<not> supersedes n n"
  by (simp add: supersedes_def)

lemma sameCondition_refl [simp]: "sameCondition c c"
  by (simp add: sameCondition_def)

lemma sameCondition_iff: "sameCondition c d \<longleftrightarrow> condKey d = condKey c"
  by (simp add: sameCondition_def condKey_def)

lemma mergeCondition_simps:
  "mergeCondition n (cs, u) =
     (if list_ex (sameCondition n) cs
      then (map (\<lambda>e. if supersedes n e then n else e) cs, u \<or> list_ex (supersedes n) cs)
      else (cs @ [n], True))"
  by (simp add: mergeCondition_def Let_def) (auto simp: list_ex_iff supersedes_def intro: map_idI)

lemma mergeConditions_simps [simp]:
  "mergeConditions [] p = p"
  "mergeConditions (n # ns) p = mergeConditions ns (mergeCondition n p)"
  by (simp_all add: mergeConditions_def)

text \<open>A new condition is absorbed when its type and zone are there and it would replace nothing.\<close>

definition absorbed :: "ConditionStatus list \<Rightarrow> ConditionStatus \<Rightarrow> bool" where
  "absorbed cs n \<longleftrightarrow> list_ex (sameCondition n) cs \<and> \<not> list_ex (supersedes n) cs"

lemma mergeCondition_absorbed: "absorbed cs n \<Longrightarrow> mergeCondition n (cs, u) = (cs, u)"
  unfolding absorbed_def mergeCondition_simps by (simp add: list_ex_iff map_idI)

lemma mergeCondition_absorbs: "absorbed (fst (mergeCondition n (cs, u))) n"
  by (auto simp: absorbed_def mergeCondition_simps list_ex_iff supersedes_def sameCondition_iff)

lemma mergeCondition_keeps_absorbed:
  assumes "absorbed cs m" and "condKey n \<noteq> condKey m"
  shows "absorbed (fst (mergeCondition n (cs, u))) m"
  using assms by (fastforce simp: absorbed_def mergeCondition_simps list_ex_iff supersedes_def sameCondition_iff)

lemma mergeConditions_keeps_absorbed:
  "absorbed cs m \<Longrightarrow> condKey m \<notin> condKey ` set ns \<Longrightarrow> absorbed (fst (mergeConditions ns (cs, u))) m"
proof (induction ns arbitrary: cs u)
  case (Cons n ns)
  obtain cs1 u1 where m: "mergeCondition n (cs, u) = (cs1, u1)" by fastforce
  have "absorbed cs1 m" using mergeCondition_keeps_absorbed [of cs m n u] Cons.prems m by auto
  with Cons show ?case by (simp add: m)
qed simp

lemma mergeConditions_absorbs:
  "distinct (map condKey ns) \<Longrightarrow> n \<in> set ns \<Longrightarrow> absorbed (fst (mergeConditions ns (cs, u))) n"
proof (induction ns arbitrary: cs u)
  case (Cons m ns)
  obtain cs1 u1 where m: "mergeCondition m (cs, u) = (cs1, u1)" by fastforce
  have "absorbed cs1 m" using mergeCondition_absorbs [of m cs u] m by simp
  then have "absorbed (fst (mergeConditions ns (cs1, u1))) m"
    using Cons.prems(1) by (intro mergeConditions_keeps_absorbed) simp_all
  with Cons m show ?case by auto
qed simp

lemma mergeConditions_all_absorbed:
  "(\<And>n. n \<in> set ns \<Longrightarrow> absorbed cs n) \<Longrightarrow> mergeConditions ns (cs, u) = (cs, u)"
  by (induction ns) (simp_all add: mergeCondition_absorbed)

lemma mergeConditions_again:
  "distinct (map condKey ns) \<Longrightarrow> mergeConditions ns (fst (mergeConditions ns (cs, u)), v) = (fst (mergeConditions ns (cs, u)), v)"
  by (intro mergeConditions_all_absorbed mergeConditions_absorbs)

lemma mergeConditions_reports: "mergeConditions ns (cs, u) = (cs', False) \<Longrightarrow> cs' = cs \<and> \<not> u"
proof (induction ns arbitrary: cs u)
  case (Cons n ns)
  obtain cs1 u1 where m: "mergeCondition n (cs, u) = (cs1, u1)" by fastforce
  have "cs' = cs1 \<and> \<not> u1" by (rule Cons.IH) (use Cons.prems m in simp)
  moreover from this m have "cs1 = cs \<and> \<not> u"
    by (auto simp: mergeCondition_simps list_ex_iff intro!: map_idI split: if_splits)
  ultimately show ?case by simp
qed simp

text \<open>A condition stays as it is or gives way to a later one of its type and zone.\<close>

definition forward :: "ConditionStatus \<Rightarrow> ConditionStatus \<Rightarrow> bool" where
  "forward c c' \<longleftrightarrow> c' = c \<or> (sameCondition c c' \<and> condLastTransitionTime c < condLastTransitionTime c')"

definition advances :: "ConditionStatus list \<Rightarrow> ConditionStatus list \<Rightarrow> bool" where
  "advances cs cs' \<longleftrightarrow> length cs \<le> length cs' \<and> (\<forall>i<length cs. forward (cs ! i) (cs' ! i))"

lemma forward_refl [simp]: "forward c c"
  by (simp add: forward_def)

lemma forward_trans: "forward a b \<Longrightarrow> forward b c \<Longrightarrow> forward a c"
  by (auto simp: forward_def sameCondition_iff)

lemma advances_refl [simp]: "advances cs cs"
  by (simp add: advances_def)

lemma advances_trans: "advances a b \<Longrightarrow> advances b c \<Longrightarrow> advances a c"
  unfolding advances_def by (meson forward_trans le_trans less_le_trans)

lemma mergeCondition_advances: "advances cs (fst (mergeCondition n (cs, u)))"
  by (auto simp: mergeCondition_simps advances_def forward_def supersedes_def nth_append sameCondition_iff)

lemma mergeConditions_advances: "advances cs (fst (mergeConditions ns (cs, u)))"
proof (induction ns arbitrary: cs u)
  case (Cons n ns)
  obtain cs1 u1 where m: "mergeCondition n (cs, u) = (cs1, u1)" by fastforce
  show ?case
    using advances_trans [OF _ Cons.IH [of cs1 u1]] mergeCondition_advances [of cs n u] by (simp add: m)
qed simp

lemma mergeCondition_wf:
  assumes "distinct (map condKey cs)"
  shows "distinct (map condKey (fst (mergeCondition n (cs, u))))"
proof (cases "list_ex (sameCondition n) cs")
  case True
  have "map condKey (map (\<lambda>e. if supersedes n e then n else e) cs) = map condKey cs"
    by (auto simp: supersedes_def sameCondition_iff)
  with True assms show ?thesis by (simp only: mergeCondition_simps if_True fst_conv)
next
  case False
  with assms show ?thesis by (auto simp: mergeCondition_simps list_ex_iff sameCondition_iff)
qed

lemma mergeConditions_wf:
  "distinct (map condKey cs) \<Longrightarrow> distinct (map condKey (fst (mergeConditions ns (cs, u))))"
proof (induction ns arbitrary: cs u)
  case (Cons n ns)
  then show ?case using mergeCondition_wf [of cs n u] by (cases "mergeCondition n (cs, u)") simp
qed simp

lemma mergeConditions_set: "set (fst (mergeConditions ns (cs, u))) \<subseteq> set cs \<union> set ns"
proof (induction ns arbitrary: cs u)
  case (Cons n ns)
  obtain cs1 u1 where m: "mergeCondition n (cs, u) = (cs1, u1)" by fastforce
  then have "set cs1 \<subseteq> set cs \<union> {n}" by (auto simp: mergeCondition_simps split: if_splits)
  with Cons [of cs1 u1] m show ?case by auto
qed simp

section \<open>Merging a status\<close>

lemma update_first_fix: "(\<And>x. find P xs = Some x \<Longrightarrow> f x = x) \<Longrightarrow> update_first P f xs = xs"
  by (induction xs) auto

lemma WriteZone_fix: "(\<And>z. GetStatusFor st zone = Some z \<Longrightarrow> f z = z) \<Longrightarrow> WriteZone zone f st = st"
  by (simp add: WriteZone_def GetStatusFor_def update_first_fix)

lemma ensureZone_present: "GetStatusFor st zone = Some z \<Longrightarrow> ensureZone zone st = st"
  by (simp add: ensureZone_cases)

lemma RemoveZone_absent: "GetStatusFor st zone = None \<Longrightarrow> RemoveZone zone st = st"
  by (auto simp: RemoveZone_def GetStatusFor_def find_None_iff isZone_def intro!: AnyApplicationStatus.equality filter_True)

lemma keepsZoneId_mergeZone [simp]: "keepsZoneId (mergeZone nz)"
  by (simp add: keepsZoneId_def mergeZone_def)

lemma GetStatusFor_ownership [simp]: "GetStatusFor (st\<lparr>stOwnership := os\<rparr>) k = GetStatusFor st k"
  by (simp add: GetStatusFor_def)

lemma wf_status_ownership [simp]: "wf_status (st\<lparr>stOwnership := os\<rparr>) = wf_status st"
  by (simp add: wf_status_def)

definition zoneOrBlank :: "AnyApplicationStatus \<Rightarrow> string \<Rightarrow> ZoneStatus" where
  "zoneOrBlank st k = (case GetStatusFor st k of None \<Rightarrow> newZoneStatus k | Some z \<Rightarrow> z)"

lemma zoneOrBlank_conditions: "zsConditions (zoneOrBlank st k) = conditionsAt st k"
  by (simp add: zoneOrBlank_def conditionsAt_def split: option.splits)

lemma mergeStatus_status:
  "fst (mergeStatus cur new zone) =
     (let cur1 = cur\<lparr>stOwnership := fst (mergeOwnership (stOwnership cur) (stOwnership new))\<rparr>
      in case GetStatusFor new zone of
           None \<Rightarrow> RemoveZone zone cur1
         | Some nz \<Rightarrow> WriteZone zone (mergeZone nz) (ensureZone zone cur1))"
  by (simp add: mergeStatus_def GetOrCreateStatusFor_pair case_prod_unfold Let_def split: option.splits)

lemma mergeStatus_updated:
  "fst (snd (mergeStatus cur new zone)) =
     (snd (snd (mergeOwnership (stOwnership cur) (stOwnership new)))
      \<or> (case GetStatusFor new zone of
           None \<Rightarrow> False
         | Some nz \<Rightarrow> zsChartVersion (zoneOrBlank cur zone) \<noteq> zsChartVersion nz
             \<or> snd (mergeConditions (zsConditions nz) (conditionsAt cur zone, False))))"
  by (auto simp: mergeStatus_def GetOrCreateStatusFor_pair case_prod_unfold Let_def zoneOrBlank_conditions [symmetric]
      zoneOrBlank_def split: option.splits)

lemma mergeStatus_zone:
  "GetStatusFor (fst (mergeStatus cur new zone)) k =
     (if k = zone then map_option (\<lambda>nz. mergeZone nz (zoneOrBlank cur zone)) (GetStatusFor new zone)
      else GetStatusFor cur k)"
  by (simp add: mergeStatus_status Let_def status_simps zoneOrBlank_def split: option.splits)

lemma mergeStatus_ownership:
  "stOwnership (fst (mergeStatus cur new zone)) = fst (mergeOwnership (stOwnership cur) (stOwnership new))"
  by (simp add: mergeStatus_status Let_def split: option.splits)

lemma wf_status_mergeStatus: "wf_status cur \<Longrightarrow> wf_status (fst (mergeStatus cur new zone))"
  by (auto simp: mergeStatus_status Let_def split: option.splits
      intro!: wf_status_WriteZone simp: wf_zone_def mergeZone_def mergeConditions_wf)

lemma mergeOwnership_again: "mergeOwnership (fst (mergeOwnership cur new)) new = (fst (mergeOwnership cur new), [], False)"
  by (simp add: mergeOwnership_def Let_def)

lemma mergeOwnership_reports: "\<not> snd (snd (mergeOwnership cur new)) \<Longrightarrow> fst (mergeOwnership cur new) = cur"
  by (auto simp: mergeOwnership_def Let_def split: if_splits intro!: OwnershipStatus.equality)

lemma mergeOwnership_same: "mergeOwnership os os = (os, [], False)"
  by (cases "osPlacements os") (simp_all add: mergeOwnership_def Let_def)

text \<open>C12: a merge keeps every other zone; in the ownership the epoch is the larger of the two, an owner
  and placements once set stay, and the state becomes the derived one unless that is unknown;
  the own zone is there exactly when the derived status has it, takes its chart version, keeps
  its version counter, holds every derived condition by type and zone and none from elsewhere,
  and none of its conditions goes back in time.\<close>

theorem mergeStatus_contract:
  assumes "mergeStatus cur new zone = (st', updated, ev)"
  shows "(\<forall>k. k \<noteq> zone \<longrightarrow> GetStatusFor st' k = GetStatusFor cur k)
    \<and> osEpoch (stOwnership st') = max (osEpoch (stOwnership new)) (osEpoch (stOwnership cur))
    \<and> (osOwner (stOwnership cur) \<noteq> '''' \<longrightarrow> osOwner (stOwnership st') = osOwner (stOwnership cur))
    \<and> (osPlacements (stOwnership cur) \<noteq> None \<longrightarrow> osPlacements (stOwnership st') = osPlacements (stOwnership cur))
    \<and> osState (stOwnership st') = (if osState (stOwnership new) = UnknownGlobalState
                                    then osState (stOwnership cur) else osState (stOwnership new))
    \<and> (wf_status cur \<longrightarrow> wf_status st')
    \<and> (case GetStatusFor new zone of
         None \<Rightarrow> GetStatusFor st' zone = None
       | Some nz \<Rightarrow> (\<exists>z. GetStatusFor st' zone = Some z
           \<and> zsChartVersion z = zsChartVersion nz \<and> zsZoneVersion z = zsZoneVersion (zoneOrBlank cur zone)
           \<and> advances (conditionsAt cur zone) (zsConditions z)
           \<and> (wf_zone nz \<longrightarrow> (\<forall>n\<in>set (zsConditions nz). list_ex (sameCondition n) (zsConditions z)))
           \<and> set (zsConditions z) \<subseteq> set (conditionsAt cur zone) \<union> set (zsConditions nz)))"
proof -
  have st': "st' = fst (mergeStatus cur new zone)" using assms by simp
  have zone: "case GetStatusFor new zone of
         None \<Rightarrow> GetStatusFor st' zone = None
       | Some nz \<Rightarrow> (\<exists>z. GetStatusFor st' zone = Some z
           \<and> zsChartVersion z = zsChartVersion nz \<and> zsZoneVersion z = zsZoneVersion (zoneOrBlank cur zone)
           \<and> advances (conditionsAt cur zone) (zsConditions z)
           \<and> (wf_zone nz \<longrightarrow> (\<forall>n\<in>set (zsConditions nz). list_ex (sameCondition n) (zsConditions z)))
           \<and> set (zsConditions z) \<subseteq> set (conditionsAt cur zone) \<union> set (zsConditions nz))"
    using mergeConditions_absorbs mergeConditions_set
    by (auto simp: st' mergeStatus_zone mergeZone_def zoneOrBlank_conditions mergeConditions_advances wf_zone_def
        absorbed_def split: option.splits)
  show ?thesis
    using zone wf_status_mergeStatus [of cur new zone]
    by (simp add: st' mergeStatus_zone mergeStatus_ownership mergeOwnership_def Let_def)
qed

definition sampleHeld :: AnyApplicationStatus where
  "sampleHeld = \<lparr>stOwnership = sampleOwnership PlacementGlobalState None, stZones =
     [\<lparr>zsZoneId = ''z'', zsZoneVersion = 3, zsChartVersion = ''1.0.0'',
       zsConditions = [sampleCondition LocalConditionType ''Unhealthy'' 1]\<rparr>]\<rparr>"

definition sampleDerived :: AnyApplicationStatus where
  "sampleDerived = \<lparr>stOwnership = sampleOwnership OperationalGlobalState None, stZones =
     [\<lparr>zsZoneId = ''z'', zsZoneVersion = 2, zsChartVersion = ''1.1.0'',
       zsConditions = [sampleCondition LocalConditionType ''Healthy'' 5]\<rparr>]\<rparr>"

theorem mergeStatus_contract_witness:
  "osState (stOwnership (fst (mergeStatus sampleHeld sampleDerived ''z''))) = OperationalGlobalState"
proof -
  obtain st' u ev where m: "mergeStatus sampleHeld sampleDerived ''z'' = (st', u, ev)" by (metis prod_cases3)
  from mergeStatus_contract [OF this] show ?thesis by (simp add: m) (simp add: sampleDerived_def sampleOwnership_def)
qed

text \<open>Merging the same derived status a second time changes nothing and reports no change, so a
  retried or repeated write of it settles.\<close>

lemma mergeStatus_idempotent:
  assumes "wf_status new" and "mergeStatus cur new zone = (st', updated, ev)"
  shows "fst (mergeStatus st' new zone) = st' \<and> \<not> fst (snd (mergeStatus st' new zone))"
proof (cases "GetStatusFor new zone")
  case None
  then show ?thesis
    using assms(2) mergeStatus_zone [of cur new zone zone] mergeStatus_ownership [of cur new zone]
    by (auto simp: mergeStatus_status [of st'] mergeStatus_updated [of st'] mergeOwnership_again RemoveZone_absent Let_def)
next
  case (Some nz)
  with assms(1) have wf: "distinct (map condKey (zsConditions nz))" by (auto simp: wf_zone_def dest: wf_status_lookup)
  have z: "GetStatusFor st' zone = Some (mergeZone nz (zoneOrBlank cur zone))"
    using assms(2) mergeStatus_zone [of cur new zone zone] Some by simp
  have os: "mergeOwnership (stOwnership st') (stOwnership new) = (stOwnership st', [], False)"
    using assms(2) mergeStatus_ownership [of cur new zone] by (simp add: mergeOwnership_again)
  have again: "mergeConditions (zsConditions nz) (conditionsAt st' zone, False) = (conditionsAt st' zone, False)"
    using mergeConditions_again [OF wf] by (simp add: conditionsAt_def z mergeZone_def)
  then have "mergeZone nz (mergeZone nz (zoneOrBlank cur zone)) = mergeZone nz (zoneOrBlank cur zone)"
    by (simp add: conditionsAt_def z) (simp add: mergeZone_def)
  then have "WriteZone zone (mergeZone nz) st' = st'" by (intro WriteZone_fix) (simp add: z)
  then show ?thesis
    using again z by (simp add: mergeStatus_status mergeStatus_updated Some os ensureZone_present zoneOrBlank_def Let_def)
      (simp add: mergeZone_def)
qed

lemma mergeStatus_idempotent_example:
  "\<not> fst (snd (mergeStatus (fst (mergeStatus sampleHeld sampleDerived ''z'')) sampleDerived ''z''))"
proof -
  have "wf_status sampleDerived" by (simp add: sampleDerived_def wf_status_def wf_zone_def)
  from mergeStatus_idempotent [OF this, of sampleHeld "''z''"] show ?thesis by (metis prod.collapse)
qed

text \<open>When the derived status has no own zone and brings nothing else, the merge takes the zone out
  of its copy but reports no change, so the updater ends successfully without writing: the zone
  stays in the stored status.\<close>

lemma zone_removal_not_written:
  assumes "kGet env name s = (Inr a, s1)" and "GetStatusFor new zone = None"
    and "stOwnership new = stOwnership (appStatus a)"
  shows "GetStatusFor (fst (mergeStatus (appStatus a) new zone)) zone = None
    \<and> updateAttempt env name zone (Some (\<lambda>st k. mergeStatus st new k)) s = (None, s1)"
proof -
  have "\<not> fst (snd (mergeStatus (appStatus a) new zone))"
    using assms by (simp add: mergeStatus_updated mergeOwnership_same)
  then show ?thesis
    using assms by (auto simp: mergeStatus_zone updateAttempt_def split: prod.splits)
qed

lemma zone_removal_not_written_example:
  "let new = sampleHeld\<lparr>stZones := []\<rparr>
   in snd (updateAttempt sampleEnv \<lparr>okNamespace = ''n'', okName = ''app''\<rparr> ''z''
        (Some (\<lambda>st k. mergeStatus st new k)) [sampleApp sampleHeld]) = [sampleApp sampleHeld]
      \<and> GetStatusFor sampleHeld ''z'' \<noteq> None"
proof -
  have "kGet sampleEnv \<lparr>okNamespace = ''n'', okName = ''app''\<rparr> [sampleApp sampleHeld]
      = (Inr (sampleApp sampleHeld), [sampleApp sampleHeld])" by (simp add: sampleEnv_def)
  from zone_removal_not_written [OF this, of "sampleHeld\<lparr>stZones := []\<rparr>" "''z''"]
  show ?thesis by (simp add: Let_def sampleApp_def) (simp add: GetStatusFor_def sampleHeld_def isZone_def)
qed

end
