(* ===== verification/Controller.thy ===== *)
theory Controller
  imports GlobalApplication JobCycles JobRegistry StatusMerge
begin

text \<open>
  \<open>internal/controller/reconciler/reconciler.go\<close> and \<open>internal/controller/anyapplication_controller.go\<close>:
  one reconciliation of a resource, from the read of it to the switch of its job; the merge of the
  derived status into the one the API server holds is in \<open>StatusMerge\<close>. The state of everything outside is
  \<open>'e\<close>, the state of the job table \<open>'j\<close>; the interfaces the controller holds are the fields of
  \<open>Controller\<close>. The readings of the clock during a pass are its argument.
\<close>

section \<open>The reconciler\<close>

record ('v, 'j) AsyncJobs =
  ajExecute :: "'v AsyncJob \<Rightarrow> 'j \<Rightarrow> 'j"
  ajGetCurrent :: "ApplicationId \<Rightarrow> 'j \<Rightarrow> 'v AsyncJob option"
  ajStop :: "ApplicationId \<Rightarrow> 'j \<Rightarrow> 'j"

text \<open>What \<open>NowTime\<close> answers to the running job's \<open>GetStatus\<close>, to the local application's
  \<open>GetCondition\<close>, to the constructor of a new job and to its \<open>GetStatus\<close>.\<close>

record PassClock =
  pcJobStatus :: Time
  pcCondition :: Time
  pcStart :: Time
  pcNewStatus :: Time

record 'v ReconcilerResult =
  rrStatus :: "AnyApplicationStatus option"
  rrJobsToAdd :: "'v AsyncJob option"
  rrJobsToRemove :: bool

text \<open>The new job holds the pointer to the application the pass goes on to mutate, so it sees the
  application as the pass leaves it.\<close>

fun withApplication :: "AnyApplication \<Rightarrow> 'v AsyncJob \<Rightarrow> 'v AsyncJob" where
  "withApplication a (Deploy j) = Deploy (j\<lparr>djApplication := a\<rparr>)"
| "withApplication a (Undeploy j) = Undeploy (j\<lparr>ujApplication := a\<rparr>)"
| "withApplication a (LocalOperation j) = LocalOperation (j\<lparr>ojApplication := a\<rparr>)"
| "withApplication a (LocalPlacement j) = LocalPlacement (j\<lparr>pjApplication := a\<rparr>)"
| "withApplication a (OwnershipTransfer j) = OwnershipTransfer (j\<lparr>tjApplication := a\<rparr>)"

definition runningConditions :: "Time \<Rightarrow> 'v AsyncJob option \<Rightarrow> JobApplicationCondition" where
  "runningConditions now current =
     (case current of
        None \<Rightarrow> EmptyJobConditions
      | Some j \<Rightarrow> FromCondition (AsyncJobs.GetStatus now j) (GetType j))"

definition DoReconcile ::
  "'r ResourceApi \<Rightarrow> ('v, 'c) Semver \<Rightarrow> (string \<Rightarrow> Duration option) \<Rightarrow> PassClock \<Rightarrow> ('v, 'j) AsyncJobs \<Rightarrow> 'j
     \<Rightarrow> ('v, 'r) GlobalApplication \<Rightarrow> 'v ReconcilerResult go" where
  "DoReconcile api sv ParseDuration pc jobs j g =
     (let aid = \<lparr>aidName = GetName g, aidNamespace = GetNamespace g\<rparr>;
          jobConditions = runningConditions (pcJobStatus pc) (ajGetCurrent jobs aid j);
          fac = AsyncJobFactoryImpl ParseDuration (gaConfig g) (pcStart pc) (pcNewStatus pc)
      in go_bind (DeriveNewStatus api sv (pcCondition pc) g jobConditions fac)
           (\<lambda>(application, statusResult).
              Inr \<lparr>rrStatus = Status statusResult,
                   rrJobsToAdd = map_option (withApplication application) (JobsToAdd (srJobs statusResult)),
                   rrJobsToRemove = (JobsToRemove (srJobs statusResult) \<noteq> None)\<rparr>))"

section \<open>The controller\<close>

record ('e, 'v, 'c, 'r, 'j) Controller =
  ctlConfig :: ApplicationRuntimeConfig
  ctlKube :: "'e KubeEnv"
  ctlSemver :: "('v, 'c) Semver"
  ctlResourceApi :: "'r ResourceApi"
  ctlParseDuration :: "string \<Rightarrow> Duration option"
  ctlLoadApplication :: "AnyApplication \<Rightarrow> 'e \<Rightarrow> (GoError + ('v, 'r) GlobalApplication) go \<times> 'e"
  ctlCleanup :: "AnyApplication \<Rightarrow> 'e \<Rightarrow> (GoError + 'v DeleteResult list) go \<times> 'e"
  ctlJobs :: "('v, 'j) AsyncJobs"

text \<open>\<open>ctrl.Result\<close>: whether to queue the request again, and after how long (nanoseconds).\<close>

record CtrlResult =
  crRequeue :: bool
  crRequeueAfter :: Duration

definition noRequeue :: CtrlResult where
  "noRequeue = \<lparr>crRequeue = False, crRequeueAfter = 0\<rparr>"

definition requeueNow :: CtrlResult where
  "requeueNow = \<lparr>crRequeue = True, crRequeueAfter = 0\<rparr>"

definition requeueLater :: CtrlResult where
  "requeueLater = \<lparr>crRequeue = True, crRequeueAfter = 1000000000\<rparr>"

type_synonym outcome = "(CtrlResult \<times> GoError option) go"

definition AnyApplicationFinalizerName :: string where
  "AnyApplicationFinalizerName = ''finalizers.dcp.hiro.io/anyapplication''"

definition removeString :: "string list \<Rightarrow> string \<Rightarrow> string list" where
  "removeString slice s = filter (\<lambda>item. item \<noteq> s) slice"

definition isOwnerOrPlacementZone :: "AnyApplication \<Rightarrow> string \<Rightarrow> bool" where
  "isOwnerOrPlacementZone resource zone \<longleftrightarrow>
     osOwner (stOwnership (appStatus resource)) = zone
     \<or> list_ex (\<lambda>p. plZone p = zone) (placementList (appStatus resource))"

definition isNewApplication :: "AnyApplication \<Rightarrow> bool" where
  "isNewApplication resource \<longleftrightarrow> osState (stOwnership (appStatus resource)) = GlobalStateUnset"

text \<open>The closure of \<open>InitializeState\<close>.\<close>

definition initializeUpdate :: "string \<Rightarrow> StatusUpdate" where
  "initializeUpdate zone st zoneId =
     (if osState (stOwnership st) = GlobalStateUnset then
        (st\<lparr>stOwnership := (stOwnership st)\<lparr>osOwner := zone, osEpoch := 1, osState := NewGlobalState\<rparr>\<rparr>, True,
         \<lparr>evReason = GlobalStateChangeReason,
          evMsg = ''Owner set to '' @ zone @ ''. Global State set to '' @ GlobalState_string NewGlobalState\<rparr>)
      else (st, False, emptyEvent))"

definition InitializeState :: "('e, 'v, 'c, 'r, 'j) Controller \<Rightarrow> ObjectKey \<Rightarrow> 'e \<Rightarrow> outcome \<times> 'e" where
  "InitializeState ctl resourceName e =
     (let zone = cfgZoneId (ctlConfig ctl)
      in case UpdateStatus (ctlKube ctl) resourceName zone (Some (initializeUpdate zone)) e of
           (Some err, e1) \<Rightarrow> (Inr (noRequeue, Some (kubeErrorCause err)), e1)
         | (None, e1) \<Rightarrow> (Inr (requeueNow, None), e1))"

definition addFinalizer :: "('e, 'v, 'c, 'r, 'j) Controller \<Rightarrow> AnyApplication \<Rightarrow> 'e \<Rightarrow> outcome \<times> 'e" where
  "addFinalizer ctl resource e =
     (case kUpdate (ctlKube ctl)
             (resource\<lparr>appFinalizers := appFinalizers resource @ [AnyApplicationFinalizerName]\<rparr>) e of
        (Inl err, e1) \<Rightarrow> (Inr (noRequeue, Some (kubeErrorCause err)), e1)
      | (Inr _, e1) \<Rightarrow> (Inr (requeueNow, None), e1))"

definition resourceCleanup ::
  "('e, 'v, 'c, 'r, 'j) Controller \<Rightarrow> AnyApplication \<Rightarrow> 'e \<Rightarrow> 'j \<Rightarrow> outcome \<times> 'e \<times> 'j" where
  "resourceCleanup ctl resource e j =
     (if AnyApplicationFinalizerName \<in> set (appFinalizers resource) then
        (let j1 = ajStop (ctlJobs ctl) (applicationId resource) j
         in case ctlCleanup ctl resource e of
              (Inl p, e1) \<Rightarrow> (Inl p, e1, j1)
            | (Inr (Inl err), e1) \<Rightarrow> (Inr (noRequeue, Some err), e1, j1)
            | (Inr (Inr _), e1) \<Rightarrow>
                (case kUpdate (ctlKube ctl) (resource\<lparr>appFinalizers :=
                          removeString (appFinalizers resource) AnyApplicationFinalizerName\<rparr>) e1 of
                   (Inl err, e2) \<Rightarrow> (Inr (noRequeue, Some (kubeErrorCause err)), e2, j1)
                 | (Inr _, e2) \<Rightarrow> (Inr (noRequeue, None), e2, j1)))
      else (Inr (noRequeue, None), e, j))"

text \<open>The two blocks over the job to add: a different job of the application is stopped before the
  status is written, and the job starts afterwards unless the same one is running.\<close>

definition stopDifferentJob :: "('v, 'j) AsyncJobs \<Rightarrow> 'v AsyncJob \<Rightarrow> 'j \<Rightarrow> 'j" where
  "stopDifferentJob jobs newJob j =
     (case ajGetCurrent jobs (jobOwner newJob) j of
        None \<Rightarrow> j
      | Some currentJob \<Rightarrow>
          if GetJobID currentJob \<noteq> GetJobID newJob then ajStop jobs (jobOwner newJob) j else j)"

definition startNewJob :: "('v, 'j) AsyncJobs \<Rightarrow> 'v AsyncJob \<Rightarrow> 'j \<Rightarrow> 'j" where
  "startNewJob jobs newJob j =
     (let theSameJobIsRunning = (case ajGetCurrent jobs (jobOwner newJob) j of
                                   None \<Rightarrow> False
                                 | Some currentJob \<Rightarrow> GetJobID currentJob = GetJobID newJob)
      in if theSameJobIsRunning then j else ajExecute jobs newJob j)"

definition applyResult ::
  "('e, 'v, 'c, 'r, 'j) Controller \<Rightarrow> ObjectKey \<Rightarrow> 'v ReconcilerResult \<Rightarrow> 'e \<Rightarrow> 'j \<Rightarrow> outcome \<times> 'e \<times> 'j" where
  "applyResult ctl name result e j =
     (let jobs = ctlJobs ctl;
          j1 = (case rrJobsToAdd result of None \<Rightarrow> j | Some newJob \<Rightarrow> stopDifferentJob jobs newJob j);
          (err, e1) =
            (case rrStatus result of
               None \<Rightarrow> (None, e)
             | Some newStatus \<Rightarrow>
                 UpdateStatus (ctlKube ctl) name (cfgZoneId (ctlConfig ctl))
                   (Some (\<lambda>st zoneId. mergeStatus st newStatus zoneId)) e);
          ctrlResult = (if err = None then noRequeue else requeueLater);
          j2 = (case rrJobsToAdd result of None \<Rightarrow> j1 | Some newJob \<Rightarrow> startNewJob jobs newJob j1)
      in (Inr (ctrlResult, map_option kubeErrorCause err), e1, j2))"

definition shouldHandle ::
  "('e, 'v, 'c, 'r, 'j) Controller \<Rightarrow> AnyApplication \<Rightarrow> ('v, 'r) GlobalApplication \<Rightarrow> bool" where
  "shouldHandle ctl resource g \<longleftrightarrow>
     GlobalApplication_IsDeployed (ctlResourceApi ctl) g \<or> isNewApplication resource
     \<or> GlobalApplication_HasZoneStatus g \<or> isOwnerOrPlacementZone resource (cfgZoneId (ctlConfig ctl))"

definition Reconcile ::
  "('e, 'v, 'c, 'r, 'j) Controller \<Rightarrow> PassClock \<Rightarrow> ObjectKey \<Rightarrow> 'e \<Rightarrow> 'j \<Rightarrow> outcome \<times> 'e \<times> 'j" where
  "Reconcile ctl pc name e j =
     (case kGet (ctlKube ctl) name e of
        (Inl err, e1) \<Rightarrow> (Inr (noRequeue, None), e1, j)
      | (Inr resource, e1) \<Rightarrow>
          if osOwner (stOwnership (appStatus resource)) = '''' then
            (case InitializeState ctl (GetNamespacedName resource) e1 of (r, e2) \<Rightarrow> (r, e2, j))
          else if appDeletionTimestamp resource \<noteq> None then resourceCleanup ctl resource e1 j
          else if AnyApplicationFinalizerName \<notin> set (appFinalizers resource) then
            (case addFinalizer ctl resource e1 of (r, e2) \<Rightarrow> (r, e2, j))
          else
            (case ctlLoadApplication ctl resource e1 of
               (Inl p, e2) \<Rightarrow> (Inl p, e2, j)
             | (Inr (Inl err), e2) \<Rightarrow> (Inr (requeueLater, Some err), e2, j)
             | (Inr (Inr g), e2) \<Rightarrow>
                 if \<not> shouldHandle ctl resource g then (Inr (noRequeue, None), e2, j)
                 else
                   (case DoReconcile (ctlResourceApi ctl) (ctlSemver ctl) (ctlParseDuration ctl) pc
                           (ctlJobs ctl) j g of
                      Inl p \<Rightarrow> (Inl p, e2, j)
                    | Inr result \<Rightarrow> applyResult ctl name result e2 j)))"

section \<open>The switch of the job\<close>

text \<open>What the controller does with the job table, over any table that keeps the promises of
  \<open>async_jobs\<close>.\<close>

definition sameJob :: "'v AsyncJob option \<Rightarrow> 'v AsyncJob \<Rightarrow> bool" where
  "sameJob current job \<longleftrightarrow> (case current of None \<Rightarrow> False | Some c \<Rightarrow> GetJobID c = GetJobID job)"

lemma sameJob_owner: "sameJob current job \<Longrightarrow> \<exists>c. current = Some c \<and> jobOwner c = jobOwner job"
  by (auto simp: sameJob_def jobOwner_def split: option.splits)

locale controller_jobs =
  async_jobs "ajExecute jobs" "ajGetCurrent jobs" "ajStop jobs" jobOwner ok
  for jobs :: "('v, 'j) AsyncJobs" and ok :: "'j \<Rightarrow> bool"
begin

lemma ok_stopDifferentJob: "ok j \<Longrightarrow> ok (stopDifferentJob jobs job j)"
  by (simp add: stopDifferentJob_def ok_halt split: option.split)

lemma current_stopDifferentJob:
  "ok j \<Longrightarrow> ajGetCurrent jobs aid (stopDifferentJob jobs job j) =
     (if aid = jobOwner job \<and> \<not> sameJob (ajGetCurrent jobs aid j) job then None else ajGetCurrent jobs aid j)"
  by (auto simp: stopDifferentJob_def current_halt sameJob_def split: option.split)

lemma ok_startNewJob: "ok j \<Longrightarrow> ok (startNewJob jobs job j)"
  by (simp add: startNewJob_def ok_execute Let_def)

lemma current_startNewJob:
  "ok j \<Longrightarrow> ajGetCurrent jobs aid (startNewJob jobs job j) =
     (if aid = jobOwner job \<and> \<not> sameJob (ajGetCurrent jobs aid j) job then Some job else ajGetCurrent jobs aid j)"
  by (auto simp: startNewJob_def current_execute sameJob_def Let_def split: option.split)

lemma switch:
  assumes "ok j"
  shows "ajGetCurrent jobs aid (startNewJob jobs job (stopDifferentJob jobs job j)) =
     (if aid = jobOwner job \<and> \<not> sameJob (ajGetCurrent jobs aid j) job then Some job else ajGetCurrent jobs aid j)"
  using assms by (auto simp: current_startNewJob current_stopDifferentJob ok_stopDifferentJob)
    (auto simp: sameJob_def)

lemma switch_same: "sameJob (ajGetCurrent jobs (jobOwner job) j) job \<Longrightarrow> startNewJob jobs job (stopDifferentJob jobs job j) = j"
  by (auto simp: startNewJob_def stopDifferentJob_def sameJob_def split: option.splits)

end

definition jobsTable :: "('v, 'v Jobs) AsyncJobs" where
  "jobsTable = \<lparr>ajExecute = Execute, ajGetCurrent = GetCurrent, ajStop = Stop\<rparr>"

lemma jobsTable_sel [simp]:
  "ajExecute jobsTable = Execute" "ajGetCurrent jobsTable = GetCurrent" "ajStop jobsTable = Stop"
  by (simp_all add: jobsTable_def)

interpretation registry: controller_jobs jobsTable tableOk
  by unfold_locales (simp_all add: GetCurrent_Execute GetCurrent_Stop tableOk_Execute tableOk_Stop)

lemma applyResult_jobs:
  "snd (snd (applyResult ctl name result e j)) =
     (case rrJobsToAdd result of None \<Rightarrow> j
      | Some job \<Rightarrow> startNewJob (ctlJobs ctl) job (stopDifferentJob (ctlJobs ctl) job j))"
  by (simp add: applyResult_def Let_def case_prod_unfold split: option.split)

text \<open>C11: whatever the status update answers, applying a pass's result leaves the job it asks for, or
  the same one already running, as the application's current job; nothing restarts when the
  same job is running, and no other application's job is disturbed.\<close>

theorem applyResult_switches_job:
  assumes "ctlJobs ctl = jobsTable" and "tableOk j" and "rrJobsToAdd result = Some job"
  shows "let j' = snd (snd (applyResult ctl name result e j))
    in (\<exists>c. GetCurrent (jobOwner job) j' = Some c \<and> GetJobID c = GetJobID job)
       \<and> (sameJob (GetCurrent (jobOwner job) j) job \<longrightarrow> j' = j)
       \<and> (\<forall>aid. aid \<noteq> jobOwner job \<longrightarrow> GetCurrent aid j' = GetCurrent aid j)
       \<and> tableOk j'"
proof -
  let ?j' = "snd (snd (applyResult ctl name result e j))"
  have j': "?j' = startNewJob jobsTable job (stopDifferentJob jobsTable job j)"
    by (simp add: applyResult_jobs assms)
  have "\<exists>c. GetCurrent (jobOwner job) ?j' = Some c \<and> GetJobID c = GetJobID job"
    using registry.switch [OF assms(2), of "jobOwner job" job]
    by (auto simp: j' sameJob_def split: option.splits if_splits)
  moreover have "sameJob (GetCurrent (jobOwner job) j) job \<longrightarrow> ?j' = j"
    using registry.switch_same [of job j] by (simp add: j')
  moreover have "tableOk ?j'"
    by (simp add: j' registry.ok_startNewJob registry.ok_stopDifferentJob assms(2))
  ultimately show ?thesis
    using registry.switch [OF assms(2)] by (simp add: Let_def j')
qed

section \<open>Initialisation\<close>

lemma initializeUpdate_settled:
  "osState (stOwnership st) \<noteq> GlobalStateUnset \<Longrightarrow> initializeUpdate z st k = (st, False, emptyEvent)"
  by (simp add: initializeUpdate_def)

lemma stOwnership_IncrementZoneVersion [simp]:
  "stOwnership (appStatus (IncrementZoneVersion k a)) = stOwnership (appStatus a)"
  by (simp add: IncrementZoneVersion_def Let_def split: option.split)

lemma initializeUpdate_updates: "fst (snd (initializeUpdate z st k)) \<longleftrightarrow> osState (stOwnership st) = GlobalStateUnset"
  by (simp add: initializeUpdate_def)

lemma committed_initializeUpdate:
  assumes "committed n l (initializeUpdate z) k"
  shows "\<exists>b ans. stored_step n l b ans \<and> osState (stOwnership (appStatus b)) = GlobalStateUnset
     \<and> stOwnership (appStatus ans) = (stOwnership (appStatus b))\<lparr>osOwner := z, osEpoch := 1, osState := NewGlobalState\<rparr>"
proof -
  obtain b ans where *: "stored_step n l b ans" "osState (stOwnership (appStatus b)) = GlobalStateUnset"
      "appStatus ans = appStatus (IncrementZoneVersion k (b\<lparr>appStatus := fst (initializeUpdate z (appStatus b) k)\<rparr>))"
    using assms by (auto simp: committed_def initializeUpdate_updates)
  then have "stOwnership (appStatus ans) = (stOwnership (appStatus b))\<lparr>osOwner := z, osEpoch := 1, osState := NewGlobalState\<rparr>"
    by (simp add: initializeUpdate_def)
  with * show ?thesis by blast
qed


text \<open>A resource that has a state but no owner is stuck: a reconciliation writes nothing, leaves
  the job table alone and asks to be queued again at once, and so does the next.\<close>

lemma Reconcile_without_owner_stuck:
  assumes "kGet (ctlKube ctl) name e = (Inr a, e1)" and "osOwner (stOwnership (appStatus a)) = ''''"
    and "kGet (ctlKube ctl) (GetNamespacedName a) e1 = (Inr b, e2)"
    and "osState (stOwnership (appStatus b)) \<noteq> GlobalStateUnset"
    and "retries_on_conflict (ctlKube ctl)"
  shows "Reconcile ctl pc name e j = ((Inr (requeueNow, None), e2, j))"
proof -
  let ?z = "cfgZoneId (ctlConfig ctl)"
  let ?fn = "updateAttempt (ctlKube ctl) (GetNamespacedName a) ?z (Some (initializeUpdate ?z))"
  have fn: "?fn e1 = (None, e2)"
    using assms(3,4) by (simp add: updateAttempt_def initializeUpdate_settled)
  have "conflict_run ?fn e1 (fst (kRetryOnConflict (ctlKube ctl) ?fn e1)) (snd (kRetryOnConflict (ctlKube ctl) ?fn e1))"
    using assms(5) by (simp add: retries_on_conflict_def)
  then have "kRetryOnConflict (ctlKube ctl) ?fn e1 = (None, e2)"
    by cases (simp_all add: fn prod_eq_iff)
  then show ?thesis
    using assms(1,2) by (simp add: Reconcile_def InitializeState_def UpdateStatus_def Let_def)
qed

section \<open>Deletion and the finalizer\<close>

lemma removeString_gone: "s \<notin> set (removeString xs s)"
  by (simp add: removeString_def)

text \<open>C16: the reconciliation of a resource under deletion stops the application's job and no other's,
  and lets go of the finalizer, in one update that removes it and keeps the others, only after
  the cleanup has answered without an error.\<close>

theorem Reconcile_deletion:
  assumes "ctlJobs ctl = jobsTable" and "kGet (ctlKube ctl) name e = (Inr a, e1)"
    and "osOwner (stOwnership (appStatus a)) \<noteq> ''''" and "appDeletionTimestamp a \<noteq> None"
    and "AnyApplicationFinalizerName \<in> set (appFinalizers a)"
    and "Reconcile ctl pc name e j = (out, e', j')"
  shows "(\<forall>aid. GetCurrent aid j' = (if aid = applicationId a then None else GetCurrent aid j))
    \<and> (out = Inr (noRequeue, None) \<longrightarrow> (\<exists>results e2 ans.
         ctlCleanup ctl a e1 = (Inr (Inr results), e2)
         \<and> kUpdate (ctlKube ctl) (a\<lparr>appFinalizers := filter (\<lambda>f. f \<noteq> AnyApplicationFinalizerName) (appFinalizers a)\<rparr>) e2
             = (Inr ans, e')))
    \<and> (\<forall>err e2. ctlCleanup ctl a e1 = (Inr (Inl err), e2) \<longrightarrow> out = Inr (noRequeue, Some err) \<and> e' = e2)"
proof -
  have run: "resourceCleanup ctl a e1 j = (out, e', j')" using assms by (simp add: Reconcile_def)
  then have "j' = Stop (applicationId a) j"
    using assms(1,5) by (auto simp: resourceCleanup_def Let_def split: prod.splits sum.splits)
  moreover have "(out = Inr (noRequeue, None) \<longrightarrow> (\<exists>results e2 ans.
         ctlCleanup ctl a e1 = (Inr (Inr results), e2)
         \<and> kUpdate (ctlKube ctl) (a\<lparr>appFinalizers := removeString (appFinalizers a) AnyApplicationFinalizerName\<rparr>) e2
             = (Inr ans, e')))"
    using run assms(5) by (auto simp: resourceCleanup_def Let_def split: prod.splits sum.splits)
  moreover have "\<forall>err e2. ctlCleanup ctl a e1 = (Inr (Inl err), e2) \<longrightarrow> out = Inr (noRequeue, Some err) \<and> e' = e2"
    using run assms(5) by (auto simp: resourceCleanup_def Let_def)
  ultimately show ?thesis by (simp add: GetCurrent_Stop removeString_def)
qed

section \<open>When a job starts\<close>

lemma applyResult_new_current:
  assumes "ctlJobs ctl = jobsTable" and "tableOk j" and "applyResult ctl name result e j = (out, e', j')"
    and "GetCurrent aid j' = Some c" and "GetCurrent aid j \<noteq> Some c"
  shows "rrJobsToAdd result = Some c \<and> aid = jobOwner c"
proof (cases "rrJobsToAdd result")
  case None
  with assms show ?thesis using applyResult_jobs [of ctl name result e j] by simp
next
  case (Some job)
  then have j': "j' = startNewJob jobsTable job (stopDifferentJob jobsTable job j)"
    using assms(1,3) applyResult_jobs [of ctl name result e j] by simp
  with registry.switch [OF assms(2), of aid job] assms(4,5) Some show ?thesis
    by (auto split: if_splits)
qed

text \<open>C17: a reconciliation puts a job in the table only for a resource that has an owner, is not under
  deletion, holds the finalizer, whose application loaded and is one this zone handles, and
  only the job that the reconciliation pass over it asked for.\<close>

theorem Reconcile_starts_job_only_when_handled:
  assumes "ctlJobs ctl = jobsTable" and "tableOk j" and "Reconcile ctl pc name e j = (out, e', j')"
    and "GetCurrent aid j' = Some c" and "GetCurrent aid j \<noteq> Some c"
  shows "\<exists>a e1 g e2 result. kGet (ctlKube ctl) name e = (Inr a, e1)
    \<and> osOwner (stOwnership (appStatus a)) \<noteq> '''' \<and> appDeletionTimestamp a = None
    \<and> AnyApplicationFinalizerName \<in> set (appFinalizers a)
    \<and> ctlLoadApplication ctl a e1 = (Inr (Inr g), e2) \<and> shouldHandle ctl a g
    \<and> DoReconcile (ctlResourceApi ctl) (ctlSemver ctl) (ctlParseDuration ctl) pc jobsTable j g = Inr result
    \<and> rrJobsToAdd result = Some c \<and> aid = jobOwner c"
proof -
  have stay: "j' \<noteq> j" using assms(4,5) by auto
  have notStop: "j' \<noteq> Stop aid' j" for aid' using assms(4,5) by (auto simp: GetCurrent_Stop split: if_splits)
  obtain r e1 where g: "kGet (ctlKube ctl) name e = (r, e1)" by fastforce
  with assms(3) stay obtain a where a: "r = Inr a" by (cases r) (auto simp: Reconcile_def)
  have cleanup: "resourceCleanup ctl a e1 j \<noteq> (out, e', j')"
    using stay notStop assms(1) by (auto simp: resourceCleanup_def Let_def split: prod.splits sum.splits)
  with assms(3) g a stay have guards: "osOwner (stOwnership (appStatus a)) \<noteq> ''''" "appDeletionTimestamp a = None"
      "AnyApplicationFinalizerName \<in> set (appFinalizers a)"
    by (auto simp: Reconcile_def split: prod.splits if_splits)
  obtain l e2 where l: "ctlLoadApplication ctl a e1 = (l, e2)" by fastforce
  with assms(3) g a guards stay obtain ga where ga: "l = Inr (Inr ga)" "shouldHandle ctl a ga"
    by (auto simp: Reconcile_def split: sum.splits if_splits)
  with assms(1,3) g a guards l stay obtain result where
    r: "DoReconcile (ctlResourceApi ctl) (ctlSemver ctl) (ctlParseDuration ctl) pc jobsTable j ga = Inr result"
       "applyResult ctl name result e2 j = (out, e', j')"
    by (auto simp: Reconcile_def split: sum.splits)
  from applyResult_new_current [OF assms(1,2) r(2) assms(4,5)] g a guards l ga r(1) show ?thesis by blast
qed

section \<open>Examples\<close>

text \<open>A controller of zone z against the server of \<open>StatusUpdater\<close>, which here accepts updates of the
  object itself, with applications that load as in \<open>GlobalApplication\<close> and a cleanup that
  succeeds.\<close>

definition sampleController :: "(AnyApplication list, nat, nat, string, nat Jobs) Controller" where
  "sampleController = \<lparr>ctlConfig = sampleConfig, ctlKube = sampleEnv\<lparr>kUpdate := (\<lambda>a s. (Inr a, s @ [a]))\<rparr>,
     ctlSemver = sampleSemver, ctlResourceApi = sampleApi, ctlParseDuration = (\<lambda>_. None),
     ctlLoadApplication = (\<lambda>a s. (Inr (Inr ((samplePass (appStatus a))\<lparr>gaApplication := a\<rparr>)), s)),
     ctlCleanup = (\<lambda>a s. (Inr (Inr []), s)), ctlJobs = jobsTable\<rparr>"

definition sampleClocks :: PassClock where
  "sampleClocks = \<lparr>pcJobStatus = 5, pcCondition = 5, pcStart = 5, pcNewStatus = 5\<rparr>"

lemma tableOk_NewJobs [simp]: "tableOk NewJobs"
  by (simp add: tableOk_def NewJobs_def)

definition sampleStart :: "nat AsyncJob" where
  "sampleStart = LocalOperation (NewLocalOperationJob sampleConfig (sampleApp sampleHeld))"

lemma sampleController_sel [simp]:
  "ctlJobs sampleController = jobsTable"
  "kGet (ctlKube sampleController) name s = (Inr (last s), s)"
  "kRetryOnConflict (ctlKube sampleController) = sampleRetry 4"
  "ctlCleanup sampleController a s = (Inr (Inr []), s)"
  by (simp_all add: sampleController_def sampleEnv_def)

theorem applyResult_switches_job_witness:
  "\<exists>c. GetCurrent (jobOwner sampleStart) (snd (snd (applyResult sampleController \<lparr>okNamespace = ''n'', okName = ''app''\<rparr>
      \<lparr>rrStatus = None, rrJobsToAdd = Some sampleStart, rrJobsToRemove = False\<rparr> [] NewJobs))) = Some c
      \<and> GetJobID c = GetJobID sampleStart"
  using applyResult_switches_job [of sampleController NewJobs
      "\<lparr>rrStatus = None, rrJobsToAdd = Some sampleStart, rrJobsToRemove = False\<rparr>" sampleStart]
  by (simp add: Let_def)

lemma optimistic_store_kUpdate [simp]:
  "optimistic_store (env\<lparr>kUpdate := u\<rparr>) name log ok = optimistic_store env name log ok"
  "retries_on_conflict (env\<lparr>kUpdate := u\<rparr>) = retries_on_conflict env"
  "stays_available (env\<lparr>kUpdate := u\<rparr>) name ok = stays_available env name ok"
  by (simp_all add: optimistic_store_def retries_on_conflict_def stays_available_def IsCancelled_def)

lemma sampleController_env:
  "optimistic_store (ctlKube sampleController) name (\<lambda>s. s) numbered"
  "retries_on_conflict (ctlKube sampleController)"
  "stays_available (ctlKube sampleController) name numbered"
  using sampleEnv_store [of name]
  by (simp_all add: sampleController_def retries_on_conflict_def stays_available_def IsCancelled_def)
    (simp_all add: sampleEnv_def sampleRetry_run)

definition sampleFresh :: "AnyApplication list" where
  "sampleFresh = [(sampleApp \<lparr>stOwnership = \<lparr>osEpoch = 0, osState = GlobalStateUnset, osOwner = '''', osPlacements = None\<rparr>,
     stZones = []\<rparr>)\<lparr>appResourceVersion := ''0''\<rparr>]"


definition sampleOwnerless :: AnyApplication where
  "sampleOwnerless = sampleApp \<lparr>stOwnership = \<lparr>osEpoch = 0, osState = NewGlobalState, osOwner = '''',
     osPlacements = None\<rparr>, stZones = []\<rparr>"

lemma Reconcile_without_owner_stuck_example:
  "Reconcile sampleController sampleClocks \<lparr>okNamespace = ''n'', okName = ''app''\<rparr> [sampleOwnerless] NewJobs
     = (Inr (requeueNow, None), [sampleOwnerless], NewJobs)"
  by (rule Reconcile_without_owner_stuck [where a = sampleOwnerless and b = sampleOwnerless and ?e1.0 = "[sampleOwnerless]"])
    (simp_all add: sampleController_env sampleOwnerless_def sampleApp_def)

definition sampleDeleted :: AnyApplication where
  "sampleDeleted = (sampleApp sampleHeld)\<lparr>appDeletionTimestamp := Some 9,
     appFinalizers := [''keep'', AnyApplicationFinalizerName]\<rparr>"

theorem Reconcile_deletion_witness:
  "GetCurrent (applicationId sampleDeleted) (snd (snd (Reconcile sampleController sampleClocks
     \<lparr>okNamespace = ''n'', okName = ''app''\<rparr> [sampleDeleted] (Execute sampleStart NewJobs)))) = None"
proof -
  let ?r = "Reconcile sampleController sampleClocks \<lparr>okNamespace = ''n'', okName = ''app''\<rparr> [sampleDeleted]
    (Execute sampleStart NewJobs)"
  have run: "?r = (fst ?r, fst (snd ?r), snd (snd ?r))" by simp
  have "osOwner (stOwnership (appStatus sampleDeleted)) \<noteq> ''''" "appDeletionTimestamp sampleDeleted \<noteq> None"
      "AnyApplicationFinalizerName \<in> set (appFinalizers sampleDeleted)"
    by (simp_all add: sampleDeleted_def sampleHeld_def sample_defs)
  from Reconcile_deletion [OF _ _ this run, of "[sampleDeleted]"] show ?thesis by simp
qed

definition sampleManaged :: AnyApplication where
  "sampleManaged = (sampleApp \<lparr>stOwnership = sampleOwnership PlacementGlobalState
       (Some [\<lparr>plZone = ''z'', plNodeAffinity = []\<rparr>]), stZones = []\<rparr>)
     \<lparr>appFinalizers := [AnyApplicationFinalizerName]\<rparr>"

theorem Reconcile_starts_job_only_when_handled_witness:
  "let name = \<lparr>okNamespace = ''n'', okName = ''app''\<rparr>;
       r = Reconcile sampleController sampleClocks name [sampleManaged] NewJobs
   in (\<exists>a e1 g e2. kGet (ctlKube sampleController) name [sampleManaged] = (Inr a, e1)
         \<and> ctlLoadApplication sampleController a e1 = (Inr (Inr g), e2) \<and> shouldHandle sampleController a g)
      \<and> GetCurrent (applicationId sampleManaged) (snd (snd r)) \<noteq> None"
proof -
  let ?name = "\<lparr>okNamespace = ''n'', okName = ''app''\<rparr>"
  let ?r = "Reconcile sampleController sampleClocks ?name [sampleManaged] NewJobs"
  have some: "GetCurrent (applicationId sampleManaged) (snd (snd ?r)) \<noteq> None" by code_simp
  then obtain c where c: "GetCurrent (applicationId sampleManaged) (snd (snd ?r)) = Some c" by blast
  have none: "GetCurrent (applicationId sampleManaged) NewJobs \<noteq> Some c" by (simp add: GetCurrent_def NewJobs_def)
  have run: "?r = (fst ?r, fst (snd ?r), snd (snd ?r))" by simp
  from Reconcile_starts_job_only_when_handled [OF _ tableOk_NewJobs run c none] some
  show ?thesis by (simp only: Let_def sampleController_sel(1) simp_thms) blast
qed

end
