(* ===== verification/Federation.thy ===== *)
theory Federation
  imports Controller JobCycles
begin

text \<open>
  One resource and the controllers of several zones: the history of its status, newest first, as the
  zones write it. Every write is one of the updates the program hands to \<open>UpdateStatus\<close>, applied by
  its zone to the newest status, which is what \<open>UpdateStatus_atomic\<close> proves of a successful write; but
  a pass derives its status from any earlier one, since a reconciliation may read a stale object and
  others write while it runs.
\<close>

section \<open>Who writes what\<close>

text \<open>A pass of the zone over a status: \<open>Reconcile\<close> runs one only when the resource has an owner.\<close>

definition passOver ::
  "'r ResourceApi \<Rightarrow> ('v, 'c) Semver \<Rightarrow> string \<Rightarrow> AnyApplicationStatus \<Rightarrow> 'v AsyncJob StatusResult \<Rightarrow> bool" where
  "passOver api sv zone seen res \<longleftrightarrow> osOwner (stOwnership seen) \<noteq> ''''
     \<and> (\<exists>g pd now start reading jc a'. appStatus (gaApplication g) = seen \<and> cfgZoneId (gaConfig g) = zone \<and> sameConfig g
          \<and> DeriveNewStatus api sv now g jc (AsyncJobFactoryImpl pd (gaConfig g) start reading) = Inr (a', res))"

text \<open>The updates of a zone: the election of an owner, the merge of what a pass derived, the condition a job
  posts, and the placement that a placement job, scheduled by some pass, sets.\<close>

inductive zoneUpdate ::
  "'r ResourceApi \<Rightarrow> ('v, 'c) Semver \<Rightarrow> AnyApplicationStatus list \<Rightarrow> string \<Rightarrow> StatusUpdate \<Rightarrow> bool"
  for api sv sts zone where
  elects: "zoneUpdate api sv sts zone (initializeUpdate zone)"
| merges: "seen \<in> set sts \<Longrightarrow> passOver api sv zone seen res \<Longrightarrow> Status res = Some derived
     \<Longrightarrow> zoneUpdate api sv sts zone (\<lambda>st zoneId. mergeStatus st derived zoneId)"
| posts: "zoneUpdate api sv sts zone (conditionUpdate ev c ts)"
| places: "seen \<in> set sts \<Longrightarrow> passOver api sv zone seen res \<Longrightarrow> JobsToAdd (srJobs res) = Some (LocalPlacement job)
     \<Longrightarrow> zoneUpdate api sv sts zone (placementUpdate zone c ev)"

text \<open>A resource is created without a status, and nothing is written when an update reports no change.\<close>

definition createdStatus :: AnyApplicationStatus where
  "createdStatus =
     \<lparr>stOwnership = \<lparr>osEpoch = 0, osState = GlobalStateUnset, osOwner = '''', osPlacements = None\<rparr>, stZones = []\<rparr>"

inductive history ::
  "'r ResourceApi \<Rightarrow> ('v, 'c) Semver \<Rightarrow> string set \<Rightarrow> AnyApplicationStatus list \<Rightarrow> bool"
  for api sv zones where
  created: "history api sv zones [createdStatus]"
| written: "history api sv zones (st # sts) \<Longrightarrow> zone \<in> zones \<Longrightarrow> zoneUpdate api sv (st # sts) zone f
     \<Longrightarrow> f st zone = (st1, True, ev)
     \<Longrightarrow> history api sv zones (appStatus (IncrementZoneVersion zone (a\<lparr>appStatus := st1\<rparr>)) # st # sts)"

section \<open>The controllers write histories\<close>

text \<open>The pass of a reconciliation is a \<open>passOver\<close> the status it read, and what a successful \<open>UpdateStatus\<close>
  leaves behind in the object's log, \<open>committed\<close>, is one step of a history.\<close>

lemma DoReconcile_passOver:
  assumes "DoReconcile api sv pd pc jobs j g = Inr result" and "sameConfig g"
    and "osOwner (stOwnership (appStatus (gaApplication g))) \<noteq> ''''"
  shows "\<exists>res. passOver api sv (cfgZoneId (gaConfig g)) (appStatus (gaApplication g)) res
    \<and> Status res = rrStatus result \<and> (JobsToAdd (srJobs res) = None \<longleftrightarrow> rrJobsToAdd result = None)"
proof -
  from assms(1) obtain a' res where r: "DeriveNewStatus api sv (pcCondition pc) g
      (runningConditions (pcJobStatus pc) (ajGetCurrent jobs \<lparr>aidName = GetName g, aidNamespace = GetNamespace g\<rparr> j))
      (AsyncJobFactoryImpl pd (gaConfig g) (pcStart pc) (pcNewStatus pc)) = Inr (a', res)"
    and res: "rrStatus result = Status res" "rrJobsToAdd result = map_option (withApplication a') (JobsToAdd (srJobs res))"
    by (auto simp: DoReconcile_def Let_def go_bind_eq_Inr)
  from r have "passOver api sv (cfgZoneId (gaConfig g)) (appStatus (gaApplication g)) res"
    unfolding passOver_def using assms(2,3) by blast
  with res show ?thesis by (intro exI [of _ res]) simp
qed

lemma committed_written:
  assumes "committed n l f zone" and "zone \<in> zones"
  shows "\<exists>b ans. stored_step n l b ans
    \<and> (\<forall>sts. history api sv zones (appStatus b # sts) \<and> zoneUpdate api sv (appStatus b # sts) zone f
         \<longrightarrow> history api sv zones (appStatus ans # appStatus b # sts))"
proof -
  from assms(1) obtain b ans where c: "stored_step n l b ans" "fst (snd (f (appStatus b) zone))"
    "appStatus ans = appStatus (IncrementZoneVersion zone (b\<lparr>appStatus := fst (f (appStatus b) zone)\<rparr>))"
    by (auto simp: committed_def)
  have "f (appStatus b) zone = (fst (f (appStatus b) zone), True, snd (snd (f (appStatus b) zone)))"
    using c(2) by (simp add: prod_eq_iff)
  with c assms(2) history.written show ?thesis by metis
qed

section \<open>Every update stays in its zone\<close>

lemma IncrementZoneVersion_write:
  "\<exists>w. appStatus (IncrementZoneVersion k a) = WriteZone k (\<lambda>z. z\<lparr>zsZoneVersion := w\<rparr>) (appStatus a)"
proof (cases "GetStatusFor (appStatus a) k")
  case None
  then have "WriteZone k (\<lambda>z. z\<lparr>zsZoneVersion := 0\<rparr>) (appStatus a) = appStatus a" by (intro WriteZone_fix) simp
  then show ?thesis by (intro exI [of _ 0]) (simp add: IncrementZoneVersion_def None)
next
  case (Some z)
  then show ?thesis by (auto simp: IncrementZoneVersion_def Let_def)
qed

lemma IncrementZoneVersion_zone: "onlyZone k (appStatus a) (appStatus (IncrementZoneVersion k a))"
  using IncrementZoneVersion_write [of k a] by (auto simp: frame_simps)

lemma wf_IncrementZoneVersion: "wf_status (appStatus a) \<Longrightarrow> wf_status (appStatus (IncrementZoneVersion k a))"
  using IncrementZoneVersion_write [of k a] by (auto intro!: wf_status_WriteZone simp: wf_zone_def keepsZoneId_def)

lemma zoneUpdate_frame:
  assumes "zoneUpdate api sv sts zone f" and "f st zone = (st1, u, ev)"
  shows "(\<forall>k. k \<noteq> zone \<longrightarrow> GetStatusFor st1 k = GetStatusFor st k) \<and> (wf_status st \<longrightarrow> wf_status st1)"
  using assms
proof cases
  case elects
  with assms(2) show ?thesis by (auto simp: initializeUpdate_def split: if_splits)
next
  case (merges seen res derived)
  then have "st1 = fst (mergeStatus st derived zone)" using assms(2) by simp
  then show ?thesis by (simp add: mergeStatus_zone wf_status_mergeStatus)
next
  case (posts e c ts)
  with assms(2) conditionUpdate_onlyZone [of e c ts st zone] conditionUpdate_wf [of st e c ts zone] show ?thesis
    by (auto simp: onlyZone_def zone_frame_def)
next
  case (places seen res job c e)
  let ?p = "st\<lparr>stOwnership := (stOwnership st)\<lparr>osPlacements := Some [\<lparr>plZone = zone, plNodeAffinity = []\<rparr>]\<rparr>\<rparr>"
  have st1: "st1 = fst (AddOrUpdate c zone ?p)" using places assms(2) by (simp add: placementUpdate_def Let_def)
  with onlyZone_AddOrUpdate [of zone ?p c] wf_status_AddOrUpdate [of ?p c zone] show ?thesis
    by (auto simp: onlyZone_def zone_frame_def)
qed

section \<open>What a pass does to the ownership\<close>

lemma globalStateMachine_state:
  assumes "globalStateMachine a cfg fac available running = (a', u, jobs)"
  shows "osState (stOwnership (appStatus a')) \<noteq> GlobalStateUnset"
proof -
  let ?r = "GlobalFSM_NextState (NewGlobalFSM a cfg fac available running)"
  have "fold (placementState st) ps s \<noteq> GlobalStateUnset" if "s \<noteq> GlobalStateUnset" for st ps s
    using that by (induction ps arbitrary: s) (auto simp: placementState_def split: option.splits)
  then have "NextState ?r \<noteq> None \<and> NextState ?r \<noteq> Some GlobalStateUnset"
    by (auto simp: GlobalFSM_NextState_def handlePlacementState_def handleFailureState_def getGlobalState_def Let_def)
  with assms show ?thesis by (auto simp: globalStateMachine_def Let_def split: option.splits)
qed

lemma updateState_state:
  assumes "updateState sv a cfg fac present deployed nonActive v nv running = Inr (a', u, jobs)"
    and "osState (stOwnership (appStatus a)) \<noteq> GlobalStateUnset"
  shows "osState (stOwnership (appStatus a')) \<noteq> GlobalStateUnset"
proof -
  let ?k = "cfgZoneId cfg"
  from updateState_stages [OF assms(1)] obtain a1 u1 jobs1 a2 u2 where
    l: "(if placementsContainZone (appStatus a) ?k \<or> present \<or> ZoneExists (appStatus a) ?k
      then localStateMachine sv a cfg fac present deployed nonActive v nv running
      else Inr (a, False, noJobs)) = Inr (a1, u1, jobs1)"
    and g: "(osOwner (stOwnership (appStatus a1)) \<noteq> ?k \<and> a2 = a1 \<and> u2 = u1 \<and> jobs = jobs1)
      \<or> (osOwner (stOwnership (appStatus a1)) = ?k \<and>
          (\<exists>u3 jobs2. globalStateMachine a1 cfg fac deployed running = (a2, u3, jobs2)
             \<and> NextJobs_Add jobs1 jobs2 = Inr jobs \<and> u2 = (u1 \<or> u3)))"
    and d: "dropEmptyZone ?k (a2, u2) = (a', u)" by metis
  have "onlyZone ?k (appStatus a) (appStatus a1)" using l localStateMachine_frame by (fastforce split: if_splits)
  then have "osState (stOwnership (appStatus a2)) \<noteq> GlobalStateUnset"
    using g assms(2) globalStateMachine_state onlyZone_ownership by metis
  then show ?thesis using dropEmptyZone_frame [OF d] onlyZone_ownership by metis
qed

text \<open>Only the owner's passes schedule a placement job: it is the global machine that does.\<close>

lemma local_jobs_no_placement:
  assumes "localStateMachine sv a cfg (AsyncJobFactoryImpl pd cfg start reading) present deployed nonActive v nv running = Inr (a', u, jobs)"
  shows "JobsToAdd jobs \<noteq> Some (LocalPlacement job)"
proof -
  let ?g = "NewLocalFSM a cfg (AsyncJobFactoryImpl pd cfg start reading) present deployed nonActive v nv running"
  have fac: "lfJobFactory ?g = AsyncJobFactoryImpl pd cfg start reading" by (simp add: NewLocalFSM_def)
  have "decisionType d \<noteq> Some AsyncJobTypeLocalPlacement" for d by (cases d) simp_all
  then have "map_option GetType (JobsToAdd (Jobs (snd (LocalFSM_NextState ?g)))) \<noteq> Some AsyncJobTypeLocalPlacement"
    using impl.local_decision [OF fac] by (simp add: impl.startedType_def)
  moreover have "jobs = Jobs (snd (LocalFSM_NextState ?g))"
    using localStateMachine_cases [OF assms] by (metis snd_conv)
  ultimately show ?thesis by auto
qed

lemma placement_by_owner:
  assumes "updateState sv a cfg (AsyncJobFactoryImpl pd cfg start reading) present deployed nonActive v nv running = Inr (a', u, jobs)"
    and "JobsToAdd jobs = Some (LocalPlacement job)"
  shows "osOwner (stOwnership (appStatus a)) = cfgZoneId cfg"
proof (rule ccontr)
  let ?k = "cfgZoneId cfg"
  assume other: "osOwner (stOwnership (appStatus a)) \<noteq> ?k"
  from updateState_stages [OF assms(1)] obtain a1 u1 jobs1 where
    l: "(if placementsContainZone (appStatus a) ?k \<or> present \<or> ZoneExists (appStatus a) ?k
      then localStateMachine sv a cfg (AsyncJobFactoryImpl pd cfg start reading) present deployed nonActive v nv running
      else Inr (a, False, noJobs)) = Inr (a1, u1, jobs1)"
    and g: "osOwner (stOwnership (appStatus a1)) \<noteq> ?k \<and> jobs = jobs1 \<or> osOwner (stOwnership (appStatus a1)) = ?k" by metis
  have "onlyZone ?k (appStatus a) (appStatus a1)" using l localStateMachine_frame by (fastforce split: if_splits)
  with g other have "jobs = jobs1" using onlyZone_ownership by metis
  with l assms(2) show False by (auto simp: noJobs_def dest: local_jobs_no_placement split: if_splits)
qed

lemma passOver_ownership:
  assumes "passOver api sv zone seen res" and "osState (stOwnership seen) \<noteq> GlobalStateUnset"
  shows "(\<forall>derived. Status res = Some derived \<longrightarrow>
      (\<exists>s. s \<noteq> GlobalStateUnset \<and> stOwnership derived = (stOwnership seen)\<lparr>osState := s\<rparr>))
    \<and> (\<forall>job. JobsToAdd (srJobs res) = Some (LocalPlacement job) \<longrightarrow> osOwner (stOwnership seen) = zone)"
proof -
  from assms(1) obtain g pd now start reading jc a' where g: "appStatus (gaApplication g) = seen" "cfgZoneId (gaConfig g) = zone"
    "sameConfig g" and run: "DeriveNewStatus api sv now g jc (AsyncJobFactoryImpl pd (gaConfig g) start reading) = Inr (a', res)"
    unfolding passOver_def by blast
  show ?thesis
  proof (cases "deriveTargetVersion g")
    case None
    then have "Status res = None \<and> JobsToAdd (srJobs res) = None"
      using run by (auto simp: DeriveNewStatus_def Let_def case_prod_unfold noJobs_def split: option.splits)
    then show ?thesis by simp
  next
    case (Some v)
    let ?p = "passStart api now g jc"
    from DeriveNewStatus_run [OF run Some] obtain u where step:
      "updateState sv ((gaApplication g)\<lparr>appStatus := ?p\<rparr>) (gaConfig g) (AsyncJobFactoryImpl pd (gaConfig g) start reading)
         (IsPresent g) (GlobalApplication_IsDeployed api g) (NonActiveVersionsPresent g) v (gaNewVersion g) (GetJobType jc)
       = Inr (a', u, srJobs res)" and st: "\<And>st. Status res = Some st \<Longrightarrow> st = appStatus a'" by metis
    have "onlyZone zone (initOwnership zone seen) ?p" using passStart_frame [OF g(3)] by (simp add: g)
    then have own: "stOwnership ?p = stOwnership seen"
      using assms(2) by (simp add: onlyZone_ownership initOwnership_def)
    have "osState (stOwnership (appStatus a')) \<noteq> GlobalStateUnset" using updateState_state [OF step] assms(2) own by simp
    moreover have "stOwnership (appStatus a') = (stOwnership seen)\<lparr>osState := osState (stOwnership (appStatus a'))\<rparr>"
      using updateState_frame [OF step] own by (simp add: passFrame_def)
    moreover have "osOwner (stOwnership seen) = zone" if "JobsToAdd (srJobs res) = Some (LocalPlacement job)" for job
      using placement_by_owner [OF step that] own g(2) by simp
    ultimately show ?thesis using st by blast
  qed
qed

section \<open>The ownership over a history\<close>

text \<open>Before the election nothing is set; after it the owner is a zone that takes part, at epoch one, in a
  state, and the placements are unset or name the owner alone.\<close>

definition ownership_ok :: "string set \<Rightarrow> OwnershipStatus \<Rightarrow> bool" where
  "ownership_ok zones o1 \<longleftrightarrow>
     (if osOwner o1 = '''' then osState o1 = GlobalStateUnset \<and> osEpoch o1 = 0 \<and> osPlacements o1 = None
      else osOwner o1 \<in> zones \<and> osState o1 \<noteq> GlobalStateUnset \<and> osEpoch o1 = 1
        \<and> osPlacements o1 \<in> {None, Some [\<lparr>plZone = osOwner o1, plNodeAffinity = []\<rparr>]})"

definition ownership_stays :: "OwnershipStatus \<Rightarrow> OwnershipStatus \<Rightarrow> bool" where
  "ownership_stays old new \<longleftrightarrow>
     (osOwner old \<noteq> '''' \<longrightarrow> osOwner new = osOwner old) \<and> (osPlacements old \<noteq> None \<longrightarrow> osPlacements new = osPlacements old)"

lemma ownership_stays_trans:
  "ownership_stays a b \<Longrightarrow> ownership_stays b c \<Longrightarrow> ownership_stays a c"
  by (cases "osPlacements a"; cases "osPlacements b") (auto simp: ownership_stays_def)

lemma ownership_stays_refl [simp]: "ownership_stays a a"
  by (simp add: ownership_stays_def)

lemma zoneUpdate_ownership:
  assumes "zoneUpdate api sv (st # sts) zone f" and "f st zone = (st1, True, ev)"
    and zone: "zone \<in> zones" "zone \<noteq> ''''"
    and ok: "\<forall>x\<in>set (st # sts). ownership_ok zones (stOwnership x)"
    and older: "\<forall>x\<in>set (st # sts). ownership_stays (stOwnership x) (stOwnership st)"
  shows "ownership_ok zones (stOwnership st1) \<and> ownership_stays (stOwnership st) (stOwnership st1)"
  using assms(1)
proof cases
  case elects
  then have "osState (stOwnership st) = GlobalStateUnset"
    "stOwnership st1 = (stOwnership st)\<lparr>osOwner := zone, osEpoch := 1, osState := NewGlobalState\<rparr>"
    using assms(2) by (auto simp: initializeUpdate_def split: if_splits)
  then show ?thesis using ok zone by (auto simp: ownership_ok_def ownership_stays_def split: if_splits)
next
  case (merges seen res derived)
  have seen: "ownership_ok zones (stOwnership seen)" "ownership_stays (stOwnership seen) (stOwnership st)"
    "osOwner (stOwnership seen) \<noteq> ''''"
    using merges ok older by (auto simp: passOver_def)
  then have "osState (stOwnership seen) \<noteq> GlobalStateUnset" by (simp add: ownership_ok_def)
  with passOver_ownership merges obtain s where s: "s \<noteq> GlobalStateUnset"
    "stOwnership derived = (stOwnership seen)\<lparr>osState := s\<rparr>" by blast
  have "st1 = fst (mergeStatus st derived zone)" using merges assms(2) by simp
  then have "stOwnership st1 = fst (mergeOwnership (stOwnership st) ((stOwnership seen)\<lparr>osState := s\<rparr>))"
    by (simp add: mergeStatus_ownership s(2))
  moreover have "ownership_ok zones (stOwnership st)" using ok by simp
  ultimately show ?thesis using seen s(1)
    by (auto simp: ownership_ok_def ownership_stays_def mergeOwnership_def Let_def split: if_splits)
next
  case (posts e c ts)
  then have "stOwnership st1 = stOwnership st"
    using conditionUpdate_onlyZone assms(2) onlyZone_ownership by metis
  then show ?thesis using ok by simp
next
  case (places seen res job c e)
  have seen: "ownership_ok zones (stOwnership seen)" "ownership_stays (stOwnership seen) (stOwnership st)"
    "osOwner (stOwnership seen) \<noteq> ''''"
    using places ok older by (auto simp: passOver_def)
  then have "osOwner (stOwnership seen) = zone"
    using passOver_ownership places by (simp add: ownership_ok_def) blast
  then have "osOwner (stOwnership st) = zone" using seen by (simp add: ownership_stays_def)
  moreover have "stOwnership st1 = (stOwnership st)\<lparr>osPlacements := Some [\<lparr>plZone = zone, plNodeAffinity = []\<rparr>]\<rparr>"
    using places assms(2) onlyZone_AddOrUpdate [THEN onlyZone_ownership] by (auto simp: placementUpdate_def Let_def)
  ultimately show ?thesis using ok zone by (auto simp: ownership_ok_def ownership_stays_def)
qed

lemma history_nonempty: "history api sv zones sts \<Longrightarrow> sts \<noteq> []"
  by (cases rule: history.cases) auto

lemma history_ownership:
  assumes "history api sv zones sts" and "'''' \<notin> zones"
  shows "(\<forall>x\<in>set sts. ownership_ok zones (stOwnership x))
    \<and> (\<forall>x\<in>set sts. ownership_stays (stOwnership x) (stOwnership (hd sts)))"
  using assms(1)
proof induction
  case created
  then show ?case by (simp add: ownership_ok_def createdStatus_def)
next
  case (written st sts zone f st1 ev a)
  let ?new = "appStatus (IncrementZoneVersion zone (a\<lparr>appStatus := st1\<rparr>))"
  have new: "stOwnership ?new = stOwnership st1" by simp
  have "ownership_ok zones (stOwnership st1) \<and> ownership_stays (stOwnership st) (stOwnership st1)"
    using written.IH written.hyps(2) assms(2) by (intro zoneUpdate_ownership [OF written.hyps(3,4)]) auto
  with written.IH new show ?case by (auto intro: ownership_stays_trans)
qed


lemma written_frame:
  assumes "zoneUpdate api sv sts zone f" and "f st zone = (st1, True, ev)"
  shows "(\<forall>k. k \<noteq> zone \<longrightarrow>
        GetStatusFor (appStatus (IncrementZoneVersion zone (a\<lparr>appStatus := st1\<rparr>))) k = GetStatusFor st k)
    \<and> (wf_status st \<longrightarrow> wf_status (appStatus (IncrementZoneVersion zone (a\<lparr>appStatus := st1\<rparr>))))"
  using zoneUpdate_frame [OF assms] IncrementZoneVersion_zone [of zone "a\<lparr>appStatus := st1\<rparr>"]
    wf_IncrementZoneVersion [of "a\<lparr>appStatus := st1\<rparr>" zone]
  by (simp add: onlyZone_def zone_frame_def)


section \<open>Example\<close>

text \<open>The zone z elects itself and then merges what a pass over the elected status derives.\<close>

definition sampleElected :: AnyApplicationStatus where
  "sampleElected = \<lparr>stOwnership = sampleOwnership NewGlobalState None, stZones = []\<rparr>"

lemma sample_history:
  "\<exists>st. history sampleApi sampleSemver {''z''} [st, sampleElected, createdStatus]
     \<and> osOwner (stOwnership st) = ''z'' \<and> osState (stOwnership st) = PlacementGlobalState"
proof -
  have e: "initializeUpdate ''z'' createdStatus ''z'' = (sampleElected, True, snd (snd (initializeUpdate ''z'' createdStatus ''z'')))"
    by (simp add: initializeUpdate_def createdStatus_def sampleElected_def sampleOwnership_def)
  have "IncrementZoneVersion ''z'' (sampleApp sampleElected) = sampleApp sampleElected"
    by (simp add: IncrementZoneVersion_def sampleApp_def sampleElected_def GetStatusFor_def)
  then have s1: "history sampleApi sampleSemver {''z''} [sampleElected, createdStatus]"
    using history.written [OF history.created _ zoneUpdate.elects e, of "{''z''}" sampleApi sampleSemver "sampleApp sampleElected"]
    by (simp add: sampleApp_def)
  let ?g = "NewFromLocalApplication [] (Some (SpecificVersion 1)) None (sampleApp sampleElected) sampleConfig :: (nat, string) GlobalApplication"
  let ?r = "DeriveNewStatus sampleApi sampleSemver 5 ?g EmptyJobConditions
    (AsyncJobFactoryImpl (\<lambda>_. None) sampleConfig 0 5)"
  let ?m = "\<lambda>d. mergeStatus sampleElected d ''z''"
  have "case ?r of Inr (a, res) \<Rightarrow> (case Status res of
       Some d \<Rightarrow> fst (snd (?m d)) \<and> osOwner (stOwnership (fst (?m d))) = ''z''
         \<and> osState (stOwnership (fst (?m d))) = PlacementGlobalState
     | None \<Rightarrow> False) | Inl _ \<Rightarrow> False"
    by code_simp
  then obtain a res d where r: "?r = Inr (a, res)" "Status res = Some d" and d: "fst (snd (?m d))"
    "osOwner (stOwnership (fst (?m d))) = ''z''" "osState (stOwnership (fst (?m d))) = PlacementGlobalState"
    by (auto split: sum.splits option.splits)
  have g: "appStatus (gaApplication ?g) = sampleElected" "gaConfig ?g = sampleConfig" "sameConfig ?g"
    by (simp_all add: NewFromLocalApplication_def sampleApp_def sameConfig_def)
  moreover have "osOwner (stOwnership sampleElected) \<noteq> ''''" "cfgZoneId sampleConfig = ''z''"
    by (simp_all add: sampleElected_def sampleOwnership_def sampleConfig_def)
  ultimately have "passOver sampleApi sampleSemver ''z'' sampleElected res"
    unfolding passOver_def using r(1) by metis
  from zoneUpdate.merges [OF _ this r(2)]
  have "zoneUpdate sampleApi sampleSemver [sampleElected, createdStatus] ''z'' (\<lambda>st zoneId. mergeStatus st d zoneId)" by simp
  from history.written [OF s1 _ this, of _ _ "sampleApp sampleElected"] d
  have "history sampleApi sampleSemver {''z''}
      [appStatus (IncrementZoneVersion ''z'' (sampleApp sampleElected\<lparr>appStatus := fst (?m d)\<rparr>)), sampleElected, createdStatus]"
    by (metis insertI1 prod.collapse)
  moreover have "stOwnership (appStatus (IncrementZoneVersion ''z'' (sampleApp sampleElected\<lparr>appStatus := fst (?m d)\<rparr>))) = stOwnership (fst (?m d))"
    by simp
  ultimately show ?thesis using d(2,3) by metis
qed



end
