(* ===== verification/Bringup.thy ===== *)
theory Bringup
  imports Controller
begin

text \<open>
  Passes of \<open>Reconcile\<close> in sequence: how a new application comes to be handled when nobody else writes
  to its object meanwhile.
\<close>

fun reconciles ::
  "('e, 'v, 'c, 'r, 'j) Controller \<Rightarrow> PassClock list \<Rightarrow> ObjectKey \<Rightarrow> 'e \<Rightarrow> 'j \<Rightarrow> outcome list \<times> 'e \<times> 'j" where
  "reconciles ctl [] name e j = ([], e, j)"
| "reconciles ctl (pc # pcs) name e j =
     (let (out, e1, j1) = Reconcile ctl pc name e j;
          (outs, e2, j2) = reconciles ctl pcs name e1 j1
      in (out # outs, e2, j2))"

text \<open>An API server on which only this controller writes to the object \<open>name\<close>: a read answers the stored
  object; a status update of it is stored, and so is an update of its metadata, which leaves the
  status alone; events and the clock do not touch it.\<close>

definition quiet_server :: "'e KubeEnv \<Rightarrow> ObjectKey \<Rightarrow> ('e \<Rightarrow> AnyApplication) \<Rightarrow> bool" where
  "quiet_server kube name stored \<longleftrightarrow> retries_on_conflict kube \<and> (\<forall>e. \<not> kContextDone kube e)
     \<and> (\<forall>e. GetNamespacedName (stored e) = name)
     \<and> (\<forall>e. \<exists>e'. kGet kube name e = (Inr (stored e), e') \<and> stored e' = stored e)
     \<and> (\<forall>a e. appResourceVersion a = appResourceVersion (stored e) \<longrightarrow>
          (\<exists>e'. kStatusUpdate kube a e = (Inr (stored e'), e') \<and> appStatus (stored e') = appStatus a
             \<and> appFinalizers (stored e') = appFinalizers (stored e)
             \<and> appDeletionTimestamp (stored e') = appDeletionTimestamp (stored e)))
     \<and> (\<forall>a e. appResourceVersion a = appResourceVersion (stored e) \<longrightarrow>
          (\<exists>e'. kUpdate kube a e = (Inr (stored e'), e') \<and> appStatus (stored e') = appStatus (stored e)
             \<and> appFinalizers (stored e') = appFinalizers a
             \<and> appDeletionTimestamp (stored e') = appDeletionTimestamp (stored e)))
     \<and> (\<forall>a x y e. stored (kRecordEvent kube a x y e) = stored e)"

lemma quiet_get:
  assumes "quiet_server kube name stored"
  obtains e' where "kGet kube name e = (Inr (stored e), e')" "stored e' = stored e"
  using assms unfolding quiet_server_def by blast

text \<open>A retried function that succeeds at once ran once.\<close>

lemma retry_success:
  assumes "retries_on_conflict kube" and "fn s = (None, s')"
  shows "kRetryOnConflict kube fn s = (None, s')"
proof -
  have "conflict_run fn s (fst (kRetryOnConflict kube fn s)) (snd (kRetryOnConflict kube fn s))"
    using assms(1) by (simp add: retries_on_conflict_def)
  then show ?thesis by cases (simp_all add: assms(2) prod_eq_iff)
qed

text \<open>An update that reports a change is stored, with the zone's version counted up.\<close>

lemma quiet_update:
  assumes quiet: "quiet_server kube name stored" and f: "f (appStatus (stored e)) zone = (st, True, ev)"
  shows "\<exists>e'. UpdateStatus kube name zone (Some f) e = (None, e')
    \<and> appStatus (stored e') = appStatus (IncrementZoneVersion zone ((stored e)\<lparr>appStatus := st\<rparr>))
    \<and> appFinalizers (stored e') = appFinalizers (stored e)
    \<and> appDeletionTimestamp (stored e') = appDeletionTimestamp (stored e)"
proof -
  obtain e1 where get: "kGet kube name e = (Inr (stored e), e1)" "stored e1 = stored e" by (rule quiet_get [OF quiet])
  let ?a = "IncrementZoneVersion zone ((stored e)\<lparr>appStatus := st\<rparr>)"
  have "appResourceVersion ?a = appResourceVersion (stored e1)" using get(2) by simp
  with quiet obtain e2 where put: "kStatusUpdate kube ?a e1 = (Inr (stored e2), e2)" "appStatus (stored e2) = appStatus ?a"
    "appFinalizers (stored e2) = appFinalizers (stored e1)" "appDeletionTimestamp (stored e2) = appDeletionTimestamp (stored e1)"
    unfolding quiet_server_def by blast
  let ?e3 = "Emit kube (stored e2) ev e2"
  have "updateAttempt kube name zone (Some f) e = (None, ?e3)"
    using quiet by (simp add: updateAttempt_def get f put(1) IsCancelled_def quiet_server_def)
  then have "UpdateStatus kube name zone (Some f) e = (None, ?e3)"
    using quiet by (simp add: UpdateStatus_def retry_success quiet_server_def)
  moreover have "stored ?e3 = stored e2" using quiet by (simp add: Emit_def quiet_server_def)
  ultimately show ?thesis using put get(2) by auto
qed

lemma initialises:
  assumes quiet: "quiet_server (ctlKube ctl) name stored"
    and new: "osState (stOwnership (appStatus (stored e))) = GlobalStateUnset"
  shows "\<exists>e'. InitializeState ctl name e = (Inr (requeueNow, None), e')
    \<and> stOwnership (appStatus (stored e')) = (stOwnership (appStatus (stored e)))
         \<lparr>osOwner := cfgZoneId (ctlConfig ctl), osEpoch := 1, osState := NewGlobalState\<rparr>
    \<and> (stZones (appStatus (stored e)) = [] \<longrightarrow> stZones (appStatus (stored e')) = [])
    \<and> appFinalizers (stored e') = appFinalizers (stored e)
    \<and> appDeletionTimestamp (stored e') = appDeletionTimestamp (stored e)"
proof -
  let ?z = "cfgZoneId (ctlConfig ctl)" and ?kube = "ctlKube ctl"
  define st where "st = (appStatus (stored e))\<lparr>stOwnership := (stOwnership (appStatus (stored e)))
      \<lparr>osOwner := ?z, osEpoch := 1, osState := NewGlobalState\<rparr>\<rparr>"
  obtain ev where f: "initializeUpdate ?z (appStatus (stored e)) ?z = (st, True, ev)"
    using new unfolding initializeUpdate_def st_def by auto
  from quiet_update [of ?kube name stored "initializeUpdate ?z", OF quiet f] obtain e' where
    run: "UpdateStatus ?kube name ?z (Some (initializeUpdate ?z)) e = (None, e')"
    and at: "appStatus (stored e') = appStatus (IncrementZoneVersion ?z ((stored e)\<lparr>appStatus := st\<rparr>))"
      "appFinalizers (stored e') = appFinalizers (stored e)" "appDeletionTimestamp (stored e') = appDeletionTimestamp (stored e)"
    by blast
  have "stZones (appStatus (stored e')) = []" if "stZones st = []"
    using that by (simp add: at(1) IncrementZoneVersion_def GetStatusFor_def)
  with run at show ?thesis by (auto simp: InitializeState_def Let_def st_def)
qed

lemma gets_finalizer:
  assumes quiet: "quiet_server (ctlKube ctl) name stored"
    and a: "osOwner (stOwnership (appStatus (stored e))) \<noteq> ''''" "appDeletionTimestamp (stored e) = None"
      "AnyApplicationFinalizerName \<notin> set (appFinalizers (stored e))"
  shows "\<exists>e'. Reconcile ctl pc name e j = (Inr (requeueNow, None), e', j)
    \<and> appStatus (stored e') = appStatus (stored e) \<and> appDeletionTimestamp (stored e') = None
    \<and> appFinalizers (stored e') = appFinalizers (stored e) @ [AnyApplicationFinalizerName]"
proof -
  obtain e1 where get: "kGet (ctlKube ctl) name e = (Inr (stored e), e1)" "stored e1 = stored e" by (rule quiet_get [OF quiet])
  let ?a = "(stored e)\<lparr>appFinalizers := appFinalizers (stored e) @ [AnyApplicationFinalizerName]\<rparr>"
  have "appResourceVersion ?a = appResourceVersion (stored e1)" using get(2) by simp
  with quiet obtain e2 where "kUpdate (ctlKube ctl) ?a e1 = (Inr (stored e2), e2)" "appStatus (stored e2) = appStatus (stored e1)"
    "appFinalizers (stored e2) = appFinalizers ?a" "appDeletionTimestamp (stored e2) = appDeletionTimestamp (stored e1)"
    unfolding quiet_server_def by blast
  with get a show ?thesis by (auto simp: Reconcile_def addFinalizer_def)
qed


section \<open>Example\<close>

text \<open>The stored object: its status, its finalizers and how often it was written.\<close>

definition sampleStored :: "AnyApplicationStatus \<times> string list \<times> nat \<Rightarrow> AnyApplication" where
  "sampleStored e = (sampleApp (fst e))\<lparr>appFinalizers := fst (snd e), appResourceVersion := int_text (int (snd (snd e)))\<rparr>"

definition sampleQuiet :: "(AnyApplicationStatus \<times> string list \<times> nat) KubeEnv" where
  "sampleQuiet = \<lparr>
     kGet = (\<lambda>_ e. (Inr (sampleStored e), e)),
     kStatusUpdate = (\<lambda>a (st, fs, n). let e' = (appStatus a, fs, n + 1) in (Inr (sampleStored e'), e')),
     kUpdate = (\<lambda>a (st, fs, n). let e' = (st, appFinalizers a, n + 1) in (Inr (sampleStored e'), e')),
     kContextDone = (\<lambda>_. False), kNowTime = (\<lambda>e. (0, e)), kRecordEvent = (\<lambda>_ _ _ e. e),
     kRetryOnConflict = sampleRetry 4\<rparr>"

definition sampleBringup :: "(AnyApplicationStatus \<times> string list \<times> nat, nat, nat, string, nat Jobs) Controller" where
  "sampleBringup = \<lparr>ctlConfig = sampleConfig, ctlKube = sampleQuiet, ctlSemver = sampleSemver, ctlResourceApi = sampleApi,
     ctlParseDuration = (\<lambda>_. None),
     ctlLoadApplication = (\<lambda>a s. (Inr (Inr ((samplePass (appStatus a))\<lparr>gaApplication := a\<rparr>)), s)),
     ctlCleanup = (\<lambda>a s. (Inr (Inr []), s)), ctlJobs = jobsTable\<rparr>"

definition sampleNew :: "AnyApplicationStatus \<times> string list \<times> nat" where
  "sampleNew = (\<lparr>stOwnership = \<lparr>osEpoch = 0, osState = GlobalStateUnset, osOwner = '''', osPlacements = None\<rparr>, stZones = []\<rparr>, [], 0)"

lemma sampleQuiet_server: "quiet_server sampleQuiet (GetNamespacedName (sampleStored sampleNew)) sampleStored"
  by (auto simp: quiet_server_def sampleQuiet_def sampleStored_def sampleApp_def retries_on_conflict_def sampleRetry_run
      GetNamespacedName_def Let_def)


end
