(* ===== verification/Rollout.thy ===== *)
theory Rollout
  imports Bringup JobCycles
begin

text \<open>
  How a new application with local placement comes to be deployed, when nobody else writes to its object: the passes of
  \<open>Reconcile\<close>, the placement job between them and its worker in the job table, put together. The status
  of the one zone is followed step by step.
\<close>

section \<open>The status of one zone\<close>

definition statusIn :: "GlobalState \<Rightarrow> string \<Rightarrow> Placement list option \<Rightarrow> int \<Rightarrow> string \<Rightarrow> ConditionStatus list \<Rightarrow> AnyApplicationStatus" where
  "statusIn s z ps n w cs =
     \<lparr>stOwnership = \<lparr>osEpoch = 1, osState = s, osOwner = z, osPlacements = ps\<rparr>,
      stZones = [\<lparr>zsZoneId = z, zsZoneVersion = n, zsChartVersion = w, zsConditions = cs\<rparr>]\<rparr>"

definition electedStatus :: "string \<Rightarrow> AnyApplicationStatus" where
  "electedStatus z = \<lparr>stOwnership = \<lparr>osEpoch = 1, osState = NewGlobalState, osOwner = z, osPlacements = None\<rparr>, stZones = []\<rparr>"

lemma statusIn_sel [simp]:
  "stOwnership (statusIn s z ps n w cs) = \<lparr>osEpoch = 1, osState = s, osOwner = z, osPlacements = ps\<rparr>"
  "stZones (statusIn s z ps n w cs) = [\<lparr>zsZoneId = z, zsZoneVersion = n, zsChartVersion = w, zsConditions = cs\<rparr>]"
  "GetStatusFor (statusIn s z ps n w cs) z = Some \<lparr>zsZoneId = z, zsZoneVersion = n, zsChartVersion = w, zsConditions = cs\<rparr>"
  by (simp_all add: statusIn_def GetStatusFor_def isZone_def)

lemma electedStatus_sel [simp]:
  "stOwnership (electedStatus z) = \<lparr>osEpoch = 1, osState = NewGlobalState, osOwner = z, osPlacements = None\<rparr>"
  "GetStatusFor (electedStatus z) k = None" "stZones (electedStatus z) = []"
  by (simp_all add: electedStatus_def GetStatusFor_def)

lemma statusIn_ops [simp]:
  "WriteZone z (appendCondition c) (statusIn s z ps n w cs) = statusIn s z ps n w (cs @ [c])"
  "WriteZone z (\<lambda>zs. zs\<lparr>zsChartVersion := w'\<rparr>) (statusIn s z ps n w cs) = statusIn s z ps n w' cs"
  "ensureZone z (statusIn s z ps n w cs) = statusIn s z ps n w cs"
  "statusIn s z ps n w cs\<lparr>stOwnership := \<lparr>osEpoch = 1, osState = s', osOwner = z, osPlacements = ps'\<rparr>\<rparr> = statusIn s' z ps' n w cs"
  by (simp_all add: ensureZone_cases) (simp_all add: statusIn_def WriteZone_def isZone_def appendCondition_def)

lemma electedStatus_zone [simp]:
  "WriteZone z (appendCondition c) (ensureZone z (electedStatus z)) = statusIn NewGlobalState z None 0 '''' [c]"
  by (simp add: ensureZone_cases) (simp add: electedStatus_def statusIn_def WriteZone_def isZone_def newZoneStatus_def appendCondition_def)

lemma IncrementZoneVersion_statusIn:
  "appStatus a = statusIn s z ps n w cs \<Longrightarrow> \<exists>n'. appStatus (IncrementZoneVersion z a) = statusIn s z ps n' w cs"
  by (simp add: IncrementZoneVersion_def Let_def) (auto simp: statusIn_def WriteZone_def isZone_def)

text \<open>Merging conditions of one zone: one more is appended.\<close>

lemma merge_statusIn:
  assumes "\<not> list_ex (sameCondition c) cs" and "distinct (map condKey cs)"
  shows "fst (mergeStatus (statusIn s z ps n w cs) (statusIn s' z ps n' w' (cs @ [c])) z)
      = statusIn (if s' = UnknownGlobalState then s else s') z ps n w' (cs @ [c])" (is ?status)
    and "fst (snd (mergeStatus (statusIn s z ps n w cs) (statusIn s' z ps n' w' (cs @ [c])) z))" (is ?updated)
proof -
  have "absorbed cs d" if "d \<in> set cs" for d
    using that assms(2) by (auto simp: absorbed_def list_ex_iff supersedes_def sameCondition_iff
        distinct_map inj_on_def dest: sym)
  then have "mergeConditions ds (cs, u) = (cs, u)" if "set ds \<subseteq> set cs" for ds u
    using that by (induction ds) (auto simp: mergeCondition_absorbed)
  then have "mergeConditions (cs @ [c]) (cs, False) = (cs @ [c], True)"
    using assms(1) by (simp add: mergeConditions_def mergeCondition_simps)
  then show ?status ?updated
    by (simp_all add: mergeStatus_status mergeStatus_updated Let_def mergeOwnership_def conditionsAt_def)
      (simp_all add: statusIn_def WriteZone_def isZone_def mergeZone_def)
qed

lemma merge_elected:
  "fst (mergeStatus (electedStatus z) (statusIn s' z None n' w' [c]) z)
    = statusIn (if s' = UnknownGlobalState then NewGlobalState else s') z None 0 w' [c]"
  "fst (snd (mergeStatus (electedStatus z) (statusIn s' z None n' w' [c]) z))"
  by (simp_all add: mergeStatus_status mergeStatus_updated Let_def mergeOwnership_def conditionsAt_def mergeCondition_simps)
    (simp_all add: ensureZone_cases electedStatus_def statusIn_def WriteZone_def isZone_def mergeZone_def newZoneStatus_def
      GetStatusFor_def mergeCondition_simps)

section \<open>The two passes\<close>

lemma condition_kinds:
  "condType (LocalPlacementJob_GetStatus now j) = PlacementConditionType"
  "condZoneId (LocalPlacementJob_GetStatus now j) = cfgZoneId (pjConfig j)"
  "condType (DeployJob_GetStatus now d) = DeploymentConditionType"
  "condZoneId (DeployJob_GetStatus now d) = cfgZoneId (djConfig d)"
  "condStatus (DeployJob_GetStatus now d) = DeploymentStatus_string (djStatus d)"
  by (simp_all add: LocalPlacementJob_GetStatus_def DeployJob_GetStatus_def)

text \<open>A pass that finds nothing of the application and no job of it.\<close>

lemma absent:
  assumes "gaLocalApplications g = []"
  shows "getActiveApplication g = None" "\<not> IsPresent g" "\<not> GlobalApplication_IsDeployed api g" "\<not> NonActiveVersionsPresent g"
  using assms by (auto simp: getActiveApplication_def IsPresent_def GlobalApplication_IsDeployed_def NonActiveVersionsPresent_def
      split: option.splits)

lemma idle_pass:
  assumes "gaLocalApplications g = []" "gaNewVersion g = Some (Some ver)" "osState (stOwnership (appStatus (gaApplication g))) \<noteq> GlobalStateUnset"
    and idle: "ajGetCurrent jobs \<lparr>aidName = GetName g, aidNamespace = GetNamespace g\<rparr> j = None"
    and upd: "updateState sv (gaApplication g) (gaConfig g) (AsyncJobFactoryImpl pd (gaConfig g) (pcStart pc) (pcNewStatus pc))
      False False False (Some ver) (Some (Some ver)) None = Inr (a, True, \<lparr>JobsToAdd = Some job, JobsToRemove = None\<rparr>)"
  shows "DoReconcile api sv pd pc jobs j g =
    Inr \<lparr>rrStatus = Some (appStatus a), rrJobsToAdd = Some (withApplication a job), rrJobsToRemove = False\<rparr>"
proof -
  have "runningConditions (pcJobStatus pc) (ajGetCurrent jobs \<lparr>aidName = GetName g, aidNamespace = GetNamespace g\<rparr> j) = EmptyJobConditions"
    by (simp add: runningConditions_def idle)
  then show ?thesis
    using assms(1-3) upd
    by (simp add: DoReconcile_def DeriveNewStatus_def Let_def absent deriveTargetVersion_def initOwnership_def
        updateJobConditions_def EmptyJobConditions_def GetConditions_def GetJobType_def)
qed

lemmas machine_defs = updateState_def localStateMachine_def globalStateMachine_def removeListed_def addCondition_def hasJobs_def
  noResult_def noJobs_def NextJobs_Add_def dropEmptyZone_def EmptyConditions_def addOrUpdateCondition_cases conditionsAt_def
  placementsContainZone_def ZoneExists_def getCondition_def AsyncJobFactoryImpl_def Let_def
  GlobalFSM_NextState_def NewGlobalFSM_def placementExists_def

text \<open>An owner without placements, the application in none of its versions there: the pass starts the placement.\<close>

lemma placing_pass:
  assumes g: "appStatus (gaApplication g) = electedStatus z" "cfgZoneId (gaConfig g) = z" "gaLocalApplications g = []"
      "gaNewVersion g = Some (Some ver)" and strategy: "psStrategy (specPlacementStrategy (appSpec (gaApplication g))) = PlacementStrategyLocal"
    and idle: "ajGetCurrent jobs \<lparr>aidName = GetName g, aidNamespace = GetNamespace g\<rparr> j = None"
  shows "\<exists>c a. DoReconcile api sv pd pc jobs j g =
      Inr \<lparr>rrStatus = Some (statusIn PlacementGlobalState z None 0 '''' [c]),
           rrJobsToAdd = Some (LocalPlacement ((NewLocalPlacementJob (gaConfig g) (gaApplication g))\<lparr>pjApplication := a\<rparr>)),
           rrJobsToRemove = False\<rparr>
    \<and> condType c = PlacementConditionType \<and> condZoneId c = z \<and> GetNamespacedName a = GetNamespacedName (gaApplication g)"
proof -
  let ?c = "LocalPlacementJob_GetStatus (pcNewStatus pc) (NewLocalPlacementJob (gaConfig g) (gaApplication g))"
  let ?a = "(gaApplication g)\<lparr>appStatus := statusIn PlacementGlobalState z None 0 '''' [?c]\<rparr>"
  have "updateState sv (gaApplication g) (gaConfig g) (AsyncJobFactoryImpl pd (gaConfig g) (pcStart pc) (pcNewStatus pc))
      False False False (Some ver) (Some (Some ver)) None
    = Inr (?a, True, \<lparr>JobsToAdd = Some (LocalPlacement (NewLocalPlacementJob (gaConfig g) (gaApplication g))), JobsToRemove = None\<rparr>)"
    using g strategy by (simp add: machine_defs handlePlacementState_def GlobalFSM_isRunning_def)
  from idle_pass [OF g(3,4) _ idle this] g(1)
  have "DoReconcile api sv pd pc jobs j g =
      Inr \<lparr>rrStatus = Some (statusIn PlacementGlobalState z None 0 '''' [?c]),
           rrJobsToAdd = Some (LocalPlacement ((NewLocalPlacementJob (gaConfig g) (gaApplication g))\<lparr>pjApplication := ?a\<rparr>)),
           rrJobsToRemove = False\<rparr>" by simp
  then show ?thesis
    by (intro exI [of _ ?c] exI [of _ ?a]) (simp add: condition_kinds g(2) NewLocalPlacementJob_def GetNamespacedName_def)
qed

text \<open>The two machines on a zone that is the placement, with no other condition than that of the placement.\<close>

lemma local_deploys:
  assumes a: "appStatus a = statusIn s z (Some [\<lparr>plZone = z, plNodeAffinity = []\<rparr>]) n w [c]" "cfgZoneId cfg = z"
    and c: "condType c = PlacementConditionType" "condZoneId c = z"
    and d: "d = GetStatus reading (Deploy (NewDeployJob pd start cfg a (Some ver)))"
  shows "localStateMachine sv a cfg (AsyncJobFactoryImpl pd cfg start reading) False False False (Some ver) (Some (Some ver)) None
    = Inr (a\<lparr>appStatus := statusIn s z (Some [\<lparr>plZone = z, plNodeAffinity = []\<rparr>]) n (SpecificVersion_ToString sv ver) [c, d]\<rparr>,
           True, \<lparr>JobsToAdd = Some (Deploy (NewDeployJob pd start cfg a (Some ver))), JobsToRemove = None\<rparr>)"
proof -
  have same: "a\<lparr>appStatus := statusIn s z (Some [\<lparr>plZone = z, plNodeAffinity = []\<rparr>]) n w [c]\<rparr> = a" using a(1) by simp
  have dk: "condType d = DeploymentConditionType" "condZoneId d = z" by (simp_all add: d condition_kinds NewDeployJob_def a(2))
  let ?g = "NewLocalFSM a cfg (AsyncJobFactoryImpl pd cfg start reading) False False False (Some ver) (Some (Some ver)) None"
  have "LocalFSM_NextState ?g = (a, noResult\<lparr>ConditionsToAdd := Some d,
      Jobs := \<lparr>JobsToAdd = Some (Deploy (NewDeployJob pd start cfg a (Some ver))), JobsToRemove = None\<rparr>, NewVersion := Some (Some ver)\<rparr>)"
    by (simp add: LocalFSM_NextState_def handleDeploy_def NewLocalFSM_def LocalFSM_isRunning_def zoneOf_pair a c same
        attemptsExhausted_def FindCondition_def addConditionToRemoveList_def getCondition_def placementsContainZone_def
        AsyncJobFactoryImpl_def d noResult_def Let_def)
  then show ?thesis
    by (simp add: localStateMachine_def a c dk noResult_def addCondition_def removeListed_def addOrUpdateCondition_cases conditionsAt_def
        sameCondition_def setNewVersion_def GetOrCreateStatusFor_pair hasJobs_def Let_def)
qed

lemma global_relocates:
  assumes a: "appStatus a = statusIn s z (Some [\<lparr>plZone = z, plNodeAffinity = []\<rparr>]) n w [c, d]" "cfgZoneId cfg = z"
    and c: "condType c = PlacementConditionType" and d: "condType d = DeploymentConditionType" "condZoneId d = z" "condStatus d = ''Pull''"
    and tolerance: "0 \<le> recTolerance (specRecoverStrategy (appSpec a))"
  shows "\<exists>u. globalStateMachine a cfg fac False None
    = (a\<lparr>appStatus := statusIn RelocationGlobalState z (Some [\<lparr>plZone = z, plNodeAffinity = []\<rparr>]) n w [c, d]\<rparr>, u, noJobs)"
proof -
  have "\<not> isFailureCondition a"
    using tolerance by (simp add: isFailureCondition_def a failedCondition_def c d)
  moreover have "getGlobalState (appStatus a) = RelocationGlobalState"
    by (simp add: getGlobalState_def placementList_def a placementState_def getHighestZoneCondition_def getCondition_def c d)
  ultimately have "GlobalFSM_NextState (NewGlobalFSM a cfg fac False None) = noResult\<lparr>NextState := Some RelocationGlobalState\<rparr>"
    by (simp add: GlobalFSM_NextState_def NewGlobalFSM_def placementExists_def a Let_def)
  then show ?thesis
    by (simp add: globalStateMachine_def Let_def addCondition_def removeListed_def noResult_def a noJobs_def)
qed

text \<open>The zone is the placement and the application is not there: the pass starts its deployment.\<close>

lemma deploying_pass:
  fixes g :: "('v, 'r) GlobalApplication"
  assumes g: "appStatus (gaApplication g) = statusIn s z (Some [\<lparr>plZone = z, plNodeAffinity = []\<rparr>]) n '''' [c]"
      "cfgZoneId (gaConfig g) = z" "gaLocalApplications g = []" "gaNewVersion g = Some (Some ver)"
    and s: "s \<noteq> GlobalStateUnset" and c: "condType c = PlacementConditionType" "condZoneId c = z"
    and tolerance: "0 \<le> recTolerance (specRecoverStrategy (appSpec (gaApplication g)))"
    and idle: "ajGetCurrent jobs \<lparr>aidName = GetName g, aidNamespace = GetNamespace g\<rparr> j = None"
  shows "\<exists>d a. DoReconcile api sv pd pc jobs j g =
      Inr \<lparr>rrStatus = Some (statusIn RelocationGlobalState z (Some [\<lparr>plZone = z, plNodeAffinity = []\<rparr>]) n
                              (SpecificVersion_ToString sv ver) [c, d]),
           rrJobsToAdd = Some (Deploy ((NewDeployJob pd (pcStart pc) (gaConfig g) (gaApplication g) (Some ver))\<lparr>djApplication := a\<rparr>)),
           rrJobsToRemove = False\<rparr>
    \<and> condType d = DeploymentConditionType \<and> condZoneId d = z"
proof -
  let ?d = "DeployJob_GetStatus (pcNewStatus pc) (NewDeployJob pd (pcStart pc) (gaConfig g) (gaApplication g) (Some ver))"
  let ?a = "(gaApplication g)\<lparr>appStatus := statusIn RelocationGlobalState z (Some [\<lparr>plZone = z, plNodeAffinity = []\<rparr>]) n
              (SpecificVersion_ToString sv ver) [c, ?d]\<rparr>"
  have d: "condType ?d = DeploymentConditionType" "condZoneId ?d = z" "condStatus ?d = ''Pull''"
    by (simp_all add: condition_kinds NewDeployJob_def g(2))
  have "updateState sv (gaApplication g) (gaConfig g) (AsyncJobFactoryImpl pd (gaConfig g) (pcStart pc) (pcNewStatus pc))
      False False False (Some ver) (Some (Some ver)) None
    = Inr (?a, True, \<lparr>JobsToAdd = Some (Deploy (NewDeployJob pd (pcStart pc) (gaConfig g) (gaApplication g) (Some ver))), JobsToRemove = None\<rparr>)"
  proof -
    let ?a1 = "(gaApplication g)\<lparr>appStatus := statusIn s z (Some [\<lparr>plZone = z, plNodeAffinity = []\<rparr>]) n
        (SpecificVersion_ToString sv ver) [c, ?d]\<rparr>"
    have "\<exists>u. globalStateMachine ?a1 (gaConfig g) (AsyncJobFactoryImpl pd (gaConfig g) (pcStart pc) (pcNewStatus pc) :: ('v, 'v AsyncJob) AsyncJobFactory) False None
        = (?a1\<lparr>appStatus := statusIn RelocationGlobalState z (Some [\<lparr>plZone = z, plNodeAffinity = []\<rparr>]) n
            (SpecificVersion_ToString sv ver) [c, ?d]\<rparr>, u, noJobs)"
      by (rule global_relocates) (use g c d tolerance in simp_all)
    with local_deploys [OF g(1,2) c refl, of sv pd "pcStart pc" "pcNewStatus pc" ver] show ?thesis
      by (auto simp: updateState_def g(1,2) placementsContainZone_def Let_def NextJobs_Add_def noJobs_def dropEmptyZone_def EmptyConditions_def)
  qed
  from idle_pass [OF g(3,4) _ idle this] g(1) s
  have "DoReconcile api sv pd pc jobs j g =
      Inr \<lparr>rrStatus = Some (statusIn RelocationGlobalState z (Some [\<lparr>plZone = z, plNodeAffinity = []\<rparr>]) n
                              (SpecificVersion_ToString sv ver) [c, ?d]),
           rrJobsToAdd = Some (Deploy ((NewDeployJob pd (pcStart pc) (gaConfig g) (gaApplication g) (Some ver))\<lparr>djApplication := ?a\<rparr>)),
           rrJobsToRemove = False\<rparr>" by simp
  with d show ?thesis by blast
qed

section \<open>Passes and jobs on the stored object\<close>

text \<open>The service finds no version of the application in the zone, and knows a version to deploy.\<close>

definition finds_nothing ::
  "('e, 'v, 'c, 'r, 'j) Controller \<Rightarrow> ('e \<Rightarrow> AnyApplication) \<Rightarrow> 'v SpecificVersion \<Rightarrow> bool" where
  "finds_nothing ctl stored ver \<longleftrightarrow>
     (\<forall>e. \<exists>g e'. ctlLoadApplication ctl (stored e) e = (Inr (Inr g), e') \<and> stored e' = stored e
        \<and> gaApplication g = stored e \<and> gaConfig g = ctlConfig ctl \<and> gaLocalApplications g = []
        \<and> gaNewVersion g = Some (Some ver))"

definition jobsOf :: "ObjectKey \<Rightarrow> ApplicationId" where
  "jobsOf name = \<lparr>aidName = okName name, aidNamespace = okNamespace name\<rparr>"

text \<open>What a handled object is: the zone owns it, and it has the finalizer and is not being deleted.\<close>

definition owned :: "string \<Rightarrow> AnyApplication \<Rightarrow> bool" where
  "owned z a \<longleftrightarrow> z \<noteq> '''' \<and> osOwner (stOwnership (appStatus a)) = z \<and> appDeletionTimestamp a = None
     \<and> AnyApplicationFinalizerName \<in> set (appFinalizers a)"

lemma handled_pass:
  fixes ctl :: "('e, 'v, 'c, 'r, 'v Jobs) Controller"
  defines "z \<equiv> cfgZoneId (ctlConfig ctl)"
  assumes quiet: "quiet_server (ctlKube ctl) name stored" and jobs: "ctlJobs ctl = jobsTable" and a: "owned z (stored e)"
    and service: "finds_nothing ctl stored ver"
    and pass: "\<And>g. gaApplication g = stored e \<Longrightarrow> gaConfig g = ctlConfig ctl \<Longrightarrow> gaLocalApplications g = [] \<Longrightarrow>
        gaNewVersion g = Some (Some ver) \<Longrightarrow> \<exists>st' job. P st' job \<and> jobOwner job = jobsOf name \<and>
        DoReconcile (ctlResourceApi ctl) (ctlSemver ctl) (ctlParseDuration ctl) pc (ctlJobs ctl) j g
          = Inr \<lparr>rrStatus = Some st', rrJobsToAdd = Some job, rrJobsToRemove = False\<rparr>"
    and merge: "\<And>st' job. P st' job \<Longrightarrow> fst (snd (mergeStatus (appStatus (stored e)) st' z))"
    and idle: "GetCurrent (jobsOf name) j = None"
  shows "\<exists>st' job e'. P st' job \<and> jobOwner job = jobsOf name \<and> Reconcile ctl pc name e j = (Inr (noRequeue, None), e', Execute job j)
    \<and> appStatus (stored e') = appStatus (IncrementZoneVersion z ((stored e)\<lparr>appStatus := fst (mergeStatus (appStatus (stored e)) st' z)\<rparr>))
    \<and> appFinalizers (stored e') = appFinalizers (stored e) \<and> appDeletionTimestamp (stored e') = None"
proof -
  obtain e1 where get: "kGet (ctlKube ctl) name e = (Inr (stored e), e1)" "stored e1 = stored e" by (rule quiet_get [OF quiet])
  from service obtain g e2 where load: "ctlLoadApplication ctl (stored e) e1 = (Inr (Inr g), e2)" "stored e2 = stored e"
    "gaApplication g = stored e" "gaConfig g = ctlConfig ctl" "gaLocalApplications g = []" "gaNewVersion g = Some (Some ver)"
    unfolding finds_nothing_def by (metis get(2))
  from pass [OF load(3-6)] obtain st' job where P: "P st' job" "jobOwner job = jobsOf name"
    and run: "DoReconcile (ctlResourceApi ctl) (ctlSemver ctl) (ctlParseDuration ctl) pc (ctlJobs ctl) j g
      = Inr \<lparr>rrStatus = Some st', rrJobsToAdd = Some job, rrJobsToRemove = False\<rparr>" by blast
  obtain st'' ev where m: "mergeStatus (appStatus (stored e2)) st' z = (st'', True, ev)"
    using merge [OF P(1)] by (cases "mergeStatus (appStatus (stored e)) st' z") (auto simp: load(2))
  from quiet_update [of _ name stored "\<lambda>st zoneId. mergeStatus st st' zoneId", OF quiet m] obtain e3 where
    put: "UpdateStatus (ctlKube ctl) name z (Some (\<lambda>st zoneId. mergeStatus st st' zoneId)) e2 = (None, e3)"
      "appStatus (stored e3) = appStatus (IncrementZoneVersion z ((stored e)\<lparr>appStatus := st''\<rparr>))"
      "appFinalizers (stored e3) = appFinalizers (stored e)" "appDeletionTimestamp (stored e3) = appDeletionTimestamp (stored e)"
    by (auto simp: load(2))
  have "applyResult ctl name \<lparr>rrStatus = Some st', rrJobsToAdd = Some job, rrJobsToRemove = False\<rparr> e2 j
      = (Inr (noRequeue, None), e3, Execute job j)"
    using put(1) by (simp add: applyResult_def jobs stopDifferentJob_def startNewJob_def idle P(2) z_def Let_def)
  moreover have "shouldHandle ctl (stored e) g" using a by (simp add: shouldHandle_def isOwnerOrPlacementZone_def owned_def z_def)
  ultimately have "Reconcile ctl pc name e j = (Inr (noRequeue, None), e3, Execute job j)"
    using a by (simp add: Reconcile_def get load(1) owned_def run)
  moreover have "fst (mergeStatus (appStatus (stored e)) st' z) = st''" using m by (simp add: load(2))
  moreover have "appDeletionTimestamp (stored e3) = None" using put(4) a by (simp add: owned_def)
  ultimately show ?thesis using P put(2,3) by (intro exI [of _ st'] exI [of _ job] exI [of _ e3]) simp
qed

text \<open>The placement job writes the placement; its own condition stays the only one.\<close>

lemma placement_runs:
  assumes quiet: "quiet_server kube name stored" and clock: "\<forall>e. stored (snd (kNowTime kube e)) = stored e"
    and job: "GetNamespacedName (pjApplication job) = name" "cfgZoneId (pjConfig job) = z"
    and at: "appStatus (stored e) = statusIn s z None n w [c]" "condType c = PlacementConditionType" "condZoneId c = z"
  shows "\<exists>job' e' n' c'. LocalPlacementJob_Run kube job e = (job', e') \<and> pjStatus job' = PlacementStatusDone
    \<and> appStatus (stored e') = statusIn s z (Some [\<lparr>plZone = z, plNodeAffinity = []\<rparr>]) n' w [c']
    \<and> condType c' = PlacementConditionType \<and> condZoneId c' = z
    \<and> appFinalizers (stored e') = appFinalizers (stored e) \<and> appDeletionTimestamp (stored e') = appDeletionTimestamp (stored e)"
proof -
  obtain now e1 where now: "kNowTime kube e = (now, e1)" "stored e1 = stored e" using clock by (metis prod.collapse)
  let ?job = "job\<lparr>pjStatus := PlacementStatusDone\<rparr>"
  let ?c = "LocalPlacementJob_GetStatus now ?job"
  let ?ev = "\<lparr>evReason = LocalStateChangeReason, evMsg = pjMsg job @ '' Placement set to zone '' @ [CHR 0x27] @ z @ [CHR 0x27]\<rparr>"
  have c: "condType ?c = PlacementConditionType" "condZoneId ?c = z" by (simp_all add: condition_kinds job)
  define c' where "c' = (if conditionDiffers ?c c then ?c else c)"
  have "placementUpdate z ?c ?ev (appStatus (stored e1)) z
      = (statusIn s z (Some [\<lparr>plZone = z, plNodeAffinity = []\<rparr>]) n w [c'], True, ?ev)"
    using c at(2,3) by (simp add: placementUpdate_def now(2) at(1) AddOrUpdate_def GetOrCreateStatusFor_pair sameCondition_def c'_def Let_def)
      (simp add: statusIn_def WriteZone_def isZone_def sameCondition_def)
  from quiet_update [of kube name stored "placementUpdate z ?c ?ev", OF quiet this] obtain e2 where
    put: "UpdateStatus kube name z (Some (placementUpdate z ?c ?ev)) e1 = (None, e2)"
    "appStatus (stored e2) = appStatus (IncrementZoneVersion z
        ((stored e1)\<lparr>appStatus := statusIn s z (Some [\<lparr>plZone = z, plNodeAffinity = []\<rparr>]) n w [c']\<rparr>))"
    "appFinalizers (stored e2) = appFinalizers (stored e1)" "appDeletionTimestamp (stored e2) = appDeletionTimestamp (stored e1)"
    by blast
  obtain n' where "appStatus (stored e2) = statusIn s z (Some [\<lparr>plZone = z, plNodeAffinity = []\<rparr>]) n' w [c']"
    unfolding put(2)
    using IncrementZoneVersion_statusIn [of "(stored e1)\<lparr>appStatus := statusIn s z (Some [\<lparr>plZone = z, plNodeAffinity = []\<rparr>]) n w [c']\<rparr>"
        s z "Some [\<lparr>plZone = z, plNodeAffinity = []\<rparr>]" n w "[c']"] by auto
  moreover have "LocalPlacementJob_Run kube job e = (?job, e2)"
    using put(1) by (simp add: LocalPlacementJob_Run_def now(1) job Let_def)
  moreover have "condType c' = PlacementConditionType" "condZoneId c' = z" using c at(2,3) by (simp_all add: c'_def)
  ultimately show ?thesis using put(3,4) now(2) by (intro exI [of _ ?job] exI [of _ e2] exI [of _ n'] exI [of _ c']) simp
qed

text \<open>A worker whose job returns stops itself and takes its entry out of the table.\<close>

definition workerDone :: "nat \<Rightarrow> 'v Jobs \<Rightarrow> 'v Jobs" where
  "workerDone w j = (advanceStop 0 ^^ 4) (endRun w (beginRun w j))"

lemma workerDone_idle:
  assumes "jbStops j = []"
  shows "jbStops (workerDone (length (jbWorkers j)) (Execute job j)) = []
    \<and> GetCurrent (jobOwner job) (workerDone (length (jbWorkers j)) (Execute job j)) = None"
  using assms
  by (simp add: workerDone_def eval_nat_numeral Execute_def NewJobWorker_def beginRun_def endRun_def updateWorker_def advanceStop_def
      jobOwner_def GetCurrent_def Let_def)

section \<open>From a new object to its deployment\<close>

lemma elects:
  fixes ctl :: "('e, 'v, 'c, 'r, 'j) Controller"
  defines "z \<equiv> cfgZoneId (ctlConfig ctl)"
  assumes quiet: "quiet_server (ctlKube ctl) name stored" and zone: "z \<noteq> ''''"
    and new: "appStatus (stored e) = \<lparr>stOwnership = \<lparr>osEpoch = 0, osState = GlobalStateUnset, osOwner = '''', osPlacements = None\<rparr>, stZones = []\<rparr>"
      "appDeletionTimestamp (stored e) = None" "AnyApplicationFinalizerName \<notin> set (appFinalizers (stored e))"
  shows "\<exists>e1 e2. Reconcile ctl pc1 name e j = (Inr (requeueNow, None), e1, j) \<and> Reconcile ctl pc2 name e1 j = (Inr (requeueNow, None), e2, j)
    \<and> appStatus (stored e2) = electedStatus z \<and> owned z (stored e2)"
proof -
  obtain e0 where get: "kGet (ctlKube ctl) name e = (Inr (stored e), e0)" "stored e0 = stored e" by (rule quiet_get [OF quiet])
  have name: "GetNamespacedName (stored e) = name" using quiet by (simp add: quiet_server_def)
  from initialises [OF quiet, of e0] new obtain e1 where init: "InitializeState ctl name e0 = (Inr (requeueNow, None), e1)"
    "appStatus (stored e1) = electedStatus z"
    "appFinalizers (stored e1) = appFinalizers (stored e)" "appDeletionTimestamp (stored e1) = appDeletionTimestamp (stored e)"
    by (auto simp: get(2) electedStatus_def z_def)
  have first: "Reconcile ctl pc1 name e j = (Inr (requeueNow, None), e1, j)"
    by (simp add: Reconcile_def get new(1) name init(1))
  from gets_finalizer [OF quiet, of e1 pc2 j] init zone new(2,3) obtain e2 where
    "Reconcile ctl pc2 name e1 j = (Inr (requeueNow, None), e2, j)" "appStatus (stored e2) = electedStatus z"
    "appDeletionTimestamp (stored e2) = None" "AnyApplicationFinalizerName \<in> set (appFinalizers (stored e2))" by auto
  with first zone show ?thesis by (auto simp: owned_def)
qed

text \<open>The pass that starts the placement, and the one that starts the deployment, with what they leave stored.\<close>

lemma placement_started:
  fixes ctl :: "('e, 'v, 'c, 'r, 'v Jobs) Controller"
  defines "z \<equiv> cfgZoneId (ctlConfig ctl)"
  assumes quiet: "quiet_server (ctlKube ctl) name stored" and jobs: "ctlJobs ctl = jobsTable"
    and service: "finds_nothing ctl stored ver" and strategy: "psStrategy (specPlacementStrategy (appSpec (stored e))) = PlacementStrategyLocal"
    and at: "appStatus (stored e) = electedStatus z" "owned z (stored e)" and idle: "GetCurrent (jobsOf name) j = None"
  shows "\<exists>pjob e' n c. Reconcile ctl pc name e j = (Inr (noRequeue, None), e', Execute (LocalPlacement pjob) j)
    \<and> jobOwner (LocalPlacement pjob :: 'v AsyncJob) = jobsOf name \<and> GetNamespacedName (pjApplication pjob) = name \<and> pjConfig pjob = ctlConfig ctl
    \<and> appStatus (stored e') = statusIn PlacementGlobalState z None n '''' [c] \<and> condType c = PlacementConditionType \<and> condZoneId c = z
    \<and> owned z (stored e')"
proof -
  have name: "GetNamespacedName (stored e) = name" using quiet by (simp add: quiet_server_def)
  let ?P = "\<lambda>st job. \<exists>c pjob. st = statusIn PlacementGlobalState z None 0 '''' [c] \<and> job = LocalPlacement pjob
    \<and> GetNamespacedName (pjApplication pjob) = name \<and> pjConfig pjob = ctlConfig ctl \<and> condType c = PlacementConditionType \<and> condZoneId c = z"
  have "\<exists>st job e'. ?P st job \<and> jobOwner job = jobsOf name \<and> Reconcile ctl pc name e j = (Inr (noRequeue, None), e', Execute job j)
    \<and> appStatus (stored e') = appStatus (IncrementZoneVersion z ((stored e)\<lparr>appStatus := fst (mergeStatus (appStatus (stored e)) st z)\<rparr>))
    \<and> appFinalizers (stored e') = appFinalizers (stored e) \<and> appDeletionTimestamp (stored e') = None"
  proof (rule handled_pass [OF quiet jobs _ service _ _ idle, where P = ?P, folded z_def])
    show "owned z (stored e)" by (rule at(2))
  next
    fix g :: "('v, 'r) GlobalApplication"
    assume g: "gaApplication g = stored e" "gaConfig g = ctlConfig ctl" "gaLocalApplications g = []" "gaNewVersion g = Some (Some ver)"
    have id: "\<lparr>aidName = GetName g, aidNamespace = GetNamespace g\<rparr> = jobsOf name"
      by (simp add: GetName_def GetNamespace_def jobsOf_def g(1) name [symmetric] GetNamespacedName_def)
    have owner: "jobOwner (LocalPlacement ((NewLocalPlacementJob (gaConfig g) (gaApplication g))\<lparr>pjApplication := a\<rparr>)) = jobsOf name" for a
      by (simp add: applicationId_def jobOwner_def NewLocalPlacementJob_def jobsOf_def g(1) name [symmetric] GetNamespacedName_def)
    obtain c a where "DoReconcile (ctlResourceApi ctl) (ctlSemver ctl) (ctlParseDuration ctl) pc (ctlJobs ctl) j g =
        Inr \<lparr>rrStatus = Some (statusIn PlacementGlobalState z None 0 '''' [c]),
             rrJobsToAdd = Some (LocalPlacement ((NewLocalPlacementJob (gaConfig g) (gaApplication g))\<lparr>pjApplication := a\<rparr>)),
             rrJobsToRemove = False\<rparr>"
      "condType c = PlacementConditionType" "condZoneId c = z" "GetNamespacedName a = GetNamespacedName (gaApplication g)"
      using placing_pass [where g = g and z = z and ver = ver and jobs = "ctlJobs ctl" and j = j and api = "ctlResourceApi ctl"
          and sv = "ctlSemver ctl" and pd = "ctlParseDuration ctl" and pc = pc] g at strategy idle id by (auto simp: z_def jobs)
    then show "\<exists>st' job. ?P st' job \<and> jobOwner job = jobsOf name \<and>
        DoReconcile (ctlResourceApi ctl) (ctlSemver ctl) (ctlParseDuration ctl) pc (ctlJobs ctl) j g
          = Inr \<lparr>rrStatus = Some st', rrJobsToAdd = Some job, rrJobsToRemove = False\<rparr>"
      using owner [of a] by (auto simp: g name NewLocalPlacementJob_def)
  next
    fix st job
    assume "?P st job"
    then show "fst (snd (mergeStatus (appStatus (stored e)) st z))"
      by (auto simp: at(1) merge_elected)
  qed
  then obtain c pjob e' where run: "Reconcile ctl pc name e j = (Inr (noRequeue, None), e', Execute (LocalPlacement pjob) j)"
      "jobOwner (LocalPlacement pjob :: 'v AsyncJob) = jobsOf name" "GetNamespacedName (pjApplication pjob) = name" "pjConfig pjob = ctlConfig ctl"
    and c: "condType c = PlacementConditionType" "condZoneId c = z"
    and after: "appStatus (stored e') = appStatus (IncrementZoneVersion z ((stored e)\<lparr>appStatus := statusIn PlacementGlobalState z None 0 '''' [c]\<rparr>))"
      "appFinalizers (stored e') = appFinalizers (stored e)" "appDeletionTimestamp (stored e') = None"
    by (auto simp: at(1) merge_elected)
  obtain n where "appStatus (stored e') = statusIn PlacementGlobalState z None n '''' [c]"
    unfolding after(1) using IncrementZoneVersion_statusIn [of "(stored e)\<lparr>appStatus := statusIn PlacementGlobalState z None 0 '''' [c]\<rparr>"
        PlacementGlobalState z None 0 "''''" "[c]"] by auto
  with run c after at(2) show ?thesis
    by (intro exI [of _ pjob] exI [of _ e'] exI [of _ n] exI [of _ c]) (simp add: owned_def)
qed

lemma deployment_started:
  fixes ctl :: "('e, 'v, 'c, 'r, 'v Jobs) Controller"
  defines "z \<equiv> cfgZoneId (ctlConfig ctl)"
  assumes quiet: "quiet_server (ctlKube ctl) name stored" and jobs: "ctlJobs ctl = jobsTable"
    and service: "finds_nothing ctl stored ver" and tolerance: "0 \<le> recTolerance (specRecoverStrategy (appSpec (stored e)))"
    and at: "appStatus (stored e) = statusIn s z (Some [\<lparr>plZone = z, plNodeAffinity = []\<rparr>]) n '''' [c]" "owned z (stored e)"
      "s \<noteq> GlobalStateUnset" "condType c = PlacementConditionType" "condZoneId c = z"
    and idle: "GetCurrent (jobsOf name) j = None"
  shows "\<exists>djob e' n' d. Reconcile ctl pc name e j = (Inr (noRequeue, None), e', Execute (Deploy djob) j)
    \<and> jobOwner (Deploy djob) = jobsOf name \<and> djVersion djob = Some ver
    \<and> appStatus (stored e') = statusIn RelocationGlobalState z (Some [\<lparr>plZone = z, plNodeAffinity = []\<rparr>]) n'
        (SpecificVersion_ToString (ctlSemver ctl) ver) [c, d] \<and> condType d = DeploymentConditionType \<and> condZoneId d = z"
proof -
  have name: "GetNamespacedName (stored e) = name" using quiet by (simp add: quiet_server_def)
  let ?ps = "Some [\<lparr>plZone = z, plNodeAffinity = []\<rparr>]" and ?w = "SpecificVersion_ToString (ctlSemver ctl) ver"
  let ?P = "\<lambda>st job. \<exists>d djob. st = statusIn RelocationGlobalState z ?ps n ?w [c, d] \<and> job = Deploy djob
    \<and> djVersion djob = Some ver \<and> condType d = DeploymentConditionType \<and> condZoneId d = z"
  have merged: "fst (mergeStatus (appStatus (stored e)) (statusIn RelocationGlobalState z ?ps n ?w [c, d]) z)
      = statusIn RelocationGlobalState z ?ps n ?w [c, d]"
    "fst (snd (mergeStatus (appStatus (stored e)) (statusIn RelocationGlobalState z ?ps n ?w [c, d]) z))"
    if "condType d = DeploymentConditionType" for d
    using merge_statusIn [of d "[c]" s z ?ps n "''''" RelocationGlobalState n ?w] that at(4)
    by (simp_all add: at(1) sameCondition_def)
  have "\<exists>st job e'. ?P st job \<and> jobOwner job = jobsOf name \<and> Reconcile ctl pc name e j = (Inr (noRequeue, None), e', Execute job j)
    \<and> appStatus (stored e') = appStatus (IncrementZoneVersion z ((stored e)\<lparr>appStatus := fst (mergeStatus (appStatus (stored e)) st z)\<rparr>))
    \<and> appFinalizers (stored e') = appFinalizers (stored e) \<and> appDeletionTimestamp (stored e') = None"
  proof (rule handled_pass [OF quiet jobs _ service _ _ idle, where P = ?P, folded z_def])
    show "owned z (stored e)" by (rule at(2))
  next
    fix g :: "('v, 'r) GlobalApplication"
    assume g: "gaApplication g = stored e" "gaConfig g = ctlConfig ctl" "gaLocalApplications g = []" "gaNewVersion g = Some (Some ver)"
    have id: "\<lparr>aidName = GetName g, aidNamespace = GetNamespace g\<rparr> = jobsOf name"
      by (simp add: GetName_def GetNamespace_def jobsOf_def g(1) name [symmetric] GetNamespacedName_def)
    have owner: "jobOwner (Deploy ((NewDeployJob (ctlParseDuration ctl) (pcStart pc) (gaConfig g) (gaApplication g) (Some ver))\<lparr>djApplication := a\<rparr>))
        = jobsOf name" for a
      by (simp add: applicationId_def jobOwner_def NewDeployJob_def jobsOf_def g(1) name [symmetric] GetNamespacedName_def)
    obtain d a where "DoReconcile (ctlResourceApi ctl) (ctlSemver ctl) (ctlParseDuration ctl) pc (ctlJobs ctl) j g =
        Inr \<lparr>rrStatus = Some (statusIn RelocationGlobalState z ?ps n ?w [c, d]),
             rrJobsToAdd = Some (Deploy ((NewDeployJob (ctlParseDuration ctl) (pcStart pc) (gaConfig g) (gaApplication g) (Some ver))\<lparr>djApplication := a\<rparr>)),
             rrJobsToRemove = False\<rparr>"
      "condType d = DeploymentConditionType" "condZoneId d = z"
      using deploying_pass [where g = g and s = s and z = z and n = n and c = c and ver = ver and jobs = "ctlJobs ctl" and j = j
          and api = "ctlResourceApi ctl" and sv = "ctlSemver ctl" and pd = "ctlParseDuration ctl" and pc = pc] g at tolerance idle id
        by (auto simp: z_def jobs)
    then show "\<exists>st' job. ?P st' job \<and> jobOwner job = jobsOf name \<and>
        DoReconcile (ctlResourceApi ctl) (ctlSemver ctl) (ctlParseDuration ctl) pc (ctlJobs ctl) j g
          = Inr \<lparr>rrStatus = Some st', rrJobsToAdd = Some job, rrJobsToRemove = False\<rparr>"
      using owner [of a] by (auto simp: NewDeployJob_def)
  next
    fix st job
    assume "?P st job"
    then obtain d where "st = statusIn RelocationGlobalState z ?ps n ?w [c, d]" "condType d = DeploymentConditionType" by blast
    with merged(2) [of d] show "fst (snd (mergeStatus (appStatus (stored e)) st z))"
      by simp
  qed
  then obtain d djob e' where run: "Reconcile ctl pc name e j = (Inr (noRequeue, None), e', Execute (Deploy djob) j)"
      "jobOwner (Deploy djob) = jobsOf name" "djVersion djob = Some ver"
    and d: "condType d = DeploymentConditionType" "condZoneId d = z"
    and after: "appStatus (stored e') = appStatus (IncrementZoneVersion z ((stored e)\<lparr>appStatus :=
        fst (mergeStatus (appStatus (stored e)) (statusIn RelocationGlobalState z ?ps n ?w [c, d]) z)\<rparr>))"
    by blast
  obtain n' where "appStatus (stored e') = statusIn RelocationGlobalState z ?ps n' ?w [c, d]"
    unfolding after merged(1) [OF d(1)]
    using IncrementZoneVersion_statusIn [of "(stored e)\<lparr>appStatus := statusIn RelocationGlobalState z ?ps n ?w [c, d]\<rparr>"
        RelocationGlobalState z ?ps n ?w "[c, d]"] by auto
  with run d show ?thesis by (intro exI [of _ djob] exI [of _ e'] exI [of _ n'] exI [of _ d]) simp
qed

text \<open>C6: a new application with local placement gets deployed. With nobody else writing to its object, no version of
  it in the zone and a version known to deploy, three passes make this zone its owner, give it the finalizer and start the
  placement job in the idle job table; that job, run by its worker, writes the zone as the placement and ends done; and the
  pass after it, the worker having taken itself out of the table, starts the deploy job with that version and records the
  global state Relocation and the version as the zone's chart version.\<close>

theorem new_application_gets_deployed:
  fixes ctl :: "('e, 'v, 'c, 'r, 'v Jobs) Controller"
  assumes quiet: "quiet_server (ctlKube ctl) name stored" and clock: "\<forall>e. stored (snd (kNowTime (ctlKube ctl) e)) = stored e"
    and jobs: "ctlJobs ctl = jobsTable" and zone: "cfgZoneId (ctlConfig ctl) \<noteq> ''''"
    and spec: "\<forall>e. psStrategy (specPlacementStrategy (appSpec (stored e))) = PlacementStrategyLocal
      \<and> 0 \<le> recTolerance (specRecoverStrategy (appSpec (stored e)))"
    and service: "finds_nothing ctl stored ver"
    and new: "appStatus (stored e) = \<lparr>stOwnership = \<lparr>osEpoch = 0, osState = GlobalStateUnset, osOwner = '''', osPlacements = None\<rparr>, stZones = []\<rparr>"
      "appDeletionTimestamp (stored e) = None" "AnyApplicationFinalizerName \<notin> set (appFinalizers (stored e))"
    and idle: "jbStops j = []" "GetCurrent (jobsOf name) j = None"
  shows "\<exists>pjob e1 pjob' e2 djob e3 zs.
    reconciles ctl [pc1, pc2, pc3] name e j
      = ([Inr (requeueNow, None), Inr (requeueNow, None), Inr (noRequeue, None)], e1, Execute (LocalPlacement pjob) j)
    \<and> LocalPlacementJob_Run (ctlKube ctl) pjob e1 = (pjob', e2) \<and> pjStatus pjob' = PlacementStatusDone
    \<and> osPlacements (stOwnership (appStatus (stored e2))) = Some [\<lparr>plZone = cfgZoneId (ctlConfig ctl), plNodeAffinity = []\<rparr>]
    \<and> Reconcile ctl pc4 name e2 (workerDone (length (jbWorkers j)) (Execute (LocalPlacement pjob) j))
      = (Inr (noRequeue, None), e3, Execute (Deploy djob) (workerDone (length (jbWorkers j)) (Execute (LocalPlacement pjob) j)))
    \<and> djVersion djob = Some ver \<and> jobOwner (Deploy djob) = jobsOf name
    \<and> osState (stOwnership (appStatus (stored e3))) = RelocationGlobalState
    \<and> GetStatusFor (appStatus (stored e3)) (cfgZoneId (ctlConfig ctl)) = Some zs
    \<and> zsChartVersion zs = SpecificVersion_ToString (ctlSemver ctl) ver"
proof -
  let ?z = "cfgZoneId (ctlConfig ctl)" and ?w = "length (jbWorkers j)"
  from elects [OF quiet zone new, of pc1 j pc2] obtain a b where ab: "Reconcile ctl pc1 name e j = (Inr (requeueNow, None), a, j)"
    "Reconcile ctl pc2 name a j = (Inr (requeueNow, None), b, j)" "appStatus (stored b) = electedStatus ?z" "owned ?z (stored b)" by blast
  from placement_started [OF quiet jobs service _ ab(3,4) idle(2), of pc3] spec obtain pjob e1 n c where
    p: "Reconcile ctl pc3 name b j = (Inr (noRequeue, None), e1, Execute (LocalPlacement pjob) j)"
      "jobOwner (LocalPlacement pjob :: 'v AsyncJob) = jobsOf name" "GetNamespacedName (pjApplication pjob) = name" "pjConfig pjob = ctlConfig ctl"
    and at1: "appStatus (stored e1) = statusIn PlacementGlobalState ?z None n '''' [c]" "condType c = PlacementConditionType"
      "condZoneId c = ?z" "owned ?z (stored e1)" by blast
  from placement_runs [OF quiet clock p(3) _ at1(1-3)] p(4) obtain pjob' e2 n' c' where
    r: "LocalPlacementJob_Run (ctlKube ctl) pjob e1 = (pjob', e2)" "pjStatus pjob' = PlacementStatusDone"
    and at2: "appStatus (stored e2) = statusIn PlacementGlobalState ?z (Some [\<lparr>plZone = ?z, plNodeAffinity = []\<rparr>]) n' '''' [c']"
      "condType c' = PlacementConditionType" "condZoneId c' = ?z" "appFinalizers (stored e2) = appFinalizers (stored e1)"
      "appDeletionTimestamp (stored e2) = appDeletionTimestamp (stored e1)" by auto
  have own2: "owned ?z (stored e2)" using at1(4) at2 by (simp add: owned_def)
  let ?j = "workerDone ?w (Execute (LocalPlacement pjob) j)"
  have "GetCurrent (jobsOf name) ?j = None" using workerDone_idle [OF idle(1), of "LocalPlacement pjob"] p(2) by simp
  from deployment_started [OF quiet jobs service _ at2(1) own2 _ at2(2,3) this, of pc4] spec obtain djob e3 n'' d where
    "Reconcile ctl pc4 name e2 ?j = (Inr (noRequeue, None), e3, Execute (Deploy djob) ?j)" "jobOwner (Deploy djob) = jobsOf name"
    "djVersion djob = Some ver" "appStatus (stored e3) = statusIn RelocationGlobalState ?z (Some [\<lparr>plZone = ?z, plNodeAffinity = []\<rparr>]) n''
        (SpecificVersion_ToString (ctlSemver ctl) ver) [c', d]" by auto
  with ab p(1) r at2(1) show ?thesis
    by (intro exI [of _ pjob] exI [of _ e1] exI [of _ pjob'] exI [of _ e2] exI [of _ djob] exI [of _ e3]
        exI [of _ "\<lparr>zsZoneId = ?z, zsZoneVersion = n'', zsChartVersion = SpecificVersion_ToString (ctlSemver ctl) ver, zsConditions = [c', d]\<rparr>"]) simp
qed

section \<open>Example\<close>

definition sampleRollout :: "(AnyApplicationStatus \<times> string list \<times> nat, nat, nat, string, nat Jobs) Controller" where
  "sampleRollout = sampleBringup\<lparr>ctlLoadApplication :=
     (\<lambda>a s. (Inr (Inr (NewFromLocalApplication [] None (Some (Some (SpecificVersion 2))) a sampleConfig)), s))\<rparr>"

lemma sampleRollout_sel [simp]:
  "ctlKube sampleRollout = sampleQuiet" "ctlConfig sampleRollout = sampleConfig" "ctlJobs sampleRollout = jobsTable"
  "ctlSemver sampleRollout = sampleSemver"
  by (simp_all add: sampleRollout_def sampleBringup_def)

theorem new_application_gets_deployed_witness:
  "\<exists>pjob e1 pjob' e2 djob e3 zs.
    reconciles sampleRollout [sampleClocks, sampleClocks, sampleClocks] (GetNamespacedName (sampleStored sampleNew)) sampleNew NewJobs
      = ([Inr (requeueNow, None), Inr (requeueNow, None), Inr (noRequeue, None)], e1, Execute (LocalPlacement pjob) NewJobs)
    \<and> LocalPlacementJob_Run sampleQuiet pjob e1 = (pjob', e2)
    \<and> Reconcile sampleRollout sampleClocks (GetNamespacedName (sampleStored sampleNew)) e2 (workerDone 0 (Execute (LocalPlacement pjob) NewJobs))
      = (Inr (noRequeue, None), e3, Execute (Deploy djob) (workerDone 0 (Execute (LocalPlacement pjob) NewJobs)))
    \<and> djVersion djob = Some (SpecificVersion 2)
    \<and> GetStatusFor (appStatus (sampleStored e3)) ''z'' = Some zs \<and> zsChartVersion zs = ''2''"
proof -
  let ?name = "GetNamespacedName (sampleStored sampleNew)"
  have "quiet_server (ctlKube sampleRollout) ?name sampleStored" using sampleQuiet_server by simp
  moreover have "\<forall>e. sampleStored (snd (kNowTime (ctlKube sampleRollout) e)) = sampleStored e" by (simp add: sampleQuiet_def)
  moreover have "cfgZoneId (ctlConfig sampleRollout) \<noteq> ''''" by (simp add: sampleConfig_def)
  moreover have "\<forall>e. psStrategy (specPlacementStrategy (appSpec (sampleStored e))) = PlacementStrategyLocal
      \<and> 0 \<le> recTolerance (specRecoverStrategy (appSpec (sampleStored e)))"
    by (simp add: sampleStored_def sampleApp_def sampleSpec_def)
  moreover have "finds_nothing sampleRollout sampleStored (SpecificVersion 2)"
    by (simp add: finds_nothing_def sampleRollout_def sampleBringup_def NewFromLocalApplication_def)
  moreover have "appStatus (sampleStored sampleNew)
      = \<lparr>stOwnership = \<lparr>osEpoch = 0, osState = GlobalStateUnset, osOwner = '''', osPlacements = None\<rparr>, stZones = []\<rparr>"
    "appDeletionTimestamp (sampleStored sampleNew) = None" "AnyApplicationFinalizerName \<notin> set (appFinalizers (sampleStored sampleNew))"
    by (simp_all add: sampleStored_def sampleNew_def sampleApp_def)
  moreover have "jbStops (NewJobs :: nat Jobs) = []" "GetCurrent (jobsOf ?name) (NewJobs :: nat Jobs) = None"
    "length (jbWorkers (NewJobs :: nat Jobs)) = 0" by (simp_all add: NewJobs_def GetCurrent_def)
  moreover have "cfgZoneId sampleConfig = ''z''" "SpecificVersion_ToString sampleSemver (SpecificVersion 2) = ''2''"
    by (simp add: sampleConfig_def, simp add: SpecificVersion_ToString_def sampleSemver_def, code_simp)
  ultimately show ?thesis
    using new_application_gets_deployed [of sampleRollout ?name sampleStored "SpecificVersion 2" sampleNew NewJobs
        sampleClocks sampleClocks sampleClocks sampleClocks]
    by (simp only: sampleRollout_sel simp_thms) metis
qed

end
