(* ===== verification/Unstructured.thy ===== *)
theory Unstructured
  imports Prelude "HOL-Library.AList"
begin

text \<open>
  Kubernetes objects as the program handles them: \<open>unstructured.Unstructured\<close> holds the decoded YAML
  of an object as a \<open>map[string]interface{}\<close>. The helpers of the Kubernetes library that read and
  write such maps are fields of \<open>UnstructuredApi\<close>; what their documentation promises of them is
  \<open>reads_documented\<close>. A Go map is an association list in the order it happens to be ranged in; a
  missing key reads as nil.
\<close>

datatype Value =
    VNil
  | VBool bool
  | VInt int
  | VFloat string
  | VString string
  | VSlice "Value list"
  | VMap "(string \<times> Value) list"

type_synonym Fields = "(string \<times> Value) list"

definition indexField :: "Fields \<Rightarrow> string \<Rightarrow> Value" where
  "indexField m k = (case map_of m k of None \<Rightarrow> VNil | Some v \<Rightarrow> v)"

text \<open>\<open>GetKind\<close>, \<open>GetName\<close>, \<open>GetNamespace\<close>, and the accessors of a nested field: an error, or the value
  when it is found. \<open>uVerb\<close> is the text of a value under the \<open>%v\<close> verb.\<close>

record UnstructuredApi =
  uGetKind :: "Fields \<Rightarrow> string"
  uGetName :: "Fields \<Rightarrow> string"
  uGetNamespace :: "Fields \<Rightarrow> string"
  uNestedMap :: "Fields \<Rightarrow> string list \<Rightarrow> GoError + Fields option"
  uNestedSlice :: "Fields \<Rightarrow> string list \<Rightarrow> GoError + Value list option"
  uNestedInt64 :: "Fields \<Rightarrow> string list \<Rightarrow> GoError + int option"
  uNestedString :: "Fields \<Rightarrow> string list \<Rightarrow> GoError + string option"
  uVerb :: "Value \<Rightarrow> string"

text \<open>The documented behaviour of the accessors for a field of the object itself: the value when it has the
  type asked for, not found when there is none, an error when it is of another type.\<close>

definition reads_as :: "(Fields \<Rightarrow> string list \<Rightarrow> GoError + 'a option) \<Rightarrow> (Value \<Rightarrow> 'a option) \<Rightarrow> bool" where
  "reads_as read sel \<longleftrightarrow>
     (\<forall>m k. map_of m k = None \<longrightarrow> read m [k] = Inr None)
     \<and> (\<forall>m k v x. map_of m k = Some v \<and> sel v = Some x \<longrightarrow> read m [k] = Inr (Some x))
     \<and> (\<forall>m k v. map_of m k = Some v \<and> v \<noteq> VNil \<and> sel v = None \<longrightarrow> (\<exists>err. read m [k] = Inl err))"

fun asMap :: "Value \<Rightarrow> Fields option" where
  "asMap (VMap m) = Some m" | "asMap _ = None"

fun asSlice :: "Value \<Rightarrow> Value list option" where
  "asSlice (VSlice vs) = Some vs" | "asSlice _ = None"

fun asInt64 :: "Value \<Rightarrow> int option" where
  "asInt64 (VInt i) = Some i" | "asInt64 _ = None"

fun asString :: "Value \<Rightarrow> string option" where
  "asString (VString s) = Some s" | "asString _ = None"

definition reads_documented :: "UnstructuredApi \<Rightarrow> bool" where
  "reads_documented ua \<longleftrightarrow> reads_as (uNestedMap ua) asMap \<and> reads_as (uNestedSlice ua) asSlice
     \<and> reads_as (uNestedInt64 ua) asInt64 \<and> reads_as (uNestedString ua) asString"

lemma reads_as_simps:
  assumes "reads_as read sel"
  shows "map_of m k = None \<Longrightarrow> read m [k] = Inr None"
    and "map_of m k = Some v \<Longrightarrow> sel v = Some x \<Longrightarrow> read m [k] = Inr (Some x)"
  using assms by (simp_all add: reads_as_def)

lemma reads_as_found:
  assumes "reads_as read sel" and "read m [k] = Inr (Some x)" and "map_of m k \<noteq> Some VNil"
  shows "\<exists>v. map_of m k = Some v \<and> sel v = Some x"
proof (cases "map_of m k")
  case None
  with assms show ?thesis by (simp add: reads_as_def)
next
  case (Some v)
  show ?thesis
  proof (cases "sel v")
    case None
    with Some assms have "\<exists>err. read m [k] = Inl err" unfolding reads_as_def by blast
    with assms(2) show ?thesis by simp
  next
    fix y assume "sel v = Some y"
    with Some assms(1,2) reads_as_simps(2) [OF assms(1) Some] show ?thesis by auto
  qed
qed

section \<open>Text\<close>

text \<open>\<open>strings.ToLower\<close> of an ASCII text; kinds and resource names are ASCII.\<close>

definition lowerChar :: "char \<Rightarrow> char" where
  "lowerChar c = (let n = of_char c :: nat in if 65 \<le> n \<and> n \<le> 90 then char_of (n + 32) else c)"

definition ToLower :: "string \<Rightarrow> string" where
  "ToLower s = map lowerChar s"

lemma lowerChar_idem [simp]: "lowerChar (lowerChar c) = lowerChar c"
  by (simp add: lowerChar_def Let_def of_char_of)

lemma ToLower_idem [simp]: "ToLower (ToLower s) = ToLower s"
  by (simp add: ToLower_def comp_def)

section \<open>A library for the examples\<close>

text \<open>The accessors as their documentation has them, for a path of any length.\<close>

fun walk :: "Value \<Rightarrow> string list \<Rightarrow> GoError + Value option" where
  "walk v [] = Inr (Some v)"
| "walk (VMap m) (k # ks) = (case map_of m k of None \<Rightarrow> Inr None | Some v \<Rightarrow> walk v ks)"
| "walk VNil (k # ks) = Inr None"
| "walk _ (k # ks) = Inl (ErrorString ''accessor error'')"

definition accessor :: "(Value \<Rightarrow> 'a option) \<Rightarrow> Fields \<Rightarrow> string list \<Rightarrow> GoError + 'a option" where
  "accessor sel m path =
     (case walk (VMap m) path of
        Inl err \<Rightarrow> Inl err
      | Inr None \<Rightarrow> Inr None
      | Inr (Some v) \<Rightarrow> (case sel v of None \<Rightarrow> Inl (ErrorString ''accessor error'') | Some x \<Rightarrow> Inr (Some x)))"

definition textAt :: "string list \<Rightarrow> Fields \<Rightarrow> string" where
  "textAt path m = (case accessor asString m path of Inr (Some s) \<Rightarrow> s | _ \<Rightarrow> '''')"

definition sampleUnstructured :: UnstructuredApi where
  "sampleUnstructured =
     \<lparr>uGetKind = textAt [''kind''], uGetName = textAt [''metadata'', ''name''],
      uGetNamespace = textAt [''metadata'', ''namespace''], uNestedMap = accessor asMap,
      uNestedSlice = accessor asSlice, uNestedInt64 = accessor asInt64, uNestedString = accessor asString,
      uVerb = (\<lambda>_. ''value'')\<rparr>"

lemma accessor_reads_as: "reads_as (accessor sel) sel"
  by (simp add: reads_as_def accessor_def)

lemma sampleUnstructured_documented: "reads_documented sampleUnstructured"
  by (simp add: reads_documented_def sampleUnstructured_def accessor_reads_as)

end
