(* ===== verification/Charts.thy ===== *)
theory Charts
  imports Versions "HOL-Library.AList"
begin

text \<open>
  \<open>internal/controller/sync/charts.go\<close>: the store of charts and their versions, and the interface
  \<open>Charts\<close> its clients use. A \<open>sync.Map\<close> is an association list with distinct keys in the order its
  \<open>Range\<close> happens to visit, so what holds for every list holds for every order. The Helm client, the
  split of a rendered template into resources and the semantic versions are parameters; \<open>'e\<close> is the
  state of everything outside.
\<close>

section \<open>The Helm client\<close>

record TemplateArgs =
  taReleaseName :: string
  taRepoUrl :: string
  taChartName :: string
  taNamespace :: string
  taVersion :: string
  taValuesYaml :: string
  taLabels :: "string \<rightharpoonup> string"

text \<open>\<open>FetchVersions\<close> may return versions beside an error, and its caller adds them.\<close>

record ('e, 'v) HelmClient =
  hcAddOrUpdateChartRepo :: "string \<Rightarrow> 'e \<Rightarrow> (GoError + string) \<times> 'e"
  hcSyncRepositories :: "'e \<Rightarrow> GoError option \<times> 'e"
  hcFetchVersions :: "string \<Rightarrow> string \<Rightarrow> 'e \<Rightarrow> ('v list \<times> GoError option) \<times> 'e"
  hcTemplate :: "TemplateArgs \<Rightarrow> 'e \<Rightarrow> (GoError + string) \<times> 'e"

section \<open>The versions of a chart\<close>

record 'v ChartVersions =
  cvRepoName :: string
  cvCharts :: "(string \<times> 'v SpecificVersion) list"

definition AddVersion :: "('v, 'c) Semver \<Rightarrow> 'v SpecificVersion \<Rightarrow> 'v ChartVersions \<Rightarrow> 'v ChartVersions" where
  "AddVersion sv v cv = cv\<lparr>cvCharts := AList.update (SpecificVersion_ToString sv v) v (cvCharts cv)\<rparr>"

text \<open>The pointer found, nil when no version is newer, and the second result.\<close>

definition GetNewerVersion ::
  "('v, 'c) Semver \<Rightarrow> 'v SpecificVersion \<Rightarrow> 'v ChartVersions \<Rightarrow> 'v SpecificVersion option \<times> bool" where
  "GetNewerVersion sv v cv =
     (let (hasNewerVersion, newerChartVersion) =
            fold (\<lambda>(_, chartVersionIter) (has, newer).
                    (True, if IsNewerThan sv chartVersionIter v then Some chartVersionIter else newer))
              (cvCharts cv) (False, None)
      in if hasNewerVersion then (newerChartVersion, True) else (None, False))"

definition UpdateVersions :: "('v, 'c) Semver \<Rightarrow> 'v list \<Rightarrow> 'v ChartVersions \<Rightarrow> 'v ChartVersions" where
  "UpdateVersions sv semanticVersions cv =
     fold (\<lambda>v cv. case NewFromSemantic v of Inl _ \<Rightarrow> cv | Inr specific \<Rightarrow> AddVersion sv specific cv)
       semanticVersions cv"

definition Exists :: "('v, 'c) Semver \<Rightarrow> 'v SpecificVersion \<Rightarrow> 'v ChartVersions \<Rightarrow> bool" where
  "Exists sv v cv \<longleftrightarrow> map_of (cvCharts cv) (SpecificVersion_ToString sv v) \<noteq> None"

definition isEmpty :: "'v ChartVersions \<Rightarrow> bool" where
  "isEmpty cv \<longleftrightarrow> cvCharts cv = []"

text \<open>The body of the \<open>Range\<close>: a version outside the range is passed over, another replaces the latest
  so far when there is none or it is newer.\<close>

definition laterInRange ::
  "('v, 'c) Semver \<Rightarrow> 'c VersionRange \<Rightarrow> string \<times> 'v SpecificVersion \<Rightarrow> 'v SpecificVersion option
     \<Rightarrow> 'v SpecificVersion option" where
  "laterInRange sv versionRange kv latestChartVersion =
     (let chartVersionIter = snd kv
      in if \<not> VersionRange_Contains sv versionRange chartVersionIter then latestChartVersion
         else case latestChartVersion of
                None \<Rightarrow> Some chartVersionIter
              | Some latest \<Rightarrow> if IsNewerThan sv chartVersionIter latest then Some chartVersionIter
                               else latestChartVersion)"

definition getLatestFor :: "('v, 'c) Semver \<Rightarrow> 'c VersionRange option \<Rightarrow> 'v ChartVersions \<Rightarrow> 'v SpecificVersion option" where
  "getLatestFor sv versionRange cv =
     (case versionRange of
        None \<Rightarrow> None
      | Some r \<Rightarrow> fold (laterInRange sv r) (cvCharts cv) None)"

section \<open>The store\<close>

text \<open>The charts of the store; the pointers it keeps are written through, so a change of the versions
  of a chart is a change of its entry.\<close>

type_synonym 'v charts = "(ChartId \<times> 'v ChartVersions) list"

definition getOrCreateVersions ::
  "('e, 'v) HelmClient \<Rightarrow> ChartId \<Rightarrow> 'v charts \<times> 'e \<Rightarrow> (GoError + 'v ChartVersions) \<times> 'v charts \<times> 'e" where
  "getOrCreateVersions helm chartId s =
     (case s of (ch, e) \<Rightarrow>
        (case map_of ch chartId of
           Some versions \<Rightarrow> (Inr versions, ch, e)
         | None \<Rightarrow>
             (case hcAddOrUpdateChartRepo helm (ciRepoUrl chartId) e of
                (Inl err, e1) \<Rightarrow> (Inl err, ch, e1)
              | (Inr repoName, e1) \<Rightarrow>
                  (let versions = \<lparr>cvRepoName = repoName, cvCharts = []\<rparr>
                   in (Inr versions, AList.update chartId versions ch, e1)))))"

definition updateAvailableVersions ::
  "('v, 'c) Semver \<Rightarrow> ('e, 'v) HelmClient \<Rightarrow> ChartId \<Rightarrow> 'v ChartVersions \<Rightarrow> 'v charts \<times> 'e
     \<Rightarrow> 'v ChartVersions \<times> 'v charts \<times> 'e" where
  "updateAvailableVersions sv helm chartId versions s =
     (case s of (ch, e) \<Rightarrow>
        (case hcFetchVersions helm (ciRepoUrl chartId) (ciChartName chartId) e of
           ((semanticVersions, err), e1) \<Rightarrow>
             (let versions' = UpdateVersions sv semanticVersions versions
              in (versions', AList.update chartId versions' ch, e1))))"

definition RegisterChart ::
  "('e, 'v) HelmClient \<Rightarrow> string \<Rightarrow> string \<Rightarrow> 'v charts \<times> 'e \<Rightarrow> GoError option \<times> 'v charts \<times> 'e" where
  "RegisterChart helm chartName repoUrl s =
     (case getOrCreateVersions helm \<lparr>ciRepoUrl = repoUrl, ciChartName = chartName\<rparr> s of
        (Inl err, s1) \<Rightarrow> (Some (Wrapped ''Failed to get or create chart versions'' err), s1)
      | (Inr _, s1) \<Rightarrow> (None, s1))"

definition pullVersion ::
  "('v, 'c) Semver \<Rightarrow> ('e, 'v) HelmClient \<Rightarrow> string \<Rightarrow> string \<Rightarrow> ('v, 'c) ChartVersion \<Rightarrow> 'v charts \<times> 'e
     \<Rightarrow> (GoError + 'v ChartKey) \<times> 'v charts \<times> 'e" where
  "pullVersion sv helm chartName repoUrl chartVersion s =
     (let chartId = \<lparr>ciRepoUrl = repoUrl, ciChartName = chartName\<rparr>
      in case getOrCreateVersions helm chartId s of
           (Inl err, s1) \<Rightarrow> (Inl (Wrapped ''Failed to get or create chart versions'' err), s1)
         | (Inr chartVersions, s1) \<Rightarrow>
             (let (chartVersions', s2) = (if isEmpty chartVersions
                                          then updateAvailableVersions sv helm chartId chartVersions s1
                                          else (chartVersions, s1))
              in case chartVersion of
                   ChartSpecific specificVersion \<Rightarrow>
                     (if Exists sv specificVersion chartVersions'
                      then (Inr \<lparr>ckChartId = chartId, ckVersion = specificVersion\<rparr>, s2)
                      else (Inl (ErrorString (''Specific version '' @ SpecificVersion_ToString sv specificVersion
                              @ '' not found for chart '' @ chartName)), s2))
                 | ChartRange versionRange \<Rightarrow>
                     (case getLatestFor sv (Some versionRange) chartVersions' of
                        Some specificVersion \<Rightarrow>
                          (Inr \<lparr>ckChartId = chartId, ckVersion = specificVersion\<rparr>, s2)
                      | None \<Rightarrow>
                          (Inl (ErrorString (''Latest version not found for chart '' @ chartName)), s2))))"

definition AddAndGetLatest ::
  "('v, 'c) Semver \<Rightarrow> ('e, 'v) HelmClient \<Rightarrow> string \<Rightarrow> string \<Rightarrow> ('v, 'c) ChartVersion \<Rightarrow> 'v charts \<times> 'e
     \<Rightarrow> (GoError + 'v ChartKey) \<times> 'v charts \<times> 'e" where
  "AddAndGetLatest sv helm chartName repoUrl chartVersion s =
     (case RegisterChart helm chartName repoUrl s of
        (Some err, s1) \<Rightarrow> (Inl err, s1)
      | (None, s1) \<Rightarrow> pullVersion sv helm chartName repoUrl chartVersion s1)"

text \<open>The \<open>Range\<close> of a cycle visits the charts there are when it starts.\<close>

definition RunSyncCycle ::
  "('v, 'c) Semver \<Rightarrow> ('e, 'v) HelmClient \<Rightarrow> 'v charts \<times> 'e \<Rightarrow> 'v charts \<times> 'e" where
  "RunSyncCycle sv helm s =
     (case s of (ch, e) \<Rightarrow>
        (let (err, e1) = hcSyncRepositories helm e
         in fold (\<lambda>(chartId, versions) s. snd (updateAvailableVersions sv helm chartId versions s)) ch (ch, e1)))"

text \<open>The loop of \<open>RunSynchronization\<close> on what its \<open>select\<close> takes, one after the other: a tick or the
  end of the context; without either it waits.\<close>

datatype Selected = Tick | Done

fun RunSynchronization ::
  "('v, 'c) Semver \<Rightarrow> ('e, 'v) HelmClient \<Rightarrow> Selected list \<Rightarrow> 'v charts \<times> 'e \<Rightarrow> 'v charts \<times> 'e" where
  "RunSynchronization sv helm [] s = s"
| "RunSynchronization sv helm (Tick # selected) s = RunSynchronization sv helm selected (RunSyncCycle sv helm s)"
| "RunSynchronization sv helm (Done # selected) s = s"

section \<open>Rendering\<close>

definition LABEL_MANAGED_BY :: string where "LABEL_MANAGED_BY = ''dcp.hiro.io/managed-by''"
definition LABEL_CHART_VERSION :: string where "LABEL_CHART_VERSION = ''dcp.hiro.io/chart-version''"
definition LABEL_INSTANCE_ID :: string where "LABEL_INSTANCE_ID = ''dcp.hiro.io/instance-id''"
definition LABEL_VALUE_MANAGED_BY_DCP :: string where "LABEL_VALUE_MANAGED_BY_DCP = ''dcp''"

lemmas label_defs = LABEL_MANAGED_BY_def LABEL_CHART_VERSION_def LABEL_INSTANCE_ID_def LABEL_VALUE_MANAGED_BY_DCP_def

record ('v, 'r) RenderedChart =
  rcKey :: "'v ChartKey"
  rcInstance :: ApplicationInstance
  rcResources :: "'r list"

definition renderLabels :: "('v, 'c) Semver \<Rightarrow> 'v ChartKey \<Rightarrow> ApplicationInstance \<Rightarrow> (string \<rightharpoonup> string)" where
  "renderLabels sv chartKey ai =
     [LABEL_MANAGED_BY \<mapsto> LABEL_VALUE_MANAGED_BY_DCP,
      LABEL_CHART_VERSION \<mapsto> SpecificVersion_ToString sv (ckVersion chartKey),
      LABEL_INSTANCE_ID \<mapsto> aiInstanceId ai]"

definition Render ::
  "('v, 'c) Semver \<Rightarrow> ('e, 'v) HelmClient \<Rightarrow> (string \<Rightarrow> GoError + 'r list) \<Rightarrow> 'v ChartKey \<Rightarrow> ApplicationInstance
     \<Rightarrow> 'e \<Rightarrow> (GoError + ('v, 'r) RenderedChart) \<times> 'e" where
  "Render sv helm SplitYAML chartKey ai e =
     (case hcTemplate helm
             \<lparr>taReleaseName = aiReleaseName ai, taRepoUrl = ciRepoUrl (ckChartId chartKey),
              taChartName = ciChartName (ckChartId chartKey), taNamespace = aiNamespace ai,
              taVersion = SpecificVersion_ToString sv (ckVersion chartKey), taValuesYaml = aiValuesYaml ai,
              taLabels = renderLabels sv chartKey ai\<rparr> e of
        (Inl err, e1) \<Rightarrow> (Inl (Wrapped ''Helm template failure'' err), e1)
      | (Inr template, e1) \<Rightarrow>
          (case SplitYAML template of
             Inl err \<Rightarrow> (Inl (Wrapped ''Fail to split YAML'' err), e1)
           | Inr resources \<Rightarrow> (Inr \<lparr>rcKey = chartKey, rcInstance = ai, rcResources = resources\<rparr>, e1)))"

section \<open>Lists as maps\<close>

lemma set_alist_update: "set (AList.update k v al) \<subseteq> insert (k, v) (set al)"
  by (induction al) auto

lemma keys_alist_update: "fst ` set (AList.update k v al) = insert k (fst ` set al)"
  by (simp add: update_keys image_set [symmetric] del: image_set)
    (induction al; auto)

lemma alist_update_Nil [simp]: "AList.update k v al \<noteq> []"
  by (cases al) auto

section \<open>What a chart's versions keep\<close>

text \<open>Each version is filed once, under its own text.\<close>

definition versions_ok :: "('v, 'c) Semver \<Rightarrow> 'v ChartVersions \<Rightarrow> bool" where
  "versions_ok sv cv \<longleftrightarrow> distinct (map fst (cvCharts cv))
     \<and> (\<forall>(t, v)\<in>set (cvCharts cv). t = SpecificVersion_ToString sv v)"

definition versionTexts :: "'v ChartVersions \<Rightarrow> string set" where
  "versionTexts cv = fst ` set (cvCharts cv)"

lemma versions_ok_empty [simp]: "versions_ok sv \<lparr>cvRepoName = n, cvCharts = []\<rparr>"
  by (simp add: versions_ok_def)

lemma versions_ok_AddVersion: "versions_ok sv cv \<Longrightarrow> versions_ok sv (AddVersion sv v cv)"
  using set_alist_update [of "SpecificVersion_ToString sv v" v "cvCharts cv"]
  by (auto simp: versions_ok_def AddVersion_def distinct_update)

lemma versionTexts_AddVersion: "versionTexts (AddVersion sv v cv) = insert (SpecificVersion_ToString sv v) (versionTexts cv)"
  by (simp add: versionTexts_def AddVersion_def keys_alist_update)

lemma cvRepoName_AddVersion [simp]: "cvRepoName (AddVersion sv v cv) = cvRepoName cv"
  by (simp add: AddVersion_def)

lemma UpdateVersions_simps [simp]:
  "UpdateVersions sv [] cv = cv"
  "UpdateVersions sv (v # vs) cv = UpdateVersions sv vs (AddVersion sv (SpecificVersion v) cv)"
  by (simp_all add: UpdateVersions_def NewFromSemantic_def)

lemma UpdateVersions_keeps:
  "versions_ok sv cv \<Longrightarrow> versions_ok sv (UpdateVersions sv vs cv)"
  "cvRepoName (UpdateVersions sv vs cv) = cvRepoName cv"
  "versionTexts (UpdateVersions sv vs cv) = versionTexts cv \<union> svString sv ` set vs"
  by (induction vs arbitrary: cv)
    (auto simp: versions_ok_AddVersion versionTexts_AddVersion SpecificVersion_ToString_def)

lemma Exists_iff: "Exists sv v cv \<longleftrightarrow> SpecificVersion_ToString sv v \<in> versionTexts cv"
  by (simp add: Exists_def versionTexts_def map_of_eq_None_iff)

section \<open>The newest version of a range\<close>

text \<open>What the library documents of \<open>GreaterThan\<close>.\<close>

definition version_order :: "('v, 'c) Semver \<Rightarrow> bool" where
  "version_order sv \<longleftrightarrow> (\<forall>a. \<not> svGreaterThan sv a a)
     \<and> (\<forall>a b c. svGreaterThan sv a b \<and> svGreaterThan sv b c \<longrightarrow> svGreaterThan sv a c)"

lemma IsNewerThan_trans: "version_order sv \<Longrightarrow> IsNewerThan sv a b \<Longrightarrow> IsNewerThan sv b c \<Longrightarrow> IsNewerThan sv a c"
  unfolding version_order_def IsNewerThan_def by blast

lemma IsNewerThan_irrefl: "version_order sv \<Longrightarrow> \<not> IsNewerThan sv a a"
  unfolding version_order_def IsNewerThan_def by blast

text \<open>The reference: a newest one of the versions in the range.\<close>

definition newestIn :: "('v, 'c) Semver \<Rightarrow> 'c VersionRange \<Rightarrow> 'v SpecificVersion set \<Rightarrow> 'v SpecificVersion option \<Rightarrow> bool" where
  "newestIn sv r V result \<longleftrightarrow>
     (case result of
        None \<Rightarrow> \<forall>v\<in>V. \<not> VersionRange_Contains sv r v
      | Some l \<Rightarrow> l \<in> V \<and> VersionRange_Contains sv r l
          \<and> (\<forall>v\<in>V. VersionRange_Contains sv r v \<longrightarrow> \<not> IsNewerThan sv v l))"

lemma newestIn_step:
  assumes "version_order sv" and "newestIn sv r V l"
  shows "newestIn sv r (insert (snd kv) V) (laterInRange sv r kv l)"
  using assms(2) IsNewerThan_irrefl [OF assms(1)] IsNewerThan_trans [OF assms(1)]
  by (auto simp: newestIn_def laterInRange_def Let_def split: option.splits)

lemma newestIn_fold:
  "version_order sv \<Longrightarrow> newestIn sv r V l \<Longrightarrow> newestIn sv r (V \<union> snd ` set kvs) (fold (laterInRange sv r) kvs l)"
proof (induction kvs arbitrary: V l)
  case (Cons kv kvs)
  from Cons.IH [OF Cons.prems(1) newestIn_step [OF Cons.prems, of kv]] show ?case by simp
qed simp

definition versionSet :: "'v ChartVersions \<Rightarrow> 'v SpecificVersion set" where
  "versionSet cv = snd ` set (cvCharts cv)"

lemma getLatestFor_newest: "version_order sv \<Longrightarrow> newestIn sv r (versionSet cv) (getLatestFor sv (Some r) cv)"
  using newestIn_fold [of sv r "{}" None "cvCharts cv"]
  by (simp add: newestIn_def getLatestFor_def versionSet_def)

lemma GetNewerVersion_fold:
  "fold (\<lambda>(_, w) (has, newer). (True, if IsNewerThan sv w v then Some w else newer)) kvs (h, n) = (h', n') \<Longrightarrow>
     h' = (h \<or> kvs \<noteq> []) \<and> (n' = n \<or> (\<exists>w\<in>snd ` set kvs. n' = Some w \<and> IsNewerThan sv w v))
     \<and> ((\<exists>w\<in>snd ` set kvs. IsNewerThan sv w v) \<longrightarrow> n' \<noteq> None) \<and> (n \<noteq> None \<longrightarrow> n' \<noteq> None)"
proof (induction kvs arbitrary: h n)
  case (Cons kv kvs)
  obtain k w where kv: "kv = (k, w)" by fastforce
  from Cons.prems have "fold (\<lambda>(_, w) (has, newer). (True, if IsNewerThan sv w v then Some w else newer)) kvs
      (True, if IsNewerThan sv w v then Some w else n) = (h', n')" by (simp add: kv)
  from Cons.IH [OF this] show ?case by (auto simp: kv split: if_splits)
qed auto

text \<open>\<open>GetNewerVersion\<close> reports a newer version for every chart that has any version at all; when no
  version is newer, the pointer beside that report is nil.\<close>

lemma GetNewerVersion_reports:
  "snd (GetNewerVersion sv v cv) = (\<not> isEmpty cv)
   \<and> (fst (GetNewerVersion sv v cv) = None) = (\<not> (\<exists>w\<in>versionSet cv. IsNewerThan sv w v))"
proof -
  obtain h n where f: "fold (\<lambda>(_, w) (has, newer). (True, if IsNewerThan sv w v then Some w else newer)) (cvCharts cv) (False, None) = (h, n)"
    by fastforce
  show ?thesis
    using GetNewerVersion_fold [OF f] by (auto simp: GetNewerVersion_def f isEmpty_def versionSet_def)
qed

section \<open>The store keeps its charts\<close>

definition charts_ok :: "('v, 'c) Semver \<Rightarrow> 'v charts \<Rightarrow> bool" where
  "charts_ok sv ch \<longleftrightarrow> distinct (map fst ch) \<and> (\<forall>(cid, cv)\<in>set ch. versions_ok sv cv)"

text \<open>Later contents of the store: every chart is there, under the same repository, with every version
  it had.\<close>

definition extends :: "'v charts \<Rightarrow> 'v charts \<Rightarrow> bool" where
  "extends ch ch' \<longleftrightarrow> (\<forall>cid cv. map_of ch cid = Some cv \<longrightarrow>
     (\<exists>cv'. map_of ch' cid = Some cv' \<and> cvRepoName cv' = cvRepoName cv \<and> versionTexts cv \<subseteq> versionTexts cv'))"

lemma extends_refl [simp]: "extends ch ch"
  by (simp add: extends_def)

lemma extendsD:
  "extends ch ch' \<Longrightarrow> map_of ch cid = Some cv \<Longrightarrow>
     \<exists>cv'. map_of ch' cid = Some cv' \<and> cvRepoName cv' = cvRepoName cv \<and> versionTexts cv \<subseteq> versionTexts cv'"
  unfolding extends_def by blast

lemma extends_trans:
  assumes "extends a b" and "extends b c"
  shows "extends a c"
  unfolding extends_def
proof (intro allI impI)
  fix cid cv
  assume "map_of a cid = Some cv"
  from extendsD [OF assms(1) this] obtain cv1 where 1: "map_of b cid = Some cv1" "cvRepoName cv1 = cvRepoName cv"
      "versionTexts cv \<subseteq> versionTexts cv1" by blast
  from extendsD [OF assms(2) 1(1)] 1(2,3)
  show "\<exists>cv'. map_of c cid = Some cv' \<and> cvRepoName cv' = cvRepoName cv \<and> versionTexts cv \<subseteq> versionTexts cv'"
    by auto
qed

lemma charts_ok_update: "charts_ok sv ch \<Longrightarrow> versions_ok sv cv \<Longrightarrow> charts_ok sv (AList.update cid cv ch)"
  using set_alist_update [of cid cv ch] by (auto simp: charts_ok_def distinct_update)

lemma charts_ok_lookup: "charts_ok sv ch \<Longrightarrow> map_of ch cid = Some cv \<Longrightarrow> versions_ok sv cv"
  by (auto simp: charts_ok_def dest: map_of_SomeD)

lemma extends_update:
  "(\<And>cv0. map_of ch cid = Some cv0 \<Longrightarrow> cvRepoName cv = cvRepoName cv0 \<and> versionTexts cv0 \<subseteq> versionTexts cv) \<Longrightarrow>
     extends ch (AList.update cid cv ch)"
  by (auto simp: extends_def update_conv')

lemma getOrCreateVersions_keeps:
  assumes "getOrCreateVersions helm cid (ch, e) = (r, ch', e')" and "charts_ok sv ch"
  shows "charts_ok sv ch' \<and> extends ch ch' \<and> (\<forall>cv. r = Inr cv \<longrightarrow> map_of ch' cid = Some cv \<and> versions_ok sv cv)"
  using assms charts_ok_lookup [OF assms(2)]
  by (auto simp: getOrCreateVersions_def Let_def update_conv' split: option.splits prod.splits sum.splits
      intro!: charts_ok_update extends_update)

lemma updateAvailableVersions_keeps:
  assumes "updateAvailableVersions sv helm cid cv (ch, e) = (cv', ch', e')" and "charts_ok sv ch"
    and "map_of ch cid = Some cv"
  shows "charts_ok sv ch' \<and> extends ch ch' \<and> map_of ch' cid = Some cv' \<and> versions_ok sv cv'
     \<and> (\<forall>k. k \<noteq> cid \<longrightarrow> map_of ch' k = map_of ch k)"
  using assms charts_ok_lookup [OF assms(2,3)]
  by (auto simp: updateAvailableVersions_def Let_def update_conv' UpdateVersions_keeps split: prod.splits
      intro!: charts_ok_update extends_update)

lemma RegisterChart_keeps:
  assumes "RegisterChart helm name repo (ch, e) = (r, ch', e')" and "charts_ok sv ch"
  shows "charts_ok sv ch' \<and> extends ch ch'"
proof -
  obtain q ch1 e1 where g: "getOrCreateVersions helm \<lparr>ciRepoUrl = repo, ciChartName = name\<rparr> (ch, e) = (q, ch1, e1)"
    by (metis prod_cases3)
  from assms(1) have "ch' = ch1" by (auto simp: RegisterChart_def g split: sum.splits)
  with getOrCreateVersions_keeps [OF g assms(2)] show ?thesis by simp
qed

text \<open>The versions a version asked for admits.\<close>

fun admits :: "('v, 'c) Semver \<Rightarrow> ('v, 'c) ChartVersion \<Rightarrow> 'v SpecificVersion \<Rightarrow> bool" where
  "admits sv (ChartSpecific w) v = (v = w)"
| "admits sv (ChartRange r) v = VersionRange_Contains sv r v"

lemma versions_ok_Exists: "versions_ok sv cv \<Longrightarrow> v \<in> versionSet cv \<Longrightarrow> Exists sv v cv"
proof -
  assume "versions_ok sv cv" "v \<in> versionSet cv"
  then have "(SpecificVersion_ToString sv v, v) \<in> set (cvCharts cv)" by (auto simp: versions_ok_def versionSet_def)
  then show ?thesis by (force simp: Exists_iff versionTexts_def)
qed

lemma fold_laterInRange_Some:
  "fold (laterInRange sv r) kvs l = Some v \<Longrightarrow>
     (l = Some v \<or> v \<in> snd ` set kvs \<and> VersionRange_Contains sv r v)"
proof (induction kvs arbitrary: l)
  case (Cons kv kvs)
  from Cons.prems have "fold (laterInRange sv r) kvs (laterInRange sv r kv l) = Some v" by simp
  from Cons.IH [OF this] show ?case
    by (auto simp: laterInRange_def Let_def split: if_splits option.splits)
qed simp

lemma getLatestFor_Some:
  "getLatestFor sv (Some r) cv = Some v \<Longrightarrow> v \<in> versionSet cv \<and> VersionRange_Contains sv r v"
  using fold_laterInRange_Some [of sv r "cvCharts cv" None v]
  by (auto simp: getLatestFor_def versionSet_def)

lemma pullVersion_keeps:
  assumes "pullVersion sv helm name repo chartVersion (ch, e) = (r, ch', e')" and "charts_ok sv ch"
  shows "charts_ok sv ch' \<and> extends ch ch'
    \<and> (\<forall>key. r = Inr key \<longrightarrow> ckChartId key = \<lparr>ciRepoUrl = repo, ciChartName = name\<rparr>
          \<and> admits sv chartVersion (ckVersion key)
          \<and> (\<exists>cv. map_of ch' (ckChartId key) = Some cv \<and> versions_ok sv cv \<and> Exists sv (ckVersion key) cv
                \<and> (\<forall>rg. chartVersion = ChartRange rg \<longrightarrow> getLatestFor sv (Some rg) cv = Some (ckVersion key))))"
proof -
  let ?cid = "\<lparr>ciRepoUrl = repo, ciChartName = name\<rparr>"
  obtain q ch1 e1 where g: "getOrCreateVersions helm ?cid (ch, e) = (q, ch1, e1)" by (metis prod_cases3)
  note get = getOrCreateVersions_keeps [OF g assms(2)]
  show ?thesis
  proof (cases q)
    case (Inl err)
    with assms(1) g get show ?thesis by (auto simp: pullVersion_def)
  next
    case (Inr cv)
    obtain cv' ch2 e2 where u: "(if isEmpty cv then updateAvailableVersions sv helm ?cid cv (ch1, e1) else (cv, ch1, e1))
        = (cv', ch2, e2)" by (metis prod_cases3)
    have cv: "map_of ch1 ?cid = Some cv" "versions_ok sv cv" "charts_ok sv ch1" "extends ch ch1" using get Inr by auto
    have *: "charts_ok sv ch2 \<and> extends ch1 ch2 \<and> map_of ch2 ?cid = Some cv' \<and> versions_ok sv cv'"
    proof (cases "isEmpty cv")
      case True
      with u have "updateAvailableVersions sv helm ?cid cv (ch1, e1) = (cv', ch2, e2)" by simp
      from updateAvailableVersions_keeps [OF this cv(3,1)] show ?thesis by simp
    next
      case False
      with u cv show ?thesis by simp
    qed
    have run: "ch' = ch2 \<and> (\<forall>key. r = Inr key \<longrightarrow> ckChartId key = ?cid \<and>
        (case chartVersion of ChartSpecific w \<Rightarrow> ckVersion key = w \<and> Exists sv w cv'
         | ChartRange rg \<Rightarrow> getLatestFor sv (Some rg) cv' = Some (ckVersion key)))"
      using assms(1) by (auto simp: pullVersion_def g Inr u Let_def split: ChartVersion.splits if_splits option.splits)
    have ans: "ckChartId key = ?cid \<and> admits sv chartVersion (ckVersion key) \<and> Exists sv (ckVersion key) cv'
        \<and> (\<forall>rg. chartVersion = ChartRange rg \<longrightarrow> getLatestFor sv (Some rg) cv' = Some (ckVersion key))"
      if "r = Inr key" for key
      using run that * getLatestFor_Some [of sv _ cv' "ckVersion key"]
      by (cases chartVersion) (auto intro: versions_ok_Exists)
    have "extends ch ch2" using extends_trans [OF cv(4)] * by blast
    moreover have "\<exists>c. map_of ch' (ckChartId key) = Some c \<and> versions_ok sv c \<and> Exists sv (ckVersion key) c
        \<and> (\<forall>rg. chartVersion = ChartRange rg \<longrightarrow> getLatestFor sv (Some rg) c = Some (ckVersion key))"
      if "r = Inr key" for key
      by (rule exI [of _ cv']) (use ans [OF that] run * in simp)
    ultimately show ?thesis using run * ans by blast
  qed
qed

lemma AddAndGetLatest_keeps:
  assumes "AddAndGetLatest sv helm name repo chartVersion (ch, e) = (r, ch', e')" and "charts_ok sv ch"
  shows "charts_ok sv ch' \<and> extends ch ch'
    \<and> (\<forall>key. r = Inr key \<longrightarrow> ckChartId key = \<lparr>ciRepoUrl = repo, ciChartName = name\<rparr>
          \<and> admits sv chartVersion (ckVersion key)
          \<and> (\<exists>cv. map_of ch' (ckChartId key) = Some cv \<and> versions_ok sv cv \<and> Exists sv (ckVersion key) cv
                \<and> (\<forall>rg. chartVersion = ChartRange rg \<longrightarrow> getLatestFor sv (Some rg) cv = Some (ckVersion key))))"
proof -
  obtain q ch1 e1 where g: "RegisterChart helm name repo (ch, e) = (q, ch1, e1)" by (metis prod_cases3)
  note reg = RegisterChart_keeps [OF g assms(2)]
  show ?thesis
  proof (cases q)
    case None
    with assms(1) g have "pullVersion sv helm name repo chartVersion (ch1, e1) = (r, ch', e')"
      by (simp add: AddAndGetLatest_def)
    from pullVersion_keeps [OF this] reg show ?thesis by (blast intro: extends_trans)
  next
    case (Some err)
    with assms(1) g reg show ?thesis by (auto simp: AddAndGetLatest_def)
  qed
qed

lemma RunSyncCycle_keeps:
  assumes "RunSyncCycle sv helm (ch, e) = (ch', e')" and "charts_ok sv ch"
  shows "charts_ok sv ch' \<and> extends ch ch'"
proof -
  let ?step = "\<lambda>(cid, cv) s. snd (updateAvailableVersions sv helm cid cv s)"
  have "charts_ok sv ch2 \<and> extends ch1 ch2"
    if "fold ?step todo (ch1, e1) = (ch2, e2)" "charts_ok sv ch1" "distinct (map fst todo)"
       "\<forall>(cid, cv)\<in>set todo. map_of ch1 cid = Some cv" for todo ch1 e1 ch2 e2
    using that
  proof (induction todo arbitrary: ch1 e1)
    case (Cons kv todo)
    obtain cid cv where kv: "kv = (cid, cv)" by fastforce
    obtain cv' ch' e' where u: "updateAvailableVersions sv helm cid cv (ch1, e1) = (cv', ch', e')" by (metis prod_cases3)
    have "map_of ch1 cid = Some cv" using Cons.prems(4) kv by simp
    note upd = updateAvailableVersions_keeps [OF u Cons.prems(2) this]
    have "charts_ok sv ch2 \<and> extends ch' ch2"
    proof (rule Cons.IH)
      show "fold ?step todo (ch', e') = (ch2, e2)" using Cons.prems(1) kv u by simp
      show "\<forall>(k, v)\<in>set todo. map_of ch' k = Some v"
        using Cons.prems(3,4) upd kv by (fastforce simp: image_iff)
    qed (use Cons.prems upd in simp_all)
    with upd show ?case by (blast intro: extends_trans)
  qed simp
  moreover have "distinct (map fst ch)" "\<forall>(cid, cv)\<in>set ch. map_of ch cid = Some cv"
    using assms(2) by (auto simp: charts_ok_def)
  ultimately show ?thesis
    using assms by (fastforce simp: RunSyncCycle_def split: prod.splits)
qed

lemma RunSynchronization_keeps:
  "RunSynchronization sv helm selected (ch, e) = (ch', e') \<Longrightarrow> charts_ok sv ch \<Longrightarrow> charts_ok sv ch' \<and> extends ch ch'"
proof (induction selected arbitrary: ch e)
  case (Cons a selected)
  show ?case
  proof (cases a)
    case Tick
    obtain ch1 e1 where cycle: "RunSyncCycle sv helm (ch, e) = (ch1, e1)" by fastforce
    from RunSyncCycle_keeps [OF this Cons.prems(2)] Cons.IH [of ch1 e1] Cons.prems(1) cycle Tick
    show ?thesis by (auto intro: extends_trans)
  qed (use Cons.prems in simp)
qed simp

section \<open>The interface Charts\<close>

text \<open>What its clients rely on: a key pulled is of the chart asked for and of a version asked for.\<close>

locale chart_source =
  fixes latest :: "string \<Rightarrow> string \<Rightarrow> ('v, 'c) ChartVersion \<Rightarrow> 's \<Rightarrow> (GoError + 'v ChartKey) \<times> 's"
    and sv :: "('v, 'c) Semver" and ok :: "'s \<Rightarrow> bool"
  assumes latest_ok: "ok s \<Longrightarrow> ok (snd (latest name repo chartVersion s))"
    and latest_answer: "ok s \<Longrightarrow> fst (latest name repo chartVersion s) = Inr key \<Longrightarrow>
      ckChartId key = \<lparr>ciRepoUrl = repo, ciChartName = name\<rparr> \<and> admits sv chartVersion (ckVersion key)"
begin

lemma latest_specific: "ok s \<Longrightarrow> fst (latest name repo (ChartSpecific v) s) = Inr key \<Longrightarrow> ckVersion key = v"
  using latest_answer by fastforce

lemma latest_range: "ok s \<Longrightarrow> fst (latest name repo (ChartRange r) s) = Inr key \<Longrightarrow> VersionRange_Contains sv r (ckVersion key)"
  using latest_answer by fastforce

end

definition store_ok :: "('v, 'c) Semver \<Rightarrow> 'v charts \<times> 'e \<Rightarrow> bool" where
  "store_ok sv s \<longleftrightarrow> charts_ok sv (fst s)"

lemma AddAndGetLatest_source:
  assumes "store_ok sv s"
  shows "store_ok sv (snd (AddAndGetLatest sv helm name repo chartVersion s))"
    and "fst (AddAndGetLatest sv helm name repo chartVersion s) = Inr key \<Longrightarrow>
      ckChartId key = \<lparr>ciRepoUrl = repo, ciChartName = name\<rparr> \<and> admits sv chartVersion (ckVersion key)"
proof -
  obtain r ch' e' where run: "AddAndGetLatest sv helm name repo chartVersion (fst s, snd s) = (r, ch', e')"
    by (metis prod_cases3)
  note keeps = AddAndGetLatest_keeps [OF run assms [unfolded store_ok_def]]
  show "store_ok sv (snd (AddAndGetLatest sv helm name repo chartVersion s))"
    using keeps run by (simp add: store_ok_def)
  show "ckChartId key = \<lparr>ciRepoUrl = repo, ciChartName = name\<rparr> \<and> admits sv chartVersion (ckVersion key)"
    if "fst (AddAndGetLatest sv helm name repo chartVersion s) = Inr key"
    using keeps that run by simp
qed

interpretation store: chart_source "AddAndGetLatest sv helm" sv "store_ok sv" for sv helm
  by unfold_locales (rule AddAndGetLatest_source, assumption)+

section \<open>Properties\<close>

text \<open>C25: the version pulled for a range is the newest of the stored versions the range contains, and the
  one pulled for a specific version is that version, which the store has.\<close>

theorem AddAndGetLatest_newest:
  assumes "version_order sv" and "charts_ok sv ch"
    and "AddAndGetLatest sv helm name repo chartVersion (ch, e) = (Inr key, ch', e')"
  shows "ckChartId key = \<lparr>ciRepoUrl = repo, ciChartName = name\<rparr>
    \<and> (\<exists>cv. map_of ch' (ckChartId key) = Some cv \<and> Exists sv (ckVersion key) cv
         \<and> (case chartVersion of
              ChartSpecific v \<Rightarrow> ckVersion key = v
            | ChartRange r \<Rightarrow> ckVersion key \<in> versionSet cv \<and> VersionRange_Contains sv r (ckVersion key)
                \<and> (\<forall>w\<in>versionSet cv. VersionRange_Contains sv r w \<longrightarrow> \<not> IsNewerThan sv w (ckVersion key))))"
proof -
  note keeps = AddAndGetLatest_keeps [OF assms(3,2)]
  then obtain cv where cv: "map_of ch' (ckChartId key) = Some cv" "Exists sv (ckVersion key) cv"
      "\<forall>rg. chartVersion = ChartRange rg \<longrightarrow> getLatestFor sv (Some rg) cv = Some (ckVersion key)" by blast
  have "case chartVersion of
      ChartSpecific v \<Rightarrow> ckVersion key = v
    | ChartRange r \<Rightarrow> ckVersion key \<in> versionSet cv \<and> VersionRange_Contains sv r (ckVersion key)
        \<and> (\<forall>w\<in>versionSet cv. VersionRange_Contains sv r w \<longrightarrow> \<not> IsNewerThan sv w (ckVersion key))"
  proof (cases chartVersion)
    case (ChartSpecific v)
    with keeps show ?thesis by auto
  next
    case (ChartRange r)
    with cv(3) getLatestFor_newest [OF assms(1), of r cv] show ?thesis by (simp add: newestIn_def)
  qed
  with keeps cv show ?thesis by blast
qed


text \<open>A repository with three versions of one chart.\<close>

definition sampleHelm :: "('e, nat) HelmClient" where
  "sampleHelm = \<lparr>hcAddOrUpdateChartRepo = (\<lambda>_ e. (Inr ''repo'', e)), hcSyncRepositories = (\<lambda>e. (None, e)),
     hcFetchVersions = (\<lambda>_ _ e. (([1, 3, 2], None), e)), hcTemplate = (\<lambda>_ e. (Inr '''', e))\<rparr>"

lemma sampleHelm_keeps:
  "snd (snd (getOrCreateVersions sampleHelm c s)) = snd s"
  "snd (snd (updateAvailableVersions sv sampleHelm c vs s)) = snd s"
  by (simp_all add: getOrCreateVersions_def updateAvailableVersions_def sampleHelm_def Let_def case_prod_beta split: option.split)

lemma sampleHelm_pull_keeps:
  fixes s :: "nat charts \<times> 'e"
  shows "snd (snd (AddAndGetLatest sv sampleHelm n r c s)) = snd s"
proof -
  have "snd (snd (RegisterChart sampleHelm n r t)) = snd t" for t :: "nat charts \<times> 'e"
    by (simp add: RegisterChart_def case_prod_beta sampleHelm_keeps split: sum.split)
  moreover have "snd (snd (pullVersion sv sampleHelm n r c t)) = snd t" for t :: "nat charts \<times> 'e"
    by (simp add: pullVersion_def Let_def case_prod_beta sampleHelm_keeps split: sum.split ChartVersion.split option.split)
  ultimately show ?thesis by (simp add: AddAndGetLatest_def case_prod_beta split: option.split)
qed

theorem AddAndGetLatest_newest_witness:
  "\<exists>key cv. fst (AddAndGetLatest sampleSemver sampleHelm ''nginx'' ''https://r'' (ChartRange (VersionRange 2)) ([], ())) = Inr key
     \<and> ckVersion key \<in> versionSet cv \<and> VersionRange_Contains sampleSemver (VersionRange 2) (ckVersion key)"
proof -
  let ?r = "AddAndGetLatest sampleSemver sampleHelm ''nginx'' ''https://r'' (ChartRange (VersionRange 2)) ([], ())"
  have "case fst ?r of Inr key \<Rightarrow> True | Inl _ \<Rightarrow> False" by code_simp
  then obtain key where key: "fst ?r = Inr key" by (cases "fst ?r") auto
  then have run: "?r = (Inr key, fst (snd ?r), snd (snd ?r))" by (metis prod.collapse)
  have "version_order sampleSemver" by (auto simp: version_order_def sampleSemver_def)
  moreover have "charts_ok sampleSemver []" by (simp add: charts_ok_def)
  ultimately show ?thesis using AddAndGetLatest_newest [OF _ _ run] key by auto
qed


end
