(* ===== verification/Helm.thy ===== *)
theory Helm
  imports Unstructured Charts "HOL-Library.Sublist"
begin

text \<open>
  \<open>internal/helm/client_impl.go\<close>: the client of chart repositories and of the Helm library, and the
  post-processing of a rendered manifest, which puts the labels and the namespace of the application
  on every object of it. Helm, the Kubernetes discovery, YAML and URLs are libraries: fields of
  \<open>HelmLib\<close> over the state \<open>'e\<close> of everything outside; the accessors that write an object are fields of
  \<open>ObjectApi\<close>. Texts are byte strings.
\<close>

section \<open>Text\<close>

text \<open>\<open>strings.Split\<close> for a separator that is not empty: cut at its occurrences from the left.\<close>

function splitAt :: "string \<Rightarrow> string \<Rightarrow> string \<Rightarrow> string list" where
  "splitAt sep cur [] = [rev cur]"
| "splitAt sep cur (c # s) =
     (if sep \<noteq> [] \<and> take (length sep) (c # s) = sep then rev cur # splitAt sep [] (drop (length sep) (c # s))
      else splitAt sep (c # cur) s)"
  by pat_completeness auto
termination
  by (relation "measure (\<lambda>(sep, cur, s). length s)") auto

definition Split :: "string \<Rightarrow> string \<Rightarrow> string list" where
  "Split s sep = splitAt sep [] s"

fun Join :: "string list \<Rightarrow> string \<Rightarrow> string" where
  "Join [] sep = ''''"
| "Join [s] sep = s"
| "Join (s # t # ss) sep = s @ sep @ Join (t # ss) sep"

definition trimBoth :: "(char \<Rightarrow> bool) \<Rightarrow> string \<Rightarrow> string" where
  "trimBoth P s = rev (dropWhile P (rev (dropWhile P s)))"

text \<open>\<open>strings.TrimSpace\<close> on ASCII white space.\<close>

definition isSpace :: "char \<Rightarrow> bool" where
  "isSpace c \<longleftrightarrow> c \<in> {CHR 0x09, CHR 0x0A, CHR 0x0B, CHR 0x0C, CHR 0x0D, CHR '' ''}"

definition TrimSpace :: "string \<Rightarrow> string" where
  "TrimSpace s = trimBoth isSpace s"

section \<open>Repositories\<close>

record RepoEntry =
  reName :: string
  reURL :: string
  rePassCredentialsAll :: bool

type_synonym GVK = "string \<times> string \<times> string"

text \<open>A resource type of the API as the discovery lists it.\<close>

record APIResource =
  arsName :: string
  arsKind :: string
  arsNamespaced :: bool

type_synonym APIGroup = "string \<times> (string \<times> APIResource list) list"

text \<open>The arguments with the values of the library's \<open>values.Options\<close>, \<open>'o\<close>.\<close>

record 'o FullTemplateArgs = TemplateArgs +
  taValuesOptions :: 'o
  taUpgradeCRDs :: bool

record 'o ChartSpec =
  cspReleaseName :: string
  cspChartName :: string
  cspVersion :: string
  cspNamespace :: string
  cspUpgradeCRDs :: bool
  cspWait :: bool
  cspTimeoutSeconds :: int
  cspLabels :: "string \<rightharpoonup> string"
  cspValuesYaml :: string
  cspValuesOptions :: 'o

text \<open>\<open>hlParseURL\<close> answers the host name and the path; \<open>hlLoadIndexFile\<close> the versions listed under each chart;
  \<open>hlRange\<close> is the order a map of labels is ranged in.\<close>

record ('e, 'o) HelmLib =
  hlParseURL :: "string \<Rightarrow> GoError + string \<times> string"
  hlAddOrUpdateChartRepo :: "RepoEntry \<Rightarrow> 'e \<Rightarrow> GoError option \<times> 'e"
  hlUpdateChartRepos :: "'e \<Rightarrow> GoError option \<times> 'e"
  hlNewChartRepository :: "RepoEntry \<Rightarrow> GoError option"
  hlDownloadIndexFile :: "RepoEntry \<Rightarrow> 'e \<Rightarrow> (GoError + string) \<times> 'e"
  hlReadFile :: "string \<Rightarrow> 'e \<Rightarrow> GoError + string"
  hlSleep :: "'e \<Rightarrow> 'e"
  hlLoadIndexFile :: "string \<Rightarrow> 'e \<Rightarrow> GoError + (string \<rightharpoonup> string list)"
  hlEmptyOptions :: 'o
  hlTemplateChart :: "'o ChartSpec \<Rightarrow> 'e \<Rightarrow> (GoError + string) \<times> 'e"
  hlNewDiscoveryClient :: "GoError option"
  hlGetAPIGroupResources :: "'e \<Rightarrow> (GoError + APIGroup list) \<times> 'e"
  hlUnmarshal :: "string \<Rightarrow> GoError + Fields"
  hlMarshal :: "Fields \<Rightarrow> GoError + string"
  hlRange :: "(string \<rightharpoonup> string) \<Rightarrow> (string \<times> string) list"

definition DeriveUniqueHelmRepoName :: "('e, 'o) HelmLib \<Rightarrow> string \<Rightarrow> GoError + string" where
  "DeriveUniqueHelmRepoName lib repoURL =
     (case hlParseURL lib repoURL of
        Inl err \<Rightarrow> Inl err
      | Inr (hostname, path) \<Rightarrow>
          (let domain = map (\<lambda>c. if c = CHR ''.'' then CHR ''-'' else c) hostname;
               parts = Split (trimBoth (\<lambda>c. c = CHR ''/'') path) ''/'';
               pathPart = last parts
           in Inr (domain @ ''-'' @ pathPart)))"

definition addOrUpdateChartRepo :: "('e, 'o) HelmLib \<Rightarrow> string \<Rightarrow> 'e \<Rightarrow> (GoError + RepoEntry) \<times> 'e" where
  "addOrUpdateChartRepo lib repoURL e =
     (case DeriveUniqueHelmRepoName lib repoURL of
        Inl err \<Rightarrow> (Inl (Wrapped ''Failed to derive unique helm repo name'' err), e)
      | Inr repoName \<Rightarrow>
          (let chartRepo = \<lparr>reName = repoName, reURL = repoURL, rePassCredentialsAll = False\<rparr>
           in case hlAddOrUpdateChartRepo lib chartRepo e of
                (Some err, e1) \<Rightarrow> (Inl (Wrapped ''Failed to add or update chart repo'' err), e1)
              | (None, e1) \<Rightarrow> (Inr chartRepo, e1)))"

definition AddOrUpdateChartRepo :: "('e, 'o) HelmLib \<Rightarrow> string \<Rightarrow> 'e \<Rightarrow> (GoError + string) \<times> 'e" where
  "AddOrUpdateChartRepo lib repoURL e =
     (case addOrUpdateChartRepo lib repoURL e of
        (Inl err, e1) \<Rightarrow> (Inl err, e1)
      | (Inr chartRepo, e1) \<Rightarrow> (Inr (reName chartRepo), e1))"

definition SyncRepositories :: "('e, 'o) HelmLib \<Rightarrow> 'e \<Rightarrow> GoError option \<times> 'e" where
  "SyncRepositories lib e = hlUpdateChartRepos lib e"

section \<open>Versions\<close>

text \<open>The message of a failed download quotes the URL with \<open>%q\<close>, which escapes nothing in a URL. The loop
  that waits for the index file ends when the file can be read and is not empty, or when
  the attempts are used up.\<close>

fun awaitFile :: "('e, 'o) HelmLib \<Rightarrow> string \<Rightarrow> nat \<Rightarrow> 'e \<Rightarrow> 'e" where
  "awaitFile lib indexFile 0 e = e"
| "awaitFile lib indexFile (Suc attempts) e =
     (case hlReadFile lib indexFile e of
        Inr data \<Rightarrow> if length data \<noteq> 0 then e else awaitFile lib indexFile attempts (hlSleep lib e)
      | Inl err \<Rightarrow> awaitFile lib indexFile attempts (hlSleep lib e))"

definition indexVersions :: "('v, 'c) Semver \<Rightarrow> string list \<Rightarrow> 'v list" where
  "indexVersions sv entries =
     concat (map (\<lambda>version. if version \<noteq> '''' then (case svNewVersion sv version of Inl err \<Rightarrow> [] | Inr v \<Rightarrow> [v]) else [])
       entries)"

definition FetchVersions ::
  "('v, 'c) Semver \<Rightarrow> ('e, 'o) HelmLib \<Rightarrow> string \<Rightarrow> string \<Rightarrow> 'e \<Rightarrow> (GoError + 'v list) \<times> 'e" where
  "FetchVersions sv lib repoURL chartName e =
     (if repoURL = '''' then (Inl (ErrorString ''repoURL cannot be empty''), e)
      else case addOrUpdateChartRepo lib repoURL e of
        (Inl err, e1) \<Rightarrow> (Inl err, e1)
      | (Inr entry, e1) \<Rightarrow>
          (case hlNewChartRepository lib entry of
             Some err \<Rightarrow> (Inl err, e1)
           | None \<Rightarrow>
               (case hlDownloadIndexFile lib entry e1 of
                  (Inl err, e2) \<Rightarrow>
                    (Inl (Wrapped (''looks like '' @ CHR 0x22 # repoURL @ CHR 0x22 #
                       '' is not a valid chart repository or cannot be reached'') err), e2)
                | (Inr indexFile, e2) \<Rightarrow>
                    (let e3 = awaitFile lib indexFile 10 e2
                     in case hlLoadIndexFile lib indexFile e3 of
                          Inl err \<Rightarrow> (Inl err, e3)
                        | Inr entries \<Rightarrow>
                            (case entries chartName of
                               None \<Rightarrow> (Inr [], e3)
                             | Some vs \<Rightarrow> (Inr (indexVersions sv vs), e3))))))"

section \<open>Post-processing of a manifest\<close>

text \<open>What the program reads and writes of an object beside \<open>UnstructuredApi\<close>. \<open>None\<close> is the nil map of
  labels; \<open>uSetNestedMap\<close> fails when a field on the way is no map.\<close>

record ObjectApi = UnstructuredApi +
  uGroupVersionKind :: "Fields \<Rightarrow> GVK"
  uGetAPIVersion :: "Fields \<Rightarrow> string"
  uGetLabels :: "Fields \<Rightarrow> (string \<times> string) list option"
  uSetLabels :: "(string \<times> string) list \<Rightarrow> Fields \<Rightarrow> Fields"
  uSetNamespace :: "string \<Rightarrow> Fields \<Rightarrow> Fields"
  uSetNestedMap :: "Fields \<Rightarrow> Fields \<Rightarrow> string list \<Rightarrow> GoError + Fields"

definition AddNamespace :: "ObjectApi \<Rightarrow> string \<Rightarrow> (GVK \<rightharpoonup> bool) \<Rightarrow> Fields \<Rightarrow> Fields" where
  "AddNamespace oa namespace isClusterScopeRegistry obj =
     (let gvk = uGroupVersionKind oa obj;
          updateNamespace =
            (case isClusterScopeRegistry gvk of
               Some isClusterScope \<Rightarrow> \<not> isClusterScope
             | None \<Rightarrow> uGetKind oa obj \<noteq> ''CustomResourceDefinition'')
      in if updateNamespace \<and> uGetNamespace oa obj = '''' then uSetNamespace oa namespace obj else obj)"

definition hasPodTemplate :: "string \<Rightarrow> bool" where
  "hasPodTemplate kind \<longleftrightarrow> kind \<in> {''Deployment'', ''StatefulSet'', ''DaemonSet'', ''Job''}"

text \<open>The loop over the new labels that writes them into \<open>meta["labels"]\<close>, whose type is asserted each time.\<close>

fun labelMeta :: "(string \<times> string) list \<Rightarrow> Fields \<Rightarrow> Fields go" where
  "labelMeta [] meta = Inr meta"
| "labelMeta ((k, v) # newLabels) meta =
     (case asMap (indexField meta ''labels'') of
        None \<Rightarrow> Inl InterfaceConversion
      | Some labels \<Rightarrow> labelMeta newLabels (AList.update ''labels'' (VMap (AList.update k (VString v) labels)) meta))"

text \<open>The labels of the pod template. An error of an accessor is logged.\<close>

definition labelTemplate :: "ObjectApi \<Rightarrow> (string \<times> string) list \<Rightarrow> Fields \<Rightarrow> Fields go" where
  "labelTemplate oa newLabels obj =
     (case uNestedMap oa obj [''spec'', ''template''] of
        Inr (Some template) \<Rightarrow>
          (let path = [''spec'', ''template'', ''metadata''];
               obj1 = (case uNestedMap oa obj path of
                         Inr (Some metadata) \<Rightarrow> obj
                       | _ \<Rightarrow> (case uSetNestedMap oa obj [] path of Inl err \<Rightarrow> obj | Inr obj' \<Rightarrow> obj'))
           in case uNestedMap oa obj1 path of
                Inr (Some meta) \<Rightarrow>
                  (let meta1 = (if indexField meta ''labels'' = VNil then AList.update ''labels'' (VMap []) meta else meta)
                   in case labelMeta newLabels meta1 of
                        Inl p \<Rightarrow> Inl p
                      | Inr meta2 \<Rightarrow>
                          Inr (case uSetNestedMap oa obj1 meta2 path of Inl err \<Rightarrow> obj1 | Inr obj2 \<Rightarrow> obj2))
              | _ \<Rightarrow> Inr obj1)
      | _ \<Rightarrow> Inr obj)"

definition AddLabels :: "ObjectApi \<Rightarrow> (string \<times> string) list \<Rightarrow> Fields \<Rightarrow> Fields go" where
  "AddLabels oa newLabels obj =
     (let labels = (case uGetLabels oa obj of None \<Rightarrow> [] | Some m \<Rightarrow> m);
          obj1 = uSetLabels oa (fold (\<lambda>(k, v). AList.update k v) newLabels labels) obj
      in if hasPodTemplate (uGetKind oa obj1) then labelTemplate oa newLabels obj1 else Inr obj1)"

fun applyAll :: "(Fields \<Rightarrow> Fields go) list \<Rightarrow> Fields \<Rightarrow> Fields go" where
  "applyAll [] obj = Inr obj"
| "applyAll (postprocessor # funcs) obj = go_bind (postprocessor obj) (applyAll funcs)"

text \<open>One document of a manifest: nothing when it is blank, itself when it is no object, and else the object
  after every function.\<close>

definition processDoc ::
  "('e, 'o) HelmLib \<Rightarrow> ObjectApi \<Rightarrow> (Fields \<Rightarrow> Fields go) list \<Rightarrow> string \<Rightarrow> (GoError + string list) go" where
  "processDoc lib oa funcs rawDoc =
     (let doc = TrimSpace rawDoc
      in if doc = '''' then Inr (Inr [])
         else case hlUnmarshal lib doc of
                Inl err \<Rightarrow> Inr (Inr [doc])
              | Inr obj \<Rightarrow>
                  if uGetAPIVersion oa obj = '''' \<and> uGetKind oa obj = '''' then Inr (Inr [doc])
                  else (case applyAll funcs obj of
                          Inl p \<Rightarrow> Inl p
                        | Inr obj' \<Rightarrow>
                            (case hlMarshal lib obj' of
                               Inl err \<Rightarrow> Inr (Inl err)
                             | Inr modifiedYAML \<Rightarrow> Inr (Inr [modifiedYAML]))))"

fun processDocs ::
  "('e, 'o) HelmLib \<Rightarrow> ObjectApi \<Rightarrow> (Fields \<Rightarrow> Fields go) list \<Rightarrow> string list \<Rightarrow> (GoError + string list) go" where
  "processDocs lib oa funcs [] = Inr (Inr [])"
| "processDocs lib oa funcs (doc # docs) =
     (case processDoc lib oa funcs doc of
        Inl p \<Rightarrow> Inl p
      | Inr (Inl err) \<Rightarrow> Inr (Inl err)
      | Inr (Inr out) \<Rightarrow>
          (case processDocs lib oa funcs docs of
             Inl p \<Rightarrow> Inl p
           | Inr (Inl err) \<Rightarrow> Inr (Inl err)
           | Inr (Inr outs) \<Rightarrow> Inr (Inr (out @ outs))))"

definition PostProcessManifests ::
  "('e, 'o) HelmLib \<Rightarrow> ObjectApi \<Rightarrow> (Fields \<Rightarrow> Fields go) list \<Rightarrow> string \<Rightarrow> (GoError + string) go" where
  "PostProcessManifests lib oa funcs manifest =
     (case processDocs lib oa funcs (Split manifest ''---'') of
        Inl p \<Rightarrow> Inl p
      | Inr (Inl err) \<Rightarrow> Inr (Inl err)
      | Inr (Inr output) \<Rightarrow> Inr (Inr (Join output (''---'' @ [CHR 0x0A]))))"

section \<open>Scopes\<close>

text \<open>The table of the scopes: true for a kind that belongs to the cluster. A name with a slash is a
  subresource.\<close>

definition addScope :: "string \<Rightarrow> string \<Rightarrow> APIResource \<Rightarrow> (GVK \<rightharpoonup> bool) \<Rightarrow> (GVK \<rightharpoonup> bool)" where
  "addScope groupName v r result =
     (if CHR ''/'' \<in> set (arsName r) then result
      else result((groupName, v, arsKind r) \<mapsto> \<not> arsNamespaced r))"

definition buildGVKClusterScopeMap :: "('e, 'o) HelmLib \<Rightarrow> 'e \<Rightarrow> (GoError + (GVK \<rightharpoonup> bool)) \<times> 'e" where
  "buildGVKClusterScopeMap lib e =
     (case hlNewDiscoveryClient lib of
        Some err \<Rightarrow> (Inl (Wrapped ''failed to create discovery client'' err), e)
      | None \<Rightarrow>
          (case hlGetAPIGroupResources lib e of
             (Inl err, e1) \<Rightarrow> (Inl (Wrapped ''failed to get API group resources'' err), e1)
           | (Inr gr, e1) \<Rightarrow>
               (Inr (fold (\<lambda>(groupName, versioned) result.
                       fold (\<lambda>(v, resources) result. fold (addScope groupName v) resources result)
                         versioned result) gr Map.empty), e1)))"

section \<open>Rendering\<close>

definition Template ::
  "('e, 'o) HelmLib \<Rightarrow> ObjectApi \<Rightarrow> 'o FullTemplateArgs \<Rightarrow> 'e \<Rightarrow> (GoError + string) go \<times> 'e" where
  "Template lib oa args e =
     (case AddOrUpdateChartRepo lib (taRepoUrl args) e of
        (Inl err, e1) \<Rightarrow> (Inr (Inl err), e1)
      | (Inr repoName, e1) \<Rightarrow>
          (let chartSpec =
                 \<lparr>cspReleaseName = taReleaseName args, cspChartName = repoName @ ''/'' @ taChartName args,
                  cspVersion = taVersion args, cspNamespace = taNamespace args, cspUpgradeCRDs = taUpgradeCRDs args,
                  cspWait = True, cspTimeoutSeconds = 32, cspLabels = taLabels args,
                  cspValuesYaml = (if taValuesYaml args \<noteq> '''' then taValuesYaml args else ''''),
                  cspValuesOptions = (if taValuesYaml args \<noteq> '''' then hlEmptyOptions lib else taValuesOptions args)\<rparr>
           in case hlTemplateChart lib chartSpec e1 of
                (Inl err, e2) \<Rightarrow> (Inr (Inl (Wrapped ''Failed to template chart'' err)), e2)
              | (Inr manifest, e2) \<Rightarrow>
                  (case buildGVKClusterScopeMap lib e2 of
                     (Inl err, e3) \<Rightarrow>
                       (Inr (Inl (Wrapped ''Unable to build resource map and discover cluster-wide resources'' err)), e3)
                   | (Inr isClusterScope, e3) \<Rightarrow>
                       (PostProcessManifests lib oa
                          [AddLabels oa (hlRange lib (taLabels args)), \<lambda>obj. Inr (AddNamespace oa (taNamespace args) isClusterScope obj)]
                          manifest, e3))))"

section \<open>Cutting and joining\<close>

lemma splitAt_nonempty [simp]: "splitAt sep cur s \<noteq> []"
  by (induction sep cur s rule: splitAt.induct) auto

lemma Join_Cons: "ss \<noteq> [] \<Longrightarrow> Join (s # ss) sep = s @ sep @ Join ss sep"
  by (cases ss) auto

lemma Join_splitAt: "Join (splitAt sep cur s) sep = rev cur @ s"
proof (induction sep cur s rule: splitAt.induct)
  case (2 sep cur c s)
  show ?case
  proof (cases "sep \<noteq> [] \<and> take (length sep) (c # s) = sep")
    case True
    have "sep @ drop (length sep) (c # s) = c # s" using True append_take_drop_id [of "length sep" "c # s"] by simp
    with 2(1) [OF True] show ?thesis using True by (simp add: Join_Cons)
  next
    case False
    from 2(2) [OF False] show ?thesis unfolding splitAt.simps(2) if_not_P [OF False] by simp
  qed
qed simp

lemma Join_Split: "Join (Split s sep) sep = s"
  by (simp add: Split_def Join_splitAt)

text \<open>A text in which the separator does not begin, not even with what follows it.\<close>

definition cutFree :: "string \<Rightarrow> bool" where
  "cutFree a \<longleftrightarrow> \<not> sublist ''---'' a \<and> (a = [] \<or> last a \<noteq> CHR ''-'')"

lemma cutFree_Cons: "cutFree (c # a) \<Longrightarrow> cutFree a"
  by (auto simp: cutFree_def sublist_Cons_right split: if_splits)

lemma cutFree_no_cut: "cutFree (c # a) \<Longrightarrow> \<not> (''---'' \<noteq> [] \<and> take (length ''---'') (c # a @ ''---'' @ b) = ''---'')"
proof
  assume free: "cutFree (c # a)" and "''---'' \<noteq> [] \<and> take (length ''---'') (c # a @ ''---'' @ b) = ''---''"
  then have cut: "take 3 (c # a @ ''---'' @ b) = ''---''" by (simp add: eval_nat_numeral)
  show False
  proof (cases "2 \<le> length a")
    case True
    then obtain x y r where a: "a = x # y # r" by (metis (no_types) One_nat_def Suc_1 Suc_le_length_iff)
    with cut have "c # a = ''---'' @ r" by simp
    then have "sublist ''---'' (c # a)" by (metis prefixI prefix_imp_sublist)
    with free show False by (simp add: cutFree_def)
  next
    case False
    with cut free show False by (cases a; cases "tl a") (auto simp: cutFree_def)
  qed
qed

lemma splitAt_cutFree: "cutFree a \<Longrightarrow> splitAt ''---'' cur (a @ ''---'' @ b) = rev (rev a @ cur) # splitAt ''---'' [] b"
proof (induction a arbitrary: cur)
  case (Cons c a)
  have "splitAt ''---'' cur ((c # a) @ ''---'' @ b) = splitAt ''---'' (c # cur) (a @ ''---'' @ b)"
    using if_not_P [OF cutFree_no_cut [OF Cons.prems, of b]] by (simp only: append_Cons [of c a] splitAt.simps(2))
  also have "\<dots> = rev (rev a @ c # cur) # splitAt ''---'' [] b"
    by (rule Cons.IH [OF cutFree_Cons [OF Cons.prems]])
  finally show ?case by simp
qed simp

lemma splitAt_whole: "\<not> sublist sep s \<Longrightarrow> splitAt sep cur s = [rev cur @ s]"
proof (induction s arbitrary: cur)
  case (Cons c s)
  have "\<not> prefix sep (c # s)" using Cons.prems by (meson prefix_imp_sublist)
  then have "take (length sep) (c # s) \<noteq> sep" by (metis take_is_prefix)
  moreover have "\<not> sublist sep s" using Cons.prems by (simp add: sublist_Cons_right)
  ultimately show ?case by (simp add: Cons.IH)
qed simp

lemma Split_cut:
  assumes "cutFree a" and "\<not> sublist ''---'' b"
  shows "Split (a @ ''---'' @ b) ''---'' = [a, b]"
  unfolding Split_def splitAt_cutFree [OF assms(1)] splitAt_whole [OF assms(2)] by simp

text \<open>A manifest is cut at every three hyphens, inside a text too: an object whose text holds them, and whose
  two halves are no YAML of their own, comes out cut in two with a line break put in, and none of the
  functions, so neither the labels nor the namespace, is applied to it.\<close>

lemma PostProcessManifests_cuts_text:
  assumes "cutFree a" and "\<not> sublist ''---'' b" and "TrimSpace a \<noteq> ''''" and "TrimSpace b \<noteq> ''''"
    and "hlUnmarshal lib (TrimSpace a) = Inl err" and "hlUnmarshal lib (TrimSpace b) = Inl err'"
  shows "PostProcessManifests lib oa funcs (a @ ''---'' @ b)
    = Inr (Inr (TrimSpace a @ ''---'' @ CHR 0x0A # TrimSpace b))"
  unfolding PostProcessManifests_def Split_cut [OF assms(1,2)]
  using assms(3-6) by (simp add: processDoc_def Let_def)

section \<open>Repositories\<close>

lemma splitAt_slash: "\<exists>parts. splitAt ''/'' cur (d @ ''/'' @ s) = parts @ splitAt ''/'' [] s"
proof (induction d arbitrary: cur)
  case (Cons c d)
  obtain p q where "splitAt ''/'' [] (d @ ''/'' @ s) = p @ splitAt ''/'' [] s"
    "splitAt ''/'' (c # cur) (d @ ''/'' @ s) = q @ splitAt ''/'' [] s" using Cons.IH by metis
  then have "splitAt ''/'' cur ((c # d) @ ''/'' @ s) = (if c = CHR ''/'' then rev cur # p else q) @ splitAt ''/'' [] s"
    by simp
  then show ?case by blast
qed (auto intro: exI [of _ "[rev _]"])

lemma last_part: "CHR ''/'' \<notin> set s \<Longrightarrow> last (Split (d @ ''/'' @ s) ''/'') = s"
proof -
  assume "CHR ''/'' \<notin> set s"
  then have "\<not> sublist ''/'' s" by (auto simp: sublist_def)
  then show ?thesis
    using splitAt_slash [of "[]" d s] splitAt_whole [of "''/''" s "[]"] by (auto simp: Split_def simp del: splitAt.simps)
qed

text \<open>The name derived for a repository is not unique: it keeps the host, with its dots as hyphens, and
  the last part of the path, so two repositories of a host whose paths end alike share a name.\<close>

lemma DeriveUniqueHelmRepoName_collides:
  assumes "hlParseURL lib a = Inr (host, ''/'' @ d @ ''/'' @ name)" and "hlParseURL lib b = Inr (host, ''/'' @ d' @ ''/'' @ name)"
    and "CHR ''/'' \<notin> set name" and "name \<noteq> ''''"
    and "d \<noteq> ''''" and "hd d \<noteq> CHR ''/''" and "d' \<noteq> ''''" and "hd d' \<noteq> CHR ''/''"
  shows "DeriveUniqueHelmRepoName lib a = DeriveUniqueHelmRepoName lib b
    \<and> DeriveUniqueHelmRepoName lib a = Inr (map (\<lambda>c. if c = CHR ''.'' then CHR ''-'' else c) host @ ''-'' @ name)"
proof -
  have trim: "trimBoth (\<lambda>c. c = CHR ''/'') (''/'' @ x @ ''/'' @ name) = x @ ''/'' @ name"
    if x: "x \<noteq> ''''" "hd x \<noteq> CHR ''/''" for x
  proof -
    obtain n t where n: "name = t @ [n]" using assms(4) by (cases name rule: rev_cases) auto
    with assms(3) have "n \<noteq> CHR ''/''" by auto
    with n x show ?thesis by (cases x) (simp_all add: trimBoth_def)
  qed
  have "DeriveUniqueHelmRepoName lib u = Inr (map (\<lambda>c. if c = CHR ''.'' then CHR ''-'' else c) host @ ''-'' @ name)"
    if "hlParseURL lib u = Inr (host, ''/'' @ x @ ''/'' @ name)" "x \<noteq> ''''" "hd x \<noteq> CHR ''/''" for u x
    unfolding DeriveUniqueHelmRepoName_def that(1) sum.case prod.case Let_def trim [OF that(2,3)] last_part [OF assms(3)] by simp
  from this [OF assms(1,5,6)] this [OF assms(2,7,8)] show ?thesis by simp
qed

section \<open>What the post-processing puts on an object\<close>

text \<open>The library on an object whose metadata is a map: the accessors of labels and namespace read what
  was set and leave each other, the kind and the specification alone; setting the metadata of a pod
  template that is there succeeds and reads back.\<close>

definition hasMetadata :: "Fields \<Rightarrow> bool" where
  "hasMetadata obj \<longleftrightarrow> (case map_of obj ''metadata'' of None \<Rightarrow> True | Some v \<Rightarrow> asMap v \<noteq> None)"

abbreviation (input) templatePath :: "string list" where "templatePath \<equiv> [''spec'', ''template'']"
abbreviation (input) templateMeta :: "string list" where "templateMeta \<equiv> [''spec'', ''template'', ''metadata'']"

definition sameIdentity :: "ObjectApi \<Rightarrow> Fields \<Rightarrow> Fields \<Rightarrow> bool" where
  "sameIdentity oa obj obj' \<longleftrightarrow> hasMetadata obj' \<and> uGetKind oa obj' = uGetKind oa obj
     \<and> uGroupVersionKind oa obj' = uGroupVersionKind oa obj"

definition object_laws :: "ObjectApi \<Rightarrow> bool" where
  "object_laws oa \<longleftrightarrow> (\<forall>obj. hasMetadata obj \<longrightarrow>
     (\<forall>m. m \<noteq> [] \<longrightarrow> sameIdentity oa obj (uSetLabels oa m obj)
        \<and> (\<exists>m'. uGetLabels oa (uSetLabels oa m obj) = Some m' \<and> map_of m' = map_of m)
        \<and> uGetNamespace oa (uSetLabels oa m obj) = uGetNamespace oa obj
        \<and> (\<forall>path. uNestedMap oa (uSetLabels oa m obj) (''spec'' # path) = uNestedMap oa obj (''spec'' # path)))
     \<and> (\<forall>n. sameIdentity oa obj (uSetNamespace oa n obj)
        \<and> uGetNamespace oa (uSetNamespace oa n obj) = n
        \<and> uGetLabels oa (uSetNamespace oa n obj) = uGetLabels oa obj
        \<and> (\<forall>path. uNestedMap oa (uSetNamespace oa n obj) (''spec'' # path) = uNestedMap oa obj (''spec'' # path)))
     \<and> (\<forall>t m. uNestedMap oa obj templatePath = Inr (Some t) \<longrightarrow>
          (\<exists>obj'. uSetNestedMap oa obj m templateMeta = Inr obj' \<and> sameIdentity oa obj obj'
             \<and> uNestedMap oa obj' templateMeta = Inr (Some m) \<and> (\<exists>t'. uNestedMap oa obj' templatePath = Inr (Some t'))
             \<and> uGetLabels oa obj' = uGetLabels oa obj \<and> uGetNamespace oa obj' = uGetNamespace oa obj)))"

definition labelsOf :: "ObjectApi \<Rightarrow> Fields \<Rightarrow> (string \<rightharpoonup> string)" where
  "labelsOf oa obj = (case uGetLabels oa obj of None \<Rightarrow> Map.empty | Some m \<Rightarrow> map_of m)"

text \<open>The labels written in the metadata of a pod template.\<close>

definition templateLabels :: "ObjectApi \<Rightarrow> Fields \<Rightarrow> Fields option" where
  "templateLabels oa obj =
     (case uNestedMap oa obj templateMeta of
        Inr (Some meta) \<Rightarrow> asMap (indexField meta ''labels'')
      | _ \<Rightarrow> None)"

definition carries :: "ObjectApi \<Rightarrow> (string \<times> string) list \<Rightarrow> Fields \<Rightarrow> bool" where
  "carries oa newLabels obj \<longleftrightarrow> (\<forall>(k, v)\<in>set newLabels. labelsOf oa obj k = Some v)
     \<and> (hasPodTemplate (uGetKind oa obj) \<and> (\<exists>t. uNestedMap oa obj templatePath = Inr (Some t)) \<longrightarrow>
          (\<exists>ls. templateLabels oa obj = Some ls \<and> (\<forall>(k, v)\<in>set newLabels. map_of ls k = Some (VString v))))"

lemma fold_labels:
  "distinct (map fst kvs) \<Longrightarrow> map_of (fold (\<lambda>(k, v). AList.update k v) kvs m) = map_of m ++ map_of kvs"
proof (induction kvs arbitrary: m)
  case (Cons kv kvs)
  obtain k v where kv: "kv = (k, v)" by (cases kv)
  from Cons.prems have "map_of kvs k = None" by (simp add: kv map_of_eq_None_iff)
  then have "(map_of m)(k \<mapsto> v) ++ map_of kvs = map_of m ++ (map_of kvs)(k \<mapsto> v)"
    by (auto simp: map_add_def split: option.splits)
  with Cons show ?case by (simp add: kv update_conv' del: fun_upd_apply)
qed simp

lemma fold_labels_nonempty: "kvs \<noteq> [] \<Longrightarrow> fold (\<lambda>(k, v). AList.update k v) kvs m \<noteq> []"
  by (cases kvs rule: rev_cases) (auto split: prod.split)

lemma labelMeta_labels:
  assumes "distinct (map fst kvs)" and "asMap (indexField meta ''labels'') = Some ls"
  shows "\<exists>meta' ls'. labelMeta kvs meta = Inr meta' \<and> asMap (indexField meta' ''labels'') = Some ls'
    \<and> (\<forall>k. map_of ls' k = (case map_of kvs k of None \<Rightarrow> map_of ls k | Some v \<Rightarrow> Some (VString v)))"
  using assms
proof (induction kvs arbitrary: meta ls)
  case (Cons kv kvs)
  obtain k v where kv: "kv = (k, v)" by (cases kv)
  let ?ls = "AList.update k (VString v) ls" and ?meta = "AList.update ''labels'' (VMap (AList.update k (VString v) ls)) meta"
  have "asMap (indexField ?meta ''labels'') = Some ?ls" by (simp add: indexField_def update_conv)
  from Cons.IH [OF _ this] Cons.prems(1) obtain meta' ls' where "labelMeta kvs ?meta = Inr meta'"
    "asMap (indexField meta' ''labels'') = Some ls'"
    "\<forall>x. map_of ls' x = (case map_of kvs x of None \<Rightarrow> map_of ?ls x | Some v \<Rightarrow> Some (VString v))" by (auto simp: kv)
  moreover have "map_of kvs k = None" using Cons.prems(1) by (simp add: kv map_of_eq_None_iff)
  ultimately show ?case using Cons.prems(2) by (auto simp: kv update_conv split: option.splits)
qed auto

lemma labelMeta_panics:
  "kvs \<noteq> [] \<Longrightarrow> asMap (indexField meta ''labels'') = None \<Longrightarrow> labelMeta kvs meta = Inl InterfaceConversion"
  by (cases kvs rule: list.exhaust) auto

text \<open>What a step of the post-processing keeps of an object.\<close>

definition keeps :: "ObjectApi \<Rightarrow> Fields \<Rightarrow> Fields \<Rightarrow> bool" where
  "keeps oa obj obj' \<longleftrightarrow> sameIdentity oa obj obj' \<and> uGetLabels oa obj' = uGetLabels oa obj
     \<and> uGetNamespace oa obj' = uGetNamespace oa obj
     \<and> ((\<exists>t. uNestedMap oa obj' templatePath = Inr (Some t)) \<longleftrightarrow> (\<exists>t. uNestedMap oa obj templatePath = Inr (Some t)))"

lemma keeps_refl: "hasMetadata obj \<Longrightarrow> keeps oa obj obj"
  by (simp add: keeps_def sameIdentity_def)

lemma keeps_trans: "keeps oa a b \<Longrightarrow> keeps oa b c \<Longrightarrow> keeps oa a c"
  by (auto simp: keeps_def sameIdentity_def)

lemma set_template_meta:
  assumes "object_laws oa" and "hasMetadata obj" and "uNestedMap oa obj templatePath = Inr (Some t)"
  shows "\<exists>obj'. uSetNestedMap oa obj m templateMeta = Inr obj' \<and> keeps oa obj obj' \<and> uNestedMap oa obj' templateMeta = Inr (Some m)"
  using assms unfolding object_laws_def keeps_def by blast

text \<open>The metadata of the template, made when there is none.\<close>

definition withMeta :: "ObjectApi \<Rightarrow> Fields \<Rightarrow> Fields" where
  "withMeta oa obj =
     (case uNestedMap oa obj templateMeta of
        Inr (Some metadata) \<Rightarrow> obj
      | _ \<Rightarrow> (case uSetNestedMap oa obj [] templateMeta of Inl err \<Rightarrow> obj | Inr obj' \<Rightarrow> obj'))"

lemma withMeta_found:
  assumes "object_laws oa" and "hasMetadata obj" and "uNestedMap oa obj templatePath = Inr (Some t)"
  shows "\<exists>meta. uNestedMap oa (withMeta oa obj) templateMeta = Inr (Some meta) \<and> keeps oa obj (withMeta oa obj)
    \<and> (uNestedMap oa obj templateMeta = Inr (Some meta) \<or> meta = [])"
  using set_template_meta [OF assms, of "[]"] keeps_refl [OF assms(2)]
  by (auto simp: withMeta_def split: sum.splits option.splits)

lemma labelTemplate_result:
  assumes laws: "object_laws oa" "hasMetadata obj" and kvs: "distinct (map fst kvs)" "kvs \<noteq> []"
  shows "case labelTemplate oa kvs obj of
      Inl p \<Rightarrow> p = InterfaceConversion \<and> (\<exists>meta. uNestedMap oa obj templateMeta = Inr (Some meta)
                \<and> indexField meta ''labels'' \<noteq> VNil \<and> asMap (indexField meta ''labels'') = None)
    | Inr obj' \<Rightarrow> keeps oa obj obj'
        \<and> ((\<exists>t. uNestedMap oa obj templatePath = Inr (Some t)) \<longrightarrow>
             (\<exists>ls. templateLabels oa obj' = Some ls \<and> (\<forall>(k, v)\<in>set kvs. map_of ls k = Some (VString v))))"
proof (cases "\<exists>t. uNestedMap oa obj templatePath = Inr (Some t)")
  case False
  then have "labelTemplate oa kvs obj = Inr obj" by (auto simp: labelTemplate_def split: sum.splits option.splits)
  with False keeps_refl [OF laws(2)] show ?thesis by simp
next
  case True
  then obtain t where t: "uNestedMap oa obj templatePath = Inr (Some t)" by blast
  from withMeta_found [OF laws t] obtain meta where meta: "uNestedMap oa (withMeta oa obj) templateMeta = Inr (Some meta)"
    "keeps oa obj (withMeta oa obj)" "uNestedMap oa obj templateMeta = Inr (Some meta) \<or> meta = []" by blast
  define meta1 where "meta1 = (if indexField meta ''labels'' = VNil then AList.update ''labels'' (VMap []) meta else meta)"
  have run: "labelTemplate oa kvs obj =
      (case labelMeta kvs meta1 of
         Inl p \<Rightarrow> Inl p
       | Inr meta2 \<Rightarrow> Inr (case uSetNestedMap oa (withMeta oa obj) meta2 templateMeta of Inl err \<Rightarrow> withMeta oa obj | Inr obj2 \<Rightarrow> obj2))"
    unfolding labelTemplate_def t sum.case option.case Let_def withMeta_def [symmetric] meta(1) meta1_def ..
  show ?thesis
  proof (cases "asMap (indexField meta1 ''labels'')")
    case None
    then have "indexField meta ''labels'' \<noteq> VNil" "meta1 = meta" "meta \<noteq> []"
      by (auto simp: meta1_def indexField_def update_conv split: if_splits)
    with run None meta(3) labelMeta_panics [OF kvs(2) None] show ?thesis by auto
  next
    case (Some ls)
    from labelMeta_labels [OF kvs(1) Some] obtain meta2 ls2 where m2: "labelMeta kvs meta1 = Inr meta2"
      "asMap (indexField meta2 ''labels'') = Some ls2"
      "\<forall>k. map_of ls2 k = (case map_of kvs k of None \<Rightarrow> map_of ls k | Some v \<Rightarrow> Some (VString v))" by blast
    from meta(2) t obtain t' where "hasMetadata (withMeta oa obj)" "uNestedMap oa (withMeta oa obj) templatePath = Inr (Some t')"
      unfolding keeps_def sameIdentity_def by blast
    from set_template_meta [OF laws(1) this, of meta2] obtain obj2 where "uSetNestedMap oa (withMeta oa obj) meta2 templateMeta = Inr obj2"
      "keeps oa (withMeta oa obj) obj2" "uNestedMap oa obj2 templateMeta = Inr (Some meta2)" by blast
    moreover from this(2) meta(2) have "keeps oa obj obj2" by (metis keeps_trans)
    moreover have "\<forall>(k, v)\<in>set kvs. map_of ls2 k = Some (VString v)"
      using m2(3) kvs(1) by (auto split: option.splits simp: map_of_eq_None_iff)
    ultimately show ?thesis using run m2(1,2) by (simp add: templateLabels_def)
  qed
qed

text \<open>Labelling an object puts every new label on it, over an old one of the same key, and keeps the
  others; the pod template of a workload that has one gets them too, with metadata made for it when
  there is none; the namespace and the kind stay. It panics only when the labels of the pod template
  are there and no map.\<close>

lemma AddLabels_contract:
  assumes "object_laws oa" and "hasMetadata obj" and "distinct (map fst newLabels)" and "newLabels \<noteq> []"
  shows "case AddLabels oa newLabels obj of
      Inl p \<Rightarrow> p = InterfaceConversion \<and> hasPodTemplate (uGetKind oa obj)
        \<and> (\<exists>meta. uNestedMap oa obj templateMeta = Inr (Some meta)
             \<and> indexField meta ''labels'' \<noteq> VNil \<and> asMap (indexField meta ''labels'') = None)
    | Inr obj' \<Rightarrow> sameIdentity oa obj obj' \<and> uGetNamespace oa obj' = uGetNamespace oa obj
        \<and> labelsOf oa obj' = labelsOf oa obj ++ map_of newLabels \<and> carries oa newLabels obj'"
proof -
  define m where "m = labelsOf oa obj ++ map_of newLabels"
  define ls where "ls = fold (\<lambda>(k, v). AList.update k v) newLabels (case uGetLabels oa obj of None \<Rightarrow> [] | Some m \<Rightarrow> m)"
  have ls: "ls \<noteq> []" "map_of ls = m"
    using fold_labels_nonempty [OF assms(4)] by (auto simp: ls_def m_def labelsOf_def fold_labels [OF assms(3)] split: option.split)
  let ?obj1 = "uSetLabels oa ls obj"
  from assms(1,2) ls(1) have set: "sameIdentity oa obj ?obj1"
    "\<exists>m'. uGetLabels oa ?obj1 = Some m' \<and> map_of m' = map_of ls"
    "uGetNamespace oa ?obj1 = uGetNamespace oa obj"
    "\<And>path. uNestedMap oa ?obj1 (''spec'' # path) = uNestedMap oa obj (''spec'' # path)"
    unfolding object_laws_def by blast+
  have run: "AddLabels oa newLabels obj = (if hasPodTemplate (uGetKind oa ?obj1) then labelTemplate oa newLabels ?obj1 else Inr ?obj1)"
    by (simp add: AddLabels_def Let_def ls_def)
  have labels: "\<forall>(k, v)\<in>set newLabels. m k = Some v"
    using assms(3) by (auto simp: m_def map_add_def map_of_eq_Some_iff split: option.splits)
  have meta1: "hasMetadata ?obj1" and kind: "uGetKind oa ?obj1 = uGetKind oa obj" using set(1) by (auto simp: sameIdentity_def)
  have l1: "labelsOf oa ?obj1 = m" using set(2) ls(2) by (auto simp: labelsOf_def)
  have "case AddLabels oa newLabels obj of
      Inl p \<Rightarrow> p = InterfaceConversion \<and> hasPodTemplate (uGetKind oa obj)
        \<and> (\<exists>meta. uNestedMap oa obj templateMeta = Inr (Some meta)
             \<and> indexField meta ''labels'' \<noteq> VNil \<and> asMap (indexField meta ''labels'') = None)
      | Inr obj' \<Rightarrow> sameIdentity oa obj obj' \<and> uGetNamespace oa obj' = uGetNamespace oa obj
        \<and> labelsOf oa obj' = m \<and> carries oa newLabels obj'"
  proof (cases "hasPodTemplate (uGetKind oa obj)")
    case False
    with run set labels l1 show ?thesis by (simp add: kind carries_def)
  next
    case True
    with run have "AddLabels oa newLabels obj = labelTemplate oa newLabels ?obj1" by (simp add: kind)
    with labelTemplate_result [OF assms(1) meta1 assms(3,4)] True set labels l1 show ?thesis
      by (auto simp: kind carries_def keeps_def sameIdentity_def labelsOf_def split: sum.splits)
  qed
  then show ?thesis by (simp only: m_def)
qed

text \<open>Where the namespace belongs: not on a kind of the cluster, nor, when the kind is unknown, on a
  CustomResourceDefinition.\<close>

definition namespacedKind :: "ObjectApi \<Rightarrow> (GVK \<rightharpoonup> bool) \<Rightarrow> Fields \<Rightarrow> bool" where
  "namespacedKind oa scopes obj \<longleftrightarrow>
     scopes (uGroupVersionKind oa obj) = Some False
     \<or> (scopes (uGroupVersionKind oa obj) = None \<and> uGetKind oa obj \<noteq> ''CustomResourceDefinition'')"

lemma AddNamespace_result:
  assumes "object_laws oa" and "hasMetadata obj"
  shows "sameIdentity oa obj (AddNamespace oa ns scopes obj)
    \<and> uGetNamespace oa (AddNamespace oa ns scopes obj) =
        (if namespacedKind oa scopes obj \<and> uGetNamespace oa obj = '''' then ns else uGetNamespace oa obj)
    \<and> (carries oa kvs obj \<longrightarrow> carries oa kvs (AddNamespace oa ns scopes obj))"
proof -
  have run: "AddNamespace oa ns scopes obj =
      (if namespacedKind oa scopes obj \<and> uGetNamespace oa obj = '''' then uSetNamespace oa ns obj else obj)"
    by (auto simp: AddNamespace_def namespacedKind_def Let_def split: option.splits)
  from assms have set: "sameIdentity oa obj (uSetNamespace oa ns obj)" "uGetNamespace oa (uSetNamespace oa ns obj) = ns"
    "uGetLabels oa (uSetNamespace oa ns obj) = uGetLabels oa obj"
    "\<And>path. uNestedMap oa (uSetNamespace oa ns obj) (''spec'' # path) = uNestedMap oa obj (''spec'' # path)"
    unfolding object_laws_def by blast+
  then have "carries oa kvs (uSetNamespace oa ns obj) = carries oa kvs obj"
    by (simp add: carries_def labelsOf_def templateLabels_def sameIdentity_def)
  with set assms(2) show ?thesis by (simp add: run sameIdentity_def)
qed

text \<open>The objects of a manifest, and what becomes of them.\<close>

definition documents :: "string \<Rightarrow> string list" where
  "documents manifest = filter (\<lambda>doc. doc \<noteq> '''') (map TrimSpace (Split manifest ''---''))"

definition objectOf :: "('e, 'o) HelmLib \<Rightarrow> ObjectApi \<Rightarrow> string \<Rightarrow> Fields option" where
  "objectOf lib oa doc =
     (case hlUnmarshal lib doc of
        Inl err \<Rightarrow> None
      | Inr obj \<Rightarrow> if uGetAPIVersion oa obj = '''' \<and> uGetKind oa obj = '''' then None else Some obj)"

definition processed :: "('e, 'o) HelmLib \<Rightarrow> ObjectApi \<Rightarrow> (Fields \<Rightarrow> Fields go) list \<Rightarrow> string \<Rightarrow> string \<Rightarrow> bool" where
  "processed lib oa funcs doc out \<longleftrightarrow>
     (case objectOf lib oa doc of
        None \<Rightarrow> out = doc
      | Some obj \<Rightarrow> (\<exists>obj'. applyAll funcs obj = Inr obj' \<and> hlMarshal lib obj' = Inr out))"

lemma processDocs_processed:
  "processDocs lib oa funcs docs = Inr (Inr outs) \<Longrightarrow>
     list_all2 (processed lib oa funcs) (filter (\<lambda>doc. doc \<noteq> '''') (map TrimSpace docs)) outs"
proof (induction docs arbitrary: outs)
  case (Cons d docs)
  then obtain out more where parts: "processDoc lib oa funcs d = Inr (Inr out)" "processDocs lib oa funcs docs = Inr (Inr more)"
    "outs = out @ more" by (auto split: sum.splits)
  have "(TrimSpace d = '''' \<and> out = []) \<or> (TrimSpace d \<noteq> '''' \<and> (\<exists>o1. out = [o1] \<and> processed lib oa funcs (TrimSpace d) o1))"
    using parts(1) by (auto simp: processDoc_def processed_def objectOf_def Let_def split: if_splits sum.splits)
  with Cons.IH [OF parts(2)] parts(3) show ?case by auto
qed simp

text \<open>The documents of a processed manifest are those of the manifest in their order, the blank ones left
  out: one that is no object is kept as it is, and every object with its metadata a map is written out
  with all labels on it and on its pod template, and in the namespace of the application when it
  belongs in one and names none itself; a namespace it names stays.\<close>

lemma PostProcessManifests_labelled:
  assumes laws: "object_laws oa" and kvs: "distinct (map fst newLabels)" "newLabels \<noteq> []"
    and run: "PostProcessManifests lib oa [AddLabels oa newLabels, \<lambda>obj. Inr (AddNamespace oa ns scopes obj)] manifest = Inr (Inr text)"
  shows "\<exists>outs. text = Join outs (''---'' @ [CHR 0x0A]) \<and> list_all2 (\<lambda>doc out.
      case objectOf lib oa doc of
        None \<Rightarrow> out = doc
      | Some obj \<Rightarrow> (\<exists>obj'. hlMarshal lib obj' = Inr out
          \<and> (hasMetadata obj \<longrightarrow> sameIdentity oa obj obj' \<and> carries oa newLabels obj'
               \<and> uGetNamespace oa obj' = (if namespacedKind oa scopes obj \<and> uGetNamespace oa obj = '''' then ns
                                         else uGetNamespace oa obj)))) (documents manifest) outs"
proof -
  let ?fs = "[AddLabels oa newLabels, \<lambda>obj. Inr (AddNamespace oa ns scopes obj)]"
  from run obtain outs where outs: "processDocs lib oa ?fs (Split manifest ''---'') = Inr (Inr outs)"
    "text = Join outs (''---'' @ [CHR 0x0A])" by (auto simp: PostProcessManifests_def split: sum.splits)
  have one: "sameIdentity oa obj obj' \<and> carries oa newLabels obj'
      \<and> uGetNamespace oa obj' = (if namespacedKind oa scopes obj \<and> uGetNamespace oa obj = '''' then ns else uGetNamespace oa obj)"
    if "hasMetadata obj" "applyAll ?fs obj = Inr obj'" for obj obj'
  proof -
    from that(2) obtain obj1 where obj1: "AddLabels oa newLabels obj = Inr obj1" "obj' = AddNamespace oa ns scopes obj1"
      by (auto simp: go_bind_eq_Inr)
    from AddLabels_contract [OF laws that(1) kvs] obj1(1) have a: "sameIdentity oa obj obj1"
      "uGetNamespace oa obj1 = uGetNamespace oa obj" "carries oa newLabels obj1" by simp_all
    then have "hasMetadata obj1" "namespacedKind oa scopes obj1 = namespacedKind oa scopes obj"
      by (auto simp: sameIdentity_def namespacedKind_def)
    with AddNamespace_result [OF laws, of obj1 ns scopes newLabels] a obj1(2) show ?thesis by (auto simp: sameIdentity_def)
  qed
  have each: "case objectOf lib oa doc of
        None \<Rightarrow> out = doc
      | Some obj \<Rightarrow> (\<exists>obj'. hlMarshal lib obj' = Inr out
          \<and> (hasMetadata obj \<longrightarrow> sameIdentity oa obj obj' \<and> carries oa newLabels obj'
               \<and> uGetNamespace oa obj' = (if namespacedKind oa scopes obj \<and> uGetNamespace oa obj = '''' then ns
                                         else uGetNamespace oa obj)))"
    if "processed lib oa ?fs doc out" for doc out
  proof (cases "objectOf lib oa doc")
    case (Some obj)
    with that obtain obj' where "applyAll ?fs obj = Inr obj'" "hlMarshal lib obj' = Inr out" by (auto simp: processed_def)
    moreover note one [OF _ this(1)]
    ultimately show ?thesis unfolding Some option.case by blast
  qed (use that in \<open>simp add: processed_def\<close>)
  from processDocs_processed [OF outs(1)] have "list_all2 (processed lib oa ?fs) (documents manifest) outs"
    by (simp add: documents_def)
  then show ?thesis using outs(2) each by (blast intro: list_all2_mono)
qed

text \<open>The versions of a chart are those of its entries in the index that are semantic versions, in their
  order; a chart the index does not list has none; and a repository without a URL is an error before
  anything is asked of the network.\<close>

lemma FetchVersions_contract:
  "FetchVersions sv lib '''' chart e = (Inl (ErrorString ''repoURL cannot be empty''), e)
   \<and> (\<forall>vs e'. FetchVersions sv lib url chart e = (Inr vs, e') \<longrightarrow>
        (\<exists>indexFile entries. hlLoadIndexFile lib indexFile e' = Inr entries
           \<and> vs = List.map_filter (\<lambda>t. if t = '''' then None
                                       else case svNewVersion sv t of Inl err \<Rightarrow> None | Inr v \<Rightarrow> Some v)
                    (case entries chart of None \<Rightarrow> [] | Some ts \<Rightarrow> ts)))"
proof -
  let ?f = "\<lambda>t. if t = '''' then None else case svNewVersion sv t of Inl err \<Rightarrow> None | Inr v \<Rightarrow> Some v"
  have index: "indexVersions sv ts = List.map_filter ?f ts" for ts
    by (induction ts) (auto simp: indexVersions_def map_filter_simps split: sum.splits)
  have "\<exists>indexFile entries. hlLoadIndexFile lib indexFile e' = Inr entries
      \<and> vs = List.map_filter ?f (case entries chart of None \<Rightarrow> [] | Some ts \<Rightarrow> ts)"
    if run: "FetchVersions sv lib url chart e = (Inr vs, e')" for vs e'
  proof -
    from run obtain indexFile entries where "hlLoadIndexFile lib indexFile e' = Inr entries"
      "vs = (case entries chart of None \<Rightarrow> [] | Some ts \<Rightarrow> indexVersions sv ts)"
      by (auto simp: FetchVersions_def Let_def split: if_splits prod.splits sum.splits option.splits)
    then show ?thesis by (intro exI [of _ indexFile] exI [of _ entries]) (simp add: index map_filter_simps split: option.split)
  qed
  then show ?thesis by (simp add: FetchVersions_def)
qed

section \<open>Examples\<close>

text \<open>The writing accessors as their documentation has them.\<close>

fun setPath :: "string list \<Rightarrow> Value \<Rightarrow> Fields \<Rightarrow> GoError + Fields" where
  "setPath [] v m = Inl (ErrorString ''no path'')"
| "setPath [k] v m = Inr (AList.update k v m)"
| "setPath (k # l # ks) v m =
     (case map_of m k of
        None \<Rightarrow> (case setPath (l # ks) v [] of Inl err \<Rightarrow> Inl err | Inr m' \<Rightarrow> Inr (AList.update k (VMap m') m))
      | Some inner \<Rightarrow>
          (case asMap inner of
             None \<Rightarrow> Inl (ErrorString ''not a map'')
           | Some m0 \<Rightarrow> (case setPath (l # ks) v m0 of Inl err \<Rightarrow> Inl err | Inr m' \<Rightarrow> Inr (AList.update k (VMap m') m))))"

definition orSame :: "Fields \<Rightarrow> GoError + Fields \<Rightarrow> Fields" where
  "orSame obj r = (case r of Inl err \<Rightarrow> obj | Inr obj' \<Rightarrow> obj')"

definition textsOf :: "Fields \<Rightarrow> (string \<times> string) list" where
  "textsOf m = List.map_filter (\<lambda>(k, v). map_option (Pair k) (asString v)) m"

definition sampleObjects :: ObjectApi where
  "sampleObjects = UnstructuredApi.extend sampleUnstructured
     \<lparr>uGroupVersionKind = (\<lambda>obj. ('''', textAt [''apiVersion''] obj, textAt [''kind''] obj)),
      uGetAPIVersion = textAt [''apiVersion''],
      uGetLabels = (\<lambda>obj. case accessor asMap obj [''metadata'', ''labels''] of Inr (Some m) \<Rightarrow> Some (textsOf m) | _ \<Rightarrow> None),
      uSetLabels = (\<lambda>ls obj. orSame obj (setPath [''metadata'', ''labels''] (VMap (map (\<lambda>(k, v). (k, VString v)) ls)) obj)),
      uSetNamespace = (\<lambda>n obj. orSame obj (setPath [''metadata'', ''namespace''] (VString n) obj)),
      uSetNestedMap = (\<lambda>obj m path. setPath path (VMap m) obj)\<rparr>"

lemmas sampleObjects_defs = sampleObjects_def UnstructuredApi.defs sampleUnstructured_def

lemma textsOf_labels: "textsOf (map (\<lambda>(k, v). (k, VString v)) ls) = ls"
  by (induction ls) (auto simp: textsOf_def map_filter_simps)

lemma asMap_Some: "asMap v = Some m \<longleftrightarrow> v = VMap m"
  by (cases v) auto

lemma hasMetadata_cases:
  assumes "hasMetadata obj"
  obtains "map_of obj ''metadata'' = None" | md where "map_of obj ''metadata'' = Some (VMap md)"
  using assms by (auto simp: hasMetadata_def asMap_Some split: option.splits)

lemma sample_labels_laws:
  assumes "hasMetadata obj"
  shows "sameIdentity sampleObjects obj (uSetLabels sampleObjects m obj)
    \<and> uGetLabels sampleObjects (uSetLabels sampleObjects m obj) = Some m
    \<and> uGetNamespace sampleObjects (uSetLabels sampleObjects m obj) = uGetNamespace sampleObjects obj
    \<and> (\<forall>path. uNestedMap sampleObjects (uSetLabels sampleObjects m obj) (''spec'' # path) = uNestedMap sampleObjects obj (''spec'' # path))"
  by (rule hasMetadata_cases [OF assms])
    (simp_all add: sampleObjects_defs orSame_def accessor_def textAt_def sameIdentity_def hasMetadata_def update_conv textsOf_labels)

lemma sample_namespace_laws:
  assumes "hasMetadata obj"
  shows "sameIdentity sampleObjects obj (uSetNamespace sampleObjects n obj)
    \<and> uGetNamespace sampleObjects (uSetNamespace sampleObjects n obj) = n
    \<and> uGetLabels sampleObjects (uSetNamespace sampleObjects n obj) = uGetLabels sampleObjects obj
    \<and> (\<forall>path. uNestedMap sampleObjects (uSetNamespace sampleObjects n obj) (''spec'' # path) = uNestedMap sampleObjects obj (''spec'' # path))"
  by (rule hasMetadata_cases [OF assms])
    (simp_all add: sampleObjects_defs orSame_def accessor_def textAt_def sameIdentity_def hasMetadata_def update_conv)

lemma sample_template_laws:
  assumes "hasMetadata obj" and "uNestedMap sampleObjects obj templatePath = Inr (Some t)"
  shows "\<exists>obj'. uSetNestedMap sampleObjects obj m templateMeta = Inr obj' \<and> sameIdentity sampleObjects obj obj'
    \<and> uNestedMap sampleObjects obj' templateMeta = Inr (Some m) \<and> (\<exists>t'. uNestedMap sampleObjects obj' templatePath = Inr (Some t'))
    \<and> uGetLabels sampleObjects obj' = uGetLabels sampleObjects obj \<and> uGetNamespace sampleObjects obj' = uGetNamespace sampleObjects obj"
proof -
  from assms(2) obtain sp where sp: "map_of obj ''spec'' = Some (VMap sp)" "map_of sp ''template'' = Some (VMap t)"
    by (auto simp: sampleObjects_defs accessor_def asMap_Some split: option.splits sum.splits elim!: walk.elims)
  with assms(1) show ?thesis
    by (simp add: sampleObjects_defs accessor_def textAt_def sameIdentity_def hasMetadata_def update_conv)
qed

lemma sampleObjects_laws: "object_laws sampleObjects"
  unfolding object_laws_def using sample_labels_laws sample_namespace_laws sample_template_laws by blast

definition sampleDeployment :: Fields where
  "sampleDeployment = [(''apiVersion'', VString ''apps/v1''), (''kind'', VString ''Deployment''),
     (''metadata'', VMap [(''labels'', VMap [(''app'', VString ''web'')])]), (''spec'', VMap [(''template'', VMap [])])]"

definition sampleLib :: "(nat, unit) HelmLib" where
  "sampleLib =
     \<lparr>hlParseURL = (\<lambda>u. Inr (''h.io'', u)), hlAddOrUpdateChartRepo = (\<lambda>_ e. (None, e)), hlUpdateChartRepos = (\<lambda>e. (None, e)),
      hlNewChartRepository = (\<lambda>_. None), hlDownloadIndexFile = (\<lambda>_ e. (Inr ''index'', e)), hlReadFile = (\<lambda>_ _. Inr ''x''),
      hlSleep = (\<lambda>e. e), hlLoadIndexFile = (\<lambda>_ _. Inr [''nginx'' \<mapsto> [''10'', '''', ''x'']]), hlEmptyOptions = (),
      hlTemplateChart = (\<lambda>_ e. (Inr '''', e)), hlNewDiscoveryClient = None, hlGetAPIGroupResources = (\<lambda>e. (Inr [], e)),
      hlUnmarshal = (\<lambda>s. if s = ''web'' then Inr sampleDeployment else Inl (ErrorString ''no YAML'')),
      hlMarshal = (\<lambda>obj. Inr (concat (map fst obj))), hlRange = (\<lambda>_. [])\<rparr>"

lemma PostProcessManifests_cuts_text_example:
  "PostProcessManifests sampleLib sampleObjects funcs ''a: {b: c---d}'' = Inr (Inr (''a: {b: c---'' @ CHR 0x0A # ''d}''))"
proof -
  have c: "cutFree ''a: {b: c''" "\<not> sublist ''---'' ''d}''" by code_simp+
  have t: "TrimSpace ''a: {b: c'' = ''a: {b: c''" "TrimSpace ''d}'' = ''d}''" by code_simp+
  from PostProcessManifests_cuts_text [OF c, of sampleLib "ErrorString ''no YAML''" "ErrorString ''no YAML''" sampleObjects funcs]
  show ?thesis by (simp add: t sampleLib_def)
qed

lemma DeriveUniqueHelmRepoName_collides_example:
  "DeriveUniqueHelmRepoName sampleLib ''/stable/charts'' = DeriveUniqueHelmRepoName sampleLib ''/beta/charts''"
proof -
  have parse: "hlParseURL sampleLib u = Inr (''h.io'', u)" for u by (simp add: sampleLib_def)
  show ?thesis
    using DeriveUniqueHelmRepoName_collides [of sampleLib "''/stable/charts''" "''h.io''" "''stable''" "''charts''" "''/beta/charts''" "''beta''"]
    by (simp add: parse)
qed

lemma AddLabels_contract_example:
  "\<exists>obj'. AddLabels sampleObjects [(''id'', ''n-app'')] sampleDeployment = Inr obj'
     \<and> labelsOf sampleObjects obj' ''app'' = Some ''web'' \<and> carries sampleObjects [(''id'', ''n-app'')] obj'"
proof -
  have m: "hasMetadata sampleDeployment" by code_simp
  have "case AddLabels sampleObjects [(''id'', ''n-app'')] sampleDeployment of Inr obj' \<Rightarrow> True | Inl p \<Rightarrow> False" by code_simp
  then obtain obj' where run: "AddLabels sampleObjects [(''id'', ''n-app'')] sampleDeployment = Inr obj'" by (auto split: sum.splits)
  have "labelsOf sampleObjects sampleDeployment ''app'' = Some ''web''" by code_simp
  with AddLabels_contract [OF sampleObjects_laws m, of "[(''id'', ''n-app'')]"] run show ?thesis by simp
qed

lemma PostProcessManifests_labelled_example:
  "\<exists>result. PostProcessManifests sampleLib sampleObjects
       [AddLabels sampleObjects [(''id'', ''n-app'')], \<lambda>obj. Inr (AddNamespace sampleObjects ''n'' Map.empty obj)] '' web''
     = Inr (Inr result)
     \<and> (\<exists>obj'. hlMarshal sampleLib obj' = Inr result \<and> carries sampleObjects [(''id'', ''n-app'')] obj'
          \<and> uGetNamespace sampleObjects obj' = ''n'')"
proof -
  let ?run = "PostProcessManifests sampleLib sampleObjects
       [AddLabels sampleObjects [(''id'', ''n-app'')], \<lambda>obj. Inr (AddNamespace sampleObjects ''n'' Map.empty obj)] '' web''"
  have "case ?run of Inr (Inr result) \<Rightarrow> True | _ \<Rightarrow> False" by code_simp
  then obtain result where run: "?run = Inr (Inr result)" by (auto split: sum.splits)
  have d: "documents '' web'' = [''web'']" "objectOf sampleLib sampleObjects ''web'' = Some sampleDeployment"
    "hasMetadata sampleDeployment" "namespacedKind sampleObjects Map.empty sampleDeployment"
    "uGetNamespace sampleObjects sampleDeployment = ''''" by code_simp+
  from PostProcessManifests_labelled [OF sampleObjects_laws _ _ run] d
  obtain obj' where "hlMarshal sampleLib obj' = Inr result" "carries sampleObjects [(''id'', ''n-app'')] obj'"
    "uGetNamespace sampleObjects obj' = ''n''" by (auto simp: list_all2_Cons1)
  with run show ?thesis by blast
qed

lemma FetchVersions_contract_example:
  "fst (FetchVersions sampleSemver sampleLib ''/stable/charts'' ''nginx'' 0) = Inr [10]"
proof -
  let ?r = "FetchVersions sampleSemver sampleLib ''/stable/charts'' ''nginx'' 0"
  have "case fst ?r of Inr vs \<Rightarrow> True | Inl err \<Rightarrow> False" by code_simp
  then obtain vs where "fst ?r = Inr vs" by (auto split: sum.splits)
  then obtain e' where run: "?r = (Inr vs, e')" by (metis prod.collapse)
  have "List.map_filter (\<lambda>t. if t = '''' then None else case svNewVersion sampleSemver t of Inl err \<Rightarrow> None | Inr v \<Rightarrow> Some v)
      [''10'', '''', ''x''] = [10]" by code_simp
  moreover have "hlLoadIndexFile sampleLib f s = Inr [''nginx'' \<mapsto> [''10'', '''', ''x'']]" for f s by (simp add: sampleLib_def)
  ultimately have "vs = [10]"
    using conjunct2 [OF FetchVersions_contract, of sampleSemver sampleLib "''/stable/charts''" "''nginx''" 0, rule_format, OF run] by auto
  with run show ?thesis by simp
qed

end
