(* ===== verification/Resources.thy ===== *)
theory Resources
  imports Unstructured "HOL-Library.Word"
begin

text \<open>
  \<open>internal/resources\<close>: what an application asks of a zone, read off its rendered resources: the
  requests and limits of its workloads and of its volume claims. The quantities are those of the
  Kubernetes library, the fields of \<open>QuantityApi\<close>. A table of totals is a map from lower-cased
  resource names; replica counts are \<open>int32\<close>, words of 32 bits.
\<close>

section \<open>Quantities\<close>

record 'q QuantityApi =
  qParse :: "string \<Rightarrow> GoError + 'q"
  qMul :: "int \<Rightarrow> 'q \<Rightarrow> 'q"
  qAdd :: "'q \<Rightarrow> 'q \<Rightarrow> 'q"
  qAsInt64 :: "'q \<Rightarrow> int option"
  qString :: "'q \<Rightarrow> string"

type_synonym 'q totals = "string \<rightharpoonup> 'q"

text \<open>The loop over the entries of a resource map. A value that is no text or no quantity is passed over;
  the multiplier is printed and parsed again for every entry.\<close>

definition addEntry :: "'q QuantityApi \<Rightarrow> string \<Rightarrow> 'q \<Rightarrow> 'q totals \<Rightarrow> 'q totals" where
  "addEntry qa k q totals =
     (let key = ToLower k
      in case totals key of
           None \<Rightarrow> totals(key \<mapsto> q)
         | Some current \<Rightarrow> totals(key \<mapsto> qAdd qa current q))"

fun addEntries :: "'q QuantityApi \<Rightarrow> Fields \<Rightarrow> int \<Rightarrow> 'q totals \<Rightarrow> (GoError + 'q totals) go" where
  "addEntries qa [] replicas totals = Inr (Inr totals)"
| "addEntries qa ((k, v) # entries) replicas totals =
     (case asString v of
        None \<Rightarrow> addEntries qa entries replicas totals
      | Some valStr \<Rightarrow>
          (case qParse qa valStr of
             Inl err \<Rightarrow> addEntries qa entries replicas totals
           | Inr q \<Rightarrow>
               (case qParse qa (int_text replicas) of
                  Inl err \<Rightarrow> Inl MustParseFailure
                | Inr r \<Rightarrow>
                    (case qAsInt64 qa r of
                       None \<Rightarrow> Inr (Inl (ErrorString ''failed to convert replicas to int64: <nil>''))
                     | Some replicasInt \<Rightarrow>
                         addEntries qa entries replicas (addEntry qa k (qMul qa replicasInt q) totals)))))"

definition addResources ::
  "'q QuantityApi \<Rightarrow> UnstructuredApi \<Rightarrow> 'q totals \<Rightarrow> Value \<Rightarrow> int \<Rightarrow> (GoError + 'q totals) go" where
  "addResources qa ua totals inputValue replicas =
     (if inputValue = VNil then Inr (Inr totals)
      else case asMap inputValue of
             None \<Rightarrow> Inr (Inl (ErrorString (''invalid resource map: '' @ uVerb ua inputValue)))
           | Some resMap \<Rightarrow> addEntries qa resMap replicas totals)"

text \<open>The loop of \<open>CollectResources\<close>: the two tables of totals are written through their pointers.\<close>

fun CollectResources ::
  "'q QuantityApi \<Rightarrow> UnstructuredApi \<Rightarrow> Value list \<Rightarrow> int \<Rightarrow> 'q totals \<Rightarrow> 'q totals
     \<Rightarrow> (GoError + 'q totals \<times> 'q totals) go" where
  "CollectResources qa ua [] replicas totalRequests totalLimits = Inr (Inr (totalRequests, totalLimits))"
| "CollectResources qa ua (c # objects) replicas totalRequests totalLimits =
     (case asMap c of
        None \<Rightarrow> CollectResources qa ua objects replicas totalRequests totalLimits
      | Some cMap \<Rightarrow>
          (case uNestedMap ua cMap [''resources''] of
             Inr (Some resMap) \<Rightarrow>
               (case addResources qa ua totalRequests (indexField resMap ''requests'') replicas of
                  Inl p \<Rightarrow> Inl p
                | Inr (Inl err) \<Rightarrow> Inr (Inl err)
                | Inr (Inr requests) \<Rightarrow>
                    (case addResources qa ua totalLimits (indexField resMap ''limits'') replicas of
                       Inl p \<Rightarrow> Inl p
                     | Inr (Inl err) \<Rightarrow> Inr (Inl err)
                     | Inr (Inr limits) \<Rightarrow> CollectResources qa ua objects replicas requests limits))
           | _ \<Rightarrow> CollectResources qa ua objects replicas totalRequests totalLimits))"

section \<open>Reports\<close>

type_synonym int32 = "32 word"

record ResourceId =
  riName :: string
  riNamespace :: string

record PodResources =
  prId :: ResourceId
  prLimits :: "string \<rightharpoonup> string"
  prReplica :: int32
  prRequests :: "string \<rightharpoonup> string"

record PVCResources =
  vrId :: ResourceId
  vrLimits :: "string \<rightharpoonup> string"
  vrReplica :: int32
  vrRequests :: "string \<rightharpoonup> string"
  vrStorageClass :: string

definition totalsText :: "'q QuantityApi \<Rightarrow> 'q totals \<Rightarrow> (string \<rightharpoonup> string)" where
  "totalsText qa totals = map_option (qString qa) \<circ> totals"

definition CollectPodResources ::
  "'q QuantityApi \<Rightarrow> UnstructuredApi \<Rightarrow> Fields \<Rightarrow> int32 \<Rightarrow> string \<Rightarrow> string \<Rightarrow> (GoError + PodResources) go" where
  "CollectPodResources qa ua templateSpec replicas name namespace =
     (case uNestedSlice ua templateSpec [''containers''] of
        Inl err \<Rightarrow> Inr (Inl err)
      | Inr containers \<Rightarrow>
          (case uNestedSlice ua templateSpec [''initContainers''] of
             Inl err \<Rightarrow> Inr (Inl err)
           | Inr initContainers \<Rightarrow>
               (let objectsWithResources =
                      (case containers of None \<Rightarrow> [] | Some cs \<Rightarrow> cs)
                      @ (case initContainers of None \<Rightarrow> [] | Some cs \<Rightarrow> cs)
                in case CollectResources qa ua objectsWithResources 1 Map.empty Map.empty of
                     Inl p \<Rightarrow> Inl p
                   | Inr (Inl err) \<Rightarrow> Inr (Inl err)
                   | Inr (Inr (requests, limits)) \<Rightarrow>
                       Inr (Inr \<lparr>prId = \<lparr>riName = name, riNamespace = namespace\<rparr>,
                                 prLimits = totalsText qa limits, prReplica = replicas,
                                 prRequests = totalsText qa requests\<rparr>))))"

section \<open>Volume claims\<close>

definition getNestedString :: "UnstructuredApi \<Rightarrow> Fields \<Rightarrow> string list \<Rightarrow> string" where
  "getNestedString ua obj path =
     (case uNestedString ua obj path of Inr (Some val) \<Rightarrow> val | _ \<Rightarrow> '''')"

definition parseUnstructured ::
  "'q QuantityApi \<Rightarrow> UnstructuredApi \<Rightarrow> Fields \<Rightarrow> (GoError + PVCResources) go" where
  "parseUnstructured qa ua spec =
     (let storageClass = getNestedString ua spec [''storageClassName'']
      in case CollectResources qa ua [VMap spec] 1 Map.empty Map.empty of
           Inl p \<Rightarrow> Inl p
         | Inr (Inl err) \<Rightarrow> Inr (Inl err)
         | Inr (Inr (requests, limits)) \<Rightarrow>
             Inr (Inr \<lparr>vrId = \<lparr>riName = '''', riNamespace = ''''\<rparr>, vrLimits = totalsText qa limits,
                       vrReplica = 1, vrRequests = totalsText qa requests, vrStorageClass = storageClass\<rparr>))"

text \<open>A nil pointer, \<open>None\<close>, when the claim has no specification.\<close>

definition ParseClaimTemplate ::
  "'q QuantityApi \<Rightarrow> UnstructuredApi \<Rightarrow> Fields \<Rightarrow> (GoError + PVCResources option) go" where
  "ParseClaimTemplate qa ua claimTemplate =
     (let name = getNestedString ua claimTemplate [''metadata'', ''name''];
          namespace = getNestedString ua claimTemplate [''metadata'', ''namespace'']
      in case uNestedMap ua claimTemplate [''spec''] of
           Inl err \<Rightarrow> Inr (Inl err)
         | Inr None \<Rightarrow> Inr (Inr None)
         | Inr (Some spec) \<Rightarrow>
             (case parseUnstructured qa ua spec of
                Inl p \<Rightarrow> Inl p
              | Inr (Inl err) \<Rightarrow> Inr (Inl err)
              | Inr (Inr totals) \<Rightarrow>
                  Inr (Inr (Some (totals\<lparr>vrId := \<lparr>riName = name, riNamespace = namespace\<rparr>\<rparr>)))))"

definition PVCParser_Parse ::
  "'q QuantityApi \<Rightarrow> UnstructuredApi \<Rightarrow> Fields \<Rightarrow> (GoError + PVCResources option) go" where
  "PVCParser_Parse qa ua obj =
     (let name = uGetName ua obj; namespace = uGetNamespace ua obj
      in case uNestedMap ua obj [''spec''] of
           Inl err \<Rightarrow> Inr (Inl err)
         | Inr None \<Rightarrow> Inr (Inr None)
         | Inr (Some spec) \<Rightarrow>
             (case parseUnstructured qa ua spec of
                Inl p \<Rightarrow> Inl p
              | Inr (Inl err) \<Rightarrow> Inr (Inl err)
              | Inr (Inr totals) \<Rightarrow>
                  Inr (Inr (Some (totals\<lparr>vrId := \<lparr>riName = name, riNamespace = namespace\<rparr>\<rparr>)))))"

text \<open>The loop over the claim templates: a template that is no map is passed over, and the pointer the
  parser answers is written through, nil or not.\<close>

fun CollectPVCResources ::
  "'q QuantityApi \<Rightarrow> UnstructuredApi \<Rightarrow> Value list \<Rightarrow> int32 \<Rightarrow> (GoError + PVCResources list) go" where
  "CollectPVCResources qa ua [] replicas = Inr (Inr [])"
| "CollectPVCResources qa ua (spec # volumeClaimTemplateSpecs) replicas =
     (case asMap spec of
        None \<Rightarrow> CollectPVCResources qa ua volumeClaimTemplateSpecs replicas
      | Some volumeClaimTemplateSpec \<Rightarrow>
          (case ParseClaimTemplate qa ua volumeClaimTemplateSpec of
             Inl p \<Rightarrow> Inl p
           | Inr (Inl err) \<Rightarrow> Inr (Inl err)
           | Inr (Inr None) \<Rightarrow> Inl NilPointerDereference
           | Inr (Inr (Some parsed)) \<Rightarrow>
               (case CollectPVCResources qa ua volumeClaimTemplateSpecs replicas of
                  Inl p \<Rightarrow> Inl p
                | Inr (Inl err) \<Rightarrow> Inr (Inl err)
                | Inr (Inr pvcResources) \<Rightarrow> Inr (Inr (parsed\<lparr>vrReplica := 3\<rparr> # pvcResources)))))"

section \<open>Workloads\<close>

text \<open>The conversion \<open>int32(r)\<close> keeps the low 32 bits.\<close>

definition workloadReplicas :: "UnstructuredApi \<Rightarrow> string \<Rightarrow> Fields \<Rightarrow> int32" where
  "workloadReplicas ua kind spec =
     (if kind = ''Deployment'' \<or> kind = ''StatefulSet'' then
        (case uNestedInt64 ua spec [''replicas''] of Inr (Some r) \<Rightarrow> word_of_int r | _ \<Rightarrow> 1)
      else 1)"

definition workloadTemplate :: "UnstructuredApi \<Rightarrow> Fields \<Rightarrow> Fields" where
  "workloadTemplate ua spec =
     (case asMap (indexField spec ''template'') of
        None \<Rightarrow> spec
      | Some tmplMap \<Rightarrow> (case uNestedMap ua tmplMap [''spec''] of Inr (Some m) \<Rightarrow> m | _ \<Rightarrow> []))"

definition WorkloadParser_Parse ::
  "'q QuantityApi \<Rightarrow> UnstructuredApi \<Rightarrow> Fields \<Rightarrow> (GoError + PodResources option \<times> PVCResources list) go" where
  "WorkloadParser_Parse qa ua obj =
     (let name = uGetName ua obj; namespace = uGetNamespace ua obj; kind = uGetKind ua obj
      in case uNestedMap ua obj [''spec''] of
           Inl err \<Rightarrow> Inr (Inl err)
         | Inr None \<Rightarrow> Inr (Inr (None, []))
         | Inr (Some spec) \<Rightarrow>
             (let replicas = workloadReplicas ua kind spec
              in case CollectPodResources qa ua (workloadTemplate ua spec) replicas name namespace of
                   Inl p \<Rightarrow> Inl p
                 | Inr (Inl err) \<Rightarrow> Inr (Inl err)
                 | Inr (Inr podResources) \<Rightarrow>
                     (let volumeClaimTemplateSpec =
                            (case asSlice (indexField spec ''volumeClaimTemplates'') of None \<Rightarrow> [] | Some vs \<Rightarrow> vs)
                      in case CollectPVCResources qa ua volumeClaimTemplateSpec replicas of
                           Inl p \<Rightarrow> Inl p
                         | Inr (Inl err) \<Rightarrow> Inr (Inl err)
                         | Inr (Inr pvcResources) \<Rightarrow> Inr (Inr (Some podResources, pvcResources)))))"

section \<open>The specification of an application\<close>

text \<open>An item is the JSON of one of the two reports; encoding them does not fail.\<close>

datatype ApplicationSpec_Resources_Item = FromPodResources PodResources | FromPVCResources PVCResources

record ApplicationSpec =
  aspId :: ResourceId
  aspResources :: "ApplicationSpec_Resources_Item list"

definition extractSpec ::
  "'q QuantityApi \<Rightarrow> UnstructuredApi \<Rightarrow> Fields \<Rightarrow> (GoError + ApplicationSpec_Resources_Item list) go" where
  "extractSpec qa ua u =
     (let kind = ToLower (uGetKind ua u)
      in if kind = ''pvc'' then
           (case PVCParser_Parse qa ua u of
              Inl p \<Rightarrow> Inl p
            | Inr (Inl err) \<Rightarrow> Inr (Inl err)
            | Inr (Inr None) \<Rightarrow> Inl NilPointerDereference
            | Inr (Inr (Some pvcResources)) \<Rightarrow> Inr (Inr [FromPVCResources pvcResources]))
         else if kind \<in> {''deployment'', ''statefulset'', ''job'', ''daemonset''} then
           (case WorkloadParser_Parse qa ua u of
              Inl p \<Rightarrow> Inl p
            | Inr (Inl err) \<Rightarrow> Inr (Inl err)
            | Inr (Inr (podResources, pvcResources)) \<Rightarrow>
                Inr (Inr ((case podResources of None \<Rightarrow> [] | Some r \<Rightarrow> [FromPodResources r])
                          @ map FromPVCResources pvcResources)))
         else Inr (Inr []))"

fun extractSpecs ::
  "'q QuantityApi \<Rightarrow> UnstructuredApi \<Rightarrow> Fields list \<Rightarrow> (GoError + ApplicationSpec_Resources_Item list) go" where
  "extractSpecs qa ua [] = Inr (Inr [])"
| "extractSpecs qa ua (resource # resources) =
     (case extractSpec qa ua resource of
        Inl p \<Rightarrow> Inl p
      | Inr (Inl err) \<Rightarrow> Inr (Inl err)
      | Inr (Inr extracted) \<Rightarrow>
          (case extractSpecs qa ua resources of
             Inl p \<Rightarrow> Inl p
           | Inr (Inl err) \<Rightarrow> Inr (Inl err)
           | Inr (Inr items) \<Rightarrow> Inr (Inr (extracted @ items))))"

definition ApplicationSpecParser_Parse ::
  "'q QuantityApi \<Rightarrow> UnstructuredApi \<Rightarrow> string \<Rightarrow> string \<Rightarrow> Fields list \<Rightarrow> (GoError + ApplicationSpec) go" where
  "ApplicationSpecParser_Parse qa ua name namespace resources =
     (case extractSpecs qa ua resources of
        Inl p \<Rightarrow> Inl p
      | Inr (Inl err) \<Rightarrow> Inr (Inl err)
      | Inr (Inr items) \<Rightarrow>
          Inr (Inr \<lparr>aspId = \<lparr>riName = name, riNamespace = namespace\<rparr>, aspResources = items\<rparr>))"

section \<open>What the totals are\<close>

text \<open>The quantities of the library: the parsed text of one is the integer one, multiplying by it changes
  no amount, and adding adds amounts, measured in the smallest unit.\<close>

definition quantity_laws :: "'q QuantityApi \<Rightarrow> ('q \<Rightarrow> int) \<Rightarrow> bool" where
  "quantity_laws qa amount \<longleftrightarrow>
     (\<forall>a b. amount (qAdd qa a b) = amount a + amount b) \<and> (\<forall>q. amount (qMul qa 1 q) = amount q)
     \<and> (\<exists>one. qParse qa ''1'' = Inr one \<and> qAsInt64 qa one = Some 1)"

text \<open>The reference: what an object states under \<open>requests\<close> or \<open>limits\<close>, read off without a table.\<close>

definition entryOf :: "'q QuantityApi \<Rightarrow> string \<times> Value \<Rightarrow> (string \<times> 'q) list" where
  "entryOf qa kv =
     (case asString (snd kv) of
        None \<Rightarrow> []
      | Some s \<Rightarrow> (case qParse qa s of Inl err \<Rightarrow> [] | Inr q \<Rightarrow> [(ToLower (fst kv), q)]))"

definition partOf :: "UnstructuredApi \<Rightarrow> string \<Rightarrow> Value \<Rightarrow> Value" where
  "partOf ua part c =
     (case asMap c of
        None \<Rightarrow> VNil
      | Some m \<Rightarrow> (case uNestedMap ua m [''resources''] of Inr (Some r) \<Rightarrow> indexField r part | _ \<Rightarrow> VNil))"

definition entriesOf :: "Value \<Rightarrow> Fields" where
  "entriesOf v = (case asMap v of None \<Rightarrow> [] | Some m \<Rightarrow> m)"

definition statedBy :: "'q QuantityApi \<Rightarrow> UnstructuredApi \<Rightarrow> string \<Rightarrow> Value list \<Rightarrow> (string \<times> 'q) list" where
  "statedBy qa ua part objects = concat (map (\<lambda>c. concat (map (entryOf qa) (entriesOf (partOf ua part c)))) objects)"

definition wellFormed :: "UnstructuredApi \<Rightarrow> Value \<Rightarrow> bool" where
  "wellFormed ua c \<longleftrightarrow> (\<forall>part\<in>{''requests'', ''limits''}. partOf ua part c = VNil \<or> asMap (partOf ua part c) \<noteq> None)"

definition sumOf :: "('q \<Rightarrow> int) \<Rightarrow> string \<Rightarrow> (string \<times> 'q) list \<Rightarrow> int" where
  "sumOf amount key entries = sum_list (map (amount \<circ> snd) (filter (\<lambda>e. fst e = key) entries))"

text \<open>A table holds the entries of a list beside those of another table.\<close>

definition tallies :: "('q \<Rightarrow> int) \<Rightarrow> 'q totals \<Rightarrow> (string \<times> 'q) list \<Rightarrow> 'q totals \<Rightarrow> bool" where
  "tallies amount before entries after \<longleftrightarrow> dom after = dom before \<union> fst ` set entries
     \<and> (\<forall>key. (case after key of None \<Rightarrow> 0 | Some q \<Rightarrow> amount q)
            = (case before key of None \<Rightarrow> 0 | Some q \<Rightarrow> amount q) + sumOf amount key entries)"

lemma sumOf_append [simp]: "sumOf amount key (xs @ ys) = sumOf amount key xs + sumOf amount key ys"
  by (simp add: sumOf_def)

lemma sumOf_Nil [simp]: "sumOf amount key [] = 0"
  by (simp add: sumOf_def)

lemma tallies_refl [simp, intro]: "tallies amount t [] t"
  by (simp add: tallies_def)

lemma tallies_trans: "tallies amount a xs b \<Longrightarrow> tallies amount b ys c \<Longrightarrow> tallies amount a (xs @ ys) c"
  by (auto simp: tallies_def)

lemma addEntry_tallies:
  assumes "quantity_laws qa amount"
  shows "tallies amount t [(ToLower k, q)] (addEntry qa k (qMul qa 1 q) t)"
  using assms by (auto simp: quantity_laws_def tallies_def addEntry_def sumOf_def Let_def split: option.splits)

lemma int_text_one: "int_text 1 = ''1''"
  by code_simp

lemma addEntries_tallies:
  assumes "quantity_laws qa amount"
  shows "\<exists>t'. addEntries qa es 1 t = Inr (Inr t') \<and> tallies amount t (concat (map (entryOf qa) es)) t'"
proof (induction es arbitrary: t)
  case (Cons e es)
  obtain k v where e: "e = (k, v)" by (cases e)
  from assms obtain one where one: "qParse qa ''1'' = Inr one" "qAsInt64 qa one = Some 1"
    by (auto simp: quantity_laws_def)
  show ?case
  proof (cases "\<exists>s q. asString v = Some s \<and> qParse qa s = Inr q")
    case True
    then obtain s q where q: "asString v = Some s" "qParse qa s = Inr q" by blast
    from Cons.IH [of "addEntry qa k (qMul qa 1 q) t"] obtain t' where
      "addEntries qa es 1 (addEntry qa k (qMul qa 1 q) t) = Inr (Inr t')"
      "tallies amount (addEntry qa k (qMul qa 1 q) t) (concat (map (entryOf qa) es)) t'" by blast
    moreover have "entryOf qa e = [(ToLower k, q)]" using q by (simp add: e entryOf_def)
    ultimately show ?thesis using tallies_trans [OF addEntry_tallies [OF assms, where t = t and k = k and q = q]] q one
      by (auto simp: e int_text_one)
  next
    case False
    with Cons.IH [of t] show ?thesis
      by (auto simp: e entryOf_def split: option.splits sum.splits)
  qed
qed auto

lemma addResources_tallies:
  assumes "quantity_laws qa amount" and "v = VNil \<or> asMap v \<noteq> None"
  shows "\<exists>t'. addResources qa ua t v 1 = Inr (Inr t') \<and> tallies amount t (concat (map (entryOf qa) (entriesOf v))) t'"
  using assms(2) addEntries_tallies [OF assms(1)]
  by (auto simp: addResources_def entriesOf_def)

lemma addResources_malformed:
  "\<not> (v = VNil \<or> asMap v \<noteq> None) \<Longrightarrow> \<exists>err. addResources qa ua t v 1 = Inr (Inl err)"
  by (simp add: addResources_def)

lemma partOf_absent:
  "partOf ua part c = VNil" if "\<nexists>m r. asMap c = Some m \<and> uNestedMap ua m [''resources''] = Inr (Some r)"
  using that by (auto simp: partOf_def split: option.splits sum.splits)

lemma CollectResources_tallies:
  assumes "quantity_laws qa amount"
  shows "if \<forall>c\<in>set objects. wellFormed ua c
    then \<exists>reqs' lims'. CollectResources qa ua objects 1 reqs lims = Inr (Inr (reqs', lims'))
           \<and> tallies amount reqs (statedBy qa ua ''requests'' objects) reqs'
           \<and> tallies amount lims (statedBy qa ua ''limits'' objects) lims'
    else \<exists>err. CollectResources qa ua objects 1 reqs lims = Inr (Inl err)"
proof (induction objects arbitrary: reqs lims)
  case (Cons c objects)
  show ?case
  proof (cases "\<exists>m r. asMap c = Some m \<and> uNestedMap ua m [''resources''] = Inr (Some r)")
    case False
    then have "CollectResources qa ua (c # objects) 1 reqs lims = CollectResources qa ua objects 1 reqs lims"
      by (auto split: option.splits sum.splits)
    moreover have "wellFormed ua c" "statedBy qa ua part (c # objects) = statedBy qa ua part objects" for part
      using partOf_absent [OF False] by (simp_all add: wellFormed_def statedBy_def entriesOf_def)
    ultimately show ?thesis using Cons.IH [of reqs lims] by simp
  next
    case True
    then obtain m r where m: "asMap c = Some m" "uNestedMap ua m [''resources''] = Inr (Some r)" by blast
    then have part: "partOf ua part c = indexField r part" for part by (simp add: partOf_def)
    show ?thesis
    proof (cases "wellFormed ua c")
      case False
      show ?thesis
      proof (cases "indexField r ''requests'' = VNil \<or> asMap (indexField r ''requests'') \<noteq> None")
        case ok: True
        from addResources_tallies [OF assms ok] obtain reqs' where
          "addResources qa ua reqs (indexField r ''requests'') 1 = Inr (Inr reqs')" by blast
        moreover from False ok obtain err where "addResources qa ua lims (indexField r ''limits'') 1 = Inr (Inl err)"
          using addResources_malformed by (fastforce simp: wellFormed_def part)
        ultimately show ?thesis using False by (simp add: m)
      next
        case bad: False
        from addResources_malformed [OF bad] obtain err where
          "addResources qa ua reqs (indexField r ''requests'') 1 = Inr (Inl err)" by blast
        then show ?thesis using False by (simp add: m)
      qed
    next
      case ok: True
      then have "indexField r ''requests'' = VNil \<or> asMap (indexField r ''requests'') \<noteq> None"
        "indexField r ''limits'' = VNil \<or> asMap (indexField r ''limits'') \<noteq> None"
        by (simp_all add: wellFormed_def part)
      with addResources_tallies [OF assms] obtain reqs1 lims1 where one:
        "addResources qa ua reqs (indexField r ''requests'') 1 = Inr (Inr reqs1)"
        "tallies amount reqs (concat (map (entryOf qa) (entriesOf (indexField r ''requests'')))) reqs1"
        "addResources qa ua lims (indexField r ''limits'') 1 = Inr (Inr lims1)"
        "tallies amount lims (concat (map (entryOf qa) (entriesOf (indexField r ''limits'')))) lims1" by blast
      have run: "CollectResources qa ua (c # objects) 1 reqs lims = CollectResources qa ua objects 1 reqs1 lims1"
        by (simp add: m one)
      have st: "statedBy qa ua p (c # objects) = concat (map (entryOf qa) (entriesOf (indexField r p))) @ statedBy qa ua p objects"
        for p by (simp add: statedBy_def part)
      from Cons.IH [of reqs1 lims1] ok run st show ?thesis
        using tallies_trans [OF one(2)] tallies_trans [OF one(4)] by (fastforce simp del: CollectResources.simps)
    qed
  qed
qed (simp add: statedBy_def)


text \<open>A replica count is the one the specification gives, cut to 32 bits, and reads back as it was written
  exactly when it is in the range of an \<open>int32\<close>; a workload that is no Deployment or StatefulSet, or
  gives none, has one.\<close>

lemma workloadReplicas_int32:
  assumes "reads_documented ua" and "map_of spec ''replicas'' = Some (VInt r)"
  shows "(kind \<in> {''Deployment'', ''StatefulSet''} \<longrightarrow>
        sint (workloadReplicas ua kind spec) = (r + 2 ^ 31) mod 2 ^ 32 - 2 ^ 31
        \<and> (sint (workloadReplicas ua kind spec) = r \<longleftrightarrow> - (2 ^ 31) \<le> r \<and> r < 2 ^ 31))
    \<and> (kind \<notin> {''Deployment'', ''StatefulSet''} \<longrightarrow> sint (workloadReplicas ua kind spec) = 1)"
proof -
  have read: "uNestedInt64 ua spec [''replicas''] = Inr (Some r)"
    using assms by (auto simp: reads_documented_def intro: reads_as_simps)
  have "signed_take_bit 31 r = (r + 2 ^ 31) mod 2 ^ 32 - 2 ^ 31"
    by (simp add: signed_take_bit_eq_take_bit_shift take_bit_eq_mod)
  then have wrap: "sint (word_of_int r :: 32 word) = (r + 2 ^ 31) mod 2 ^ 32 - 2 ^ 31"
    by (simp add: sint_sbintrunc')
  have "((r + 2 ^ 31) mod 2 ^ 32 - 2 ^ 31 = r) = (- (2 ^ 31) \<le> r \<and> r < 2 ^ 31)"
    by (auto simp: mod_pos_pos_trivial)
  with wrap read show ?thesis by (simp add: workloadReplicas_def)
qed

section \<open>Claims\<close>

text \<open>The report on the claims does not depend on the replicas.\<close>

lemma CollectPVCResources_replicas: "CollectPVCResources qa ua specs r = CollectPVCResources qa ua specs r'"
  by (induction specs) (simp_all split: option.split sum.split)

lemma CollectPVCResources_three:
  "CollectPVCResources qa ua specs r = Inr (Inr claims) \<Longrightarrow> c \<in> set claims \<Longrightarrow> vrReplica c = 3"
  by (induction specs arbitrary: claims) (auto split: option.splits sum.splits)

text \<open>Whatever replicas a workload runs, every volume claim of it is reported three times over, and a
  claim template without a specification makes the report panic.\<close>

lemma claims_ignore_replicas:
  "CollectPVCResources qa ua specs r = CollectPVCResources qa ua specs r'
   \<and> (case CollectPVCResources qa ua specs r of
        Inr (Inr claims) \<Rightarrow> (\<forall>c\<in>set claims. vrReplica c = 3) | _ \<Rightarrow> True)
   \<and> (uNestedMap ua claim [''spec''] = Inr None \<longrightarrow>
        CollectPVCResources qa ua (VMap claim # specs) r = Inl NilPointerDereference)"
  using CollectPVCResources_replicas CollectPVCResources_three
  by (fastforce simp: ParseClaimTemplate_def Let_def split: sum.splits)

section \<open>Items\<close>

lemma extractSpecs_parts:
  "extractSpecs qa ua rs = Inr (Inr items) \<Longrightarrow>
     \<exists>parts. list_all2 (\<lambda>u part. extractSpec qa ua u = Inr (Inr part)) rs parts \<and> items = concat parts"
proof (induction rs arbitrary: items)
  case (Cons u rs)
  then obtain part more where "extractSpec qa ua u = Inr (Inr part)" "extractSpecs qa ua rs = Inr (Inr more)"
    "items = part @ more" by (auto split: sum.splits)
  moreover from Cons.IH [OF this(2)] obtain parts where
    "list_all2 (\<lambda>u part. extractSpec qa ua u = Inr (Inr part)) rs parts" "more = concat parts" by blast
  ultimately show ?case by (intro exI [of _ "part # parts"]) simp
qed auto

lemma extractSpec_workload:
  assumes "extractSpec qa ua u = Inr (Inr part)"
  shows "(ToLower (uGetKind ua u) \<notin> {''pvc'', ''deployment'', ''statefulset'', ''job'', ''daemonset''} \<longrightarrow> part = [])
    \<and> length (filter (\<lambda>i. case i of FromPodResources _ \<Rightarrow> True | _ \<Rightarrow> False) part) \<le> 1"
  using assms by (auto simp: extractSpec_def Let_def split: if_splits sum.splits option.splits)

text \<open>The items of an application are those of its resources in their order, each with at most one pod
  report; a resource of another kind has none, and so a PersistentVolumeClaim of the chart is left
  out, its kind not being the one the parser looks for.\<close>

lemma Parse_items:
  assumes "ApplicationSpecParser_Parse qa ua name namespace resources = Inr (Inr spec)"
  shows "aspId spec = \<lparr>riName = name, riNamespace = namespace\<rparr>
    \<and> (\<exists>parts. list_all2 (\<lambda>u part. extractSpec qa ua u = Inr (Inr part)) resources parts
         \<and> aspResources spec = concat parts)
    \<and> (\<forall>u\<in>set resources. uGetKind ua u = ''PersistentVolumeClaim'' \<longrightarrow> extractSpec qa ua u = Inr (Inr []))"
proof -
  from assms obtain items where "extractSpecs qa ua resources = Inr (Inr items)"
    "spec = \<lparr>aspId = \<lparr>riName = name, riNamespace = namespace\<rparr>, aspResources = items\<rparr>"
    by (auto simp: ApplicationSpecParser_Parse_def split: sum.splits)
  moreover have "ToLower ''PersistentVolumeClaim'' = ''persistentvolumeclaim''" by code_simp
  ultimately show ?thesis using extractSpecs_parts by (auto simp: extractSpec_def)
qed

section \<open>Examples\<close>

definition sampleQuantity :: "int QuantityApi" where
  "sampleQuantity =
     \<lparr>qParse = (\<lambda>s. case ParseInt64 s of None \<Rightarrow> Inl (ErrorString ''no quantity'') | Some i \<Rightarrow> Inr i),
      qMul = (\<lambda>n q. n * q), qAdd = (+), qAsInt64 = Some, qString = int_text\<rparr>"

lemma sampleQuantity_laws: "quantity_laws sampleQuantity (\<lambda>q. q)"
proof -
  have "ParseInt64 ''1'' = Some 1" by code_simp
  then show ?thesis by (simp add: quantity_laws_def sampleQuantity_def)
qed

definition sampleContainer :: "string \<Rightarrow> string \<Rightarrow> Value" where
  "sampleContainer k v = VMap [(''resources'', VMap [(''requests'', VMap [(k, VString v), (''memory'', VBool True)])])]"

definition sampleWorkload :: Fields where
  "sampleWorkload =
     [(''kind'', VString ''StatefulSet''), (''metadata'', VMap [(''name'', VString ''web'')]),
      (''spec'', VMap [(''replicas'', VInt 5),
         (''template'', VMap [(''spec'', VMap [(''containers'', VSlice [sampleContainer ''CPU'' ''2'', sampleContainer ''cpu'' ''3''])])]),
         (''volumeClaimTemplates'', VSlice [VMap [(''spec'', VMap [])]])])]"


lemma workloadReplicas_int32_example:
  "sint (workloadReplicas sampleUnstructured ''Deployment'' [(''replicas'', VInt 5000000000)]) = 705032704"
  using workloadReplicas_int32 [OF sampleUnstructured_documented, of "[(''replicas'', VInt 5000000000)]" 5000000000 "''Deployment''"]
  by simp

lemma claims_ignore_replicas_example:
  "CollectPVCResources sampleQuantity sampleUnstructured [VMap []] 2 = Inl NilPointerDereference"
proof -
  have "uNestedMap sampleUnstructured [] [''spec''] = Inr None" by code_simp
  with claims_ignore_replicas [of sampleQuantity sampleUnstructured "[]" 2 5 "[]"] show ?thesis by blast
qed

lemma Parse_items_example:
  "\<exists>pod claim. ApplicationSpecParser_Parse sampleQuantity sampleUnstructured ''app'' ''n'' [[(''kind'', VString ''Service'')], sampleWorkload]
      = Inr (Inr \<lparr>aspId = \<lparr>riName = ''app'', riNamespace = ''n''\<rparr>, aspResources = [FromPodResources pod, FromPVCResources claim]\<rparr>)
     \<and> prReplica pod = 5 \<and> vrReplica claim = 3 \<and> prRequests pod ''cpu'' = Some ''5''"
proof -
  let ?r = "ApplicationSpecParser_Parse sampleQuantity sampleUnstructured ''app'' ''n'' [[(''kind'', VString ''Service'')], sampleWorkload]"
  have "case ?r of Inr (Inr spec) \<Rightarrow>
      (case aspResources spec of [i, k] \<Rightarrow>
          (case i of FromPodResources pod \<Rightarrow> prReplica pod = 5 \<and> prRequests pod ''cpu'' = Some ''5'' | _ \<Rightarrow> False)
          \<and> (case k of FromPVCResources claim \<Rightarrow> vrReplica claim = 3 | _ \<Rightarrow> False)
       | _ \<Rightarrow> False)
    | _ \<Rightarrow> False" by code_simp
  then obtain spec pod claim where run: "?r = Inr (Inr spec)" and items: "aspResources spec = [FromPodResources pod, FromPVCResources claim]"
      "prReplica pod = 5" "vrReplica claim = 3" "prRequests pod ''cpu'' = Some ''5''"
    by (auto split: sum.splits list.splits ApplicationSpec_Resources_Item.splits)
  from Parse_items [OF run] items(1) have "spec = \<lparr>aspId = \<lparr>riName = ''app'', riNamespace = ''n''\<rparr>,
      aspResources = [FromPodResources pod, FromPVCResources claim]\<rparr>" by simp
  with run items(2-4) show ?thesis by blast
qed

end
