(* ===== verification/ErrorReports.thy ===== *)
theory ErrorReports
  imports Unstructured "HOL-Library.Word"
begin

text \<open>
  \<open>internal/errorctx/report.go\<close>: the report on an application in the zone, its pods with their logs
  and warnings and its workloads with their replicas. The cluster cache, the conversion of an
  unstructured object into a typed one and the fetching of logs and events are fields of
  \<open>ReportEnv\<close> over the state \<open>'e\<close> of everything outside; of the typed objects the records hold what
  the reports read. Counts are \<open>int32\<close>, words of 32 bits.
\<close>

section \<open>The objects read\<close>

type_synonym count = "32 word"

record ContainerStatus =
  csName :: string
  csRestartCount :: count
  csWaiting :: "string option"
  csTerminated :: "string option"

record Pod =
  podName :: string
  podPhase :: string
  podContainerStatuses :: "ContainerStatus list"

record KubeEvent =
  keObjectKind :: string
  keObjectName :: string
  keType :: string
  keReason :: string
  keMessage :: string
  keFirstTimestamp :: string

text \<open>A Deployment, ReplicaSet or StatefulSet: the pointer to the replicas wanted, and the counts of its status;
  and a DaemonSet, whose wanted pods are a count of its status.\<close>

record ReplicatedWorkload =
  rwName :: string
  rwNamespace :: string
  rwReplicas :: "count option"
  rwAvailableReplicas :: count
  rwReadyReplicas :: count
  rwOwnerReferences :: "string list"

record DaemonSet =
  dsName :: string
  dsNamespace :: string
  dsDesiredNumberScheduled :: count
  dsNumberReady :: count

record ('e, 'r) ReportEnv =
  reFindResources :: "('r option \<Rightarrow> bool) \<Rightarrow> 'e \<Rightarrow> 'r option list"
  reLabels :: "'r \<Rightarrow> (string \<rightharpoonup> string) option"
  reKind :: "'r \<Rightarrow> string"
  reToPod :: "'r \<Rightarrow> GoError + Pod"
  reToDeployment :: "'r \<Rightarrow> GoError + ReplicatedWorkload"
  reToReplicaSet :: "'r \<Rightarrow> GoError + ReplicatedWorkload"
  reToStatefulSet :: "'r \<Rightarrow> GoError + ReplicatedWorkload"
  reToDaemonSet :: "'r \<Rightarrow> GoError + DaemonSet"
  reFetchEvents :: "string \<Rightarrow> 'e \<Rightarrow> (GoError + KubeEvent list) \<times> 'e"
  reFetchLogs :: "string \<Rightarrow> string \<Rightarrow> string \<Rightarrow> bool \<Rightarrow> 'e \<Rightarrow> (GoError + string) \<times> 'e"

section \<open>The report\<close>

record PodEvent =
  peMessage :: string
  peReason :: string
  peTimestamp :: string

record LogInfo =
  liContainer :: string
  liLog :: string

record PodInfo =
  piEvents :: "PodEvent list"
  piLogs :: "LogInfo list"
  piName :: string
  piRestarts :: count
  piStatus :: string

record WorkloadStatus =
  wsAvailable :: count
  wsDesired :: count
  wsKind :: string
  wsMessage :: string
  wsName :: string
  wsNamespace :: string
  wsReady :: bool
  wsUnavailable :: count

record ApplicationReport =
  arPods :: "PodInfo list"
  arWorkloads :: "WorkloadStatus list"

definition CONST_HEALTHY :: string where "CONST_HEALTHY = ''Healthy''"

section \<open>Finding the objects\<close>

text \<open>A nil map of labels is \<open>None\<close>; a missing label reads as the empty text.\<close>

definition hasInstance :: "(string \<rightharpoonup> string) option \<Rightarrow> string \<Rightarrow> bool" where
  "hasInstance labels instanceId \<longleftrightarrow>
     (case labels of
        None \<Rightarrow> False
      | Some m \<Rightarrow> (case m ''dcp.hiro.io/instance-id'' of None \<Rightarrow> '''' | Some v \<Rightarrow> v) = instanceId)"

definition findResources :: "('e, 'r) ReportEnv \<Rightarrow> string \<Rightarrow> string set \<Rightarrow> 'e \<Rightarrow> 'r list" where
  "findResources env instanceId resourceTypes e =
     [r. Some r \<leftarrow> reFindResources env
           (\<lambda>resource. case resource of
              None \<Rightarrow> False
            | Some r \<Rightarrow> hasInstance (reLabels env r) instanceId \<and> reKind env r \<in> resourceTypes) e]"

text \<open>An object that cannot be converted is left out.\<close>

definition convertTo :: "('r \<Rightarrow> GoError + 'a) \<Rightarrow> 'r list \<Rightarrow> 'a list" where
  "convertTo FromUnstructured resources =
     concat (map (\<lambda>r. case FromUnstructured r of Inl err \<Rightarrow> [] | Inr obj \<Rightarrow> [obj]) resources)"

definition getPods :: "('e, 'r) ReportEnv \<Rightarrow> string \<Rightarrow> 'e \<Rightarrow> Pod list" where
  "getPods env instanceId e = convertTo (reToPod env) (findResources env instanceId {''Pod''} e)"

section \<open>Pods\<close>

definition truncate :: "string \<Rightarrow> nat \<Rightarrow> string" where
  "truncate s limit = (if length s \<le> limit then s else take limit s @ CHR 0x0A # ''... [truncated]'')"

text \<open>The loop over the container statuses of a pod: a waiting or terminated container gives the pod its
  status, and its log is fetched, the previous one's when it has restarted.\<close>

definition addContainer :: "('e, 'r) ReportEnv \<Rightarrow> string \<Rightarrow> string \<Rightarrow> ContainerStatus \<Rightarrow> PodInfo \<times> 'e \<Rightarrow> PodInfo \<times> 'e" where
  "addContainer env namespace podname cs acc =
     (let (podInfo, e) = acc;
          status = (case csWaiting cs of
                      Some reason \<Rightarrow> reason
                    | None \<Rightarrow> (case csTerminated cs of Some reason \<Rightarrow> reason | None \<Rightarrow> piStatus podInfo));
          (fetched, e1) = reFetchLogs env namespace podname (csName cs) (0 <s csRestartCount cs) e;
          logStr = (case fetched of Inl logErr \<Rightarrow> ''Error fetching logs: '' @ Error logErr | Inr log \<Rightarrow> log)
      in (podInfo\<lparr>piRestarts := piRestarts podInfo + csRestartCount cs, piStatus := status,
            piLogs := piLogs podInfo @ [\<lparr>liContainer = csName cs, liLog = truncate logStr 1000\<rparr>]\<rparr>, e1))"

definition podEvents :: "string \<Rightarrow> KubeEvent list \<Rightarrow> PodEvent list" where
  "podEvents podname events =
     map (\<lambda>e. \<lparr>peMessage = keMessage e, peReason = keReason e, peTimestamp = keFirstTimestamp e\<rparr>)
       (filter (\<lambda>e. keObjectKind e = ''Pod'' \<and> keObjectName e = podname \<and> keType e = ''Warning'') events)"

definition podReport :: "('e, 'r) ReportEnv \<Rightarrow> string \<Rightarrow> KubeEvent list \<Rightarrow> Pod \<Rightarrow> 'e \<Rightarrow> PodInfo \<times> 'e" where
  "podReport env namespace events pod e =
     (let (podInfo, e1) = fold (addContainer env namespace (podName pod)) (podContainerStatuses pod)
            (\<lparr>piEvents = [], piLogs = [], piName = podName pod, piRestarts = 0, piStatus = podPhase pod\<rparr>, e)
      in (podInfo\<lparr>piEvents := piEvents podInfo @ podEvents (podName pod) events\<rparr>, e1))"

fun podReports :: "('e, 'r) ReportEnv \<Rightarrow> string \<Rightarrow> KubeEvent list \<Rightarrow> Pod list \<Rightarrow> 'e \<Rightarrow> PodInfo list \<times> 'e" where
  "podReports env namespace events [] e = ([], e)"
| "podReports env namespace events (pod # pods) e =
     (let (podInfo, e1) = podReport env namespace events pod e;
          (report, e2) = podReports env namespace events pods e1
      in (podInfo # report, e2))"

definition GetPodInfo :: "('e, 'r) ReportEnv \<Rightarrow> string \<Rightarrow> string \<Rightarrow> 'e \<Rightarrow> (GoError + PodInfo list) \<times> 'e" where
  "GetPodInfo env instanceId namespace e =
     (let pods = getPods env instanceId e
      in case reFetchEvents env namespace e of
           (Inl err, e1) \<Rightarrow> (Inl (Wrapped ''fetching events'' err), e1)
         | (Inr events, e1) \<Rightarrow>
             (let (report, e2) = podReports env namespace events pods e1 in (Inr report, e2)))"

section \<open>Workloads\<close>

definition count_text :: "count \<Rightarrow> string" where
  "count_text n = int_text (sint n)"

definition deploymentStatus :: "ReplicatedWorkload \<Rightarrow> WorkloadStatus go" where
  "deploymentStatus d =
     (case rwReplicas d of
        None \<Rightarrow> Inl NilPointerDereference
      | Some desired \<Rightarrow>
          (let unavailable = desired - rwAvailableReplicas d; ready = (unavailable = 0)
           in Inr \<lparr>wsAvailable = rwAvailableReplicas d, wsDesired = desired, wsKind = ''Deployment'',
                   wsMessage = (if \<not> ready then count_text unavailable @ '' of '' @ count_text desired
                                  @ '' replicas unavailable'' else CONST_HEALTHY),
                   wsName = rwName d, wsNamespace = rwNamespace d, wsReady = ready,
                   wsUnavailable = unavailable\<rparr>))"

definition readyStatus :: "string \<Rightarrow> string \<Rightarrow> ReplicatedWorkload \<Rightarrow> WorkloadStatus go" where
  "readyStatus kind complaint rs =
     (case rwReplicas rs of
        None \<Rightarrow> Inl NilPointerDereference
      | Some desired \<Rightarrow>
          (let available = rwReadyReplicas rs; ready = (rwReadyReplicas rs = desired)
           in Inr \<lparr>wsAvailable = available, wsDesired = desired, wsKind = kind,
                   wsMessage = (if \<not> ready then complaint @ '' not fully ready ('' @ count_text available @ ''/''
                                  @ count_text desired @ '')'' else CONST_HEALTHY),
                   wsName = rwName rs, wsNamespace = rwNamespace rs, wsReady = ready,
                   wsUnavailable = desired - available\<rparr>))"

definition daemonSetStatus :: "DaemonSet \<Rightarrow> WorkloadStatus" where
  "daemonSetStatus ds =
     (let unavailable = dsDesiredNumberScheduled ds - dsNumberReady ds;
          ready = (dsNumberReady ds = dsDesiredNumberScheduled ds)
      in \<lparr>wsAvailable = dsNumberReady ds, wsDesired = dsDesiredNumberScheduled ds, wsKind = ''DaemonSet'',
          wsMessage = (if \<not> ready then count_text unavailable @ '' daemon pods unavailable'' else CONST_HEALTHY),
          wsName = dsName ds, wsNamespace = dsNamespace ds, wsReady = ready, wsUnavailable = unavailable\<rparr>)"

fun eachStatus :: "('a \<Rightarrow> WorkloadStatus go) \<Rightarrow> 'a list \<Rightarrow> WorkloadStatus list go" where
  "eachStatus status [] = Inr []"
| "eachStatus status (x # xs) =
     go_bind (status x) (\<lambda>s. go_bind (eachStatus status xs) (\<lambda>statuses. Inr (s # statuses)))"

definition getDeployments :: "('e, 'r) ReportEnv \<Rightarrow> string \<Rightarrow> 'e \<Rightarrow> WorkloadStatus list go" where
  "getDeployments env instanceId e =
     eachStatus deploymentStatus (convertTo (reToDeployment env) (findResources env instanceId {''Deployment''} e))"

text \<open>A ReplicaSet with an owner is passed over.\<close>

definition getReplicaSets :: "('e, 'r) ReportEnv \<Rightarrow> string \<Rightarrow> 'e \<Rightarrow> WorkloadStatus list go" where
  "getReplicaSets env instanceId e =
     eachStatus (readyStatus ''ReplicaSet'' ''orphaned replicaset'')
       (filter (\<lambda>rs. \<not> 0 < length (rwOwnerReferences rs))
          (convertTo (reToReplicaSet env) (findResources env instanceId {''ReplicaSet''} e)))"

definition getStatefulSets :: "('e, 'r) ReportEnv \<Rightarrow> string \<Rightarrow> 'e \<Rightarrow> WorkloadStatus list go" where
  "getStatefulSets env instanceId e =
     eachStatus (readyStatus ''StatefulSet'' ''statefulset'')
       (convertTo (reToStatefulSet env) (findResources env instanceId {''StatefulSet''} e))"

definition getDaemonSets :: "('e, 'r) ReportEnv \<Rightarrow> string \<Rightarrow> 'e \<Rightarrow> WorkloadStatus list" where
  "getDaemonSets env instanceId e =
     map daemonSetStatus (convertTo (reToDaemonSet env) (findResources env instanceId {''DaemonSet''} e))"

definition GetWorkloadStatuses :: "('e, 'r) ReportEnv \<Rightarrow> string \<Rightarrow> 'e \<Rightarrow> WorkloadStatus list go" where
  "GetWorkloadStatuses env instanceId e =
     go_bind (getDeployments env instanceId e) (\<lambda>deployments.
     go_bind (getReplicaSets env instanceId e) (\<lambda>replicaSets.
     go_bind (getStatefulSets env instanceId e) (\<lambda>statefulSets.
       Inr (deployments @ replicaSets @ statefulSets @ getDaemonSets env instanceId e))))"

definition Fetch ::
  "('e, 'r) ReportEnv \<Rightarrow> string \<Rightarrow> string \<Rightarrow> 'e \<Rightarrow> (GoError + ApplicationReport) go \<times> 'e" where
  "Fetch env instanceId namespace e =
     (case GetPodInfo env instanceId namespace e of
        (Inl err, e1) \<Rightarrow> (Inr (Inl (Wrapped ''getting pod info'' err)), e1)
      | (Inr podInfo, e1) \<Rightarrow>
          (case GetWorkloadStatuses env instanceId e1 of
             Inl p \<Rightarrow> (Inl p, e1)
           | Inr statuses \<Rightarrow> (Inr (Inr \<lparr>arPods = podInfo, arWorkloads = statuses\<rparr>), e1)))"

section \<open>Workloads\<close>

text \<open>What a status promises: the unavailable replicas are the wanted less the available ones, in 32 bits; it
  is ready, and says so, exactly when there are none.\<close>

definition balanced :: "WorkloadStatus \<Rightarrow> bool" where
  "balanced st \<longleftrightarrow> wsUnavailable st = wsDesired st - wsAvailable st
     \<and> (wsReady st \<longleftrightarrow> wsAvailable st = wsDesired st)
     \<and> (wsReady st \<longleftrightarrow> wsMessage st = CONST_HEALTHY)"

lemma differs_at: "n < length a \<Longrightarrow> n < length b \<Longrightarrow> a ! n \<noteq> b ! n \<Longrightarrow> a \<noteq> b"
  by auto

lemma count_text_head: "\<exists>c cs. count_text n = c # cs \<and> c \<noteq> CHR ''H''"
proof -
  obtain c cs where t: "count_text n = c # cs"
    using nat_text_nonempty by (cases "count_text n") (auto simp: count_text_def int_text_def split: if_splits)
  have "c \<noteq> CHR ''H''"
  proof (cases "sint n < 0")
    case True
    with t show ?thesis by (auto simp: count_text_def int_text_def)
  next
    case False
    with t have "c \<in> set (nat_text (nat (sint n)))" by (simp add: count_text_def int_text_def)
    then have "digit_value c \<noteq> None" by (rule nat_text_digit)
    then show ?thesis by (auto simp: digit_value_def)
  qed
  with t show ?thesis by blast
qed

lemma count_message: "count_text n @ rest \<noteq> CONST_HEALTHY"
  using count_text_head [of n] by (auto simp: CONST_HEALTHY_def)

lemma deploymentStatus_balanced: "deploymentStatus d = Inr st \<Longrightarrow> balanced st \<and> wsKind st = ''Deployment''"
  by (auto simp: deploymentStatus_def balanced_def Let_def count_message split: option.splits if_splits)

lemma readyStatus_balanced:
  "readyStatus k (c # cs) d = Inr st \<Longrightarrow> c \<noteq> CHR ''H'' \<Longrightarrow> balanced st \<and> wsKind st = k"
  by (auto simp: readyStatus_def balanced_def Let_def CONST_HEALTHY_def split: option.splits if_splits)

lemma daemonSetStatus_balanced: "balanced (daemonSetStatus d) \<and> wsKind (daemonSetStatus d) = ''DaemonSet''"
  by (auto simp: daemonSetStatus_def balanced_def Let_def count_message)

lemma eachStatus_list_all2:
  "eachStatus f xs = Inr sts \<longleftrightarrow> list_all2 (\<lambda>x st. f x = Inr st) xs sts"
  by (induction xs arbitrary: sts) (auto simp: go_bind_eq_Inr list_all2_Cons1)

lemma eachStatus_all: "eachStatus f xs = Inr sts \<Longrightarrow> (\<And>x st. f x = Inr st \<Longrightarrow> P st) \<Longrightarrow> \<forall>st\<in>set sts. P st"
  by (induction xs arbitrary: sts) (auto simp: go_bind_eq_Inr)

lemma eachStatus_panics: "(\<exists>p. eachStatus f xs = Inl p) \<longleftrightarrow> (\<exists>x\<in>set xs. \<exists>p. f x = Inl p)"
proof (induction xs)
  case (Cons x xs)
  then show ?case by (cases "f x") (auto simp: go_bind_eq_Inl)
qed simp

lemma balanced_range:
  assumes "balanced st" and "0 \<le> sint (wsDesired st)" and "0 \<le> sint (wsAvailable st)"
  shows "sint (wsUnavailable st) = sint (wsDesired st) - sint (wsAvailable st)"
proof -
  have "sint (wsDesired st) < 2 ^ 31" "sint (wsAvailable st) < 2 ^ 31"
    using sint_lt [of "wsDesired st"] sint_lt [of "wsAvailable st"] by simp_all
  with assms(2,3) have "- (2 ^ 31) \<le> sint (wsDesired st) - sint (wsAvailable st)"
    "sint (wsDesired st) - sint (wsAvailable st) < 2 ^ 31" by simp_all
  then have "sint (wsDesired st - wsAvailable st) = sint (wsDesired st) - sint (wsAvailable st)"
    by (simp add: sint_word_ariths signed_take_bit_int_eq_self)
  with assms(1) show ?thesis by (simp add: balanced_def)
qed

lemma eachStatus_names:
  "eachStatus f xs = Inr sts \<Longrightarrow> (\<And>w st. f w = Inr st \<Longrightarrow> wsName st = rwName w) \<Longrightarrow> map wsName sts = map rwName xs"
  by (induction xs arbitrary: sts) (auto simp: go_bind_eq_Inr)

lemma deploymentStatus_name: "deploymentStatus w = Inr st \<Longrightarrow> wsName st = rwName w"
  by (auto simp: deploymentStatus_def Let_def split: option.splits)

lemma readyStatus_name: "readyStatus k m w = Inr st \<Longrightarrow> wsName st = rwName w"
  by (auto simp: readyStatus_def Let_def split: option.splits)

lemma getDeployments_report:
  assumes "getDeployments env instanceId e = Inr sts"
  shows "\<forall>st\<in>set sts. balanced st"
    and "map wsName sts = map rwName (convertTo (reToDeployment env) (findResources env instanceId {''Deployment''} e))"
  using eachStatus_all [OF assms [unfolded getDeployments_def], of balanced] deploymentStatus_balanced
    eachStatus_names [OF assms [unfolded getDeployments_def] deploymentStatus_name] by blast+

lemma getReplicaSets_report:
  assumes "getReplicaSets env instanceId e = Inr sts"
  shows "\<forall>st\<in>set sts. balanced st"
    and "map wsName sts = map rwName (filter (\<lambda>rs. rwOwnerReferences rs = [])
           (convertTo (reToReplicaSet env) (findResources env instanceId {''ReplicaSet''} e)))"
proof -
  show "\<forall>st\<in>set sts. balanced st"
    using eachStatus_all [OF assms [unfolded getReplicaSets_def], of balanced] by (fastforce dest: readyStatus_balanced)
qed (use eachStatus_names [OF assms [unfolded getReplicaSets_def] readyStatus_name] in simp)

lemma getStatefulSets_report:
  assumes "getStatefulSets env instanceId e = Inr sts"
  shows "\<forall>st\<in>set sts. balanced st"
    and "map wsName sts = map rwName (convertTo (reToStatefulSet env) (findResources env instanceId {''StatefulSet''} e))"
proof -
  show "\<forall>st\<in>set sts. balanced st"
    using eachStatus_all [OF assms [unfolded getStatefulSets_def], of balanced] by (fastforce dest: readyStatus_balanced)
qed (use eachStatus_names [OF assms [unfolded getStatefulSets_def] readyStatus_name] in simp)

lemma getDaemonSets_report:
  "\<forall>st\<in>set (getDaemonSets env instanceId e). balanced st"
  "map wsName (getDaemonSets env instanceId e)
     = map dsName (convertTo (reToDaemonSet env) (findResources env instanceId {''DaemonSet''} e))"
  by (simp_all add: getDaemonSets_def daemonSetStatus_balanced) (simp add: daemonSetStatus_def Let_def)

text \<open>C30: every workload in a report is balanced: its unavailable replicas are the wanted less the available
  ones, exactly and not only modulo two to the 32 when both counts are not negative, and it is ready
  and called healthy exactly when the two are equal; and the report has one status for each object
  found of the four kinds, in their order, ReplicaSets with an owner apart.\<close>

theorem GetWorkloadStatuses_balanced:
  assumes "GetWorkloadStatuses env instanceId e = Inr sts"
  shows "(\<forall>st\<in>set sts. balanced st \<and> (0 \<le> sint (wsDesired st) \<and> 0 \<le> sint (wsAvailable st) \<longrightarrow>
            sint (wsUnavailable st) = sint (wsDesired st) - sint (wsAvailable st)))
    \<and> map wsName sts =
        map rwName (convertTo (reToDeployment env) (findResources env instanceId {''Deployment''} e))
        @ map rwName (filter (\<lambda>rs. rwOwnerReferences rs = []) (convertTo (reToReplicaSet env) (findResources env instanceId {''ReplicaSet''} e)))
        @ map rwName (convertTo (reToStatefulSet env) (findResources env instanceId {''StatefulSet''} e))
        @ map dsName (convertTo (reToDaemonSet env) (findResources env instanceId {''DaemonSet''} e))"
proof -
  obtain ds rs ss where parts: "getDeployments env instanceId e = Inr ds" "getReplicaSets env instanceId e = Inr rs"
      "getStatefulSets env instanceId e = Inr ss" and sts: "sts = ds @ rs @ ss @ getDaemonSets env instanceId e"
    using assms by (auto simp: GetWorkloadStatuses_def go_bind_eq_Inr)
  note reports = getDeployments_report [OF parts(1)] getReplicaSets_report [OF parts(2)]
    getStatefulSets_report [OF parts(3)] getDaemonSets_report [of env instanceId e]
  have "\<forall>st\<in>set sts. balanced st" using reports by (auto simp: sts)
  then have "\<forall>st\<in>set sts. balanced st \<and> (0 \<le> sint (wsDesired st) \<and> 0 \<le> sint (wsAvailable st) \<longrightarrow>
            sint (wsUnavailable st) = sint (wsDesired st) - sint (wsAvailable st))" using balanced_range by blast
  then show ?thesis by (simp only: sts map_append reports simp_thms)
qed

section \<open>Pods\<close>

text \<open>A log in a report is the text fetched, cut to its first thousand bytes with a mark.\<close>

lemma truncate_bounds:
  "take limit (truncate s limit) = take limit s \<and> length (truncate s limit) \<le> limit + 16
   \<and> (length s \<le> limit \<longrightarrow> truncate s limit = s)"
  by (simp add: truncate_def)

text \<open>The status a container gives its pod.\<close>

definition containerReason :: "ContainerStatus \<Rightarrow> string option" where
  "containerReason cs = (case csWaiting cs of Some reason \<Rightarrow> Some reason | None \<Rightarrow> csTerminated cs)"

text \<open>The reference: the reason of the last container that is waiting or terminated, the phase of the pod when
  none is.\<close>

definition podStatus :: "Pod \<Rightarrow> string" where
  "podStatus pod = (case List.map_filter containerReason (podContainerStatuses pod) of
                      [] \<Rightarrow> podPhase pod | reasons \<Rightarrow> last reasons)"

definition logs_ok :: "ContainerStatus list \<Rightarrow> LogInfo list \<Rightarrow> bool" where
  "logs_ok css logs \<longleftrightarrow> map liContainer logs = map csName css \<and> (\<forall>l\<in>set logs. length (liLog l) \<le> 1016)"

lemma fold_addContainer:
  assumes "fold (addContainer env namespace podname) css (info, e) = (info', e')"
  shows "piName info' = piName info \<and> piEvents info' = piEvents info
    \<and> piRestarts info' = piRestarts info + sum_list (map csRestartCount css)
    \<and> piStatus info' = last (piStatus info # List.map_filter containerReason css)
    \<and> (\<exists>logs. piLogs info' = piLogs info @ logs \<and> logs_ok css logs)"
  using assms
proof (induction css arbitrary: info e)
  case (Cons cs css)
  obtain info1 e1 where one: "addContainer env namespace podname cs (info, e) = (info1, e1)" by fastforce
  have first: "piName info1 = piName info \<and> piEvents info1 = piEvents info
      \<and> piRestarts info1 = piRestarts info + csRestartCount cs
      \<and> piStatus info1 = (case containerReason cs of Some r \<Rightarrow> r | None \<Rightarrow> piStatus info)
      \<and> (\<exists>l. piLogs info1 = piLogs info @ [l] \<and> liContainer l = csName cs \<and> length (liLog l) \<le> 1016)"
    using one truncate_bounds [of 1000] by (auto simp: addContainer_def containerReason_def Let_def split: prod.splits option.splits)
  from Cons.IH [of info1 e1] Cons.prems one have rest: "piName info' = piName info1 \<and> piEvents info' = piEvents info1
      \<and> piRestarts info' = piRestarts info1 + sum_list (map csRestartCount css)
      \<and> piStatus info' = last (piStatus info1 # List.map_filter containerReason css)
      \<and> (\<exists>logs. piLogs info' = piLogs info1 @ logs \<and> logs_ok css logs)" by simp
  from first rest obtain l logs where "piLogs info' = piLogs info @ l # logs" "logs_ok (cs # css) (l # logs)"
    by (auto simp: logs_ok_def)
  with first rest show ?case
    by (cases "containerReason cs") (auto simp: map_filter_simps add.assoc)
qed (auto simp: map_filter_simps logs_ok_def)

definition podInfo_ok :: "KubeEvent list \<Rightarrow> Pod \<Rightarrow> PodInfo \<Rightarrow> bool" where
  "podInfo_ok events pod info \<longleftrightarrow> piName info = podName pod \<and> piStatus info = podStatus pod
     \<and> piRestarts info = sum_list (map csRestartCount (podContainerStatuses pod))
     \<and> logs_ok (podContainerStatuses pod) (piLogs info) \<and> piEvents info = podEvents (podName pod) events"

lemma podReport_ok:
  assumes "podReport env namespace events pod e = (info, e')"
  shows "podInfo_ok events pod info"
proof -
  let ?start = "\<lparr>piEvents = [], piLogs = [], piName = podName pod, piRestarts = 0, piStatus = podPhase pod\<rparr>"
  obtain mid e1 where run: "fold (addContainer env namespace (podName pod)) (podContainerStatuses pod) (?start, e) = (mid, e1)"
    by fastforce
  from assms run have info: "info = mid\<lparr>piEvents := piEvents mid @ podEvents (podName pod) events\<rparr>"
    by (simp add: podReport_def)
  from fold_addContainer [OF run] show ?thesis
    by (auto simp: info podInfo_ok_def podStatus_def split: list.splits)
qed

lemma podReports_ok:
  "podReports env namespace events pods e = (report, e') \<Longrightarrow> list_all2 (podInfo_ok events) pods report"
  by (induction pods arbitrary: e report) (auto simp: Let_def intro: podReport_ok split: prod.splits)

text \<open>The report has one entry for every pod of the application, in their order: its status is the reason of
  the last container that is waiting or terminated and else its phase, its restarts are those of all
  its containers, its logs are one for each container, each cut to a thousand bytes and a mark, and
  its events are the warnings about a pod of its name.\<close>

lemma GetPodInfo_contract:
  assumes "GetPodInfo env instanceId namespace e = (Inr report, e')"
  shows "\<exists>events e1. reFetchEvents env namespace e = (Inr events, e1)
    \<and> list_all2 (podInfo_ok events) (getPods env instanceId e) report"
  using assms podReports_ok
  by (fastforce simp: GetPodInfo_def Let_def split: prod.splits sum.splits)

section \<open>Examples\<close>

definition sampleReports :: "(string list, string) ReportEnv" where
  "sampleReports =
     \<lparr>reFindResources = (\<lambda>P e. filter P [Some ''web'', None, Some ''old'', Some ''db'', Some ''agent'']),
      reLabels = (\<lambda>r. Some [''dcp.hiro.io/instance-id'' \<mapsto> ''n-app'']),
      reKind = (\<lambda>r. if r = ''web'' then ''Deployment'' else if r = ''db'' then ''Pod''
                     else if r = ''old'' then ''ReplicaSet'' else ''DaemonSet''),
      reToPod = (\<lambda>r. Inr \<lparr>podName = r, podPhase = ''Running'',
                      podContainerStatuses = [\<lparr>csName = ''main'', csRestartCount = 2, csWaiting = Some ''CrashLoopBackOff'', csTerminated = None\<rparr>,
                                              \<lparr>csName = ''side'', csRestartCount = 0, csWaiting = None, csTerminated = None\<rparr>]\<rparr>),
      reToDeployment = (\<lambda>r. Inr \<lparr>rwName = r, rwNamespace = ''n'', rwReplicas = Some 3, rwAvailableReplicas = 2,
                             rwReadyReplicas = 2, rwOwnerReferences = []\<rparr>),
      reToReplicaSet = (\<lambda>r. Inr \<lparr>rwName = r, rwNamespace = ''n'', rwReplicas = Some 3, rwAvailableReplicas = 2,
                             rwReadyReplicas = 2, rwOwnerReferences = [''web'']\<rparr>),
      reToStatefulSet = (\<lambda>r. Inl (ErrorString ''no stateful set'')),
      reToDaemonSet = (\<lambda>r. Inr \<lparr>dsName = r, dsNamespace = ''n'', dsDesiredNumberScheduled = 1, dsNumberReady = 1\<rparr>),
      reFetchEvents = (\<lambda>n e. (Inr [\<lparr>keObjectKind = ''Pod'', keObjectName = ''db'', keType = ''Warning'',
                                    keReason = ''BackOff'', keMessage = ''restarting'', keFirstTimestamp = ''t''\<rparr>], e)),
      reFetchLogs = (\<lambda>n p c prev e. (Inr (if prev then ''crashed'' else ''ok''), c # e))\<rparr>"

theorem GetWorkloadStatuses_balanced_witness:
  "\<exists>web agent. GetWorkloadStatuses sampleReports ''n-app'' [] = Inr [web, agent] \<and> sint (wsUnavailable web) = 1
     \<and> balanced web \<and> wsReady agent"
proof -
  let ?r = "GetWorkloadStatuses sampleReports ''n-app'' []"
  have "case ?r of Inr [web, agent] \<Rightarrow> sint (wsDesired web) = 3 \<and> sint (wsAvailable web) = 2 \<and> wsReady agent | _ \<Rightarrow> False"
    by code_simp
  then obtain web agent where run: "?r = Inr [web, agent]" and "sint (wsDesired web) = 3" "sint (wsAvailable web) = 2" "wsReady agent"
    by (auto split: sum.splits list.splits)
  moreover from GetWorkloadStatuses_balanced [OF run] have "balanced web"
    "0 \<le> sint (wsDesired web) \<and> 0 \<le> sint (wsAvailable web) \<longrightarrow>
       sint (wsUnavailable web) = sint (wsDesired web) - sint (wsAvailable web)" by simp_all
  ultimately show ?thesis by simp
qed

lemma GetPodInfo_contract_example:
  "\<exists>info e'. GetPodInfo sampleReports ''n-app'' ''n'' [] = (Inr [info], e') \<and> piStatus info = ''CrashLoopBackOff''
     \<and> piRestarts info = 2 \<and> map liContainer (piLogs info) = [''main'', ''side'']"
proof -
  let ?r = "GetPodInfo sampleReports ''n-app'' ''n'' []"
  have "case fst ?r of Inr [info] \<Rightarrow> True | _ \<Rightarrow> False" by code_simp
  then obtain info where "fst ?r = Inr [info]" by (auto split: sum.splits list.splits)
  then obtain e' where run: "?r = (Inr [info], e')" by (metis prod.collapse)
  have p: "case getPods sampleReports ''n-app'' [] of
      [pod] \<Rightarrow> podStatus pod = ''CrashLoopBackOff'' \<and> sum_list (map csRestartCount (podContainerStatuses pod)) = 2
        \<and> map csName (podContainerStatuses pod) = [''main'', ''side''] | _ \<Rightarrow> False" by code_simp
  from GetPodInfo_contract [OF run] obtain events pod where "podInfo_ok events pod info" "getPods sampleReports ''n-app'' [] = [pod]"
    by (auto simp: list_all2_Cons2)
  with p have "piStatus info = ''CrashLoopBackOff'' \<and> piRestarts info = 2 \<and> map liContainer (piLogs info) = [''main'', ''side'']"
    by (simp add: podInfo_ok_def logs_ok_def)
  with run show ?thesis by (intro exI [of _ info] exI [of _ e']) simp
qed

end
