(* ===== verification/SyncManager.thy ===== *)
theory SyncManager
  imports GlobalApplication JobCycles Charts "HOL-Library.Multiset"
begin

text \<open>
  \<open>internal/controller/sync/applications.go\<close> and \<open>health.go\<close>: the service behind the interface
  \<open>Applications\<close>, which renders the versions of an application, keeps them in a cache, and
  synchronises, inspects and deletes the resources that carry the application's instance label.
  The chart store, the cluster cache, the GitOps engine, the Kubernetes client and SHA-256 are
  fields of \<open>SyncEnv\<close> over the state \<open>'e\<close> of everything outside; the cache of rendered versions,
  the only state of the service, stands beside it. What a Go map or set is ranged in is an
  unspecified order: the fields \<open>seTextOrder\<close>, \<open>seKeyOrder\<close> and \<open>seSetOrder\<close>.
\<close>

section \<open>The outside\<close>

record ('e, 'v, 'c, 'r) SyncEnv =
  seConfig :: ApplicationRuntimeConfig
  seSemver :: "('v, 'c) Semver"
  seApi :: "'r ResourceApi"
  seAddAndGetLatest :: "string \<Rightarrow> string \<Rightarrow> ('v, 'c) ChartVersion \<Rightarrow> 'e \<Rightarrow> (GoError + 'v ChartKey) \<times> 'e"
  seRender :: "'v ChartKey \<Rightarrow> ApplicationInstance \<Rightarrow> 'e \<Rightarrow> (GoError + ('v, 'r) RenderedChart) \<times> 'e"
  seFindResources :: "('r option \<Rightarrow> bool) \<Rightarrow> 'e \<Rightarrow> 'r option list"
  seSync :: "'r list \<Rightarrow> ('r option \<Rightarrow> bool) \<Rightarrow> string \<Rightarrow> string \<Rightarrow> bool \<Rightarrow> 'e
    \<Rightarrow> (GoError + ResourceSyncResult list) \<times> 'e"
  seDelete :: "'r \<Rightarrow> 'e \<Rightarrow> GoError option \<times> 'e"
  seSha256Hex :: "string \<Rightarrow> string"
  seVersionVerb :: "'v SpecificVersion \<Rightarrow> string"
  seTextOrder :: "string list \<Rightarrow> string list"
  seKeyOrder :: "ResourceKey list \<Rightarrow> ResourceKey list"
  seSetOrder :: "'v SpecificVersion list \<Rightarrow> 'v SpecificVersion list"

section \<open>The cache of rendered versions\<close>

record 'v instanceKey =
  ikChartKey :: "'v ChartKey"
  ikInstance :: ApplicationInstance

record ('v, 'r) cachedApp =
  caApplication :: AnyApplication
  caChartKey :: "'v ChartKey"
  caInstance :: ApplicationInstance
  caRenderedChart :: "('v, 'r) RenderedChart"
  caRevision :: string

definition instanceKey_ToString :: "('v, 'c) Semver \<Rightarrow> 'v instanceKey \<Rightarrow> string" where
  "instanceKey_ToString sv key =
     ''instanceKey{ChartKey: '' @ ChartKey_ToString sv (ikChartKey key) @ '', Instance: ''
     @ ApplicationInstance_ToString (ikInstance key) @ ''}''"

definition Revision :: "('e, 'v, 'c, 'r) SyncEnv \<Rightarrow> 'v instanceKey \<Rightarrow> GoError + string" where
  "Revision env key = Inr (seSha256Hex env (instanceKey_ToString (seSemver env) key))"

type_synonym ('v, 'r) cachedInstances = "string \<rightharpoonup> ('v, 'r) cachedApp"

definition NewCachedInstances :: "('v, 'r) cachedInstances" where
  "NewCachedInstances = Map.empty"

definition cachedInstances_Get :: "('v, 'c) Semver \<Rightarrow> 'v instanceKey \<Rightarrow> ('v, 'r) cachedInstances \<Rightarrow> ('v, 'r) cachedApp option" where
  "cachedInstances_Get sv key c = c (instanceKey_ToString sv key)"

definition cachedInstances_Put ::
  "('v, 'c) Semver \<Rightarrow> 'v instanceKey \<Rightarrow> ('v, 'r) cachedApp \<Rightarrow> ('v, 'r) cachedInstances \<Rightarrow> ('v, 'r) cachedInstances" where
  "cachedInstances_Put sv key app c = c(instanceKey_ToString sv key \<mapsto> app)"

definition cachedInstances_Contains :: "('v, 'c) Semver \<Rightarrow> 'v instanceKey \<Rightarrow> ('v, 'r) cachedInstances \<Rightarrow> bool" where
  "cachedInstances_Contains sv key c \<longleftrightarrow> c (instanceKey_ToString sv key) \<noteq> None"

type_synonym ('v, 'r) appCache = "string \<rightharpoonup> ('v, 'r) cachedInstances"

type_synonym ('e, 'v, 'r) syncState = "('v, 'r) appCache \<times> 'e"

definition getApplicationKey :: "AnyApplication \<Rightarrow> string" where
  "getApplicationKey application = appName application @ ''-'' @ appNamespace application"

definition GetInstanceId :: "AnyApplication \<Rightarrow> string" where
  "GetInstanceId application = appNamespace application @ ''-'' @ appName application"

definition getOrCreateInstances :: "string \<Rightarrow> ('v, 'r) appCache \<Rightarrow> ('v, 'r) cachedInstances \<times> ('v, 'r) appCache" where
  "getOrCreateInstances appKey cache =
     (case cache appKey of
        Some instances \<Rightarrow> (instances, cache)
      | None \<Rightarrow> (NewCachedInstances, cache(appKey \<mapsto> NewCachedInstances)))"

definition buildInstanceKey :: "AnyApplication \<Rightarrow> 'v ChartKey \<Rightarrow> 'v instanceKey go" where
  "buildInstanceKey application chartKey =
     (case srcHelmSelector (specSource (appSpec application)) of
        None \<Rightarrow> Inl NilPointerDereference
      | Some helm \<Rightarrow>
          Inr \<lparr>ikChartKey = chartKey,
               ikInstance = \<lparr>aiInstanceId = GetInstanceId application, aiName = appName application,
                  aiNamespace = appNamespace application, aiReleaseName = appName application,
                  aiValuesYaml = helmValues helm\<rparr>\<rparr>)"

definition render ::
  "('e, 'v, 'c, 'r) SyncEnv \<Rightarrow> AnyApplication \<Rightarrow> 'v instanceKey \<Rightarrow> 'e \<Rightarrow> (GoError + ('v, 'r) cachedApp) \<times> 'e" where
  "render env application configuration e =
     (case seRender env (ikChartKey configuration) (ikInstance configuration) e of
        (Inl err, e1) \<Rightarrow> (Inl (Wrapped ''Fail to render chart'' err), e1)
      | (Inr renderedChart, e1) \<Rightarrow>
          (case Revision env configuration of
             Inl err \<Rightarrow> (Inl err, e1)
           | Inr revision \<Rightarrow>
               (Inr \<lparr>caApplication = application, caChartKey = ikChartKey configuration,
                     caInstance = ikInstance configuration, caRenderedChart = renderedChart,
                     caRevision = revision\<rparr>, e1)))"

text \<open>\<open>*version\<close> of a nil pointer and a missing Helm selector panic before anything else happens.\<close>

definition getOrRenderAppVersion ::
  "('e, 'v, 'c, 'r) SyncEnv \<Rightarrow> AnyApplication \<Rightarrow> 'v VersionPtr \<Rightarrow> ('e, 'v, 'r) syncState
     \<Rightarrow> (GoError + ('v, 'r) cachedApp) go \<times> ('e, 'v, 'r) syncState" where
  "getOrRenderAppVersion env application ptr s =
     (case s of (cache, e) \<Rightarrow>
        (case go_bind (NewChartId application) (\<lambda>chartId.
                 case ptr of
                   None \<Rightarrow> Inl NilPointerDereference
                 | Some v \<Rightarrow> buildInstanceKey application \<lparr>ckChartId = chartId, ckVersion = v\<rparr>) of
           Inl p \<Rightarrow> (Inl p, s)
         | Inr uniqueConfiguration \<Rightarrow>
             (let appKey = getApplicationKey application;
                  (instances, cache1) = getOrCreateInstances appKey cache
              in case cachedInstances_Get (seSemver env) uniqueConfiguration instances of
                   Some app \<Rightarrow> (Inr (Inr app), (cache1, e))
                 | None \<Rightarrow>
                     (case render env application uniqueConfiguration e of
                        (Inl err, e1) \<Rightarrow> (Inr (Inl err), (cache1, e1))
                      | (Inr newApp, e1) \<Rightarrow>
                          (Inr (Inr newApp),
                           (cache1(appKey \<mapsto> cachedInstances_Put (seSemver env) uniqueConfiguration newApp instances), e1))))))"

section \<open>What the cluster holds of an application\<close>

text \<open>Reading a missing key of a map of labels gives the empty text.\<close>

definition labelText :: "(string \<rightharpoonup> string) \<Rightarrow> string \<Rightarrow> string" where
  "labelText labels k = (case labels k of None \<Rightarrow> '''' | Some v \<Rightarrow> v)"

definition carriesInstance :: "'r ResourceApi \<Rightarrow> string \<Rightarrow> 'r \<Rightarrow> bool" where
  "carriesInstance api instanceId r \<longleftrightarrow> labelText (raLabels api r) LABEL_INSTANCE_ID = instanceId"

definition isManagedFunc :: "('e, 'v, 'c, 'r) SyncEnv \<Rightarrow> string \<Rightarrow> 'r option \<Rightarrow> bool" where
  "isManagedFunc env instanceId resource =
     (case resource of None \<Rightarrow> False | Some r \<Rightarrow> carriesInstance (seApi env) instanceId r)"

text \<open>\<open>FindResources\<close> answers resources its predicate accepts, and the predicate refuses a nil one.
  A nil map of labels is the empty one: no instance id is empty.\<close>

definition findAvailableApplicationResources ::
  "('e, 'v, 'c, 'r) SyncEnv \<Rightarrow> AnyApplication \<Rightarrow> 'e \<Rightarrow> 'r list" where
  "findAvailableApplicationResources env application e =
     [r. Some r \<leftarrow> seFindResources env (isManagedFunc env (GetInstanceId application)) e]"

definition addToVersion :: "string \<Rightarrow> 'r \<Rightarrow> (string \<times> 'r list) list \<Rightarrow> (string \<times> 'r list) list" where
  "addToVersion v r m = AList.update v ((case map_of m v of None \<Rightarrow> [] | Some rs \<Rightarrow> rs) @ [r]) m"

fun splitResourcesByVersion ::
  "'r ResourceApi \<Rightarrow> 'r list \<Rightarrow> (string \<times> 'r list) list \<Rightarrow> GoError + (string \<times> 'r list) list" where
  "splitResourcesByVersion api [] m = Inr m"
| "splitResourcesByVersion api (res # rs) m =
     (case raChartVersionLabel api res of
        Inl err \<Rightarrow> Inl (Wrapped (''Failed to get version for resource '' @ raName api res) err)
      | Inr None \<Rightarrow> splitResourcesByVersion api rs m
      | Inr (Some v) \<Rightarrow> splitResourcesByVersion api rs (addToVersion v res m))"

text \<open>The body of the loops over the resources by version: \<open>None\<close> where it continues.\<close>

definition resourcesByVersion ::
  "('e, 'v, 'c, 'r) SyncEnv \<Rightarrow> AnyApplication \<Rightarrow> 'e \<Rightarrow> GoError + (string \<times> 'r list) list" where
  "resourcesByVersion env application e =
     (case splitResourcesByVersion (seApi env) (findAvailableApplicationResources env application e) [] of
        Inl err \<Rightarrow> Inl (Wrapped ''Failed to split resources by version'' err)
      | Inr m \<Rightarrow> Inr (map (\<lambda>v. (v, case map_of m v of None \<Rightarrow> [] | Some rs \<Rightarrow> rs)) (seTextOrder env (map fst m))))"

fun presentVersions :: "('v, 'c) Semver \<Rightarrow> (string \<times> 'r list) list \<Rightarrow> GoError + 'v SpecificVersion list" where
  "presentVersions sv [] = Inr []"
| "presentVersions sv ((versionStr, resources) # rest) =
     (if length resources = 0 then presentVersions sv rest
      else case NewSpecificVersion sv versionStr of
             Inl err \<Rightarrow> Inl (Wrapped (''Failed to parse version string '' @ versionStr) err)
           | Inr v \<Rightarrow> (case presentVersions sv rest of Inl err \<Rightarrow> Inl err | Inr vs \<Rightarrow> Inr (v # vs)))"

definition GetAllPresentVersions ::
  "('e, 'v, 'c, 'r) SyncEnv \<Rightarrow> AnyApplication \<Rightarrow> 'e \<Rightarrow> GoError + 'v SpecificVersion list" where
  "GetAllPresentVersions env application e =
     (case resourcesByVersion env application e of
        Inl err \<Rightarrow> Inl err
      | Inr m \<Rightarrow> presentVersions (seSemver env) m)"

section \<open>Local applications\<close>

fun loadVersions ::
  "('e, 'v, 'c, 'r) SyncEnv \<Rightarrow> AnyApplication \<Rightarrow> (string \<times> 'r list) list
     \<Rightarrow> ('v SpecificVersion \<times> ('v, 'r) LocalApplication) list \<Rightarrow> ('e, 'v, 'r) syncState
     \<Rightarrow> (GoError + ('v SpecificVersion \<times> ('v, 'r) LocalApplication) list) go \<times> ('e, 'v, 'r) syncState" where
  "loadVersions env application [] acc s = (Inr (Inr acc), s)"
| "loadVersions env application ((versionStr, resources) # rest) acc s =
     (if length resources = 0 then loadVersions env application rest acc s
      else case NewSpecificVersion (seSemver env) versionStr of
             Inl err \<Rightarrow> (Inr (Inl (Wrapped (''Failed to parse version string '' @ versionStr) err)), s)
           | Inr v \<Rightarrow>
               (case getOrRenderAppVersion env application (Some v) s of
                  (Inl p, s1) \<Rightarrow> (Inl p, s1)
                | (Inr (Inl err), s1) \<Rightarrow>
                    (Inr (Inl (Wrapped (''Failed to get or render application for version '' @ versionStr) err)), s1)
                | (Inr (Inr app), s1) \<Rightarrow>
                    (case NewFromUnstructured (seApi env) v resources (rcResources (caRenderedChart app)) (seConfig env) of
                       Inl err \<Rightarrow>
                         (Inr (Inl (Wrapped (''Failed to create local application for version ''
                            @ seVersionVerb env v) err)), s1)
                     | Inr None \<Rightarrow> loadVersions env application rest acc s1
                     | Inr (Some localApplication) \<Rightarrow>
                         loadVersions env application rest (AList.update v localApplication acc) s1)))"

definition loadLocalApplicationVersions ::
  "('e, 'v, 'c, 'r) SyncEnv \<Rightarrow> AnyApplication \<Rightarrow> ('e, 'v, 'r) syncState
     \<Rightarrow> (GoError + ('v SpecificVersion \<times> ('v, 'r) LocalApplication) list) go \<times> ('e, 'v, 'r) syncState" where
  "loadLocalApplicationVersions env application s =
     (case resourcesByVersion env application (snd s) of
        Inl err \<Rightarrow> (Inr (Inl err), s)
      | Inr m \<Rightarrow> loadVersions env application m [] s)"

section \<open>Versions of an application\<close>

definition GetTargetVersion :: "('e, 'v, 'c, 'r) SyncEnv \<Rightarrow> AnyApplication \<Rightarrow> 'v SpecificVersion option" where
  "GetTargetVersion env application =
     (case GetStatusFor (appStatus application) (cfgZoneId (seConfig env)) of
        None \<Rightarrow> None
      | Some zone \<Rightarrow>
          (case NewSpecificVersion (seSemver env) (zsChartVersion zone) of
             Inl err \<Rightarrow> None
           | Inr v \<Rightarrow> Some v))"

text \<open>The error of \<open>AddAndGetLatest\<close> is bound in the \<open>if\<close> only: when there is one, the outer \<open>err\<close> that is
  returned is nil, and so is the version.\<close>

definition DetermineTargetVersion ::
  "('e, 'v, 'c, 'r) SyncEnv \<Rightarrow> AnyApplication \<Rightarrow> ('e, 'v, 'r) syncState
     \<Rightarrow> (GoError + 'v VersionPtr) go \<times> ('e, 'v, 'r) syncState" where
  "DetermineTargetVersion env application s =
     (case srcHelmSelector (specSource (appSpec application)) of
        None \<Rightarrow> (Inl NilPointerDereference, s)
      | Some helmSource \<Rightarrow>
          (case NewChartVersion (seSemver env) (helmVersion helmSource) of
             Inl err \<Rightarrow> (Inr (Inl err), s)
           | Inr chartVersion \<Rightarrow>
               (case seAddAndGetLatest env (helmChart helmSource) (helmRepository helmSource) chartVersion (snd s) of
                  (Inr chartKey, e1) \<Rightarrow> (Inr (Inr (Some (ckVersion chartKey))), (fst s, e1))
                | (Inl err, e1) \<Rightarrow> (Inr (Inr None), (fst s, e1)))))"

definition LoadApplication ::
  "('e, 'v, 'c, 'r) SyncEnv \<Rightarrow> AnyApplication \<Rightarrow> ('e, 'v, 'r) syncState
     \<Rightarrow> (GoError + ('v, 'r) GlobalApplication) go \<times> ('e, 'v, 'r) syncState" where
  "LoadApplication env application s =
     (case loadLocalApplicationVersions env application s of
        (Inl p, s1) \<Rightarrow> (Inl p, s1)
      | (Inr (Inl err), s1) \<Rightarrow> (Inr (Inl (Wrapped ''Fail to create local application'' err)), s1)
      | (Inr (Inr localApplications), s1) \<Rightarrow>
          (let activeVersionOpt = GetTargetVersion env application
           in case DetermineTargetVersion env application s1 of
                (Inl p, s2) \<Rightarrow> (Inl p, s2)
              | (Inr (Inl err), s2) \<Rightarrow> (Inr (Inl (Wrapped ''Failed to determine target version'' err)), s2)
              | (Inr (Inr targetVersion), s2) \<Rightarrow>
                  (case (activeVersionOpt, targetVersion) of
                     (None, _) \<Rightarrow>
                       (Inr (Inr (NewFromLocalApplication localApplications activeVersionOpt (Some targetVersion)
                                    application (seConfig env))), s2)
                   | (Some activeVersion, None) \<Rightarrow> (Inl NilPointerDereference, s2)
                   | (Some activeVersion, Some target) \<Rightarrow>
                       (let newVersion = (if \<not> SpecificVersion_Equal (seSemver env) target activeVersion
                                          then Some targetVersion else None)
                        in (Inr (Inr (NewFromLocalApplication localApplications activeVersionOpt newVersion
                                        application (seConfig env))), s2)))))"

definition GetRenderedChart ::
  "('e, 'v, 'c, 'r) SyncEnv \<Rightarrow> AnyApplication \<Rightarrow> ('e, 'v, 'r) syncState
     \<Rightarrow> (GoError + ('v, 'r) RenderedChart) go \<times> ('e, 'v, 'r) syncState" where
  "GetRenderedChart env application s =
     (case DetermineTargetVersion env application s of
        (Inl p, s1) \<Rightarrow> (Inl p, s1)
      | (Inr (Inl err), s1) \<Rightarrow> (Inr (Inl err), s1)
      | (Inr (Inr v), s1) \<Rightarrow>
          (case getOrRenderAppVersion env application v s1 of
             (Inl p, s2) \<Rightarrow> (Inl p, s2)
           | (Inr (Inl err), s2) \<Rightarrow> (Inr (Inl err), s2)
           | (Inr (Inr app), s2) \<Rightarrow> (Inr (Inr (caRenderedChart app)), s2)))"

section \<open>Health\<close>

type_synonym 'r managed = "(ResourceKey \<times> 'r) list"

definition managedByKey :: "'r ResourceApi \<Rightarrow> 'r list \<Rightarrow> 'r managed" where
  "managedByKey api rs = fold (\<lambda>r m. AList.update (raResourceKey api r) r m) rs []"

text \<open>The loop of \<open>GetAggregatedStatus\<close>: how many resources were judged, the code and the message.\<close>

definition aggregateOne :: "'r ResourceApi \<Rightarrow> 'r managed \<Rightarrow> 'r \<Rightarrow> nat \<times> HealthStatusCode \<times> string \<Rightarrow> nat \<times> HealthStatusCode \<times> string" where
  "aggregateOne api m obj acc =
     (let (n, code, msg) = acc;
          verdict = (case map_of m (raResourceKey api obj) of
                       None \<Rightarrow> Some \<lparr>hsStatus = HealthStatusMissing, hsMessage = ''''\<rparr>
                     | Some liveObj \<Rightarrow>
                         (case raGetResourceHealth api liveObj of
                            Inl err \<Rightarrow> None
                          | Inr None \<Rightarrow> Some \<lparr>hsStatus = HealthStatusHealthy, hsMessage = ''''\<rparr>
                          | Inr (Some h) \<Rightarrow> Some h))
      in case verdict of
           None \<Rightarrow> acc
         | Some h \<Rightarrow>
             if raIsWorse api code (hsStatus h) then (n + 1, hsStatus h, msg @ ''. '' @ hsMessage h)
             else (n + 1, code, msg))"

definition GetAggregatedStatus :: "'r ResourceApi \<Rightarrow> 'r list \<Rightarrow> 'r managed \<Rightarrow> HealthStatus" where
  "GetAggregatedStatus api templateResources m =
     (let (statusCounts, code, msg) = fold (aggregateOne api m) templateResources (0, HealthStatusHealthy, '''')
      in \<lparr>hsStatus = (if statusCounts = 0 then HealthStatusUnknown else code), hsMessage = msg\<rparr>)"

definition getAggregatedStatus ::
  "('e, 'v, 'c, 'r) SyncEnv \<Rightarrow> ('v, 'r) cachedApp \<Rightarrow> 'e \<Rightarrow> 'v AggregatedStatus" where
  "getAggregatedStatus env app e =
     (let m = managedByKey (seApi env) (findAvailableApplicationResources env (caApplication app) e)
      in \<lparr>asHealthStatus = Some (GetAggregatedStatus (seApi env) (rcResources (caRenderedChart app)) m),
          asChartVersion = Some (ckVersion (caChartKey app))\<rparr>)"

text \<open>An error of the rendering is logged, and the nil application it comes with is read.\<close>

definition GetAggregatedStatusVersion ::
  "('e, 'v, 'c, 'r) SyncEnv \<Rightarrow> AnyApplication \<Rightarrow> 'v VersionPtr \<Rightarrow> ('e, 'v, 'r) syncState
     \<Rightarrow> 'v AggregatedStatus go \<times> ('e, 'v, 'r) syncState" where
  "GetAggregatedStatusVersion env application ptr s =
     (case getOrRenderAppVersion env application ptr s of
        (Inl p, s1) \<Rightarrow> (Inl p, s1)
      | (Inr (Inl err), s1) \<Rightarrow> (Inl NilPointerDereference, s1)
      | (Inr (Inr app), s1) \<Rightarrow> (Inr (getAggregatedStatus env app (snd s1)), s1))"

section \<open>Synchronisation\<close>

definition addAndLogResults :: "ResourceSyncResult list \<Rightarrow> 'v SyncResult \<Rightarrow> 'v SyncResult" where
  "addAndLogResults results syncResult = fold AddResult results syncResult"

definition sync ::
  "('e, 'v, 'c, 'r) SyncEnv \<Rightarrow> ('v, 'r) cachedApp \<Rightarrow> ('e, 'v, 'r) syncState
     \<Rightarrow> ('v SyncResult \<times> GoError option) go \<times> ('e, 'v, 'r) syncState" where
  "sync env app s =
     (case seSync env (rcResources (caRenderedChart app)) (isManagedFunc env (aiInstanceId (caInstance app)))
             (caRevision app) (aiNamespace (caInstance app)) True (snd s) of
        (Inl err, e1) \<Rightarrow>
          (Inr (NewSyncResult, Some (Wrapped ''Failed to synchronize cluster state'' err)), (fst s, e1))
      | (Inr resourceSyncResults, e1) \<Rightarrow>
          (let syncResult = (addAndLogResults resourceSyncResults NewSyncResult)
                              \<lparr>syAggregatedStatus := getAggregatedStatus env app e1\<rparr>
           in case loadLocalApplicationVersions env (caApplication app) (fst s, e1) of
                (Inl p, s2) \<Rightarrow> (Inl p, s2)
              | (Inr (Inl err), s2) \<Rightarrow>
                  (Inr (syncResult\<lparr>syApplicationResourcesDeployed := False,
                                   syApplicationResourcesPresent := False\<rparr>, None), s2)
              | (Inr (Inr localApplications), s2) \<Rightarrow>
                  (case map_of localApplications (ckVersion (caChartKey app)) of
                     None \<Rightarrow> (Inr (syncResult\<lparr>syApplicationResourcesPresent := False\<rparr>, None), s2)
                   | Some localApplication \<Rightarrow>
                       (Inr (syncResult\<lparr>syApplicationResourcesPresent := True,
                               syApplicationResourcesDeployed := LocalApplication_IsDeployed (seApi env) localApplication\<rparr>,
                             None), s2))))"

definition SyncVersion ::
  "('e, 'v, 'c, 'r) SyncEnv \<Rightarrow> AnyApplication \<Rightarrow> 'v VersionPtr \<Rightarrow> ('e, 'v, 'r) syncState
     \<Rightarrow> ('v SyncResult \<times> GoError option) go \<times> ('e, 'v, 'r) syncState" where
  "SyncVersion env application ptr s =
     (case getOrRenderAppVersion env application ptr s of
        (Inl p, s1) \<Rightarrow> (Inl p, s1)
      | (Inr (Inl err), s1) \<Rightarrow> (Inr (NewSyncResult, Some err), s1)
      | (Inr (Inr app), s1) \<Rightarrow> sync env app s1)"

section \<open>Deletion\<close>

text \<open>The two counters, the resources not known to be deleted, and the state outside.\<close>

record ('e, 'r) Deletion =
  dnDeleted :: int
  dnFailed :: int
  dnManaged :: "'r managed"
  dnOutside :: 'e

definition deleteManaged ::
  "('e, 'v, 'c, 'r) SyncEnv \<Rightarrow> ResourceKey \<Rightarrow> 'r \<Rightarrow> ('e, 'r) Deletion \<Rightarrow> ('e, 'r) Deletion" where
  "deleteManaged env key obj d =
     (case seDelete env obj (dnOutside d) of
        (Some err, e1) \<Rightarrow> d\<lparr>dnFailed := dnFailed d + 1, dnOutside := e1\<rparr>
      | (None, e1) \<Rightarrow> d\<lparr>dnDeleted := dnDeleted d + 1, dnManaged := AList.delete key (dnManaged d), dnOutside := e1\<rparr>)"

text \<open>The loop over the rendered resources: the live object is deleted, a missing one counts as deleted.\<close>

definition deleteRendered ::
  "('e, 'v, 'c, 'r) SyncEnv \<Rightarrow> 'r \<Rightarrow> ('e, 'r) Deletion \<Rightarrow> ('e, 'r) Deletion" where
  "deleteRendered env obj d =
     (let key = raResourceKey (seApi env) obj
      in case map_of (dnManaged d) key of
           None \<Rightarrow> d\<lparr>dnDeleted := dnDeleted d + 1\<rparr>
         | Some existing \<Rightarrow> deleteManaged env key existing d)"

text \<open>The loop over the map of what remains, which drops the entry it is at.\<close>

definition deleteRemaining ::
  "('e, 'v, 'c, 'r) SyncEnv \<Rightarrow> ResourceKey \<Rightarrow> ('e, 'r) Deletion \<Rightarrow> ('e, 'r) Deletion" where
  "deleteRemaining env key d =
     (case map_of (dnManaged d) key of
        None \<Rightarrow> d
      | Some obj \<Rightarrow> deleteManaged env (raResourceKey (seApi env) obj) obj d)"

definition deleteApp ::
  "('e, 'v, 'c, 'r) SyncEnv \<Rightarrow> ('v, 'r) cachedApp \<Rightarrow> 'e \<Rightarrow> 'v DeleteResult \<times> 'e" where
  "deleteApp env app e =
     (let rendered = rcResources (caRenderedChart app);
          d0 = \<lparr>dnDeleted = 0, dnFailed = 0,
                dnManaged = managedByKey (seApi env) (findAvailableApplicationResources env (caApplication app) e),
                dnOutside = e\<rparr>;
          d1 = fold (deleteRendered env) rendered d0;
          d2 = fold (deleteRemaining env) (seKeyOrder env (map fst (dnManaged d1))) d1
      in (\<lparr>dlVersion = Some (ckVersion (caChartKey app)), dlTotal = int (length rendered),
           dlDeleted = dnDeleted d2, dlDeleteFailed = dnFailed d2,
           dlApplicationResourcesPresent = (length (dnManaged d2) > 0)\<rparr>, dnOutside d2))"

definition DeleteVersion ::
  "('e, 'v, 'c, 'r) SyncEnv \<Rightarrow> AnyApplication \<Rightarrow> 'v VersionPtr \<Rightarrow> ('e, 'v, 'r) syncState
     \<Rightarrow> (GoError + 'v DeleteResult) go \<times> ('e, 'v, 'r) syncState" where
  "DeleteVersion env application ptr s =
     (case getOrRenderAppVersion env application ptr s of
        (Inl p, s1) \<Rightarrow> (Inl p, s1)
      | (Inr (Inl err), s1) \<Rightarrow> (Inr (Inl err), s1)
      | (Inr (Inr app), s1) \<Rightarrow> (let (result, e2) = deleteApp env app (snd s1) in (Inr (Inr result), (fst s1, e2))))"

text \<open>\<open>sort.Slice\<close> for at most twelve elements, where it is an insertion sort: an element moves towards the
  front while it is less than the one before it. The sorted part is held from its back.\<close>

fun sift :: "('a \<Rightarrow> 'a \<Rightarrow> bool) \<Rightarrow> 'a \<Rightarrow> 'a list \<Rightarrow> 'a list" where
  "sift lt x [] = [x]"
| "sift lt x (y # ys) = (if lt x y then y # sift lt x ys else x # y # ys)"

definition sortSlice :: "('a \<Rightarrow> 'a \<Rightarrow> bool) \<Rightarrow> 'a list \<Rightarrow> 'a list" where
  "sortSlice lt xs = rev (fold (sift lt) xs [])"

fun deleteVersions ::
  "('e, 'v, 'c, 'r) SyncEnv \<Rightarrow> AnyApplication \<Rightarrow> 'v SpecificVersion list \<Rightarrow> ('e, 'v, 'r) syncState
     \<Rightarrow> (GoError + 'v DeleteResult list) go \<times> ('e, 'v, 'r) syncState" where
  "deleteVersions env application [] s = (Inr (Inr []), s)"
| "deleteVersions env application (v # vs) s =
     (case DeleteVersion env application (Some v) s of
        (Inl p, s1) \<Rightarrow> (Inl p, s1)
      | (Inr (Inl err), s1) \<Rightarrow> (Inr (Inl err), s1)
      | (Inr (Inr result), s1) \<Rightarrow>
          (case deleteVersions env application vs s1 of
             (Inr (Inr results), s2) \<Rightarrow> (Inr (Inr (result # results)), s2)
           | other \<Rightarrow> other))"

definition Cleanup ::
  "('e, 'v, 'c, 'r) SyncEnv \<Rightarrow> AnyApplication \<Rightarrow> ('e, 'v, 'r) syncState
     \<Rightarrow> (GoError + 'v DeleteResult list) go \<times> ('e, 'v, 'r) syncState" where
  "Cleanup env application s =
     (case GetAllPresentVersions env application (snd s) of
        Inl err \<Rightarrow> (Inr (Inl err), s)
      | Inr versions \<Rightarrow>
          deleteVersions env application
            (sortSlice (\<lambda>a b. \<not> IsNewerThan (seSemver env) a b) (seSetOrder env versions)) s)"

section \<open>The interface Applications\<close>

definition NewApplications :: "('e, 'v, 'c, 'r) SyncEnv \<Rightarrow> (('e, 'v, 'r) syncState, 'v) Applications" where
  "NewApplications env = \<lparr>
     apGetAllPresentVersions = (\<lambda>application s. (GetAllPresentVersions env application (snd s), s)),
     apGetTargetVersion = GetTargetVersion env,
     apDetermineTargetVersion = DetermineTargetVersion env,
     apGetAggregatedStatusVersion = GetAggregatedStatusVersion env,
     apSyncVersion = SyncVersion env,
     apCleanup = Cleanup env\<rparr>"

section \<open>The order of deletion\<close>

lemma mset_sift: "mset (sift lt x ys) = add_mset x (mset ys)"
  by (induction ys) auto

lemma mset_fold_sift: "mset (fold (sift lt) xs acc) = mset xs + mset acc"
  by (induction xs arbitrary: acc) (auto simp: mset_sift)

lemma mset_sortSlice: "mset (sortSlice lt xs) = mset xs"
  by (simp add: sortSlice_def mset_fold_sift)

lemma set_sift: "set (sift lt x ys) = insert x (set ys)"
  by (induction ys) auto

lemma sorted_sift:
  assumes "\<And>a b. lt a b \<or> lt b a" and "\<And>a b c. lt a b \<Longrightarrow> lt b c \<Longrightarrow> lt a c"
  shows "sorted_wrt (\<lambda>a b. lt b a) ys \<Longrightarrow> sorted_wrt (\<lambda>a b. lt b a) (sift lt x ys)"
proof (induction ys)
  case (Cons y ys)
  then show ?case using assms by (auto simp: set_sift) blast
qed simp

lemma sorted_sortSlice:
  assumes "\<And>a b. lt a b \<or> lt b a" and "\<And>a b c. lt a b \<Longrightarrow> lt b c \<Longrightarrow> lt a c"
  shows "sorted_wrt lt (sortSlice lt xs)"
proof -
  have "sorted_wrt (\<lambda>a b. lt b a) (fold (sift lt) xs acc)" if "sorted_wrt (\<lambda>a b. lt b a) acc" for acc
    using that by (induction xs arbitrary: acc) (auto intro!: sorted_sift assms)
  then show ?thesis by (simp add: sortSlice_def sorted_wrt_rev)
qed

section \<open>What the service does to the outside\<close>

text \<open>A relation every call of the service to the outside stays in: time passing, or a fact being kept.
  Deletions are of resources that carry the instance.\<close>

definition stays_in :: "('e, 'v, 'c, 'r) SyncEnv \<Rightarrow> string \<Rightarrow> ('e \<Rightarrow> 'e \<Rightarrow> bool) \<Rightarrow> bool" where
  "stays_in env instanceId R \<longleftrightarrow> reflp R \<and> transp R
     \<and> (\<forall>n r c e. R e (snd (seAddAndGetLatest env n r c e)))
     \<and> (\<forall>k i e. R e (snd (seRender env k i e)))
     \<and> (\<forall>r e. raLabels (seApi env) r LABEL_INSTANCE_ID = Some instanceId \<longrightarrow> R e (snd (seDelete env r e)))"

lemma stays_refl [simp]: "stays_in env iid R \<Longrightarrow> R e e"
  by (simp add: stays_in_def reflp_def)

lemma stays_trans: "stays_in env iid R \<Longrightarrow> R a b \<Longrightarrow> R b c \<Longrightarrow> R a c"
  unfolding stays_in_def transp_def by blast

lemma stays_render: "stays_in env iid R \<Longrightarrow> seRender env k i e = (r, e') \<Longrightarrow> R e e'"
  unfolding stays_in_def by (metis snd_conv)

lemma stays_delete: "stays_in env iid R \<Longrightarrow> raLabels (seApi env) r LABEL_INSTANCE_ID = Some iid \<Longrightarrow> seDelete env r e = (x, e') \<Longrightarrow> R e e'"
  unfolding stays_in_def by (metis snd_conv)

text \<open>No other application shares the cache key of this one with another instance id.\<close>

definition cache_for :: "AnyApplication \<Rightarrow> ('v, 'r) appCache \<Rightarrow> bool" where
  "cache_for application cache \<longleftrightarrow>
     (\<forall>instances t app. cache (getApplicationKey application) = Some instances \<and> instances t = Some app \<longrightarrow>
        GetInstanceId (caApplication app) = GetInstanceId application)"

lemma cache_for_empty [simp]: "cache_for application Map.empty"
  by (simp add: cache_for_def)

text \<open>The outcomes of \<open>getOrRenderAppVersion\<close> when nothing panics.\<close>

definition instanceKeyOf :: "AnyApplication \<Rightarrow> 'v SpecificVersion \<Rightarrow> 'v instanceKey go" where
  "instanceKeyOf application v =
     go_bind (NewChartId application) (\<lambda>chartId. buildInstanceKey application \<lparr>ckChartId = chartId, ckVersion = v\<rparr>)"

lemma instanceKeyOf_Inr:
  "instanceKeyOf application v = Inr key \<Longrightarrow> ckVersion (ikChartKey key) = v
     \<and> aiInstanceId (ikInstance key) = GetInstanceId application \<and> aiName (ikInstance key) = appName application
     \<and> aiNamespace (ikInstance key) = appNamespace application"
  by (auto simp: instanceKeyOf_def NewChartId_def buildInstanceKey_def split: option.splits)

lemma instanceKeyOf_total:
  "srcHelmSelector (specSource (appSpec application)) \<noteq> None \<Longrightarrow> \<exists>key. instanceKeyOf application v = Inr key"
  by (auto simp: instanceKeyOf_def NewChartId_def buildInstanceKey_def)

lemma getOrRender_Some:
  "getOrRenderAppVersion env application (Some v) (cache, e) =
     (case instanceKeyOf application v of
        Inl p \<Rightarrow> (Inl p, (cache, e))
      | Inr key \<Rightarrow>
          (let appKey = getApplicationKey application;
               (instances, cache1) = getOrCreateInstances appKey cache
           in case cachedInstances_Get (seSemver env) key instances of
                Some app \<Rightarrow> (Inr (Inr app), (cache1, e))
              | None \<Rightarrow>
                  (case render env application key e of
                     (Inl err, e1) \<Rightarrow> (Inr (Inl err), (cache1, e1))
                   | (Inr newApp, e1) \<Rightarrow>
                       (Inr (Inr newApp),
                        (cache1(appKey \<mapsto> cachedInstances_Put (seSemver env) key newApp instances), e1)))))"
  by (simp add: getOrRenderAppVersion_def instanceKeyOf_def)

lemma render_Inr:
  "render env application key e = (Inr app, e1) \<Longrightarrow>
     caApplication app = application \<and> caChartKey app = ikChartKey key \<and> caInstance app = ikInstance key"
  by (auto simp: render_def split: prod.splits sum.splits)

lemma render_stays: "stays_in env iid R \<Longrightarrow> render env application key e = (r, e1) \<Longrightarrow> R e e1"
  by (auto simp: render_def split: prod.splits sum.splits dest: stays_render)

lemma getOrRender_keeps:
  assumes "getOrRenderAppVersion env application (Some v) (cache, e) = (r, (cache', e'))"
  shows "(cache_for application cache \<longrightarrow> cache_for application cache'
        \<and> (\<forall>app. r = Inr (Inr app) \<longrightarrow> GetInstanceId (caApplication app) = GetInstanceId application))
    \<and> (stays_in env iid R \<longrightarrow> R e e')"
proof (cases "instanceKeyOf application v")
  case (Inl p)
  with assms show ?thesis by (auto simp: getOrRender_Some)
next
  case (Inr key)
  obtain ins cache1 where c: "getOrCreateInstances (getApplicationKey application) cache = (ins, cache1)" by fastforce
  have own: "cache_for application cache \<Longrightarrow> \<forall>t app. ins t = Some app \<longrightarrow> GetInstanceId (caApplication app) = GetInstanceId application"
      "cache1 (getApplicationKey application) = Some ins"
    using c by (auto simp: getOrCreateInstances_def cache_for_def NewCachedInstances_def split: option.splits)
  have for1: "cache_for application cache1" if "cache_for application cache"
    using own(1) [OF that] own(2) by (simp add: cache_for_def)
  show ?thesis
  proof (cases "cachedInstances_Get (seSemver env) key ins")
    case (Some app)
    then have "r = Inr (Inr app) \<and> cache' = cache1 \<and> e' = e" using assms(1) Inr c by (simp add: getOrRender_Some)
    moreover have "ins (instanceKey_ToString (seSemver env) key) = Some app"
      using Some by (simp add: cachedInstances_Get_def)
    ultimately show ?thesis using own(1) for1 by fastforce
  next
    case None
    obtain q e1 where q: "render env application key e = (q, e1)" by fastforce
    have R: "stays_in env iid R \<longrightarrow> R e e1" using render_stays [OF _ q] by blast
    show ?thesis
    proof (cases q)
      case (Inl err)
      with assms(1) Inr c None q have "r = Inr (Inl err) \<and> cache' = cache1 \<and> e' = e1" by (simp add: getOrRender_Some)
      with for1 R show ?thesis by simp
    next
      case q2: (Inr app)
      have "r = Inr (Inr app) \<and> e' = e1
          \<and> cache' = cache1(getApplicationKey application \<mapsto> cachedInstances_Put (seSemver env) key app ins)"
        using assms(1) Inr c None q q2 by (simp add: getOrRender_Some)
      moreover have "caApplication app = application" using render_Inr [OF q [unfolded q2]] by simp
      moreover have "cache_for application cache'" if "cache_for application cache"
        using own(1) [OF that] calculation by (simp add: cache_for_def cachedInstances_Put_def)
      ultimately show ?thesis using R by simp
    qed
  qed
qed

section \<open>Deleting an application\<close>

text \<open>\<open>FindResources\<close> answers what its predicate accepts; ranging over a map visits each key once.\<close>

definition finds_accepted :: "('e, 'v, 'c, 'r) SyncEnv \<Rightarrow> bool" where
  "finds_accepted env \<longleftrightarrow> (\<forall>P e r. r \<in> set (seFindResources env P e) \<longrightarrow> P r)"

definition fair_orders :: "('e, 'v, 'c, 'r) SyncEnv \<Rightarrow> bool" where
  "fair_orders env \<longleftrightarrow> (\<forall>ks. mset (seKeyOrder env ks) = mset ks) \<and> (\<forall>ks. mset (seTextOrder env ks) = mset ks)
     \<and> (\<forall>vs. mset (seSetOrder env vs) = mset vs)"

lemma available_carries:
  "finds_accepted env \<Longrightarrow> r \<in> set (findAvailableApplicationResources env application e) \<Longrightarrow>
     raLabels (seApi env) r LABEL_INSTANCE_ID = Some (GetInstanceId application)"
  unfolding finds_accepted_def findAvailableApplicationResources_def
  by (force simp: isManagedFunc_def carriesInstance_def labelText_def GetInstanceId_def split: option.splits)

text \<open>The map by key: distinct keys, each of the resource it holds.\<close>

definition keyed :: "'r ResourceApi \<Rightarrow> 'r set \<Rightarrow> 'r managed \<Rightarrow> bool" where
  "keyed api rs m \<longleftrightarrow> distinct (map fst m) \<and> (\<forall>(k, r)\<in>set m. k = raResourceKey api r \<and> r \<in> rs)"

lemma keyed_update: "keyed api rs m \<Longrightarrow> r \<in> rs \<Longrightarrow> keyed api rs (AList.update (raResourceKey api r) r m)"
  using set_alist_update [of "raResourceKey api r" r m] by (auto simp: keyed_def distinct_update)

lemma keyed_delete: "keyed api rs m \<Longrightarrow> keyed api rs (AList.delete k m)"
  by (auto simp: keyed_def AList.delete_eq intro: distinct_map_filter)

lemma keyed_managedByKey: "keyed api (set rs) (managedByKey api rs)"
proof -
  have "keyed api S (fold (\<lambda>r m. AList.update (raResourceKey api r) r m) xs m)" if "keyed api S m" "set xs \<subseteq> S" for xs m S
    using that by (induction xs arbitrary: m) (auto intro: keyed_update)
  then show ?thesis by (simp add: managedByKey_def keyed_def [of _ _ "[]"])
qed

lemma managedByKey_dom: "fst ` set (managedByKey api rs) = raResourceKey api ` set rs"
proof -
  have "fst ` set (fold (\<lambda>r m. AList.update (raResourceKey api r) r m) xs m) = raResourceKey api ` set xs \<union> fst ` set m" for xs m
    by (induction xs arbitrary: m) (auto simp: keys_alist_update)
  then show ?thesis by (simp add: managedByKey_def)
qed

lemma keyed_lookup: "keyed api rs m \<Longrightarrow> map_of m k = Some r \<Longrightarrow> k = raResourceKey api r \<and> r \<in> rs"
  by (auto simp: keyed_def dest!: map_of_SomeD)

text \<open>What \<open>Delete\<close> is taken to do to the keys of the live objects: a call that answers no error has
  removed its key, and no call brings one back.\<close>

definition deletes_live :: "('e, 'v, 'c, 'r) SyncEnv \<Rightarrow> ('e \<Rightarrow> ResourceKey set) \<Rightarrow> bool" where
  "deletes_live env live \<longleftrightarrow>
     (\<forall>r e. live (snd (seDelete env r e)) \<subseteq> live e)
     \<and> (\<forall>r e. fst (seDelete env r e) = None \<longrightarrow> raResourceKey (seApi env) r \<notin> live (snd (seDelete env r e)))"

text \<open>The invariant of both loops: the map only loses entries, and what it lost is not live.\<close>

definition deletion_inv ::
  "('e, 'v, 'c, 'r) SyncEnv \<Rightarrow> ('e \<Rightarrow> ResourceKey set) \<Rightarrow> ('e \<Rightarrow> 'e \<Rightarrow> bool) \<Rightarrow> 'r set \<Rightarrow> ResourceKey set \<Rightarrow> 'e
     \<Rightarrow> ('e, 'r) Deletion \<Rightarrow> bool" where
  "deletion_inv env live R rs keys e d \<longleftrightarrow> keyed (seApi env) rs (dnManaged d)
     \<and> (\<forall>k\<in>keys. k \<in> fst ` set (dnManaged d) \<or> k \<notin> live (dnOutside d)) \<and> R e (dnOutside d)"

lemma fst_alist_delete: "fst ` set (AList.delete k m) = fst ` set m - {k}"
  by (auto simp: AList.delete_eq)

lemma deletion_inv_delete:
  assumes "deletion_inv env live R rs keys e d" and "deletes_live env live" and "stays_in env iid R"
    and "r \<in> rs" and "\<And>r. r \<in> rs \<Longrightarrow> raLabels (seApi env) r LABEL_INSTANCE_ID = Some iid" and "k = raResourceKey (seApi env) r"
  shows "deletion_inv env live R rs keys e (deleteManaged env k r d)"
proof -
  obtain x e1 where d: "seDelete env r (dnOutside d) = (x, e1)" by fastforce
  have R: "R e e1"
    using assms(1,3) stays_trans [OF assms(3) _ stays_delete [OF assms(3) assms(5) [OF assms(4)] d]]
    by (simp add: deletion_inv_def)
  have "live e1 \<subseteq> live (dnOutside d)" "x = None \<Longrightarrow> k \<notin> live e1"
    using assms(2,6) d unfolding deletes_live_def by (metis fst_conv snd_conv)+
  with assms(1) R show ?thesis
    by (cases x) (auto simp: deletion_inv_def deleteManaged_def d keyed_delete fst_alist_delete)
qed

lemma deletion_inv_rendered:
  assumes "deletion_inv env live R rs keys e d" and "deletes_live env live" and "stays_in env iid R"
    and "\<And>r. r \<in> rs \<Longrightarrow> raLabels (seApi env) r LABEL_INSTANCE_ID = Some iid"
  shows "deletion_inv env live R rs keys e (fold (deleteRendered env) objs d)"
  using assms(1)
proof (induction objs arbitrary: d)
  case (Cons obj objs)
  have "deletion_inv env live R rs keys e (deleteRendered env obj d)"
  proof (cases "map_of (dnManaged d) (raResourceKey (seApi env) obj)")
    case None
    with Cons.prems show ?thesis by (simp add: deleteRendered_def deletion_inv_def)
  next
    case (Some r)
    with Cons.prems have "raResourceKey (seApi env) obj = raResourceKey (seApi env) r \<and> r \<in> rs"
      by (auto simp: deletion_inv_def dest: keyed_lookup)
    with Some deletion_inv_delete [OF Cons.prems assms(2,3) _ assms(4)] show ?thesis
      by (simp add: deleteRendered_def)
  qed
  with Cons.IH show ?case by simp
qed simp

lemma deletion_inv_remaining:
  assumes "deletion_inv env live R rs keys e d" and "deletes_live env live" and "stays_in env iid R"
    and "\<And>r. r \<in> rs \<Longrightarrow> raLabels (seApi env) r LABEL_INSTANCE_ID = Some iid"
  shows "deletion_inv env live R rs keys e (fold (deleteRemaining env) ks d)"
  using assms(1)
proof (induction ks arbitrary: d)
  case (Cons k ks)
  have "deletion_inv env live R rs keys e (deleteRemaining env k d)"
  proof (cases "map_of (dnManaged d) k")
    case (Some r)
    with Cons.prems have "r \<in> rs" by (auto simp: deletion_inv_def dest: keyed_lookup)
    with Some deletion_inv_delete [OF Cons.prems assms(2,3) _ assms(4)] show ?thesis
      by (simp add: deleteRemaining_def)
  qed (use Cons.prems in \<open>simp add: deleteRemaining_def\<close>)
  with Cons.IH show ?case by simp
qed simp

text \<open>Each visit counts once, as deleted or as failed.\<close>

definition attempts :: "('e, 'r) Deletion \<Rightarrow> int" where
  "attempts d = dnDeleted d + dnFailed d"

lemma deleteManaged_counts:
  "attempts (deleteManaged env k r d) = attempts d + 1"
  "dnFailed d \<le> dnFailed (deleteManaged env k r d)"
  "fst ` set (dnManaged (deleteManaged env k r d)) \<subseteq> fst ` set (dnManaged d)"
  "k \<in> fst ` set (dnManaged (deleteManaged env k r d)) \<Longrightarrow> dnFailed d < dnFailed (deleteManaged env k r d)"
  "k' \<noteq> k \<Longrightarrow> k' \<in> fst ` set (dnManaged (deleteManaged env k r d)) \<longleftrightarrow> k' \<in> fst ` set (dnManaged d)"
  by (auto simp: deleteManaged_def attempts_def fst_alist_delete split: prod.splits option.splits)

lemma deleteRendered_step:
  "attempts (deleteRendered env obj d) = attempts d + 1"
  "dnFailed d \<le> dnFailed (deleteRendered env obj d)"
  "keyed (seApi env) rs (dnManaged d) \<Longrightarrow> keyed (seApi env) rs (dnManaged (deleteRendered env obj d))"
proof -
  show "attempts (deleteRendered env obj d) = attempts d + 1"
    using deleteManaged_counts(1) [of env] by (simp add: deleteRendered_def Let_def split: option.split)
      (simp add: attempts_def)
  show "dnFailed d \<le> dnFailed (deleteRendered env obj d)"
    by (simp add: deleteRendered_def Let_def deleteManaged_counts(2) split: option.split)
  show "keyed (seApi env) rs (dnManaged (deleteRendered env obj d))" if "keyed (seApi env) rs (dnManaged d)"
    using that by (auto simp: deleteRendered_def Let_def deleteManaged_def keyed_delete split: option.split prod.split)
qed

lemma deleteRendered_counts:
  "attempts (fold (deleteRendered env) objs d) = attempts d + int (length objs)
   \<and> dnFailed d \<le> dnFailed (fold (deleteRendered env) objs d)
   \<and> (keyed (seApi env) rs (dnManaged d) \<longrightarrow> keyed (seApi env) rs (dnManaged (fold (deleteRendered env) objs d)))"
proof (induction objs arbitrary: d)
  case (Cons obj objs)
  then show ?case
    using deleteRendered_step(1,2) [where env = env and obj = obj and d = d]
      deleteRendered_step(3) [where env = env and rs = rs and d = d and obj = obj]
    by (fastforce intro: order_trans)
qed simp

lemma deleteRemaining_counts:
  assumes "keyed (seApi env) rs (dnManaged d)" and "distinct ks" and "set ks \<subseteq> fst ` set (dnManaged d)"
  shows "attempts (fold (deleteRemaining env) ks d) = attempts d + int (length ks)
    \<and> dnFailed d \<le> dnFailed (fold (deleteRemaining env) ks d)
    \<and> (\<forall>k\<in>set ks. k \<in> fst ` set (dnManaged (fold (deleteRemaining env) ks d)) \<longrightarrow>
          dnFailed d < dnFailed (fold (deleteRemaining env) ks d))
    \<and> fst ` set (dnManaged (fold (deleteRemaining env) ks d)) \<subseteq> fst ` set (dnManaged d)"
  using assms
proof (induction ks arbitrary: d)
  case (Cons k ks)
  have "k \<in> fst ` set (dnManaged d)" using Cons.prems(3) by simp
  then obtain r where r: "map_of (dnManaged d) k = Some r"
    by (metis domD dom_map_of_conv_image_fst)
  then have k: "k = raResourceKey (seApi env) r" using keyed_lookup [OF Cons.prems(1)] by blast
  let ?d = "deleteManaged env k r d"
  have step: "deleteRemaining env k d = ?d" using r k by (simp add: deleteRemaining_def)
  have "keyed (seApi env) rs (dnManaged ?d)"
    using Cons.prems(1) keyed_delete by (auto simp: deleteManaged_def split: prod.splits option.splits)
  moreover have "set ks \<subseteq> fst ` set (dnManaged ?d)"
  proof
    fix x
    assume "x \<in> set ks"
    with Cons.prems(2,3) have "x \<noteq> k" "x \<in> fst ` set (dnManaged d)" by auto
    then show "x \<in> fst ` set (dnManaged ?d)" using deleteManaged_counts(5) [of x k env r d] by simp
  qed
  ultimately have ih: "attempts (fold (deleteRemaining env) ks ?d) = attempts ?d + int (length ks)"
      "dnFailed ?d \<le> dnFailed (fold (deleteRemaining env) ks ?d)"
      "\<forall>k'\<in>set ks. k' \<in> fst ` set (dnManaged (fold (deleteRemaining env) ks ?d)) \<longrightarrow>
          dnFailed ?d < dnFailed (fold (deleteRemaining env) ks ?d)"
      "fst ` set (dnManaged (fold (deleteRemaining env) ks ?d)) \<subseteq> fst ` set (dnManaged ?d)"
    using Cons.IH [of ?d] Cons.prems(2) by simp_all
  have first: "k \<in> fst ` set (dnManaged (fold (deleteRemaining env) ks ?d)) \<Longrightarrow>
      dnFailed d < dnFailed (fold (deleteRemaining env) ks ?d)"
    using ih(2,4) deleteManaged_counts(4) [where env = env and k = k and r = r and d = d] by fastforce
  have "dnFailed d \<le> dnFailed ?d" "attempts ?d = attempts d + 1"
      "fst ` set (dnManaged ?d) \<subseteq> fst ` set (dnManaged d)"
    by (rule deleteManaged_counts)+
  note step1 = this
  let ?F = "fold (deleteRemaining env) ks ?d"
  have F: "fold (deleteRemaining env) (k # ks) d = ?F" by (simp add: step)
  have "k' \<in> fst ` set (dnManaged ?F) \<longrightarrow> dnFailed d < dnFailed ?F" if "k' \<in> set (k # ks)" for k'
    using that first ih(3) step1(1) by (cases "k' = k") (auto intro: le_less_trans)
  moreover have "dnFailed d \<le> dnFailed ?F" using ih(2) step1(1) by (rule order_trans [rotated])
  moreover have "fst ` set (dnManaged ?F) \<subseteq> fst ` set (dnManaged d)" using ih(4) step1(3) by (rule subset_trans)
  ultimately show ?case unfolding F using ih(1) step1(2) by simp
qed simp

lemma deleteApp_parts:
  assumes "deleteApp env app e = (result, e')"
  obtains d1 d2 where
    "d1 = fold (deleteRendered env) (rcResources (caRenderedChart app))
       \<lparr>dnDeleted = 0, dnFailed = 0,
        dnManaged = managedByKey (seApi env) (findAvailableApplicationResources env (caApplication app) e),
        dnOutside = e\<rparr>"
    "d2 = fold (deleteRemaining env) (seKeyOrder env (map fst (dnManaged d1))) d1" "e' = dnOutside d2"
    "dlVersion result = Some (ckVersion (caChartKey app))"
    "dlTotal result = int (length (rcResources (caRenderedChart app)))"
    "dlDeleted result = dnDeleted d2" "dlDeleteFailed result = dnFailed d2"
    "dlApplicationResourcesPresent result \<longleftrightarrow> dnManaged d2 \<noteq> []"
proof -
  let ?d1 = "fold (deleteRendered env) (rcResources (caRenderedChart app))
       \<lparr>dnDeleted = 0, dnFailed = 0,
        dnManaged = managedByKey (seApi env) (findAvailableApplicationResources env (caApplication app) e),
        dnOutside = e\<rparr>"
  show thesis
    by (rule that [of ?d1 "fold (deleteRemaining env) (seKeyOrder env (map fst (dnManaged ?d1))) ?d1"])
      (use assms in \<open>auto simp: deleteApp_def Let_def\<close>)
qed

lemma deleteApp_keeps:
  assumes "deleteApp env app e = (result, e')" and "finds_accepted env"
    and "stays_in env (GetInstanceId (caApplication app)) R" and "deletes_live env live"
  shows "R e e' \<and> (\<not> dlApplicationResourcesPresent result \<longrightarrow>
    (\<forall>r\<in>set (findAvailableApplicationResources env (caApplication app) e). raResourceKey (seApi env) r \<notin> live e'))"
proof -
  let ?rs = "findAvailableApplicationResources env (caApplication app) e"
  let ?keys = "raResourceKey (seApi env) ` set ?rs"
  let ?d0 = "\<lparr>dnDeleted = 0, dnFailed = 0, dnManaged = managedByKey (seApi env) ?rs, dnOutside = e\<rparr>"
  obtain d1 d2 where d: "d1 = fold (deleteRendered env) (rcResources (caRenderedChart app)) ?d0"
      "d2 = fold (deleteRemaining env) (seKeyOrder env (map fst (dnManaged d1))) d1" "e' = dnOutside d2"
      "dlApplicationResourcesPresent result \<longleftrightarrow> dnManaged d2 \<noteq> []"
    using deleteApp_parts [OF assms(1)] by metis
  note carries = available_carries [OF assms(2), of _ "caApplication app" e]
  have "deletion_inv env live R (set ?rs) ?keys e ?d0"
    using assms(3) keyed_managedByKey [of "seApi env" ?rs] by (simp add: deletion_inv_def managedByKey_dom)
  then have "deletion_inv env live R (set ?rs) ?keys e d1"
    unfolding d(1) using assms(4,3) carries by (rule deletion_inv_rendered)
  then have "deletion_inv env live R (set ?rs) ?keys e d2"
    unfolding d(2) using assms(4,3) carries by (rule deletion_inv_remaining)
  then show ?thesis using d(3,4) by (auto simp: deletion_inv_def)
qed

lemma deleteApp_counts:
  assumes "deleteApp env app e = (result, e')" and "fair_orders env"
  shows "dlTotal result \<le> dlDeleted result + dlDeleteFailed result
    \<and> (dlApplicationResourcesPresent result \<longrightarrow> 0 < dlDeleteFailed result)
    \<and> dlTotal result = int (length (rcResources (caRenderedChart app)))"
proof -
  let ?rs = "findAvailableApplicationResources env (caApplication app) e"
  let ?d0 = "\<lparr>dnDeleted = 0, dnFailed = 0, dnManaged = managedByKey (seApi env) ?rs, dnOutside = e\<rparr>"
  obtain d1 d2 where d: "d1 = fold (deleteRendered env) (rcResources (caRenderedChart app)) ?d0"
      "d2 = fold (deleteRemaining env) (seKeyOrder env (map fst (dnManaged d1))) d1"
      "dlTotal result = int (length (rcResources (caRenderedChart app)))"
      "dlDeleted result = dnDeleted d2" "dlDeleteFailed result = dnFailed d2"
      "dlApplicationResourcesPresent result \<longleftrightarrow> dnManaged d2 \<noteq> []"
    using deleteApp_parts [OF assms(1)] by metis
  have first: "attempts d1 = int (length (rcResources (caRenderedChart app)))" "0 \<le> dnFailed d1"
      "keyed (seApi env) (set ?rs) (dnManaged d1)"
    using deleteRendered_counts [where env = env and objs = "rcResources (caRenderedChart app)" and d = ?d0 and rs = "set ?rs"]
    by (simp_all add: d(1) attempts_def keyed_managedByKey)
  note key1 = first(3) and nonneg = first(2)
  have perm: "mset (seKeyOrder env ks) = mset ks" for ks using assms(2) by (simp add: fair_orders_def)
  let ?ks = "seKeyOrder env (map fst (dnManaged d1))"
  have ks: "distinct ?ks" "set ?ks = fst ` set (dnManaged d1)"
    using key1 mset_eq_imp_distinct_iff [OF perm] mset_eq_setD [OF perm] by (auto simp: keyed_def)
  note rest = deleteRemaining_counts [OF key1 ks(1)]
  have "attempts d2 = attempts d1 + int (length ?ks)" using rest ks(2) by (simp add: d(2))
  moreover have "0 < dnFailed d2" if left: "dnManaged d2 \<noteq> []"
  proof -
    obtain k where "k \<in> fst ` set (dnManaged d2)" using left by (cases "dnManaged d2") auto
    moreover have rest': "fst ` set (dnManaged d2) \<subseteq> set ?ks"
        "\<forall>k\<in>set ?ks. k \<in> fst ` set (dnManaged d2) \<longrightarrow> dnFailed d1 < dnFailed d2"
      using rest ks(2) unfolding d(2) by blast+
    ultimately have "dnFailed d1 < dnFailed d2" by blast
    with nonneg show ?thesis by simp
  qed
  ultimately show ?thesis using d first(1) by (simp add: attempts_def)
qed

section \<open>Cleaning up\<close>

lemma deletes_live_none [simp]: "deletes_live env (\<lambda>_. {})"
  by (simp add: deletes_live_def)

lemma DeleteVersion_keeps:
  assumes "DeleteVersion env application (Some v) (cache, e) = (r, (cache', e'))" 
    and "cache_for application cache \<or> (\<forall>iid. stays_in env iid R)"
    and "finds_accepted env" and "stays_in env (GetInstanceId application) R"
  shows "(cache_for application cache \<longrightarrow> cache_for application cache') \<and> R e e' \<and> (\<forall>result. r = Inr (Inr result) \<longrightarrow> dlVersion result \<noteq> None)
    \<and> (srcHelmSelector (specSource (appSpec application)) \<noteq> None \<longrightarrow> (\<exists>x. r = Inr x))"
proof -
  obtain q c1 e1 where g: "getOrRenderAppVersion env application (Some v) (cache, e) = (q, (c1, e1))" by (metis prod_cases3)
  have tot: "\<exists>x. q = Inr x" if "srcHelmSelector (specSource (appSpec application)) \<noteq> None"
    using instanceKeyOf_total [OF that, of v] g
    by (auto simp: getOrRender_Some Let_def split: prod.splits option.splits sum.splits)
  note keeps = getOrRender_keeps [OF g, of "GetInstanceId application" R]
  show ?thesis
  proof (cases "\<exists>app. q = Inr (Inr app)")
    case True
    then obtain app where app: "q = Inr (Inr app)" by blast
    obtain result e2 where d: "deleteApp env app e1 = (result, e2)" by fastforce
    have "stays_in env (GetInstanceId (caApplication app)) R" using keeps app assms(2,4) by auto
    then have "R e1 e2" using deleteApp_keeps [OF d assms(3) _ deletes_live_none, of R] by blast
    moreover have "R e e1" using keeps assms(4) by blast
    ultimately have "R e e2" using stays_trans [OF assms(4)] by blast
    moreover have "dlVersion result \<noteq> None" using deleteApp_parts [OF d] by (metis option.distinct(1))
    ultimately show ?thesis using assms(1) g app d keeps by (auto simp: DeleteVersion_def)
  next
    case False
    then have "cache' = c1 \<and> e' = e1 \<and> (\<forall>result. r \<noteq> Inr (Inr result)) \<and> ((\<exists>x. q = Inr x) \<longrightarrow> (\<exists>x. r = Inr x))"
      using assms(1) g by (auto simp: DeleteVersion_def split: sum.splits)
    with keeps tot assms(4) show ?thesis by blast
  qed
qed

lemma deleteVersions_keeps:
  assumes "deleteVersions env application vs (cache, e) = (r, (cache', e'))" 
    and "cache_for application cache \<or> (\<forall>iid. stays_in env iid R)"
    and "finds_accepted env" and "stays_in env (GetInstanceId application) R"
  shows "(cache_for application cache \<longrightarrow> cache_for application cache') \<and> R e e'
    \<and> (\<forall>results. r = Inr (Inr results) \<longrightarrow> length results = length vs \<and> (\<forall>x\<in>set results. dlVersion x \<noteq> None))
    \<and> (srcHelmSelector (specSource (appSpec application)) \<noteq> None \<longrightarrow> (\<exists>x. r = Inr x))"
  using assms(1,2)
proof (induction vs arbitrary: cache e r cache' e')
  case Nil
  then show ?case using assms(4) by auto
next
  case (Cons v vs)
  obtain q c1 e1 where g: "DeleteVersion env application (Some v) (cache, e) = (q, (c1, e1))" by (metis prod_cases3)
  note del = DeleteVersion_keeps [OF g Cons.prems(2) assms(3,4)]
  show ?case
  proof (cases "\<exists>result. q = Inr (Inr result)")
    case False
    then have "cache' = c1 \<and> e' = e1 \<and> (\<forall>rs. r \<noteq> Inr (Inr rs)) \<and> ((\<exists>x. q = Inr x) \<longrightarrow> (\<exists>x. r = Inr x))"
      using Cons.prems(1) g by (auto split: sum.splits)
    with del show ?thesis by blast
  next
    case True
    then obtain result where q: "q = Inr (Inr result)" by blast
    obtain q2 c2 e2 where rest: "deleteVersions env application vs (c1, e1) = (q2, (c2, e2))" by (metis prod_cases3)
    have "cache_for application c1 \<or> (\<forall>iid. stays_in env iid R)" using del Cons.prems(2) by blast
    note ih = Cons.IH [OF rest this]
    have "R e e2" using stays_trans [OF assms(4)] del ih by blast
    moreover have "cache' = c2 \<and> e' = e2" "(\<exists>x. q2 = Inr x) \<longrightarrow> (\<exists>x. r = Inr x)"
        "\<forall>rs. r = Inr (Inr rs) \<longrightarrow> (\<exists>rs'. q2 = Inr (Inr rs') \<and> rs = result # rs')"
      using Cons.prems(1) g q rest by (auto split: sum.splits)
    ultimately show ?thesis using del ih q by (auto 0 3)
  qed
qed

lemma Cleanup_keeps:
  assumes "Cleanup env application (cache, e) = (r, (cache', e'))" 
    and "cache_for application cache \<or> (\<forall>iid. stays_in env iid R)"
    and "finds_accepted env" and "stays_in env (GetInstanceId application) R"
  shows "(cache_for application cache \<longrightarrow> cache_for application cache') \<and> R e e'
    \<and> (\<forall>results. r = Inr (Inr results) \<longrightarrow> (\<forall>x\<in>set results. dlVersion x \<noteq> None))
    \<and> (srcHelmSelector (specSource (appSpec application)) \<noteq> None \<longrightarrow> (\<exists>x. r = Inr x))"
proof (cases "GetAllPresentVersions env application e")
  case (Inl err)
  with assms show ?thesis by (auto simp: Cleanup_def)
next
  case (Inr versions)
  then have "deleteVersions env application (sortSlice (\<lambda>a b. \<not> IsNewerThan (seSemver env) a b) (seSetOrder env versions))
      (cache, e) = (r, (cache', e'))"
    using assms(1) by (simp add: Cleanup_def)
  from deleteVersions_keeps [OF this assms(2-4)] show ?thesis by blast
qed

text \<open>C5: cleaning an application up touches the resources of its instance only: whatever relation of the
  outside contains the rendering of charts and the deletion of a resource that carries the
  instance label contains the whole cleanup, however it ends.\<close>

theorem Cleanup_only_own_instance:
  assumes "Cleanup env application (cache, e) = (r, (cache', e'))" and "cache_for application cache"
    and "finds_accepted env" and "stays_in env (GetInstanceId application) R"
  shows "R e e' \<and> cache_for application cache'"
  using Cleanup_keeps [OF assms(1) _ assms(3,4)] assms(2) by blast

text \<open>C10: a deletion that reports no resources left has had every resource it found accepted for
  deletion; one that reports some left reports a failed deletion; and the two counters add up
  to at least the rendered resources.\<close>

theorem deleteApp_reports:
  assumes "deleteApp env app e = (result, e')" and "finds_accepted env" and "fair_orders env"
    and "deletes_live env live"
  shows "(\<not> dlApplicationResourcesPresent result \<longrightarrow>
        (\<forall>r\<in>set (findAvailableApplicationResources env (caApplication app) e). raResourceKey (seApi env) r \<notin> live e'))
    \<and> (dlApplicationResourcesPresent result \<longrightarrow> 0 < dlDeleteFailed result)
    \<and> dlTotal result \<le> dlDeleted result + dlDeleteFailed result"
proof -
  have "stays_in env (GetInstanceId (caApplication app)) (\<lambda>_ _. True)"
    by (simp add: stays_in_def reflp_def transp_def)
  from deleteApp_keeps [OF assms(1,2) this assms(4)] show ?thesis
    using deleteApp_counts [OF assms(1,3)] by blast
qed

text \<open>\<open>GreaterThan\<close> as an order of precedence: two versions may be equally new.\<close>

definition version_precedence :: "('v, 'c) Semver \<Rightarrow> bool" where
  "version_precedence sv \<longleftrightarrow> version_order sv
     \<and> (\<forall>a b c. svGreaterThan sv a c \<longrightarrow> svGreaterThan sv a b \<or> svGreaterThan sv b c)"

text \<open>A cleanup that succeeds has deleted every version present, once each, an older one never after
  a newer one, and answers one result per version.\<close>

lemma Cleanup_oldest_first:
  assumes "Cleanup env application s = (Inr (Inr results), s')" and "fair_orders env"
    and "version_precedence (seSemver env)"
  shows "\<exists>versions order. GetAllPresentVersions env application (snd s) = Inr versions \<and> mset order = mset versions
    \<and> sorted_wrt (\<lambda>a b. \<not> IsNewerThan (seSemver env) a b) order
    \<and> deleteVersions env application order s = (Inr (Inr results), s')"
proof -
  let ?lt = "\<lambda>a b. \<not> IsNewerThan (seSemver env) a b"
  obtain versions where v: "GetAllPresentVersions env application (snd s) = Inr versions"
    using assms(1) by (cases "GetAllPresentVersions env application (snd s)") (auto simp: Cleanup_def)
  have "?lt a b \<or> ?lt b a" "?lt a b \<Longrightarrow> ?lt b c \<Longrightarrow> ?lt a c" for a b c
    using assms(3) unfolding version_precedence_def version_order_def IsNewerThan_def by blast+
  then have "sorted_wrt ?lt (sortSlice ?lt (seSetOrder env versions))" by (rule sorted_sortSlice)
  moreover have "mset (sortSlice ?lt (seSetOrder env versions)) = mset versions"
    using assms(2) by (simp add: mset_sortSlice fair_orders_def)
  ultimately show ?thesis using assms(1) v by (auto simp: Cleanup_def)
qed

section \<open>The cache\<close>

text \<open>What the service relies on: an entry is found again under every key of the same text and hides no
  other.\<close>

locale instance_cache =
  fixes get :: "'k \<Rightarrow> 'c \<Rightarrow> 'a option" and put :: "'k \<Rightarrow> 'a \<Rightarrow> 'c \<Rightarrow> 'c" and has :: "'k \<Rightarrow> 'c \<Rightarrow> bool"
    and key_text :: "'k \<Rightarrow> string"
  assumes get_put: "get k (put k' a c) = (if key_text k = key_text k' then Some a else get k c)"
    and has_get: "has k c \<longleftrightarrow> get k c \<noteq> None"
begin

lemma get_put_same: "get k (put k a c) = Some a"
  by (simp add: get_put)

lemma has_put: "has k (put k' a c) \<longleftrightarrow> key_text k = key_text k' \<or> has k c"
  by (simp add: has_get get_put)

end

interpretation instances: instance_cache "cachedInstances_Get sv" "cachedInstances_Put sv" "cachedInstances_Contains sv"
    "instanceKey_ToString sv" for sv
  by unfold_locales (simp_all add: cachedInstances_Get_def cachedInstances_Put_def cachedInstances_Contains_def)

text \<open>A version is rendered once: a call that answers an application has found it in the cache and
  left the outside alone, or has rendered it for this call; and the next call for the same
  version answers the same application, whatever the outside is by then, and changes nothing.\<close>

lemma getOrRenderAppVersion_once:
  assumes "getOrRenderAppVersion env application (Some v) (cache, e) = (Inr (Inr app), (cache', e'))"
  shows "((e' = e \<and> (\<exists>key ins. instanceKeyOf application v = Inr key \<and> cache (getApplicationKey application) = Some ins
             \<and> cachedInstances_Get (seSemver env) key ins = Some app))
         \<or> (\<exists>key. instanceKeyOf application v = Inr key \<and> render env application key e = (Inr app, e')))
    \<and> getOrRenderAppVersion env application (Some v) (cache', later) = (Inr (Inr app), (cache', later))"
proof -
  obtain key where key: "instanceKeyOf application v = Inr key"
    using assms by (cases "instanceKeyOf application v") (auto simp: getOrRender_Some)
  obtain ins c1 where c: "getOrCreateInstances (getApplicationKey application) cache = (ins, c1)" by fastforce
  have c1: "c1 (getApplicationKey application) = Some ins"
      "cache (getApplicationKey application) = Some ins \<or> ins = NewCachedInstances"
    using c by (auto simp: getOrCreateInstances_def split: option.splits)
  show ?thesis
  proof (cases "cachedInstances_Get (seSemver env) key ins")
    case (Some a)
    then have "cache (getApplicationKey application) = Some ins"
      using c1(2) by (auto simp: cachedInstances_Get_def NewCachedInstances_def)
    moreover have "app = a \<and> cache' = c1 \<and> e' = e" using assms key c Some by (simp add: getOrRender_Some)
    ultimately show ?thesis using key c c1 Some by (auto simp: getOrRender_Some getOrCreateInstances_def)
  next
    case None
    obtain q e1 where r: "render env application key e = (q, e1)" by fastforce
    with assms key c None have q: "q = Inr app" "e' = e1"
        "cache' = c1(getApplicationKey application \<mapsto> cachedInstances_Put (seSemver env) key app ins)"
      by (cases q; simp add: getOrRender_Some)+
    show ?thesis
      using r key q by (simp add: getOrRender_Some getOrCreateInstances_def instances.get_put_same)
  qed
qed

section \<open>Loading an application\<close>

lemma NewFromUnstructured_Some:
  "NewFromUnstructured api v available expected cfg = Inr (Some l) \<Longrightarrow>
     laVersion l = v \<and> laConfig l = cfg \<and> availableResources (laBundle l) = available
     \<and> expectedResources (laBundle l) = expected \<and> available \<noteq> []"
  by (auto simp: NewFromUnstructured_def LoadApplicationBundle_def split: if_splits prod.splits option.splits)

definition locals_ok :: "('e, 'v, 'c, 'r) SyncEnv \<Rightarrow> ('v SpecificVersion \<times> ('v, 'r) LocalApplication) list \<Rightarrow> bool" where
  "locals_ok env ls \<longleftrightarrow> distinct (map fst ls)
     \<and> (\<forall>(v, l)\<in>set ls. laVersion l = v \<and> laConfig l = seConfig env \<and> availableResources (laBundle l) \<noteq> [])"

lemma locals_ok_update:
  "locals_ok env ls \<Longrightarrow> laVersion l = v \<and> laConfig l = seConfig env \<and> availableResources (laBundle l) \<noteq> [] \<Longrightarrow>
     locals_ok env (AList.update v l ls)"
  using set_alist_update [of v l ls] by (auto simp: locals_ok_def distinct_update)

lemma loadVersions_ok:
  "loadVersions env application m acc s = (Inr (Inr ls), s') \<Longrightarrow> locals_ok env acc \<Longrightarrow> locals_ok env ls"
proof (induction m arbitrary: acc s)
  case (Cons vr rest)
  obtain versionStr resources where vr: "vr = (versionStr, resources)" by fastforce
  show ?case
  proof (cases "length resources = 0")
    case True
    with Cons vr show ?thesis by simp
  next
    case False
    with Cons.prems(1) vr obtain v app s1 lo where
      v: "NewSpecificVersion (seSemver env) versionStr = Inr v"
      and app: "getOrRenderAppVersion env application (Some v) s = (Inr (Inr app), s1)"
      and lo: "NewFromUnstructured (seApi env) v resources (rcResources (caRenderedChart app)) (seConfig env) = Inr lo"
      and rest: "loadVersions env application rest (case lo of None \<Rightarrow> acc | Some l \<Rightarrow> AList.update v l acc) s1
          = (Inr (Inr ls), s')"
      by (auto split: sum.splits prod.splits option.splits)
    show ?thesis
    proof (cases lo)
      case None
      with Cons.IH rest Cons.prems(2) show ?thesis by simp
    next
      case (Some l)
      then have "locals_ok env (AList.update v l acc)"
        using NewFromUnstructured_Some lo Cons.prems(2) by (intro locals_ok_update) blast+
      with Cons.IH rest Some show ?thesis by simp
    qed
  qed
qed simp

lemma loadLocal_ok:
  "loadLocalApplicationVersions env application s = (Inr (Inr ls), s') \<Longrightarrow> locals_ok env ls"
  by (auto simp: loadLocalApplicationVersions_def locals_ok_def [of _ "[]"] split: sum.splits intro: loadVersions_ok)

text \<open>C24: an application that loads is the resource itself with this zone's configuration; its local
  applications are filed under their versions, once each, with resources present; its active
  version is the zone's; and it has a new version exactly when the version to run, which may
  have come out nil, differs from the active one or there is none.\<close>

theorem LoadApplication_contract:
  assumes "LoadApplication env application s = (Inr (Inr g), s')"
  shows "gaApplication g = application \<and> gaConfig g = seConfig env \<and> sameConfig g
    \<and> locals_ok env (gaLocalApplications g) \<and> gaActiveVersion g = GetTargetVersion env application
    \<and> (\<exists>target s1. DetermineTargetVersion env application s1 = (Inr (Inr target), s')
         \<and> gaNewVersion g = (case (gaActiveVersion g, target) of
              (Some active, Some v) \<Rightarrow> if SpecificVersion_Equal (seSemver env) v active then None else Some (Some v)
            | _ \<Rightarrow> Some target))"
proof -
  obtain ls s1 where l: "loadLocalApplicationVersions env application s = (Inr (Inr ls), s1)"
    using assms by (auto simp: LoadApplication_def split: prod.splits sum.splits)
  obtain target where t: "DetermineTargetVersion env application s1 = (Inr (Inr target), s')"
    using assms l by (auto simp: LoadApplication_def Let_def split: prod.splits sum.splits option.splits)
  have g: "g = NewFromLocalApplication ls (GetTargetVersion env application)
      (case (GetTargetVersion env application, target) of
              (Some active, Some v) \<Rightarrow> if SpecificVersion_Equal (seSemver env) v active then None else Some (Some v)
            | _ \<Rightarrow> Some target) application (seConfig env)"
    using assms l t by (auto simp: LoadApplication_def Let_def split: option.splits if_splits)
  have "locals_ok env ls" using l by (rule loadLocal_ok)
  then have "sameConfig g" by (fastforce simp: g sameConfig_def NewFromLocalApplication_def locals_ok_def)
  with \<open>locals_ok env ls\<close> t show ?thesis
    by (intro conjI exI [of _ target] exI [of _ s1]) (simp_all add: g NewFromLocalApplication_def)
qed

text \<open>When the chart of a running application cannot be pulled, the error is lost and loading the
  application panics on the nil version.\<close>

lemma LoadApplication_panics_without_chart:
  assumes "loadLocalApplicationVersions env application s = (Inr (Inr ls), (cache, e))"
    and "srcHelmSelector (specSource (appSpec application)) = Some helm"
    and "NewChartVersion (seSemver env) (helmVersion helm) = Inr chartVersion"
    and "seAddAndGetLatest env (helmChart helm) (helmRepository helm) chartVersion e = (Inl err, e')"
    and "GetTargetVersion env application = Some active"
  shows "DetermineTargetVersion env application (cache, e) = (Inr (Inr None), (cache, e'))
    \<and> LoadApplication env application s = (Inl NilPointerDereference, (cache, e'))"
  using assms by (simp add: LoadApplication_def DetermineTargetVersion_def Let_def)

section \<open>The aggregated health\<close>

text \<open>The reference: the verdict on each template resource that can be judged, and the worst of them.\<close>

definition verdict :: "'r ResourceApi \<Rightarrow> 'r managed \<Rightarrow> 'r \<Rightarrow> HealthStatus option" where
  "verdict api m obj =
     (case map_of m (raResourceKey api obj) of
        None \<Rightarrow> Some \<lparr>hsStatus = HealthStatusMissing, hsMessage = ''''\<rparr>
      | Some liveObj \<Rightarrow>
          (case raGetResourceHealth api liveObj of
             Inl err \<Rightarrow> None
           | Inr None \<Rightarrow> Some \<lparr>hsStatus = HealthStatusHealthy, hsMessage = ''''\<rparr>
           | Inr (Some h) \<Rightarrow> Some h))"

definition verdicts :: "'r ResourceApi \<Rightarrow> 'r managed \<Rightarrow> 'r list \<Rightarrow> HealthStatus list" where
  "verdicts api m objs = List.map_filter (verdict api m) objs"

lemma aggregateOne_verdict:
  "aggregateOne api m obj (n, code, msg) =
     (case verdict api m obj of
        None \<Rightarrow> (n, code, msg)
      | Some h \<Rightarrow> if raIsWorse api code (hsStatus h) then (n + 1, hsStatus h, msg @ ''. '' @ hsMessage h)
                  else (n + 1, code, msg))"
  by (simp add: aggregateOne_def verdict_def Let_def)

lemma aggregate_fold:
  "fold (aggregateOne api m) objs (n, code, msg) = (n', code', msg') \<Longrightarrow>
     n' = n + length (verdicts api m objs) \<and> code' = worst api (verdicts api m objs) code"
proof (induction objs arbitrary: n code msg)
  case Nil
  then show ?case by (simp add: verdicts_def map_filter_simps worst_def)
next
  case (Cons obj objs)
  show ?case
  proof (cases "verdict api m obj")
    case None
    with Cons show ?thesis by (simp add: aggregateOne_verdict verdicts_def map_filter_simps)
  next
    case (Some h)
    let ?c = "if raIsWorse api code (hsStatus h) then hsStatus h else code"
    let ?t = "if raIsWorse api code (hsStatus h) then msg @ ''. '' @ hsMessage h else msg"
    have "fold (aggregateOne api m) objs (n + 1, ?c, ?t) = (n', code', msg')"
      using Cons.prems Some by (auto simp: aggregateOne_verdict)
    from Cons.IH [OF this] show ?thesis by (simp add: Some verdicts_def map_filter_simps worst_def)
  qed
qed

text \<open>C26: the single pass over the template computes the reference: the worst verdict, starting from
  healthy, and unknown when nothing could be judged; so with a severity order a template
  resource that the zone lacks makes the whole at least as bad as missing.\<close>

theorem GetAggregatedStatus_worst:
  assumes "severity_order api rank"
  shows "hsStatus (GetAggregatedStatus api objs m) =
      (if verdicts api m objs = [] then HealthStatusUnknown else worst api (verdicts api m objs) HealthStatusHealthy)
    \<and> (\<forall>obj\<in>set objs. map_of m (raResourceKey api obj) = None \<longrightarrow>
          rank HealthStatusMissing \<le> rank (hsStatus (GetAggregatedStatus api objs m)))"
proof -
  obtain n code msg where f: "fold (aggregateOne api m) objs (0, HealthStatusHealthy, []) = (n, code, msg)"
    by (metis prod_cases3)
  have status: "hsStatus (GetAggregatedStatus api objs m) =
      (if verdicts api m objs = [] then HealthStatusUnknown else worst api (verdicts api m objs) HealthStatusHealthy)"
    using aggregate_fold [OF f] by (simp add: GetAggregatedStatus_def f)
  have "rank HealthStatusMissing \<le> rank (hsStatus (GetAggregatedStatus api objs m))"
    if "obj \<in> set objs" "map_of m (raResourceKey api obj) = None" for obj
  proof -
    have "\<lparr>hsStatus = HealthStatusMissing, hsMessage = ''''\<rparr> \<in> set (verdicts api m objs)"
      using that by (force simp: verdicts_def List.map_filter_def verdict_def)
    moreover from this have "verdicts api m objs \<noteq> []" by auto
    ultimately show ?thesis
      using worst_upper [OF assms, of HealthStatusHealthy "verdicts api m objs"] status by fastforce
  qed
  with status show ?thesis by blast
qed

section \<open>Synchronisation reports\<close>

lemma AddResult_total: "syTotal (fold AddResult rs r) = syTotal r + int (length rs)"
  by (induction rs arbitrary: r) (simp_all add: AddResult_def)

lemma AddResult_flags:
  "syApplicationResourcesDeployed (fold AddResult rs r) = syApplicationResourcesDeployed r"
  "syApplicationResourcesPresent (fold AddResult rs r) = syApplicationResourcesPresent r"
  by (induction rs arbitrary: r) (simp_all add: AddResult_def)

text \<open>A synchronisation that reports the resources deployed also reports them present; with an error
  it reports neither and no health; without one it has the health of the version it rendered.\<close>

lemma SyncVersion_reports:
  assumes "SyncVersion env application ptr s = (Inr (result, err), s')"
  shows "(syApplicationResourcesDeployed result \<longrightarrow> syApplicationResourcesPresent result)
    \<and> (case err of
         Some x \<Rightarrow> result = NewSyncResult
       | None \<Rightarrow> asHealthStatus (syAggregatedStatus result) \<noteq> None \<and> asChartVersion (syAggregatedStatus result) \<noteq> None
           \<and> 0 \<le> syTotal result)"
proof -
  obtain q s1 where g: "getOrRenderAppVersion env application ptr s = (q, s1)" by (metis prod.exhaust)
  show ?thesis
  proof (cases "\<exists>app. q = Inr (Inr app)")
    case False
    with assms g show ?thesis
      by (auto simp: SyncVersion_def NewSyncResult_def split: sum.splits)
  next
    case True
    then obtain app where "q = Inr (Inr app)" by blast
    then have "sync env app s1 = (Inr (result, err), s')" using assms g by (simp add: SyncVersion_def)
    then show ?thesis
      by (auto simp: sync_def Let_def getAggregatedStatus_def AddResult_flags AddResult_total
          addAndLogResults_def NewSyncResult_def split: prod.splits sum.splits option.splits)
  qed
qed

section \<open>Instances\<close>


section \<open>What the jobs rely on\<close>

text \<open>Time as the outside tells it: no call of the service takes it back.\<close>

definition clock_outside :: "('e, 'v, 'c, 'r) SyncEnv \<Rightarrow> ('e \<Rightarrow> Time) \<Rightarrow> bool" where
  "clock_outside env clk \<longleftrightarrow>
     (\<forall>n r c e. clk e \<le> clk (snd (seAddAndGetLatest env n r c e)))
     \<and> (\<forall>k i e. clk e \<le> clk (snd (seRender env k i e)))
     \<and> (\<forall>rs P v n p e. clk e \<le> clk (snd (seSync env rs P v n p e)))
     \<and> (\<forall>r e. clk e \<le> clk (snd (seDelete env r e)))"

lemma clock_stays: "clock_outside env clk \<Longrightarrow> stays_in env iid (\<lambda>e e'. clk e \<le> clk e')"
  by (auto simp: clock_outside_def stays_in_def reflp_def transp_def)

lemma getOrRender_returns:
  assumes "srcHelmSelector (specSource (appSpec application)) \<noteq> None"
  shows "\<exists>x. fst (getOrRenderAppVersion env application (Some v) s) = Inr x"
  using instanceKeyOf_total [OF assms, of v]
  by (cases s) (auto simp: getOrRender_Some Let_def split: prod.splits option.splits sum.splits)

text \<open>A call that returns, panicking or not at all earlier than it was made.\<close>

definition returns :: "('e \<Rightarrow> Time) \<Rightarrow> ('e, 'v, 'r) syncState \<Rightarrow> 'a go \<times> ('e, 'v, 'r) syncState \<Rightarrow> bool" where
  "returns clk s r \<longleftrightarrow> (\<exists>x. fst r = Inr x) \<and> clk (snd s) \<le> clk (snd (snd r))"

lemma returns_Inr [simp]: "returns clk s (Inr x, s') \<longleftrightarrow> clk (snd s) \<le> clk (snd s')"
  by (simp add: returns_def)

lemma returns_later: "clk (snd s) \<le> clk (snd s1) \<Longrightarrow> returns clk s1 r \<Longrightarrow> returns clk s r"
  by (auto simp: returns_def)

lemma getOrRender_timely:
  assumes "srcHelmSelector (specSource (appSpec application)) \<noteq> None" and "clock_outside env clk"
  shows "returns clk s (getOrRenderAppVersion env application (Some v) s)"
proof -
  obtain r cache' e' where g: "getOrRenderAppVersion env application (Some v) (fst s, snd s) = (r, cache', e')"
    by (metis prod_cases3)
  have "clk (snd s) \<le> clk e'" using getOrRender_keeps [OF g] clock_stays [OF assms(2)] by blast
  with g getOrRender_returns [OF assms(1), of env v s] show ?thesis by (simp add: returns_def)
qed

lemma loadVersions_timely:
  assumes "srcHelmSelector (specSource (appSpec application)) \<noteq> None" and "clock_outside env clk"
  shows "returns clk s (loadVersions env application m acc s)"
proof (induction m arbitrary: acc s)
  case (Cons vr rest)
  obtain versionStr resources where vr: "vr = (versionStr, resources)" by fastforce
  show ?case
  proof (cases "length resources = 0 \<or> (\<exists>err. NewSpecificVersion (seSemver env) versionStr = Inl err)")
    case True
    with Cons.IH vr show ?thesis by (auto split: sum.splits)
  next
    case False
    then obtain v where v: "NewSpecificVersion (seSemver env) versionStr = Inr v"
      by (cases "NewSpecificVersion (seSemver env) versionStr") auto
    obtain x s1 where g: "getOrRenderAppVersion env application (Some v) s = (Inr x, s1)"
      using getOrRender_returns [OF assms(1), of env v s] by (metis prod.collapse)
    have t: "clk (snd s) \<le> clk (snd s1)" using getOrRender_timely [OF assms, of s v] by (simp add: g)
    have run: "loadVersions env application (vr # rest) acc s =
        (case x of
           Inl err \<Rightarrow> (Inr (Inl (Wrapped (''Failed to get or render application for version '' @ versionStr) err)), s1)
         | Inr app \<Rightarrow>
            (case NewFromUnstructured (seApi env) v resources (rcResources (caRenderedChart app)) (seConfig env) of
               Inl err \<Rightarrow> (Inr (Inl (Wrapped (''Failed to create local application for version ''
                  @ seVersionVerb env v) err)), s1)
             | Inr None \<Rightarrow> loadVersions env application rest acc s1
             | Inr (Some l) \<Rightarrow> loadVersions env application rest (AList.update v l acc) s1))"
      using False by (simp add: vr v g)
    show ?thesis unfolding run using t returns_later [OF t Cons.IH] by (simp split: sum.split option.split)
  qed
qed simp

lemma loadLocal_timely:
  assumes "srcHelmSelector (specSource (appSpec application)) \<noteq> None" and "clock_outside env clk"
  shows "returns clk s (loadLocalApplicationVersions env application s)"
  using loadVersions_timely [OF assms] by (simp add: loadLocalApplicationVersions_def split: sum.split)

lemma sync_timely:
  assumes "srcHelmSelector (specSource (appSpec (caApplication app))) \<noteq> None" and "clock_outside env clk"
  shows "returns clk s (sync env app s)"
proof -
  obtain q e1 where q: "seSync env (rcResources (caRenderedChart app)) (isManagedFunc env (aiInstanceId (caInstance app)))
      (caRevision app) (aiNamespace (caInstance app)) True (snd s) = (q, e1)" by fastforce
  have t: "clk (snd s) \<le> clk e1" using assms(2) q unfolding clock_outside_def by (metis snd_conv)
  have l: "returns clk (fst s, e1) (loadLocalApplicationVersions env (caApplication app) (fst s, e1))"
    by (rule loadLocal_timely [OF assms])
  then obtain x s2 where x: "loadLocalApplicationVersions env (caApplication app) (fst s, e1) = (Inr x, s2)"
    unfolding returns_def by (metis prod.collapse)
  have "clk (snd s) \<le> clk (snd s2)" using l t by (simp add: x)
  with t show ?thesis by (simp add: sync_def q x Let_def split: sum.split option.split)
qed

definition cache_helm :: "('v, 'r) appCache \<Rightarrow> bool" where
  "cache_helm cache \<longleftrightarrow> (\<forall>k instances t app. cache k = Some instances \<and> instances t = Some app \<longrightarrow>
     srcHelmSelector (specSource (appSpec (caApplication app))) \<noteq> None)"

lemma getOrRender_helm:
  assumes "getOrRenderAppVersion env application (Some v) (cache, e) = (r, (cache', e'))" and "cache_helm cache"
    and "srcHelmSelector (specSource (appSpec application)) \<noteq> None"
  shows "cache_helm cache' \<and> (\<forall>app. r = Inr (Inr app) \<longrightarrow> srcHelmSelector (specSource (appSpec (caApplication app))) \<noteq> None)"
proof -
  obtain key where key: "instanceKeyOf application v = Inr key" using instanceKeyOf_total [OF assms(3)] by blast
  obtain ins c1 where c: "getOrCreateInstances (getApplicationKey application) cache = (ins, c1)" by fastforce
  have own: "srcHelmSelector (specSource (appSpec (caApplication app))) \<noteq> None" if "ins t = Some app" for t app
    using c that assms(2) by (fastforce simp: getOrCreateInstances_def cache_helm_def NewCachedInstances_def split: option.splits)
  have h1: "cache_helm c1"
    using c assms(2) by (auto simp: getOrCreateInstances_def cache_helm_def NewCachedInstances_def split: option.splits if_splits)
  show ?thesis
  proof (cases "cachedInstances_Get (seSemver env) key ins")
    case (Some a)
    then have "r = Inr (Inr a) \<and> cache' = c1" using assms(1) key c by (simp add: getOrRender_Some)
    with h1 own Some show ?thesis by (simp add: cachedInstances_Get_def)
  next
    case None
    obtain q e1 where q: "render env application key e = (q, e1)" by fastforce
    show ?thesis
    proof (cases q)
      case (Inl err)
      with assms(1) key c None q have "r = Inr (Inl err) \<and> cache' = c1" by (simp add: getOrRender_Some)
      with h1 show ?thesis by simp
    next
      case (Inr app)
      with assms(1) key c None q have run: "r = Inr (Inr app)"
          "cache' = c1(getApplicationKey application \<mapsto> cachedInstances_Put (seSemver env) key app ins)"
        by (simp_all add: getOrRender_Some)
      have "caApplication app = application" using render_Inr [OF q [unfolded Inr]] by simp
      with run h1 own assms(3) show ?thesis by (auto simp: cache_helm_def cachedInstances_Put_def)
    qed
  qed
qed

text \<open>C27: for an application with a Helm selector and a definite version, synchronisation and cleanup
  always return, with a result or an error but never a panic, and every result of a cleanup
  names its version: what the deployment and undeployment jobs rely on to end.\<close>

theorem manager_never_panics:
  assumes "srcHelmSelector (specSource (appSpec application)) \<noteq> None" and "clock_outside env clk"
    and "finds_accepted env" and "cache_helm (fst s)"
  shows "returns clk s (SyncVersion env application (Some v) s) \<and> returns clk s (Cleanup env application s)
    \<and> (\<forall>results s'. Cleanup env application s = (Inr (Inr results), s') \<longrightarrow> (\<forall>x\<in>set results. dlVersion x \<noteq> None))"
proof -
  obtain q c1 e1 where g: "getOrRenderAppVersion env application (Some v) (fst s, snd s) = (q, (c1, e1))"
    by (metis prod_cases3)
  have t: "returns clk s (q, (c1, e1))" using getOrRender_timely [OF assms(1,2), of s v] by (simp add: g [simplified])
  then obtain x where x: "q = Inr x" by (auto simp: returns_def)
  have "returns clk s (SyncVersion env application (Some v) s)"
  proof (cases x)
    case (Inl err)
    with g x t show ?thesis by (simp add: SyncVersion_def)
  next
    case (Inr app)
    have "srcHelmSelector (specSource (appSpec (caApplication app))) \<noteq> None"
      using getOrRender_helm [OF g assms(4,1)] x Inr by blast
    from returns_later [OF _ sync_timely [OF this assms(2), of "(c1, e1)"], of s] g x Inr t show ?thesis
      by (simp add: SyncVersion_def)
  qed
  moreover
  obtain r cache' e' where c: "Cleanup env application (fst s, snd s) = (r, (cache', e'))" by (metis prod_cases3)
  have all: "\<forall>iid. stays_in env iid (\<lambda>e e'. clk e \<le> clk e')" using clock_stays [OF assms(2)] by blast
  have keeps: "clk (snd s) \<le> clk e'"
      "\<forall>results. r = Inr (Inr results) \<longrightarrow> (\<forall>x\<in>set results. dlVersion x \<noteq> None)" "\<exists>x. r = Inr x"
    using Cleanup_keeps [OF c _ assms(3), of "\<lambda>e e'. clk e \<le> clk e'"] all assms(1) by blast+
  then have "returns clk s (Cleanup env application s)" using c by (auto simp: returns_def)
  ultimately show ?thesis using keeps(2) c by auto
qed

section \<open>A manager over a chart store\<close>

text \<open>The chart store of \<open>Charts\<close> as the two fields the service calls: the outside is the store and what
  is outside of it.\<close>

definition over_charts ::
  "('v, 'c) Semver \<Rightarrow> ('e, 'v) HelmClient \<Rightarrow> (string \<Rightarrow> GoError + 'r list) \<Rightarrow> ('v charts \<times> 'e, 'v, 'c, 'r) SyncEnv
     \<Rightarrow> ('v charts \<times> 'e, 'v, 'c, 'r) SyncEnv" where
  "over_charts sv helm SplitYAML env = env\<lparr>seSemver := sv, seAddAndGetLatest := AddAndGetLatest sv helm,
     seRender := (\<lambda>key ai s. let (r, e1) = Render sv helm SplitYAML key ai (snd s) in (r, (fst s, e1)))\<rparr>"

text \<open>The contract of an application's target version, over any chart source.\<close>

context chart_source begin

lemma target_admitted:
  assumes "ok (snd s)" and "seAddAndGetLatest env = latest" and "seSemver env = sv"
    and "DetermineTargetVersion env application s = (Inr (Inr (Some v)), s')"
  shows "\<exists>helm chartVersion. srcHelmSelector (specSource (appSpec application)) = Some helm
    \<and> NewChartVersion sv (helmVersion helm) = Inr chartVersion \<and> admits sv chartVersion v \<and> ok (snd s')"
proof -
  obtain helm chartVersion where h: "srcHelmSelector (specSource (appSpec application)) = Some helm"
      "NewChartVersion sv (helmVersion helm) = Inr chartVersion"
    using assms(3,4) by (auto simp: DetermineTargetVersion_def split: option.splits sum.splits)
  obtain r e1 where l: "latest (helmChart helm) (helmRepository helm) chartVersion (snd s) = (r, e1)" by fastforce
  have "\<exists>key. r = Inr key \<and> v = ckVersion key \<and> s' = (fst s, e1)"
    using assms(2,3,4) h l by (auto simp: DetermineTargetVersion_def split: sum.splits)
  with h l latest_ok [OF assms(1)] latest_answer [OF assms(1)] show ?thesis by (metis fst_conv snd_conv)
qed

end

text \<open>Over the chart store, the target version of an application is one that its specification admits:
  the version it names, or one in the range it gives.\<close>

lemma DetermineTargetVersion_admitted:
  assumes "store_ok sv (snd s)"
    and "DetermineTargetVersion (over_charts sv helm SplitYAML env) application s = (Inr (Inr (Some v)), s')"
  shows "\<exists>source chartVersion. srcHelmSelector (specSource (appSpec application)) = Some source
    \<and> NewChartVersion sv (helmVersion source) = Inr chartVersion \<and> admits sv chartVersion v"
  using store.target_admitted [where helm = helm, OF assms(1) _ _ assms(2)] by (auto simp: over_charts_def)

section \<open>Examples\<close>

text \<open>A zone that lists its resources by name, all of one application whose chart renders two of them.\<close>

definition sampleLabelledApi :: "string ResourceApi" where
  "sampleLabelledApi = sampleApi\<lparr>raLabels := (\<lambda>_. [LABEL_INSTANCE_ID \<mapsto> ''n-app'']), raChartVersionLabel := (\<lambda>_. Inr (Some ''1''))\<rparr>"

definition sampleManager :: "(nat charts \<times> string list, nat, nat, string) SyncEnv" where
  "sampleManager = over_charts sampleSemver sampleHelm (\<lambda>_. Inr [''a'', ''b''])
     \<lparr>seConfig = sampleConfig, seSemver = sampleSemver, seApi = sampleLabelledApi,
      seAddAndGetLatest = (\<lambda>n r c e. (Inl (ErrorString ''''), e)), seRender = (\<lambda>k i e. (Inl (ErrorString ''''), e)),
      seFindResources = (\<lambda>P e. filter P (map Some (snd e))),
      seSync = (\<lambda>rs P v n p e. (Inr [], (fst e, rs))),
      seDelete = (\<lambda>r e. (None, (fst e, filter (\<lambda>x. x \<noteq> r) (snd e)))),
      seSha256Hex = (\<lambda>t. ''5e''), seVersionVerb = (\<lambda>v. ''&{}''),
      seTextOrder = (\<lambda>ts. ts), seKeyOrder = (\<lambda>ks. ks), seSetOrder = (\<lambda>vs. vs)\<rparr>"

definition sampleResource :: AnyApplication where
  "sampleResource = sampleApp \<lparr>stOwnership = sampleOwnership OperationalGlobalState None,
     stZones = [newZoneStatus ''z''\<lparr>zsChartVersion := ''1''\<rparr>]\<rparr>"

definition sampleZoneState :: "(nat charts \<times> string list, nat, string) syncState" where
  "sampleZoneState = (Map.empty, ([], [''a'', ''c'']))"

lemma sampleManager_laws:
  "finds_accepted sampleManager" "fair_orders sampleManager" "clock_outside sampleManager (\<lambda>_. 0)"
  "deletes_live sampleManager (\<lambda>e. raResourceKey sampleLabelledApi ` set (snd e))"
  by (auto simp: finds_accepted_def fair_orders_def clock_outside_def deletes_live_def sampleManager_def over_charts_def
      sampleLabelledApi_def sampleApi_def)

lemma sampleResource_helm: "srcHelmSelector (specSource (appSpec sampleResource)) \<noteq> None"
  by (simp add: sampleResource_def sample_defs)

lemma sampleZoneState_cache: "cache_for a (fst sampleZoneState)" "cache_helm (fst sampleZoneState)"
  by (simp_all add: sampleZoneState_def cache_helm_def)

theorem Cleanup_only_own_instance_witness:
  "cache_for sampleResource (fst (snd (Cleanup sampleManager sampleResource sampleZoneState)))
   \<and> set (snd (snd (snd (Cleanup sampleManager sampleResource sampleZoneState)))) \<subseteq> {''a'', ''c''}"
proof -
  let ?R = "\<lambda>e e' :: nat charts \<times> string list. set (snd e') \<subseteq> set (snd e)"
  obtain r c' e' where run: "Cleanup sampleManager sampleResource (fst sampleZoneState, snd sampleZoneState) = (r, (c', e'))"
    by (metis prod_cases3)
  have "snd (snd (seAddAndGetLatest sampleManager n r c s)) = snd s" "snd (snd (seRender sampleManager k i s)) = snd s"
    for n r c k i s
    using sampleHelm_pull_keeps by (simp_all add: sampleManager_def over_charts_def Render_def sampleHelm_def)
  then have "stays_in sampleManager (GetInstanceId sampleResource) ?R"
    by (auto simp: stays_in_def reflp_def transp_def sampleManager_def over_charts_def)
  from Cleanup_only_own_instance [OF run sampleZoneState_cache(1) sampleManager_laws(1) this] run
  show ?thesis by (simp add: sampleZoneState_def)
qed

definition sampleRendered :: "(nat, string) cachedApp" where
  "sampleRendered = \<lparr>caApplication = sampleResource,
     caChartKey = \<lparr>ckChartId = \<lparr>ciRepoUrl = ''https://r'', ciChartName = ''nginx''\<rparr>, ckVersion = SpecificVersion 1\<rparr>,
     caInstance = \<lparr>aiInstanceId = ''n-app'', aiName = ''app'', aiNamespace = ''n'', aiReleaseName = ''app'', aiValuesYaml = ''''\<rparr>,
     caRenderedChart = \<lparr>rcKey = \<lparr>ckChartId = \<lparr>ciRepoUrl = ''https://r'', ciChartName = ''nginx''\<rparr>, ckVersion = SpecificVersion 1\<rparr>,
       rcInstance = \<lparr>aiInstanceId = ''n-app'', aiName = ''app'', aiNamespace = ''n'', aiReleaseName = ''app'', aiValuesYaml = ''''\<rparr>,
       rcResources = [''a'', ''b'']\<rparr>, caRevision = ''5e''\<rparr>"

theorem deleteApp_reports_witness:
  "dlTotal (fst (deleteApp sampleManager sampleRendered ([], [''a'', ''c''])))
     \<le> dlDeleted (fst (deleteApp sampleManager sampleRendered ([], [''a'', ''c''])))
        + dlDeleteFailed (fst (deleteApp sampleManager sampleRendered ([], [''a'', ''c''])))"
  using deleteApp_reports [OF prod.collapse [symmetric] sampleManager_laws(1,2,4), of sampleRendered "([], [''a'', ''c''])"]
  by blast

lemma sampleSemver_precedence: "version_precedence sampleSemver"
  by (auto simp: version_precedence_def version_order_def sampleSemver_def)

lemma Cleanup_oldest_first_example:
  "\<exists>versions results. GetAllPresentVersions sampleManager sampleResource (snd sampleZoneState) = Inr versions
     \<and> fst (Cleanup sampleManager sampleResource sampleZoneState) = Inr (Inr results)"
proof -
  let ?r = "Cleanup sampleManager sampleResource sampleZoneState"
  have "case fst ?r of Inr (Inr results) \<Rightarrow> True | _ \<Rightarrow> False" by code_simp
  then obtain results where r: "fst ?r = Inr (Inr results)" by (auto split: sum.splits)
  then have run: "?r = (Inr (Inr results), snd ?r)" by (metis prod.collapse)
  have "seSemver sampleManager = sampleSemver" by (simp add: sampleManager_def over_charts_def)
  with sampleSemver_precedence have "version_precedence (seSemver sampleManager)" by simp
  from Cleanup_oldest_first [OF run sampleManager_laws(2) this] r show ?thesis by blast
qed

lemma getOrRenderAppVersion_once_example:
  "\<exists>app c e. getOrRenderAppVersion sampleManager sampleResource (Some (SpecificVersion 1)) sampleZoneState = (Inr (Inr app), (c, e))
     \<and> getOrRenderAppVersion sampleManager sampleResource (Some (SpecificVersion 1)) (c, ([], [])) = (Inr (Inr app), (c, ([], [])))"
proof -
  let ?g = "getOrRenderAppVersion sampleManager sampleResource (Some (SpecificVersion 1))"
  have "case fst (?g sampleZoneState) of Inr (Inr app) \<Rightarrow> True | _ \<Rightarrow> False" by code_simp
  then obtain app where "fst (?g sampleZoneState) = Inr (Inr app)" by (auto split: sum.splits)
  then obtain c e where run: "?g (Map.empty, ([], [''a'', ''c''])) = (Inr (Inr app), (c, e))"
    unfolding sampleZoneState_def by (metis prod.collapse)
  from getOrRenderAppVersion_once [OF run] run show ?thesis unfolding sampleZoneState_def by blast
qed

theorem LoadApplication_contract_witness:
  "\<exists>g s'. LoadApplication sampleManager sampleResource sampleZoneState = (Inr (Inr g), s')
     \<and> sameConfig g \<and> gaActiveVersion g = GetTargetVersion sampleManager sampleResource"
proof -
  let ?r = "LoadApplication sampleManager sampleResource sampleZoneState"
  have "case fst ?r of Inr (Inr g) \<Rightarrow> True | _ \<Rightarrow> False" by code_simp
  then obtain g where "fst ?r = Inr (Inr g)" by (auto split: sum.splits)
  then have run: "?r = (Inr (Inr g), snd ?r)" by (metis prod.collapse)
  from LoadApplication_contract [OF run] run show ?thesis by blast
qed

lemma LoadApplication_panics_without_chart_example:
  "let env = sampleManager\<lparr>seAddAndGetLatest := (\<lambda>n r c e. (Inl (ErrorString ''repository unreachable''), e))\<rparr>
   in fst (LoadApplication env sampleResource (Map.empty, ([], []))) = Inl NilPointerDereference"
proof -
  let ?env = "sampleManager\<lparr>seAddAndGetLatest := (\<lambda>n r c e. (Inl (ErrorString ''repository unreachable''), e))\<rparr>"
  have l: "loadLocalApplicationVersions ?env sampleResource (Map.empty, ([], [])) = (Inr (Inr []), (Map.empty, ([], [])))"
    by (simp add: loadLocalApplicationVersions_def resourcesByVersion_def findAvailableApplicationResources_def
        sampleManager_def over_charts_def)
  have h: "srcHelmSelector (specSource (appSpec sampleResource)) = Some \<lparr>helmRepository = ''https://r'', helmReleaseName = '''',
        helmChart = ''nginx'', helmVersion = ''1.0.0'', helmNamespace = ''n'', helmValues = '''',
        helmParameters = [], helmSkipCrds = False\<rparr>"
    by (simp add: sampleResource_def sample_defs)
  have v: "case NewChartVersion (seSemver ?env) ''1.0.0'' of Inr c \<Rightarrow> True | Inl _ \<Rightarrow> False" by code_simp
  then obtain cv where cv: "NewChartVersion (seSemver ?env) ''1.0.0'' = Inr cv" by (auto split: sum.splits)
  have t: "case GetTargetVersion ?env sampleResource of Some v \<Rightarrow> True | None \<Rightarrow> False" by code_simp
  then obtain w where w: "GetTargetVersion ?env sampleResource = Some w" by (auto split: option.splits)
  have p: "seAddAndGetLatest ?env ''nginx'' ''https://r'' cv ([], []) = (Inl (ErrorString ''repository unreachable''), ([], []))"
    by simp
  from LoadApplication_panics_without_chart [OF l h _ _ w, of cv] cv p show ?thesis by (simp add: Let_def)
qed

theorem GetAggregatedStatus_worst_witness:
  "sampleRank HealthStatusMissing \<le> sampleRank (hsStatus (GetAggregatedStatus sampleApi [''a'', ''b''] (managedByKey sampleApi [''a''])))"
proof -
  have "severity_order sampleApi sampleRank" by (simp add: severity_order_def sampleApi_def)
  from GetAggregatedStatus_worst [OF this, of "[''a'', ''b'']" "managedByKey sampleApi [''a'']"]
  show ?thesis by (auto simp: managedByKey_def sampleApi_def)
qed

lemma SyncVersion_reports_example:
  "\<exists>result s'. SyncVersion sampleManager sampleResource (Some (SpecificVersion 1)) sampleZoneState = (Inr (result, None), s')
     \<and> asHealthStatus (syAggregatedStatus result) \<noteq> None"
proof -
  let ?r = "SyncVersion sampleManager sampleResource (Some (SpecificVersion 1)) sampleZoneState"
  have "case fst ?r of Inr (result, None) \<Rightarrow> True | _ \<Rightarrow> False" by code_simp
  then obtain result where "fst ?r = Inr (result, None)" by (auto split: sum.splits prod.splits option.splits)
  then have run: "?r = (Inr (result, None), snd ?r)" by (metis prod.collapse)
  from SyncVersion_reports [OF run] have "asHealthStatus (syAggregatedStatus result) \<noteq> None" by auto
  with run show ?thesis by blast
qed

theorem manager_never_panics_witness:
  "\<exists>x. fst (SyncVersion sampleManager sampleResource (Some (SpecificVersion 1)) sampleZoneState) = Inr x"
  using manager_never_panics [OF sampleResource_helm sampleManager_laws(3,1) sampleZoneState_cache(2)]
  by (auto simp: returns_def)

lemma DetermineTargetVersion_admitted_example:
  "\<exists>v chartVersion. fst (DetermineTargetVersion sampleManager sampleResource sampleZoneState) = Inr (Inr (Some v))
     \<and> NewChartVersion sampleSemver ''1.0.0'' = Inr chartVersion \<and> admits sampleSemver chartVersion v"
proof -
  let ?r = "DetermineTargetVersion sampleManager sampleResource sampleZoneState"
  have "case fst ?r of Inr (Inr (Some v)) \<Rightarrow> True | _ \<Rightarrow> False" by code_simp
  then obtain v where v: "fst ?r = Inr (Inr (Some v))" by (auto split: sum.splits option.splits)
  then have run: "?r = (Inr (Inr (Some v)), snd ?r)" by (metis prod.collapse)
  have ok: "store_ok sampleSemver (snd sampleZoneState)" by (simp add: store_ok_def charts_ok_def sampleZoneState_def)
  from DetermineTargetVersion_admitted [OF ok run [unfolded sampleManager_def]] v
  show ?thesis by (auto simp: sampleResource_def sample_defs)
qed

end
