(* ===== verification/HttpApi.thy ===== *)
theory HttpApi
  imports Resources ErrorReports SyncManager
begin

text \<open>
  \<open>internal/resources/application_specs.go\<close> and \<open>internal/httpapi/api/impl.go\<close>: the specification of
  an application, read off its rendered chart, and the two handlers of the HTTP API. The router that
  calls the handlers is generated code; a reply is what is written to the response, and a handler
  that panics writes none.
\<close>

section \<open>The specification of an application\<close>

definition GetApplicationSpec ::
  "'q QuantityApi \<Rightarrow> UnstructuredApi \<Rightarrow> ('e, 'v, 'c, Fields) SyncEnv \<Rightarrow> AnyApplication \<Rightarrow> ('e, 'v, Fields) syncState
     \<Rightarrow> (GoError + ApplicationSpec) go \<times> ('e, 'v, Fields) syncState" where
  "GetApplicationSpec qa ua env application s =
     (case GetRenderedChart env application s of
        (Inl p, s1) \<Rightarrow> (Inl p, s1)
      | (Inr (Inl err), s1) \<Rightarrow> (Inr (Inl err), s1)
      | (Inr (Inr chart), s1) \<Rightarrow>
          (ApplicationSpecParser_Parse qa ua (appName application) (appNamespace application) (rcResources chart), s1))"

section \<open>Replies\<close>

record ErrorResponse =
  erStatus :: int
  erCode :: string
  erMessage :: string

datatype ReplyBody = ReportBody ApplicationReport | SpecBody ApplicationSpec | ErrorBody ErrorResponse

record Reply =
  rpStatus :: int
  rpContentType :: string
  rpBody :: ReplyBody

definition replyError :: "int \<Rightarrow> string \<Rightarrow> string \<Rightarrow> Reply" where
  "replyError status code msg =
     \<lparr>rpStatus = status, rpContentType = ''application/json'',
      rpBody = ErrorBody \<lparr>erStatus = status, erCode = code, erMessage = msg\<rparr>\<rparr>"

definition replyJson :: "ReplyBody \<Rightarrow> Reply" where
  "replyJson body = \<lparr>rpStatus = 200, rpContentType = ''application/json'', rpBody = body\<rparr>"

section \<open>Handlers\<close>

record ('e, 'v, 'c, 'r, 'q) ServerImpl =
  siKube :: "'e KubeEnv"
  siReports :: "('e, 'r) ReportEnv"
  siApplications :: "('e, 'v, 'c, Fields) SyncEnv"
  siQuantities :: "'q QuantityApi"
  siUnstructured :: UnstructuredApi

definition ServerImpl_GetApplicationStatus ::
  "('e, 'v, 'c, 'r, 'q) ServerImpl \<Rightarrow> string \<Rightarrow> string \<Rightarrow> 'e \<Rightarrow> Reply go \<times> 'e" where
  "ServerImpl_GetApplicationStatus srv namespace name e =
     (case kGet (siKube srv) \<lparr>okNamespace = namespace, okName = name\<rparr> e of
        (Inl err, e1) \<Rightarrow> (Inr (replyError 404 ''NOT_FOUND'' (Error (kubeErrorCause err))), e1)
      | (Inr application, e1) \<Rightarrow>
          (let instanceId = GetInstanceId application
           in case Fetch (siReports srv) instanceId namespace e1 of
                (Inl p, e2) \<Rightarrow> (Inl p, e2)
              | (Inr (Inl err), e2) \<Rightarrow> (Inr (replyError 500 ''INTERNAL_ERROR'' (Error err)), e2)
              | (Inr (Inr report), e2) \<Rightarrow> (Inr (replyJson (ReportBody report)), e2)))"

definition ServerImpl_GetApplicationSpec ::
  "('e, 'v, 'c, 'r, 'q) ServerImpl \<Rightarrow> string \<Rightarrow> string \<Rightarrow> ('e, 'v, Fields) syncState
     \<Rightarrow> Reply go \<times> ('e, 'v, Fields) syncState" where
  "ServerImpl_GetApplicationSpec srv namespace name s =
     (case kGet (siKube srv) \<lparr>okNamespace = namespace, okName = name\<rparr> (snd s) of
        (Inl err, e1) \<Rightarrow> (Inr (replyError 404 ''NOT_FOUND'' (Error (kubeErrorCause err))), (fst s, e1))
      | (Inr application, e1) \<Rightarrow>
          (case GetApplicationSpec (siQuantities srv) (siUnstructured srv) (siApplications srv) application (fst s, e1) of
             (Inl p, s2) \<Rightarrow> (Inl p, s2)
           | (Inr (Inl err), s2) \<Rightarrow> (Inr (replyError 500 ''INTERNAL_ERROR'' (Error err)), s2)
           | (Inr (Inr applicationSpec), s2) \<Rightarrow> (Inr (replyJson (SpecBody applicationSpec)), s2)))"

section \<open>What the handlers answer\<close>


text \<open>C40: a request for the specification of an application whose chart cannot be pulled is not answered
  with the error: the error is lost on the way, and the handler panics on the nil version.\<close>

theorem GetApplicationSpec_panics_without_chart:
  assumes "kGet (siKube srv) \<lparr>okNamespace = namespace, okName = name\<rparr> e = (Inr application, e1)"
    and "srcHelmSelector (specSource (appSpec application)) = Some helm"
    and "NewChartVersion (seSemver (siApplications srv)) (helmVersion helm) = Inr chartVersion"
    and "seAddAndGetLatest (siApplications srv) (helmChart helm) (helmRepository helm) chartVersion e1 = (Inl err, e2)"
  shows "ServerImpl_GetApplicationSpec srv namespace name (cache, e) = (Inl NilPointerDereference, (cache, e2))"
  using assms
  by (simp add: ServerImpl_GetApplicationSpec_def GetApplicationSpec_def GetRenderedChart_def
      DetermineTargetVersion_def getOrRenderAppVersion_def NewChartId_def)

section \<open>Examples\<close>

text \<open>A server whose cluster has one application and whose chart repository cannot be reached.\<close>

definition sampleKube :: "string list KubeEnv" where
  "sampleKube = \<lparr>
     kGet = (\<lambda>k s. if okName k = appName sampleResource then (Inr sampleResource, s)
                   else (Inl (NotFound (ErrorString ''not found'')), s)),
     kStatusUpdate = (\<lambda>a s. (Inr a, s)), kUpdate = (\<lambda>a s. (Inr a, s)),
     kContextDone = (\<lambda>_. False), kNowTime = (\<lambda>s. (0, s)), kRecordEvent = (\<lambda>_ _ _ s. s),
     kRetryOnConflict = (\<lambda>fn. fn)\<rparr>"

definition sampleFieldsApi :: "Fields ResourceApi" where
  "sampleFieldsApi = \<lparr>
     raGroupVersionKind = (\<lambda>_. \<lparr>gvkGroup = '''', gvkVersion = '''', gvkKind = ''''\<rparr>), raNamespace = uGetNamespace sampleUnstructured,
     raName = uGetName sampleUnstructured,
     raResourceKey = (\<lambda>r. \<lparr>rkGroup = '''', rkKind = uGetKind sampleUnstructured r, rkNamespace = uGetNamespace sampleUnstructured r,
                           rkName = uGetName sampleUnstructured r\<rparr>),
     raLabels = (\<lambda>_. Map.empty), raChartVersionLabel = (\<lambda>_. Inr None), raGetResourceHealth = (\<lambda>_. Inr None),
     raIsWorse = (\<lambda>_ _. False), raKindString = (\<lambda>_. ''''), raNameString = (\<lambda>_. '''')\<rparr>"

definition sampleUnreachable :: "(string list, nat, nat, Fields) SyncEnv" where
  "sampleUnreachable =
     \<lparr>seConfig = sampleConfig, seSemver = sampleSemver, seApi = sampleFieldsApi,
      seAddAndGetLatest = (\<lambda>n r c e. (Inl (ErrorString ''repository unreachable''), e)),
      seRender = (\<lambda>k i e. (Inl (ErrorString ''''), e)), seFindResources = (\<lambda>P e. []),
      seSync = (\<lambda>rs P v n p e. (Inr [], e)), seDelete = (\<lambda>r e. (None, e)),
      seSha256Hex = (\<lambda>t. ''5e''), seVersionVerb = (\<lambda>v. ''&{}''),
      seTextOrder = (\<lambda>ts. ts), seKeyOrder = (\<lambda>ks. ks), seSetOrder = (\<lambda>vs. vs)\<rparr>"

definition sampleServer :: "(string list, nat, nat, string, int) ServerImpl" where
  "sampleServer = \<lparr>siKube = sampleKube, siReports = sampleReports, siApplications = sampleUnreachable,
     siQuantities = sampleQuantity, siUnstructured = sampleUnstructured\<rparr>"


theorem GetApplicationSpec_panics_without_chart_witness:
  "fst (ServerImpl_GetApplicationSpec sampleServer ''n'' (appName sampleResource) (Map.empty, [])) = Inl NilPointerDereference"
proof -
  let ?helm = "\<lparr>helmRepository = ''https://r'', helmReleaseName = '''', helmChart = ''nginx'', helmVersion = ''1.0.0'',
        helmNamespace = ''n'', helmValues = '''', helmParameters = [], helmSkipCrds = False\<rparr>"
  have k: "kGet (siKube sampleServer) \<lparr>okNamespace = ''n'', okName = appName sampleResource\<rparr> [] = (Inr sampleResource, [])"
    by (simp add: sampleServer_def sampleKube_def)
  have h: "srcHelmSelector (specSource (appSpec sampleResource)) = Some ?helm" by (simp add: sampleResource_def sample_defs)
  have "case NewChartVersion (seSemver (siApplications sampleServer)) (helmVersion ?helm) of Inr c \<Rightarrow> True | Inl _ \<Rightarrow> False" by code_simp
  then obtain cv where cv: "NewChartVersion (seSemver (siApplications sampleServer)) (helmVersion ?helm) = Inr cv" by (auto split: sum.splits)
  have p: "seAddAndGetLatest (siApplications sampleServer) n r c e = (Inl (ErrorString ''repository unreachable''), e)" for n r c e
    by (simp add: sampleServer_def sampleUnreachable_def)
  from GetApplicationSpec_panics_without_chart [OF k h cv p] show ?thesis by simp
qed

end
