(* ===== verification/Wiring.thy ===== *)
theory Wiring
  imports Helm HttpApi
begin

text \<open>
  \<open>cmd/main.go\<close>: the two functions it hands to the cluster cache, which decide what the cache leaves out and of
  which objects it keeps the manifest; and how they meet the rest: the label the chart store asks
  for is the one the cache looks at, and the instance id it asks for is the one the reports and
  the deletions look for. The remainder of \<open>main\<close> creates the parts from flags and starts them.
\<close>

section \<open>The settings of the cluster cache\<close>

text \<open>A missing key of the set reads as false; a missing label as the empty text.\<close>

definition IsExcludedResource :: "(string \<rightharpoonup> bool) \<Rightarrow> string \<Rightarrow> string \<Rightarrow> string \<Rightarrow> bool" where
  "IsExcludedResource resourceExcludes grp kind cluster =
     (case resourceExcludes (grp @ ''/'' @ kind) of None \<Rightarrow> False | Some b \<Rightarrow> b)"

record ResourceInfo =
  riManagedByMark :: string

definition populateResourceInfo :: "(string \<rightharpoonup> string) \<Rightarrow> ResourceInfo \<times> bool" where
  "populateResourceInfo labels =
     (let managedByMark = (case labels ''dcp.hiro.io/managed-by'' of None \<Rightarrow> '''' | Some v \<Rightarrow> v)
      in (\<lparr>riManagedByMark = managedByMark\<rparr>, managedByMark \<noteq> ''''))"

lemma IsExcludedResource_configured:
  "IsExcludedResource (ExcludesSet excludes) grp kind cluster \<longleftrightarrow> grp @ ''/'' @ kind \<in> set excludes"
proof -
  have "fold (\<lambda>v s. s(v \<mapsto> True)) xs m k = (if k \<in> set xs then Some True else m k)" for xs :: "string list" and m k
    by (induction xs arbitrary: m) auto
  then show ?thesis by (simp add: IsExcludedResource_def ExcludesSet_def)
qed

section \<open>What is rendered is found again\<close>

text \<open>The cache keeps the manifest, a report on the application takes the object in, and the service counts
  it among the resources of its version.\<close>

definition foundAs :: "(string \<rightharpoonup> string) \<Rightarrow> AnyApplication \<Rightarrow> string \<Rightarrow> bool" where
  "foundAs labels application shown \<longleftrightarrow>
     populateResourceInfo labels = (\<lparr>riManagedByMark = LABEL_VALUE_MANAGED_BY_DCP\<rparr>, True)
     \<and> hasInstance (Some labels) (GetInstanceId application)
     \<and> labelText labels LABEL_INSTANCE_ID = GetInstanceId application \<and> labels LABEL_CHART_VERSION = Some shown"

lemma rendered_found:
  assumes "aiInstanceId ai = GetInstanceId application" and "renderLabels sv key ai \<subseteq>\<^sub>m labels"
  shows "foundAs labels application (SpecificVersion_ToString sv (ckVersion key))"
proof -
  have "labels k = renderLabels sv key ai k" if "k \<in> {LABEL_MANAGED_BY, LABEL_CHART_VERSION, LABEL_INSTANCE_ID}" for k
    using assms(2) that by (auto simp: map_le_def renderLabels_def label_defs)
  then have "labels ''dcp.hiro.io/managed-by'' = Some ''dcp''" "labels ''dcp.hiro.io/instance-id'' = Some (aiInstanceId ai)"
    "labels LABEL_CHART_VERSION = Some (SpecificVersion_ToString sv (ckVersion key))"
    by (simp_all add: renderLabels_def label_defs)
  then show ?thesis
    by (simp add: foundAs_def populateResourceInfo_def hasInstance_def labelText_def assms(1)) (simp add: label_defs)
qed

text \<open>A rendering that succeeds post-processed what Helm answered.\<close>

lemma Template_success:
  assumes "Template lib oa args e = (Inr (Inr result), e')"
  obtains chartSpec manifest scopes e1 e2 where "hlTemplateChart lib chartSpec e1 = (Inr manifest, e2)"
    and "cspNamespace chartSpec = taNamespace args" and "cspValuesYaml chartSpec = taValuesYaml args"
    and "PostProcessManifests lib oa
        [AddLabels oa (hlRange lib (taLabels args)), \<lambda>obj. Inr (AddNamespace oa (taNamespace args) scopes obj)] manifest
      = Inr (Inr result)"
  using assms by (auto simp: Template_def Let_def split: prod.splits sum.splits if_splits) (fastforce+)?

text \<open>An object on which, and on whose pods, the application finds its labels.\<close>

definition renderedFor :: "ObjectApi \<Rightarrow> AnyApplication \<Rightarrow> string \<Rightarrow> Fields \<Rightarrow> bool" where
  "renderedFor oa application shown obj \<longleftrightarrow> foundAs (labelsOf oa obj) application shown
     \<and> (hasPodTemplate (uGetKind oa obj) \<and> (\<exists>t. uNestedMap oa obj templatePath = Inr (Some t)) \<longrightarrow>
          (\<exists>ls. templateLabels oa obj = Some ls \<and> foundAs (\<lambda>k. Option.bind (map_of ls k) asString) application shown))"

lemma carries_renderedFor:
  assumes "carries oa kvs obj" and "map_of kvs = renderLabels sv key ai" and "aiInstanceId ai = GetInstanceId application"
  shows "renderedFor oa application (SpecificVersion_ToString sv (ckVersion key)) obj"
proof -
  have found: "foundAs m application (SpecificVersion_ToString sv (ckVersion key))" if "\<forall>(k, v)\<in>set kvs. m k = Some v" for m
    using that by (intro rendered_found [OF assms(3)]) (force simp: map_le_def assms(2) [symmetric] dest: map_of_SomeD)
  have "foundAs (\<lambda>k. Option.bind (map_of ls k) asString) application (SpecificVersion_ToString sv (ckVersion key))"
    if "\<forall>(k, v)\<in>set kvs. map_of ls k = Some (VString v)" for ls using that by (intro found) auto
  with found assms(1) show ?thesis unfolding carries_def renderedFor_def by blast
qed


section \<open>Example\<close>

definition sampleInstance :: ApplicationInstance where
  "sampleInstance = \<lparr>aiInstanceId = ''n-app'', aiName = ''app'', aiNamespace = ''n'', aiReleaseName = ''app'', aiValuesYaml = ''''\<rparr>"

definition sampleChartKey :: "nat ChartKey" where
  "sampleChartKey = \<lparr>ckChartId = \<lparr>ciRepoUrl = ''/stable'', ciChartName = ''nginx''\<rparr>, ckVersion = SpecificVersion 1\<rparr>"

definition sampleArgs :: "unit FullTemplateArgs" where
  "sampleArgs = \<lparr>taReleaseName = ''app'', taRepoUrl = ''/stable'', taChartName = ''nginx'', taNamespace = ''n'', taVersion = ''1'',
     taValuesYaml = '''', taLabels = renderLabels sampleSemver sampleChartKey sampleInstance, taValuesOptions = (), taUpgradeCRDs = False\<rparr>"

definition sampleLabels :: "(string \<times> string) list" where
  "sampleLabels = [(LABEL_MANAGED_BY, LABEL_VALUE_MANAGED_BY_DCP),
     (LABEL_CHART_VERSION, SpecificVersion_ToString sampleSemver (SpecificVersion 1)), (LABEL_INSTANCE_ID, ''n-app'')]"

definition sampleHelm :: "(nat, unit) HelmLib" where
  "sampleHelm = sampleLib\<lparr>hlTemplateChart := \<lambda>_ e. (Inr '' web'', e), hlRange := \<lambda>_. sampleLabels\<rparr>"


end
