(* ===== verification/Logs.thy ===== *)
theory Logs
  imports ErrorReports
begin

text \<open>
  \<open>internal/errorctx/logs.go\<close>: the fetching of a container's log and of the events of a namespace. The calls of the
  Kubernetes client and of the stream it answers are fields of \<open>LogClient\<close>; the loop that reads the
  stream is the code's, and returns only if the stream ends.
\<close>

section \<open>Fetching\<close>

text \<open>A read answers the bytes it put into the buffer, at most as many as it holds, and an error, which is also
  how the end of the stream is told.\<close>

record ('e, 'h) LogClient =
  lcListEvents :: "string \<Rightarrow> 'e \<Rightarrow> (GoError + KubeEvent list) \<times> 'e"
  lcStream :: "string \<Rightarrow> string \<Rightarrow> string \<Rightarrow> bool \<Rightarrow> 'e \<Rightarrow> (GoError + 'h) \<times> 'e"
  lcRead :: "'h \<Rightarrow> nat \<Rightarrow> 'e \<Rightarrow> (string \<times> GoError option) \<times> 'e"
  lcClose :: "'h \<Rightarrow> 'e \<Rightarrow> GoError option \<times> 'e"

definition FetchEvents :: "('e, 'h) LogClient \<Rightarrow> string \<Rightarrow> 'e \<Rightarrow> (GoError + KubeEvent list) \<times> 'e" where
  "FetchEvents client namespace e = lcListEvents client namespace e"

partial_function (option) readAll :: "('e, 'h) LogClient \<Rightarrow> 'h \<Rightarrow> string \<Rightarrow> 'e \<Rightarrow> (string \<times> 'e) option" where
  "readAll client stream sb e =
     (case lcRead client stream 2048 e of
        ((chunk, err), e1) \<Rightarrow>
          if err \<noteq> None then Some (sb @ chunk, e1) else readAll client stream (sb @ chunk) e1)"

definition FetchLogs ::
  "('e, 'h) LogClient \<Rightarrow> string \<Rightarrow> string \<Rightarrow> string \<Rightarrow> bool \<Rightarrow> 'e \<Rightarrow> ((GoError + string) \<times> 'e) option" where
  "FetchLogs client namespace podname container previous e =
     (case lcStream client namespace podname container previous e of
        (Inl err, e1) \<Rightarrow> Some (Inl err, e1)
      | (Inr stream, e1) \<Rightarrow>
          (case readAll client stream [] e1 of
             None \<Rightarrow> None
           | Some (sb, e2) \<Rightarrow> Some (Inr sb, snd (lcClose client stream e2))))"

section \<open>What is fetched\<close>

text \<open>The stream yields a text: the chunks of its reads up to and with the first that answers an error.\<close>

inductive yields :: "('e, 'h) LogClient \<Rightarrow> 'h \<Rightarrow> 'e \<Rightarrow> string \<Rightarrow> GoError \<Rightarrow> 'e \<Rightarrow> bool" for client stream where
  last: "lcRead client stream 2048 e = ((chunk, Some err), e1) \<Longrightarrow> yields client stream e chunk err e1"
| more: "lcRead client stream 2048 e = ((chunk, None), e1) \<Longrightarrow> yields client stream e1 s err e2
     \<Longrightarrow> yields client stream e (chunk @ s) err e2"

lemma readAll_yields:
  "yields client stream e s err e' \<Longrightarrow> readAll client stream sb e = Some (sb @ s, e')"
  by (induction arbitrary: sb rule: yields.induct) (subst readAll.simps, simp)+

lemma yields_readAll:
  assumes "readAll client stream sb e = Some out"
  shows "\<exists>s err. yields client stream e s err (snd out) \<and> fst out = sb @ s"
  using assms
proof (rule readAll.raw_induct [where P = "\<lambda>c h sb e out. \<exists>s err. yields c h e s err (snd out) \<and> fst out = sb @ s", rotated])
  fix f client stream sb e out
  assume IH: "\<And>client stream sb e out. f client stream sb e = Some out \<Longrightarrow>
      \<exists>s err. yields client stream e s err (snd out) \<and> fst out = sb @ s"
    and step: "(case lcRead client stream 2048 e of
        ((chunk, err), e1) \<Rightarrow> if err \<noteq> None then Some (sb @ chunk, e1) else f client stream (sb @ chunk) e1) = Some out"
  obtain chunk err e1 where read: "lcRead client stream 2048 e = ((chunk, err), e1)" by (metis prod.collapse)
  show "\<exists>s err. yields client stream e s err (snd out) \<and> fst out = sb @ s"
  proof (cases err)
    case None
    with step read IH obtain s err' where "yields client stream e1 s err' (snd out)" "fst out = (sb @ chunk) @ s" by fastforce
    with read None show ?thesis by (intro exI [of _ "chunk @ s"] exI [of _ err']) (auto intro: yields.more)
  next
    case (Some er)
    with read have "yields client stream e chunk er e1" by (intro yields.last) simp
    with Some step read show ?thesis by auto
  qed
qed

text \<open>C32: fetching a log returns exactly when its stream ends, with everything the stream gave; it reports an error
  only when the stream could not be opened: a stream that breaks off is taken for one that ends, and
  what it gave before for the whole log.\<close>

theorem FetchLogs_contract:
  "case lcStream client namespace podname container previous e of
     (Inl err, e1) \<Rightarrow> FetchLogs client namespace podname container previous e = Some (Inl err, e1)
   | (Inr stream, e1) \<Rightarrow>
       (\<forall>s err e2. yields client stream e1 s err e2 \<longrightarrow>
          FetchLogs client namespace podname container previous e = Some (Inr s, snd (lcClose client stream e2)))
       \<and> ((\<nexists>s err e2. yields client stream e1 s err e2) \<longrightarrow>
          FetchLogs client namespace podname container previous e = None)"
proof -
  have none: "readAll client stream [] e1 = None" if "\<nexists>s err e2. yields client stream e1 s err e2" for stream e1
    using that yields_readAll [of client stream "[]" e1] by (cases "readAll client stream [] e1") auto
  show ?thesis
    by (auto simp: FetchLogs_def none readAll_yields split: prod.splits sum.splits)
qed

section \<open>Example\<close>

text \<open>A stream is the list of the chunks it has left and the error at its end.\<close>

definition sampleClient :: "(string list \<times> GoError, unit) LogClient" where
  "sampleClient =
     \<lparr>lcListEvents = (\<lambda>_ e. (Inr [], e)), lcStream = (\<lambda>_ _ _ _ e. (Inr (), e)),
      lcRead = (\<lambda>_ n e. case e of ([], err) \<Rightarrow> (('''', Some err), e) | (c # cs, err) \<Rightarrow> ((take n c, None), (cs, err))),
      lcClose = (\<lambda>_ e. (None, e))\<rparr>"

theorem FetchLogs_contract_witness:
  "FetchLogs sampleClient ''n'' ''web-0'' ''web'' False ([''line 1 '', ''line 2''], ErrorString ''connection reset'')
   = Some (Inr ''line 1 line 2'', ([], ErrorString ''connection reset''))"
proof -
  let ?err = "ErrorString ''connection reset''"
  have "yields sampleClient () ([], ?err) '''' ?err ([], ?err)" by (rule yields.last) (simp add: sampleClient_def)
  then have "yields sampleClient () ([''line 2''], ?err) (''line 2'' @ '''') ?err ([], ?err)"
    by (rule yields.more [rotated]) (simp add: sampleClient_def)
  then have "yields sampleClient () ([''line 1 '', ''line 2''], ?err) (''line 1 '' @ ''line 2'' @ '''') ?err ([], ?err)"
    by (rule yields.more [rotated]) (simp add: sampleClient_def)
  then show ?thesis
    using FetchLogs_contract [of sampleClient "''n''" "''web-0''" "''web''" False "([''line 1 '', ''line 2''], ?err)"]
    by (auto simp: sampleClient_def)
qed

end
