(* ===== verification/BundleJson.thy ===== *)
theory BundleJson
  imports LocalBundle Unstructured
begin

text \<open>
  The JSON form of a bundle, in \<open>internal/controller/local/application_bundle.go\<close>: \<open>Serialize\<close> and \<open>Deserialize\<close> with
  the methods \<open>encoding/json\<close> calls; and that of a version, in \<open>internal/controller/types/chart.go\<close>. The texts of JSON values and the form of one Kubernetes object are
  the libraries', \<open>JsonApi\<close>; that an error ends the process (\<open>log.Fatal\<close>) is \<open>None\<close>.
\<close>

section \<open>The methods\<close>

text \<open>\<open>jsMarshal\<close> and \<open>jsUnmarshal\<close> are JSON's text of a value; \<open>jsEncodeObject\<close> and \<open>jsDecodeObject\<close> the methods of
  \<open>unstructured.Unstructured\<close>, of which the second refuses an object without a kind.\<close>

record JsonApi =
  jsMarshal :: "Value \<Rightarrow> GoError + string"
  jsUnmarshal :: "string \<Rightarrow> GoError + Value"
  jsEncodeObject :: "Fields \<Rightarrow> GoError + Value"
  jsDecodeObject :: "Value \<Rightarrow> GoError + Fields"

fun mapErr :: "('a \<Rightarrow> GoError + 'b) \<Rightarrow> 'a list \<Rightarrow> GoError + 'b list" where
  "mapErr f [] = Inr []"
| "mapErr f (x # xs) =
     (case f x of
        Inl err \<Rightarrow> Inl err
      | Inr y \<Rightarrow> (case mapErr f xs of Inl err \<Rightarrow> Inl err | Inr ys \<Rightarrow> Inr (y # ys)))"

text \<open>The anonymous struct that is marshalled: its two fields, and of the embedded bundle, whose fields are not
  exported, nothing.\<close>

definition ApplicationBundle_MarshalJSON :: "JsonApi \<Rightarrow> Fields ApplicationBundle \<Rightarrow> GoError + string" where
  "ApplicationBundle_MarshalJSON js bundle =
     (case mapErr (jsEncodeObject js) (availableResources bundle) of
        Inl err \<Rightarrow> Inl err
      | Inr available \<Rightarrow>
          (case mapErr (jsEncodeObject js) (expectedResources bundle) of
             Inl err \<Rightarrow> Inl err
           | Inr expected \<Rightarrow>
               jsMarshal js (VMap [(''availableResources'', VSlice available), (''expectedResources'', VSlice expected)])))"

text \<open>The field of a struct takes the last key that is its name but for case; one that is missing or null is the
  nil slice, one of another type an error.\<close>

definition decodeField :: "JsonApi \<Rightarrow> Fields \<Rightarrow> string \<Rightarrow> GoError + Fields list" where
  "decodeField js aux name =
     (case find (\<lambda>(k, v). ToLower k = ToLower name) (rev aux) of
        None \<Rightarrow> Inr []
      | Some (k, VNil) \<Rightarrow> Inr []
      | Some (k, VSlice items) \<Rightarrow> mapErr (jsDecodeObject js) items
      | Some (k, v) \<Rightarrow> Inl (ErrorString (''json: cannot unmarshal into Go struct field '' @ name)))"

text \<open>A null value sets the pointer to the struct to nil, which is then read through.\<close>

definition ApplicationBundle_UnmarshalJSON :: "JsonApi \<Rightarrow> string \<Rightarrow> (GoError + Fields ApplicationBundle) go" where
  "ApplicationBundle_UnmarshalJSON js data =
     (case jsUnmarshal js data of
        Inl err \<Rightarrow> Inr (Inl err)
      | Inr VNil \<Rightarrow> Inl NilPointerDereference
      | Inr (VMap aux) \<Rightarrow>
          (case decodeField js aux ''availableResources'' of
             Inl err \<Rightarrow> Inr (Inl err)
           | Inr available \<Rightarrow>
               (case decodeField js aux ''expectedResources'' of
                  Inl err \<Rightarrow> Inr (Inl err)
                | Inr expected \<Rightarrow> Inr (Inr \<lparr>availableResources = available, expectedResources = expected\<rparr>)))
      | Inr _ \<Rightarrow> Inr (Inl (ErrorString ''json: cannot unmarshal into Go value'')))"

definition Serialize :: "JsonApi \<Rightarrow> Fields ApplicationBundle \<Rightarrow> string option" where
  "Serialize js bundle =
     (case ApplicationBundle_MarshalJSON js bundle of Inl err \<Rightarrow> None | Inr jsonData \<Rightarrow> Some jsonData)"

definition Deserialize :: "JsonApi \<Rightarrow> string \<Rightarrow> Fields ApplicationBundle option go" where
  "Deserialize js data =
     (case ApplicationBundle_UnmarshalJSON js data of
        Inl p \<Rightarrow> Inl p
      | Inr (Inl err) \<Rightarrow> Inr None
      | Inr (Inr bundle) \<Rightarrow> Inr (Some bundle))"

definition SpecificVersion_MarshalJSON :: "JsonApi \<Rightarrow> ('v, 'c) Semver \<Rightarrow> 'v SpecificVersion \<Rightarrow> GoError + string" where
  "SpecificVersion_MarshalJSON js sv v = jsMarshal js (VString (SpecificVersion_ToString sv v))"

text \<open>A null value leaves the text as it was, empty.\<close>

definition SpecificVersion_UnmarshalJSON :: "JsonApi \<Rightarrow> ('v, 'c) Semver \<Rightarrow> string \<Rightarrow> GoError + 'v SpecificVersion" where
  "SpecificVersion_UnmarshalJSON js sv data =
     (case (case jsUnmarshal js data of
              Inl err \<Rightarrow> Inl err
            | Inr (VString s) \<Rightarrow> Inr s
            | Inr VNil \<Rightarrow> Inr ''''
            | Inr _ \<Rightarrow> Inl (ErrorString ''json: cannot unmarshal into Go value of type string'')) of
        Inl err \<Rightarrow> Inl (Wrapped ''failed to unmarshal SpecificVersion'' err)
      | Inr versionString \<Rightarrow>
          (case svNewVersion sv versionString of
             Inl err \<Rightarrow> Inl (Wrapped ''failed to parse SpecificVersion'' err)
           | Inr v \<Rightarrow> Inr (SpecificVersion v)))"

section \<open>Writing and reading back\<close>

text \<open>The kind of an object's group, version and kind; an API version with more than one slash makes it empty.\<close>

definition textAt :: "Fields \<Rightarrow> string \<Rightarrow> string" where
  "textAt obj k = (case map_of obj k of Some (VString s) \<Rightarrow> s | _ \<Rightarrow> '''')"

definition kindOf :: "Fields \<Rightarrow> string" where
  "kindOf obj = (if 1 < length (filter (\<lambda>c. c = CHR ''/'') (textAt obj ''apiVersion'')) then '''' else textAt obj ''kind'')"

text \<open>What the libraries document: a text reads back as the value it was written for; an object with a kind
  reads back as the same map, up to the order of its keys, and one without is refused.\<close>

definition json_laws :: "JsonApi \<Rightarrow> (Fields \<Rightarrow> Fields \<Rightarrow> bool) \<Rightarrow> bool" where
  "json_laws js same \<longleftrightarrow> (\<forall>v s. jsMarshal js v = Inr s \<longrightarrow> jsUnmarshal js s = Inr v)
     \<and> (\<forall>obj v. jsEncodeObject js obj = Inr v \<longrightarrow>
          (if kindOf obj \<noteq> '''' then \<exists>obj'. jsDecodeObject js v = Inr obj' \<and> same obj obj'
           else \<exists>err. jsDecodeObject js v = Inl err))"

lemma mapErr_length: "mapErr f xs = Inr ys \<Longrightarrow> length ys = length xs"
  by (induction xs arbitrary: ys) (auto split: sum.splits)

lemma mapErr_back:
  assumes "json_laws js same" and "mapErr (jsEncodeObject js) objs = Inr vs"
  shows "if \<forall>obj\<in>set objs. kindOf obj \<noteq> '''' then \<exists>objs'. mapErr (jsDecodeObject js) vs = Inr objs' \<and> list_all2 same objs objs'
    else \<exists>err. mapErr (jsDecodeObject js) vs = Inl err"
  using assms(2)
proof (induction objs arbitrary: vs)
  case (Cons obj objs)
  then obtain v ws where parts: "jsEncodeObject js obj = Inr v" "mapErr (jsEncodeObject js) objs = Inr ws" "vs = v # ws"
    by (auto split: sum.splits)
  with assms(1) have one: "if kindOf obj \<noteq> '''' then \<exists>obj'. jsDecodeObject js v = Inr obj' \<and> same obj obj'
      else \<exists>err. jsDecodeObject js v = Inl err" unfolding json_laws_def by blast
  show ?case
  proof (cases "kindOf obj = ''''")
    case False
    with one obtain obj' where "jsDecodeObject js v = Inr obj'" "same obj obj'" by auto
    with Cons.IH [OF parts(2)] False show ?thesis by (auto simp: parts(3) split: if_splits)
  qed (use one in \<open>auto simp: parts(3)\<close>)
qed simp

text \<open>A version reads back as one that prints the same, if the library reads what it prints so.\<close>

lemma SpecificVersion_reads_back:
  assumes "json_laws js same" and "svNewVersion sv (svString sv (version v)) = Inr w" "svString sv w = svString sv (version v)"
    and "SpecificVersion_MarshalJSON js sv v = Inr data"
  shows "\<exists>v'. SpecificVersion_UnmarshalJSON js sv data = Inr v' \<and> SpecificVersion_ToString sv v' = SpecificVersion_ToString sv v"
proof -
  have "jsUnmarshal js data = Inr (VString (svString sv (version v)))"
    using assms(1,4) unfolding json_laws_def SpecificVersion_MarshalJSON_def SpecificVersion_ToString_def by blast
  with assms(2,3) show ?thesis by (simp add: SpecificVersion_UnmarshalJSON_def SpecificVersion_ToString_def)
qed

text \<open>C36: a bundle reads back as it was written, resource by resource, when every resource in it has a kind and
  an API version that can be read; a single one without makes the reading end the process, although the writing succeeded.\<close>

theorem bundle_roundtrip:
  assumes laws: "json_laws js same" and written: "Serialize js bundle = Some data"
  shows "if \<forall>r\<in>set (availableResources bundle) \<union> set (expectedResources bundle). kindOf r \<noteq> ''''
    then \<exists>bundle'. Deserialize js data = Inr (Some bundle')
       \<and> list_all2 same (availableResources bundle) (availableResources bundle')
       \<and> list_all2 same (expectedResources bundle) (expectedResources bundle')
    else Deserialize js data = Inr None"
proof -
  from written obtain available expected where enc: "mapErr (jsEncodeObject js) (availableResources bundle) = Inr available"
    "mapErr (jsEncodeObject js) (expectedResources bundle) = Inr expected" and
    "jsMarshal js (VMap [(''availableResources'', VSlice available), (''expectedResources'', VSlice expected)]) = Inr data"
    by (auto simp: Serialize_def ApplicationBundle_MarshalJSON_def split: sum.splits)
  with laws have tree: "jsUnmarshal js data = Inr (VMap [(''availableResources'', VSlice available), (''expectedResources'', VSlice expected)])"
    unfolding json_laws_def by blast
  have "ToLower ''availableResources'' \<noteq> ToLower ''expectedResources''" by code_simp
  then have fields: "decodeField js [(''availableResources'', VSlice available), (''expectedResources'', VSlice expected)] ''availableResources''
      = mapErr (jsDecodeObject js) available"
    "decodeField js [(''availableResources'', VSlice available), (''expectedResources'', VSlice expected)] ''expectedResources''
      = mapErr (jsDecodeObject js) expected"
    by (simp_all add: decodeField_def)
  from mapErr_back [OF laws enc(1)] mapErr_back [OF laws enc(2)] show ?thesis
    unfolding Deserialize_def ApplicationBundle_UnmarshalJSON_def tree
    by (auto simp: fields split: if_splits)
qed

section \<open>Example\<close>

text \<open>A bundle with one resource available and the same expected, and a library that knows its text.\<close>

definition sampleResourceFields :: Fields where
  "sampleResourceFields = [(''kind'', VString ''ConfigMap''), (''metadata'', VMap [(''name'', VString ''c'')])]"

definition sampleTree :: Value where
  "sampleTree = VMap [(''availableResources'', VSlice [VMap sampleResourceFields]), (''expectedResources'', VSlice [VMap sampleResourceFields])]"

definition sampleJson :: JsonApi where
  "sampleJson =
     \<lparr>jsMarshal = (\<lambda>v. if v = sampleTree then Inr ''{...}'' else Inl (ErrorString ''unsupported value'')),
      jsUnmarshal = (\<lambda>s. if s = ''{...}'' then Inr sampleTree else Inl (ErrorString ''invalid character'')),
      jsEncodeObject = (\<lambda>obj. Inr (VMap obj)),
      jsDecodeObject = (\<lambda>v. case asMap v of
          None \<Rightarrow> Inl (ErrorString ''no object'')
        | Some obj \<Rightarrow> if kindOf obj \<noteq> '''' then Inr obj else Inl (ErrorString ''Object Kind is missing''))\<rparr>"

theorem bundle_roundtrip_witness:
  "\<exists>data bundle'. Serialize sampleJson \<lparr>availableResources = [sampleResourceFields], expectedResources = [sampleResourceFields]\<rparr> = Some data
     \<and> Deserialize sampleJson data = Inr (Some bundle') \<and> availableResources bundle' = [sampleResourceFields]"
proof -
  let ?b = "\<lparr>availableResources = [sampleResourceFields], expectedResources = [sampleResourceFields]\<rparr>"
  have laws: "json_laws sampleJson (=)" by (auto simp: json_laws_def sampleJson_def split: if_splits)
  have s: "Serialize sampleJson ?b = Some ''{...}''"
    by (simp add: Serialize_def ApplicationBundle_MarshalJSON_def sampleJson_def sampleTree_def)
  have "kindOf sampleResourceFields \<noteq> ''''" by code_simp
  with bundle_roundtrip [OF laws s] show ?thesis using s by (auto simp: list.rel_eq)
qed

end
