(* ===== verification/Memory.thy ===== *)
theory Memory
  imports Prelude
begin

text \<open>
  A memory with pointers and slices, for the code whose contract is about sharing: the generated deep copies of
  \<open>api/v1/zz_generated.deepcopy.go\<close>. A cell holds an array; a pointer is the address of an array and an
  index in it, nil being \<open>None\<close>; a slice is an address, an offset and a length. The interface
  \<open>deep_copy\<close> is what a \<open>DeepCopyInto\<close> promises, and the lemmas here give it for copies made of copies.
\<close>

section \<open>Cells\<close>

record 'b Memory =
  mmCells :: "nat \<Rightarrow> 'b option"
  mmNext :: nat

definition memory_ok :: "'b Memory \<Rightarrow> bool" where
  "memory_ok m \<longleftrightarrow> (\<forall>a\<ge>mmNext m. mmCells m a = None)"

definition alloc :: "'b \<Rightarrow> 'b Memory \<Rightarrow> nat \<times> 'b Memory" where
  "alloc b m = (mmNext m, m\<lparr>mmCells := (mmCells m)(mmNext m \<mapsto> b), mmNext := Suc (mmNext m)\<rparr>)"

definition overwrite :: "nat \<Rightarrow> 'b \<Rightarrow> 'b Memory \<Rightarrow> 'b Memory" where
  "overwrite a b m = m\<lparr>mmCells := (mmCells m)(a \<mapsto> b)\<rparr>"

text \<open>How arrays of a type are kept in cells, and the zero value of that type.\<close>

record ('a, 'b) Store =
  stoMk :: "'a list \<Rightarrow> 'b"
  stoUn :: "'b \<Rightarrow> 'a list option"
  stoZero :: 'a

definition store_ok :: "('a, 'b) Store \<Rightarrow> bool" where
  "store_ok st \<longleftrightarrow> (\<forall>xs. stoUn st (stoMk st xs) = Some xs)"

definition arrayAt :: "('a, 'b) Store \<Rightarrow> 'b Memory \<Rightarrow> nat \<Rightarrow> 'a list option" where
  "arrayAt st m a = (case mmCells m a of None \<Rightarrow> None | Some b \<Rightarrow> stoUn st b)"

text \<open>What is read there; the types of Go see to it that it is an array of the type asked for.\<close>

definition elements :: "('a, 'b) Store \<Rightarrow> 'b Memory \<Rightarrow> nat \<Rightarrow> 'a list" where
  "elements st m a = (case arrayAt st m a of None \<Rightarrow> [] | Some xs \<Rightarrow> xs)"

type_synonym Pointer = "(nat \<times> nat) option"

datatype Slice = NilSlice | Slice nat nat nat

section \<open>Copying\<close>

text \<open>\<open>*out = new(T)\<close> and then the copy of what is pointed at into it, unless the pointer is nil.\<close>

definition copyPointer ::
  "('a, 'b) Store \<Rightarrow> ('a \<Rightarrow> 'b Memory \<Rightarrow> 'a \<times> 'b Memory) \<Rightarrow> Pointer \<Rightarrow> 'b Memory \<Rightarrow> Pointer \<times> 'b Memory" where
  "copyPointer st copy p m =
     (case p of
        None \<Rightarrow> (None, m)
      | Some (a, i) \<Rightarrow>
          (case alloc (stoMk st [stoZero st]) m of
             (b, m1) \<Rightarrow>
               (case copy (elements st m1 a ! i) m1 of
                  (y, m2) \<Rightarrow> (Some (b, 0), overwrite b (stoMk st [y]) m2))))"

text \<open>\<open>*out = make([]T, len(*in))\<close> and then the copy of one element after the other into it.\<close>

definition copyElement ::
  "('a, 'b) Store \<Rightarrow> ('a \<Rightarrow> 'b Memory \<Rightarrow> 'a \<times> 'b Memory) \<Rightarrow> nat \<Rightarrow> nat \<Rightarrow> nat \<Rightarrow> nat \<Rightarrow> 'b Memory \<Rightarrow> 'b Memory" where
  "copyElement st copy a off b i m =
     (case copy (elements st m a ! (off + i)) m of
        (y, m') \<Rightarrow> overwrite b (stoMk st ((elements st m' b)[i := y])) m')"

definition copySlice ::
  "('a, 'b) Store \<Rightarrow> ('a \<Rightarrow> 'b Memory \<Rightarrow> 'a \<times> 'b Memory) \<Rightarrow> Slice \<Rightarrow> 'b Memory \<Rightarrow> Slice \<times> 'b Memory" where
  "copySlice st copy s m =
     (case s of
        NilSlice \<Rightarrow> (NilSlice, m)
      | Slice a off n \<Rightarrow>
          (case alloc (stoMk st (replicate n (stoZero st))) m of
             (b, m1) \<Rightarrow> (Slice b 0 n, fold (copyElement st copy a off b) [0..<n] m1)))"

text \<open>The same with \<open>copy(*out, *in)\<close>, which moves all the elements at once.\<close>

definition moveSlice :: "('a, 'b) Store \<Rightarrow> Slice \<Rightarrow> 'b Memory \<Rightarrow> Slice \<times> 'b Memory" where
  "moveSlice st s m =
     (case s of
        NilSlice \<Rightarrow> (NilSlice, m)
      | Slice a off n \<Rightarrow>
          (case alloc (stoMk st (replicate n (stoZero st))) m of
             (b, m1) \<Rightarrow> (Slice b 0 n, overwrite b (stoMk st (take n (drop off (elements st m1 a)))) m1)))"

section \<open>What a value stands for\<close>

text \<open>A pointer stands for nil or a value, a slice for nil or the values of its elements, when those are there.\<close>

definition pointerValue :: "('a, 'b) Store \<Rightarrow> ('b Memory \<Rightarrow> 'a \<Rightarrow> 'd option) \<Rightarrow> 'b Memory \<Rightarrow> Pointer \<Rightarrow> 'd option option" where
  "pointerValue st den m p =
     (case p of
        None \<Rightarrow> Some None
      | Some (a, i) \<Rightarrow>
          (case arrayAt st m a of
             None \<Rightarrow> None
           | Some xs \<Rightarrow> if i < length xs then map_option Some (den m (xs ! i)) else None))"

definition sliceValue :: "('a, 'b) Store \<Rightarrow> ('b Memory \<Rightarrow> 'a \<Rightarrow> 'd option) \<Rightarrow> 'b Memory \<Rightarrow> Slice \<Rightarrow> 'd list option option" where
  "sliceValue st den m s =
     (case s of
        NilSlice \<Rightarrow> Some None
      | Slice a off n \<Rightarrow>
          (case arrayAt st m a of
             None \<Rightarrow> None
           | Some xs \<Rightarrow>
               if off + n \<le> length xs then map_option Some (those (map (den m) (take n (drop off xs)))) else None))"

section \<open>The promise of a deep copy\<close>

definition same_on :: "nat set \<Rightarrow> 'b Memory \<Rightarrow> 'b Memory \<Rightarrow> bool" where
  "same_on A m g \<longleftrightarrow> (\<forall>a\<in>A. mmCells g a = mmCells m a)"

text \<open>A copy was made: the memory as it was is untouched, and the copy stands for the value in every memory that
  has the new cells, whatever becomes of the old ones.\<close>

definition copied :: "('b Memory \<Rightarrow> 'a \<Rightarrow> 'd option) \<Rightarrow> 'b Memory \<Rightarrow> 'b Memory \<Rightarrow> 'a \<Rightarrow> 'd \<Rightarrow> bool" where
  "copied den m m' y d \<longleftrightarrow> memory_ok m' \<and> mmNext m \<le> mmNext m' \<and> same_on {..<mmNext m} m m'
     \<and> (\<forall>g. same_on {mmNext m..<mmNext m'} m' g \<longrightarrow> den g y = Some d)"

locale deep_copy =
  fixes copy :: "'a \<Rightarrow> 'b Memory \<Rightarrow> 'a \<times> 'b Memory" and den :: "'b Memory \<Rightarrow> 'a \<Rightarrow> 'd option"
  assumes reads: "memory_ok m \<Longrightarrow> den m x = Some d \<Longrightarrow> same_on {..<mmNext m} m g \<Longrightarrow> den g x = Some d"
    and copies: "memory_ok m \<Longrightarrow> den m x = Some d \<Longrightarrow> copy x m = (y, m') \<Longrightarrow> copied den m m' y d"

lemma same_on_subset: "same_on A m g \<Longrightarrow> B \<subseteq> A \<Longrightarrow> same_on B m g"
  by (auto simp: same_on_def)

lemma same_on_trans: "same_on A m g \<Longrightarrow> same_on A g h \<Longrightarrow> same_on A m h"
  by (simp add: same_on_def)

lemma same_on_refl [simp]: "same_on A m m"
  by (simp add: same_on_def)

lemma same_on_overwrite: "a \<notin> A \<Longrightarrow> same_on A m (overwrite a b m)"
  by (auto simp: same_on_def overwrite_def)

lemma overwrite_sel [simp]:
  "mmNext (overwrite a b m) = mmNext m" "mmCells (overwrite a b m) a = Some b"
  by (simp_all add: overwrite_def)

lemma overwrite_ok: "memory_ok m \<Longrightarrow> a < mmNext m \<Longrightarrow> memory_ok (overwrite a b m)"
  by (auto simp: memory_ok_def overwrite_def)

lemma allocE:
  assumes "alloc b m = (a, m')" and "memory_ok m"
  shows "a = mmNext m" "mmNext m' = Suc (mmNext m)" "memory_ok m'" "mmCells m' a = Some b" "same_on {..<mmNext m} m m'"
  using assms by (auto simp: alloc_def memory_ok_def same_on_def)

lemma arrayAt_old: "memory_ok m \<Longrightarrow> arrayAt st m a = Some xs \<Longrightarrow> a < mmNext m"
  by (auto simp: arrayAt_def memory_ok_def linorder_not_less [symmetric] split: option.splits)

lemma arrayAt_same: "same_on A m g \<Longrightarrow> a \<in> A \<Longrightarrow> arrayAt st g a = arrayAt st m a"
  by (simp add: arrayAt_def same_on_def)

lemma arrayAt_keeps:
  "memory_ok m \<Longrightarrow> arrayAt st m a = Some xs \<Longrightarrow> same_on {..<mmNext m} m g \<Longrightarrow> arrayAt st g a = Some xs"
  using arrayAt_old arrayAt_same by (metis lessThan_iff)

lemma arrayAt_written: "store_ok st \<Longrightarrow> mmCells m a = Some (stoMk st xs) \<Longrightarrow> arrayAt st m a = Some xs"
  by (simp add: arrayAt_def store_ok_def)

lemma those_Some_iff: "those xs = Some ys \<longleftrightarrow> length xs = length ys \<and> (\<forall>i<length ys. xs ! i = Some (ys ! i))"
proof (induction xs arbitrary: ys)
  case (Cons x xs)
  show ?case
  proof (cases ys)
    case (Cons y zs)
    with Cons.IH [of zs] show ?thesis by (cases x) (auto simp: nth_Cons less_Suc_eq_0_disj split: nat.splits)
  qed (auto split: option.split)
qed auto

lemma map_option_Some_iff: "map_option f x = Some y \<longleftrightarrow> (\<exists>u. x = Some u \<and> y = f u)"
  by (cases x) auto

text \<open>A slice that is not nil stands for the values of its elements, one by one.\<close>

lemma sliceValue_Slice:
  "sliceValue st den m (Slice a off n) = Some v \<longleftrightarrow> (\<exists>xs ds. v = Some ds \<and> arrayAt st m a = Some xs \<and> off + n \<le> length xs
     \<and> length ds = n \<and> (\<forall>i<n. den m (xs ! (off + i)) = Some (ds ! i)))"
  by (auto simp: sliceValue_def map_option_Some_iff those_Some_iff split: option.splits)

lemma sliceValue_Nil [simp]: "sliceValue st den m NilSlice = Some None"
  by (simp add: sliceValue_def)

lemma pointerValue_Some:
  "pointerValue st den m (Some (a, i)) = Some v \<longleftrightarrow>
     (\<exists>xs d. v = Some d \<and> arrayAt st m a = Some xs \<and> i < length xs \<and> den m (xs ! i) = Some d)"
  by (auto simp: pointerValue_def map_option_Some_iff split: option.splits)

lemma pointerValue_nil [simp]: "pointerValue st den m None = Some None"
  by (simp add: pointerValue_def)

section \<open>Deep copies made of deep copies\<close>

lemma copied_here: "memory_ok m \<Longrightarrow> (\<And>g. den g y = Some d) \<Longrightarrow> copied den m m y d"
  by (simp add: copied_def)

lemma deep_copy_plain: "deep_copy Pair (\<lambda>m x. Some (f x))"
  by unfold_locales (auto intro: copied_here)

text \<open>Nothing reads a copy's new cells but the copy, so a later copy leaves it alone.\<close>

lemma copied_later:
  assumes "copied den m m1 y d" and "mmNext m1 \<le> mmNext m2" and "same_on {..<mmNext m1} m1 m2"
    and "same_on {mmNext m..<mmNext m2} m2 g"
  shows "den g y = Some d"
proof -
  have "same_on {mmNext m..<mmNext m1} m1 g"
    using assms(2,3,4) by (auto simp: same_on_def)
  with assms(1) show ?thesis by (simp add: copied_def)
qed

lemma deep_copy_pair:
  assumes "deep_copy c1 d1" and "deep_copy c2 d2"
  shows "deep_copy (\<lambda>(x, y) m. case c1 x m of (x', m1) \<Rightarrow> case c2 y m1 of (y', m2) \<Rightarrow> ((x', y'), m2))
    (\<lambda>m (x, y). case d1 m x of None \<Rightarrow> None | Some u \<Rightarrow> map_option (Pair u) (d2 m y))"
proof (unfold_locales, goal_cases)
  case (1 m x d g)
  then show ?case
    using deep_copy.reads [OF assms(1), of m "fst x" _ g] deep_copy.reads [OF assms(2), of m "snd x" _ g]
    by (auto simp: map_option_Some_iff split: option.splits prod.splits)
next
  case (2 m x d y m')
  obtain x1 x2 where x: "x = (x1, x2)" by fastforce
  from 2(2) obtain u v where uv: "d1 m x1 = Some u" "d2 m x2 = Some v" "d = (u, v)"
    by (auto simp: x map_option_Some_iff split: option.splits)
  from 2(3) obtain y1 m1 y2 where run: "c1 x1 m = (y1, m1)" "c2 x2 m1 = (y2, m')" "y = (y1, y2)"
    by (auto simp: x split: prod.splits)
  have one: "copied d1 m m1 y1 u" by (rule deep_copy.copies [OF assms(1) 2(1) uv(1) run(1)])
  then have m1: "memory_ok m1" "mmNext m \<le> mmNext m1" "same_on {..<mmNext m} m m1" by (simp_all add: copied_def)
  have two: "copied d2 m1 m' y2 v"
    by (rule deep_copy.copies [OF assms(2) m1(1) deep_copy.reads [OF assms(2) 2(1) uv(2) m1(3)] run(2)])
  then have m2: "memory_ok m'" "mmNext m1 \<le> mmNext m'" "same_on {..<mmNext m1} m1 m'"
    and later: "\<And>g. same_on {mmNext m1..<mmNext m'} m' g \<Longrightarrow> d2 g y2 = Some v" by (simp_all add: copied_def)
  have "d1 g y1 = Some u \<and> d2 g y2 = Some v" if "same_on {mmNext m..<mmNext m'} m' g" for g
    using copied_later [OF one m2(2,3) that] later [OF same_on_subset [OF that]] m1(2) by auto
  moreover have "same_on {..<mmNext m} m m'"
    using m1(2,3) m2(3) by (auto simp: same_on_def)
  ultimately show ?case using m1(2) m2(1,2) by (auto simp: copied_def run(3) uv(3))
qed

text \<open>A struct copies its fields, the others coming with the assignment of the whole.\<close>

lemma deep_copy_struct:
  assumes "deep_copy c d" and "\<And>s y. sel (upd y s) = y" and "\<And>s y v. ab (upd y s) v = ab s v"
  shows "deep_copy (\<lambda>s m. case c (sel s) m of (y, m') \<Rightarrow> (upd y s, m')) (\<lambda>m s. map_option (ab s) (d m (sel s)))"
proof (unfold_locales, goal_cases)
  case (1 m x d' g)
  then obtain v where "d m (sel x) = Some v" "d' = ab x v" by (auto simp: map_option_Some_iff)
  with deep_copy.reads [OF assms(1) 1(1) _ 1(3)] show ?case by simp
next
  case (2 m x d' y m')
  then obtain v z where "d m (sel x) = Some v" "d' = ab x v" "c (sel x) m = (z, m')" "y = upd z x"
    by (auto simp: map_option_Some_iff split: prod.splits)
  with deep_copy.copies [OF assms(1) 2(1), of "sel x" v z m'] show ?case
    by (auto simp: copied_def assms(2,3))
qed

lemma deep_copy_pointer:
  assumes st: "store_ok st" and dc: "deep_copy c d"
  shows "deep_copy (copyPointer st c) (pointerValue st d)"
proof (unfold_locales, goal_cases)
  case (1 m p v g)
  show ?case
  proof (cases p)
    case (Some q)
    then obtain a i where p: "p = Some (a, i)" by (cases q) simp
    with 1(2) obtain xs u where at: "v = Some u" "arrayAt st m a = Some xs" "i < length xs" "d m (xs ! i) = Some u"
      by (auto simp: pointerValue_Some)
    with arrayAt_keeps [OF 1(1) at(2) 1(3)] deep_copy.reads [OF dc 1(1) at(4) 1(3)] show ?thesis
      by (simp add: p pointerValue_Some)
  qed (use 1(2) in simp)
next
  case (2 m p v q m')
  show ?case
  proof (cases p)
    case None
    with 2 show ?thesis by (auto simp: copyPointer_def intro: copied_here)
  next
    case (Some r)
    then obtain a i where p: "p = Some (a, i)" by (cases r) simp
    with 2(2) obtain xs u where at: "v = Some u" "arrayAt st m a = Some xs" "i < length xs" "d m (xs ! i) = Some u"
      by (auto simp: pointerValue_Some)
    obtain b m1 where al: "alloc (stoMk st [stoZero st]) m = (b, m1)" by fastforce
    note al' = allocE [OF al 2(1)]
    have "arrayAt st m1 a = Some xs" by (rule arrayAt_keeps [OF 2(1) at(2) al'(5)])
    then have el: "elements st m1 a = xs" by (simp add: elements_def)
    obtain y m2 where run: "c (xs ! i) m1 = (y, m2)" by fastforce
    have out: "q = Some (b, 0)" "m' = overwrite b (stoMk st [y]) m2"
      using 2(3) by (simp_all add: copyPointer_def p al el run)
    have cp: "copied d m1 m2 y u"
      by (rule deep_copy.copies [OF dc al'(3) deep_copy.reads [OF dc 2(1) at(4) al'(5)] run])
    have "pointerValue st d g q = Some v" if g: "same_on {mmNext m..<mmNext m'} m' g" for g
    proof -
      have "mmCells g b = mmCells m' b" using g cp al'(1,2) by (auto simp: same_on_def copied_def out)
      then have "arrayAt st g b = Some [y]" by (intro arrayAt_written [OF st]) (simp add: out)
      moreover have "same_on {mmNext m1..<mmNext m2} m2 g"
        using g al'(1,2) by (auto simp: same_on_def out overwrite_def)
      then have "d g y = Some u" using cp by (simp add: copied_def)
      ultimately show ?thesis by (simp add: out(1) at(1) pointerValue_Some)
    qed
    moreover have "same_on {..<mmNext m} m m'"
      using al'(1,2,5) cp by (auto simp: same_on_def copied_def out overwrite_def)
    ultimately show ?thesis
      using cp al'(1,2) by (auto simp: copied_def out intro!: overwrite_ok)
  qed
qed

text \<open>After some elements the new array holds their copies, and zero values from there on.\<close>

lemma copyElement_loop:
  assumes st: "store_ok st" and dc: "deep_copy c d" and "memory_ok m" "arrayAt st m a = Some xs" "off + n \<le> length xs"
    and vals: "\<And>i. i < n \<Longrightarrow> d m (xs ! (off + i)) = Some (ds ! i)"
    and al: "alloc (stoMk st (replicate n (stoZero st))) m = (b, m1)" and "k \<le> n"
  shows "\<exists>ys. length ys = n \<and> memory_ok (fold (copyElement st c a off b) [0..<k] m1)
    \<and> mmNext m1 \<le> mmNext (fold (copyElement st c a off b) [0..<k] m1)
    \<and> same_on {..<mmNext m} m (fold (copyElement st c a off b) [0..<k] m1)
    \<and> mmCells (fold (copyElement st c a off b) [0..<k] m1) b = Some (stoMk st ys)
    \<and> (\<forall>g. same_on {mmNext m1..<mmNext (fold (copyElement st c a off b) [0..<k] m1)} (fold (copyElement st c a off b) [0..<k] m1) g
         \<longrightarrow> (\<forall>i<k. d g (ys ! i) = Some (ds ! i)))"
  using \<open>k \<le> n\<close>
proof (induction k)
  note al' = allocE [OF al assms(3)]
  case 0
  then show ?case using al' by (intro exI [of _ "replicate n (stoZero st)"]) simp
next
  note al' = allocE [OF al assms(3)]
  case (Suc k)
  define w where "w = fold (copyElement st c a off b) [0..<k] m1"
  from Suc obtain ys where ys: "length ys = n" "memory_ok w" "mmNext m1 \<le> mmNext w" "same_on {..<mmNext m} m w"
      "mmCells w b = Some (stoMk st ys)"
    and before: "\<And>g i. same_on {mmNext m1..<mmNext w} w g \<Longrightarrow> i < k \<Longrightarrow> d g (ys ! i) = Some (ds ! i)"
    by (auto simp: w_def)
  have "elements st w a = xs"
    using arrayAt_keeps [OF assms(3,4) ys(4)] by (simp add: elements_def)
  obtain y w2 where run: "c (xs ! (off + k)) w = (y, w2)" by fastforce
  have dw: "d w (xs ! (off + k)) = Some (ds ! k)"
    using Suc.prems by (intro deep_copy.reads [OF dc assms(3) vals ys(4)]) simp
  note cp = deep_copy.copies [OF dc ys(2) dw run]
  have b: "b < mmNext m1" "b < mmNext w" using al'(1,2) ys(3) by simp_all
  have "mmCells w2 b = mmCells w b" using cp b(2) by (simp add: copied_def same_on_def)
  then have "elements st w2 b = ys" using arrayAt_written [OF st, of w2 b ys] ys(5) by (simp add: elements_def)
  then have step: "fold (copyElement st c a off b) [0..<Suc k] m1 = overwrite b (stoMk st (ys[k := y])) w2"
    by (simp add: w_def [symmetric] copyElement_def \<open>elements st w a = xs\<close> run)
  have "d g (ys[k := y] ! i) = Some (ds ! i)"
    if g: "same_on {mmNext m1..<mmNext w2} (overwrite b (stoMk st (ys[k := y])) w2) g" and "i < Suc k" for g i
  proof -
    have g2: "same_on {mmNext m1..<mmNext w2} w2 g"
      using g b(1) by (auto simp: same_on_def overwrite_def)
    show ?thesis
    proof (cases "i = k")
      case True
      have "same_on {mmNext w..<mmNext w2} w2 g" by (rule same_on_subset [OF g2]) (use ys(3) in auto)
      with cp True Suc.prems ys(1) show ?thesis by (simp add: copied_def)
    next
      case False
      have "same_on {mmNext m1..<mmNext w} w g"
        using g2 cp by (auto simp: same_on_def copied_def)
      from before [OF this, of i] False \<open>i < Suc k\<close> show ?thesis by simp
    qed
  qed
  moreover have "same_on {..<mmNext m} m (overwrite b (stoMk st (ys[k := y])) w2)"
    using ys(3,4) cp al'(1,2) by (auto simp: same_on_def copied_def overwrite_def)
  ultimately show ?case
    unfolding step using cp ys(1,3) b(2) by (intro exI [of _ "ys[k := y]"]) (auto simp: copied_def intro!: overwrite_ok)
qed

lemma sliceValue_reads:
  assumes dc: "deep_copy c d" and "memory_ok m" "sliceValue st d m s = Some v" "same_on {..<mmNext m} m g"
  shows "sliceValue st d g s = Some v"
proof (cases s)
  case (Slice a off n)
  with assms(3) obtain xs ds where at: "v = Some ds" "arrayAt st m a = Some xs" "off + n \<le> length xs" "length ds = n"
      "\<And>i. i < n \<Longrightarrow> d m (xs ! (off + i)) = Some (ds ! i)" by (auto simp: sliceValue_Slice)
  then show ?thesis
    using arrayAt_keeps [OF assms(2) at(2) assms(4)] deep_copy.reads [OF dc assms(2) at(5) assms(4)]
    by (auto simp: Slice sliceValue_Slice)
qed (use assms(3) in simp)

lemma deep_copy_slice:
  assumes st: "store_ok st" and dc: "deep_copy c d"
  shows "deep_copy (copySlice st c) (sliceValue st d)"
proof (unfold_locales, goal_cases)
  case (1 m s v g)
  then show ?case by (rule sliceValue_reads [OF dc])
next
  case (2 m s v t m')
  show ?case
  proof (cases s)
    case NilSlice
    with 2 show ?thesis by (auto simp: copySlice_def intro: copied_here)
  next
    case (Slice a off n)
    with 2(2) obtain xs ds where at: "v = Some ds" "arrayAt st m a = Some xs" "off + n \<le> length xs" "length ds = n"
      "\<And>i. i < n \<Longrightarrow> d m (xs ! (off + i)) = Some (ds ! i)" by (auto simp: sliceValue_Slice)
    obtain b m1 where al: "alloc (stoMk st (replicate n (stoZero st))) m = (b, m1)" by fastforce
    note al' = allocE [OF al 2(1)]
    have out: "t = Slice b 0 n" "m' = fold (copyElement st c a off b) [0..<n] m1"
      using 2(3) by (simp_all add: copySlice_def Slice al)
    from copyElement_loop [OF st dc 2(1) at(2,3,5) al order_refl, folded out(2)]
    obtain ys where ys: "length ys = n" "memory_ok m'" "mmNext m1 \<le> mmNext m'" "same_on {..<mmNext m} m m'"
        "mmCells m' b = Some (stoMk st ys)"
      and vals: "\<And>g i. same_on {mmNext m1..<mmNext m'} m' g \<Longrightarrow> i < n \<Longrightarrow> d g (ys ! i) = Some (ds ! i)" by blast
    have "sliceValue st d g t = Some v" if g: "same_on {mmNext m..<mmNext m'} m' g" for g
    proof -
      have "mmCells g b = mmCells m' b" using g al'(1,2) ys(3) by (auto simp: same_on_def)
      then have "arrayAt st g b = Some ys" by (intro arrayAt_written [OF st]) (simp add: ys(5))
      moreover have "same_on {mmNext m1..<mmNext m'} m' g" by (rule same_on_subset [OF g]) (use al'(2) in auto)
      ultimately show ?thesis using vals [of g] ys(1) at(4) by (simp add: out(1) at(1) sliceValue_Slice)
    qed
    then show ?thesis using ys(2,3,4) al'(2) by (simp add: copied_def)
  qed
qed

lemma deep_copy_move:
  assumes st: "store_ok st"
  shows "deep_copy (moveSlice st) (sliceValue st (\<lambda>m x. Some (f x)))"
proof (unfold_locales, goal_cases)
  case (1 m s v g)
  then show ?case by (rule sliceValue_reads [OF deep_copy_plain])
next
  case (2 m s v t m')
  show ?case
  proof (cases s)
    case NilSlice
    with 2 show ?thesis by (auto simp: moveSlice_def intro: copied_here)
  next
    case (Slice a off n)
    with 2(2) obtain xs ds where at: "v = Some ds" "arrayAt st m a = Some xs" "off + n \<le> length xs"
      and ds: "length ds = n" "\<And>i. i < n \<Longrightarrow> f (xs ! (off + i)) = ds ! i" by (auto simp: sliceValue_Slice)
    obtain b m1 where al: "alloc (stoMk st (replicate n (stoZero st))) m = (b, m1)" by fastforce
    note al' = allocE [OF al 2(1)]
    have "elements st m1 a = xs" using arrayAt_keeps [OF 2(1) at(2) al'(5)] by (simp add: elements_def)
    then have out: "t = Slice b 0 n" "m' = overwrite b (stoMk st (take n (drop off xs))) m1"
      using 2(3) by (simp_all add: moveSlice_def Slice al)
    have "sliceValue st (\<lambda>m x. Some (f x)) g t = Some v" if g: "same_on {mmNext m..<mmNext m'} m' g" for g
    proof -
      have "mmCells g b = mmCells m' b" using g al'(1,2) by (auto simp: same_on_def out(2))
      then have "arrayAt st g b = Some (take n (drop off xs))" by (intro arrayAt_written [OF st]) (simp add: out(2))
      with at(3) ds show ?thesis by (simp add: out(1) at(1) sliceValue_Slice)
    qed
    then show ?thesis using al' by (auto simp: copied_def same_on_def out(2) overwrite_def memory_ok_def)
  qed
qed

text \<open>A struct of two or three fields that are copied one after the other.\<close>

lemma deep_copy_struct2:
  assumes "deep_copy c1 d1" "deep_copy c2 d2"
    and "\<And>s x y. sel1 (upd s x y) = x" "\<And>s x y. sel2 (upd s x y) = y" "\<And>s x y u v. ab (upd s x y) u v = ab s u v"
  shows "deep_copy (\<lambda>s m. case c1 (sel1 s) m of (x, m1) \<Rightarrow> case c2 (sel2 s) m1 of (y, m2) \<Rightarrow> (upd s x y, m2))
    (\<lambda>m s. case d1 m (sel1 s) of None \<Rightarrow> None | Some u \<Rightarrow> map_option (ab s u) (d2 m (sel2 s)))"
proof -
  have "deep_copy (\<lambda>s m. case (\<lambda>(x, y) m. case c1 x m of (x', m1) \<Rightarrow> case c2 y m1 of (y', m2) \<Rightarrow> ((x', y'), m2))
        (sel1 s, sel2 s) m of (y, m') \<Rightarrow> (upd s (fst y) (snd y), m'))
      (\<lambda>m s. map_option (\<lambda>v. ab s (fst v) (snd v))
        ((\<lambda>m (x, y). case d1 m x of None \<Rightarrow> None | Some u \<Rightarrow> map_option (Pair u) (d2 m y)) m (sel1 s, sel2 s)))"
    by (rule deep_copy_struct [OF deep_copy_pair [OF assms(1,2)], where upd = "\<lambda>y s. upd s (fst y) (snd y)"
          and ab = "\<lambda>s v. ab s (fst v) (snd v)"]) (simp_all add: assms(3-5))
  moreover have "(\<lambda>s m. case (\<lambda>(x, y) m. case c1 x m of (x', m1) \<Rightarrow> case c2 y m1 of (y', m2) \<Rightarrow> ((x', y'), m2))
        (sel1 s, sel2 s) m of (y, m') \<Rightarrow> (upd s (fst y) (snd y), m'))
      = (\<lambda>s m. case c1 (sel1 s) m of (x, m1) \<Rightarrow> case c2 (sel2 s) m1 of (y, m2) \<Rightarrow> (upd s x y, m2))"
    by (simp add: fun_eq_iff split: prod.split)
  moreover have "(\<lambda>m s. map_option (\<lambda>v. ab s (fst v) (snd v))
        ((\<lambda>m (x, y). case d1 m x of None \<Rightarrow> None | Some u \<Rightarrow> map_option (Pair u) (d2 m y)) m (sel1 s, sel2 s)))
      = (\<lambda>m s. case d1 m (sel1 s) of None \<Rightarrow> None | Some u \<Rightarrow> map_option (ab s u) (d2 m (sel2 s)))"
    by (simp add: fun_eq_iff option.map_comp comp_def split: option.split)
  ultimately show ?thesis by simp
qed

lemma deep_copy_struct3:
  assumes "deep_copy c1 d1" "deep_copy c2 d2" "deep_copy c3 d3"
    and "\<And>s x y z. sel1 (upd s x y z) = x" "\<And>s x y z. sel2 (upd s x y z) = y" "\<And>s x y z. sel3 (upd s x y z) = z"
    and "\<And>s x y z u v w. ab (upd s x y z) u v w = ab s u v w"
  shows "deep_copy (\<lambda>s m. case c1 (sel1 s) m of (x, m1) \<Rightarrow> case c2 (sel2 s) m1 of (y, m2) \<Rightarrow>
        case c3 (sel3 s) m2 of (z, m3) \<Rightarrow> (upd s x y z, m3))
    (\<lambda>m s. case d1 m (sel1 s) of None \<Rightarrow> None | Some u \<Rightarrow>
        (case d2 m (sel2 s) of None \<Rightarrow> None | Some v \<Rightarrow> map_option (ab s u v) (d3 m (sel3 s))))"
proof -
  let ?c = "\<lambda>(x, y) m. case c2 x m of (x', m1) \<Rightarrow> case c3 y m1 of (y', m2) \<Rightarrow> ((x', y'), m2)"
  let ?d = "\<lambda>m (x, y). case d2 m x of None \<Rightarrow> None | Some u \<Rightarrow> map_option (Pair u) (d3 m y)"
  have "deep_copy (\<lambda>s m. case c1 (sel1 s) m of (x, m1) \<Rightarrow> case ?c (sel2 s, sel3 s) m1 of (y, m2) \<Rightarrow>
        (upd s x (fst y) (snd y), m2))
      (\<lambda>m s. case d1 m (sel1 s) of None \<Rightarrow> None | Some u \<Rightarrow>
        map_option (\<lambda>v. ab s u (fst v) (snd v)) (?d m (sel2 s, sel3 s)))"
    by (rule deep_copy_struct2 [OF assms(1) deep_copy_pair [OF assms(2,3)], where upd = "\<lambda>s x y. upd s x (fst y) (snd y)"
          and ab = "\<lambda>s u v. ab s u (fst v) (snd v)"]) (simp_all add: assms(4-7))
  moreover have "(\<lambda>s m. case c1 (sel1 s) m of (x, m1) \<Rightarrow> case ?c (sel2 s, sel3 s) m1 of (y, m2) \<Rightarrow>
        (upd s x (fst y) (snd y), m2))
      = (\<lambda>s m. case c1 (sel1 s) m of (x, m1) \<Rightarrow> case c2 (sel2 s) m1 of (y, m2) \<Rightarrow>
        case c3 (sel3 s) m2 of (z, m3) \<Rightarrow> (upd s x y z, m3))"
    by (simp add: fun_eq_iff split: prod.split)
  moreover have "(\<lambda>m s. case d1 m (sel1 s) of None \<Rightarrow> None | Some u \<Rightarrow>
        map_option (\<lambda>v. ab s u (fst v) (snd v)) (?d m (sel2 s, sel3 s)))
      = (\<lambda>m s. case d1 m (sel1 s) of None \<Rightarrow> None | Some u \<Rightarrow>
        (case d2 m (sel2 s) of None \<Rightarrow> None | Some v \<Rightarrow> map_option (ab s u v) (d3 m (sel3 s))))"
    by (simp add: fun_eq_iff option.map_comp comp_def split: option.split)
  ultimately show ?thesis by simp
qed

text \<open>So the copy and the original can be written through apart from each other.\<close>

context deep_copy
begin

lemma apart:
  assumes "memory_ok m" "den m x = Some d" "copy x m = (y, m')"
  shows "den m' x = Some d" "den m' y = Some d"
    "\<And>g. same_on {mmNext m..} m' g \<Longrightarrow> den g y = Some d" "\<And>g. same_on {..<mmNext m} m' g \<Longrightarrow> den g x = Some d"
proof -
  note cp = copies [OF assms]
  then have same: "same_on {..<mmNext m} m m'" by (simp add: copied_def)
  show "den m' x = Some d" by (rule reads [OF assms(1,2) same])
  show "den m' y = Some d" using cp by (simp add: copied_def)
  show "den g y = Some d" if "same_on {mmNext m..} m' g" for g
  proof -
    have "same_on {mmNext m..<mmNext m'} m' g" by (rule same_on_subset [OF that]) auto
    with cp show ?thesis by (simp add: copied_def)
  qed
  show "den g x = Some d" if "same_on {..<mmNext m} m' g" for g
    by (rule reads [OF assms(1,2) same_on_trans [OF same that]])
qed

end

end
