(* ===== verification/DeepCopy.thy ===== *)
theory DeepCopy
  imports Memory ApiTypes
begin

text \<open>
  \<open>api/v1/zz_generated.deepcopy.go\<close>: the deep copies of the resource and its parts, on the memory of
  \<open>Memory\<close>. Here the structs are as they lie in memory, with pointers and slices; what they stand for are the
  values of \<open>ApiTypes\<close>, which the rest of the development works on. A struct without pointers and slices is the
  same in both. \<open>ObjectMeta\<close> and \<open>ListMeta\<close> are Kubernetes' and so are their copies, \<open>'m\<close> and \<open>'l\<close> with a
  function each; \<open>TypeMeta\<close> is two texts. The functions write into \<open>out\<close>; here they answer what is written.
\<close>

section \<open>The structs in memory\<close>

record MemApplicationSourceHelm =
  mhRepository :: string
  mhReleaseName :: string
  mhChart :: string
  mhVersion :: string
  mhNamespace :: string
  mhValues :: string
  mhParameters :: Slice
  mhSkipCrds :: bool

record MemApplicationSourceSpec =
  mxHelmSelector :: Pointer

record MemBackoff =
  mbDuration :: string
  mbFactor :: Pointer
  mbMaxDuration :: Pointer

record MemRetryStrategy =
  mrLimit :: int
  mrBackoff :: Pointer

record MemSyncPolicySpec =
  mpAutomated :: Pointer
  mpSyncOptions :: Pointer
  mpRetry :: Pointer

record MemAnyApplicationSpec =
  msSource :: MemApplicationSourceSpec
  msZones :: int
  msSyncPolicy :: MemSyncPolicySpec
  msPlacementStrategy :: PlacementStrategySpec
  msRecoverStrategy :: RecoverStrategySpec

record MemPlacement =
  mlZone :: string
  mlNodeAffinity :: Slice

record MemOwnershipStatus =
  moEpoch :: int
  moState :: GlobalState
  moOwner :: string
  moPlacements :: Slice

record MemZoneStatus =
  mzZoneId :: string
  mzZoneVersion :: int
  mzChartVersion :: string
  mzConditions :: Slice

record MemAnyApplicationStatus =
  mtOwnership :: MemOwnershipStatus
  mtZones :: Slice

record 'm MemAnyApplication =
  maTypeMeta :: "string \<times> string"
  maObjectMeta :: 'm
  maSpec :: MemAnyApplicationSpec
  maStatus :: MemAnyApplicationStatus

record 'l MemAnyApplicationList =
  miTypeMeta :: "string \<times> string"
  miListMeta :: 'l
  miItems :: Slice

text \<open>What a cell can hold; \<open>LibraryBlock\<close> is what the library's metadata points at.\<close>

datatype ('m, 'l, 'x) Block =
    IntBlock "int list"
  | TextBlock "string list"
  | SliceBlock "Slice list"
  | ParameterBlock "HelmParameter list"
  | HelmBlock "MemApplicationSourceHelm list"
  | SourceBlock "MemApplicationSourceSpec list"
  | AutomatedBlock "SyncPolicyAutomated list"
  | BackoffBlock "MemBackoff list"
  | RetryBlock "MemRetryStrategy list"
  | PolicyBlock "MemSyncPolicySpec list"
  | StrategyBlock "PlacementStrategySpec list"
  | RecoverBlock "RecoverStrategySpec list"
  | SpecBlock "MemAnyApplicationSpec list"
  | PlacementBlock "MemPlacement list"
  | OwnershipBlock "MemOwnershipStatus list"
  | ConditionBlock "ConditionStatus list"
  | ZoneBlock "MemZoneStatus list"
  | StatusBlock "MemAnyApplicationStatus list"
  | AppBlock "'m MemAnyApplication list"
  | AppsBlock "'l MemAnyApplicationList list"
  | LibraryBlock 'x

type_synonym ('m, 'l, 'x) heap = "('m, 'l, 'x) Block Memory"

text \<open>The zero values of new cells, all of them written over before they are read. The type of a condition has no
  constant for the empty text, so a new condition has another one.\<close>

definition newSpec :: MemAnyApplicationSpec where
  "newSpec = \<lparr>msSource = \<lparr>mxHelmSelector = None\<rparr>, msZones = 0,
     msSyncPolicy = \<lparr>mpAutomated = None, mpSyncOptions = None, mpRetry = None\<rparr>,
     msPlacementStrategy = \<lparr>psStrategy = PlacementStrategyUnset\<rparr>, msRecoverStrategy = \<lparr>recTolerance = 0, recMaxRetries = 0\<rparr>\<rparr>"

definition newStatus :: MemAnyApplicationStatus where
  "newStatus = \<lparr>mtOwnership = \<lparr>moEpoch = 0, moState = GlobalStateUnset, moOwner = '''', moPlacements = NilSlice\<rparr>,
     mtZones = NilSlice\<rparr>"

definition newCondition :: ConditionStatus where
  "newCondition = \<lparr>condType = LocalConditionType, condZoneId = '''', condStatus = '''', condLastTransitionTime = 0,
     condReason = '''', condMsg = '''', condRetryAttempt = 0\<rparr>"

text \<open>The stores. Those of the resource and of lists of it need a zero value of the metadata.\<close>

definition intStore :: "(int, ('m, 'l, 'x) Block) Store" where
  "intStore = \<lparr>stoMk = IntBlock, stoUn = (\<lambda>b. case b of IntBlock xs \<Rightarrow> Some xs | _ \<Rightarrow> None),
     stoZero = 0\<rparr>"

definition textStore :: "(string, ('m, 'l, 'x) Block) Store" where
  "textStore = \<lparr>stoMk = TextBlock, stoUn = (\<lambda>b. case b of TextBlock xs \<Rightarrow> Some xs | _ \<Rightarrow> None),
     stoZero = ''''\<rparr>"

definition sliceStore :: "(Slice, ('m, 'l, 'x) Block) Store" where
  "sliceStore = \<lparr>stoMk = SliceBlock, stoUn = (\<lambda>b. case b of SliceBlock xs \<Rightarrow> Some xs | _ \<Rightarrow> None),
     stoZero = NilSlice\<rparr>"

definition parameterStore :: "(HelmParameter, ('m, 'l, 'x) Block) Store" where
  "parameterStore = \<lparr>stoMk = ParameterBlock, stoUn = (\<lambda>b. case b of ParameterBlock xs \<Rightarrow> Some xs | _ \<Rightarrow> None),
     stoZero = \<lparr>hpName = '''', hpValue = '''', hpForceString = False\<rparr>\<rparr>"

definition helmStore :: "(MemApplicationSourceHelm, ('m, 'l, 'x) Block) Store" where
  "helmStore = \<lparr>stoMk = HelmBlock, stoUn = (\<lambda>b. case b of HelmBlock xs \<Rightarrow> Some xs | _ \<Rightarrow> None),
     stoZero = \<lparr>mhRepository = '''', mhReleaseName = '''', mhChart = '''', mhVersion = '''',
     mhNamespace = '''', mhValues = '''', mhParameters = NilSlice, mhSkipCrds = False\<rparr>\<rparr>"

definition sourceStore :: "(MemApplicationSourceSpec, ('m, 'l, 'x) Block) Store" where
  "sourceStore = \<lparr>stoMk = SourceBlock, stoUn = (\<lambda>b. case b of SourceBlock xs \<Rightarrow> Some xs | _ \<Rightarrow> None),
     stoZero = \<lparr>mxHelmSelector = None\<rparr>\<rparr>"

definition automatedStore :: "(SyncPolicyAutomated, ('m, 'l, 'x) Block) Store" where
  "automatedStore = \<lparr>stoMk = AutomatedBlock, stoUn = (\<lambda>b. case b of AutomatedBlock xs \<Rightarrow> Some xs | _ \<Rightarrow> None),
     stoZero = \<lparr>spaPrune = False, spaSelfHeal = False, spaAllowEmpty = False\<rparr>\<rparr>"

definition backoffStore :: "(MemBackoff, ('m, 'l, 'x) Block) Store" where
  "backoffStore = \<lparr>stoMk = BackoffBlock, stoUn = (\<lambda>b. case b of BackoffBlock xs \<Rightarrow> Some xs | _ \<Rightarrow> None),
     stoZero = \<lparr>mbDuration = '''', mbFactor = None, mbMaxDuration = None\<rparr>\<rparr>"

definition retryStore :: "(MemRetryStrategy, ('m, 'l, 'x) Block) Store" where
  "retryStore = \<lparr>stoMk = RetryBlock, stoUn = (\<lambda>b. case b of RetryBlock xs \<Rightarrow> Some xs | _ \<Rightarrow> None),
     stoZero = \<lparr>mrLimit = 0, mrBackoff = None\<rparr>\<rparr>"

definition policyStore :: "(MemSyncPolicySpec, ('m, 'l, 'x) Block) Store" where
  "policyStore = \<lparr>stoMk = PolicyBlock, stoUn = (\<lambda>b. case b of PolicyBlock xs \<Rightarrow> Some xs | _ \<Rightarrow> None),
     stoZero = \<lparr>mpAutomated = None, mpSyncOptions = None, mpRetry = None\<rparr>\<rparr>"

definition strategyStore :: "(PlacementStrategySpec, ('m, 'l, 'x) Block) Store" where
  "strategyStore = \<lparr>stoMk = StrategyBlock, stoUn = (\<lambda>b. case b of StrategyBlock xs \<Rightarrow> Some xs | _ \<Rightarrow> None),
     stoZero = \<lparr>psStrategy = PlacementStrategyUnset\<rparr>\<rparr>"

definition recoverStore :: "(RecoverStrategySpec, ('m, 'l, 'x) Block) Store" where
  "recoverStore = \<lparr>stoMk = RecoverBlock, stoUn = (\<lambda>b. case b of RecoverBlock xs \<Rightarrow> Some xs | _ \<Rightarrow> None),
     stoZero = \<lparr>recTolerance = 0, recMaxRetries = 0\<rparr>\<rparr>"

definition specStore :: "(MemAnyApplicationSpec, ('m, 'l, 'x) Block) Store" where
  "specStore = \<lparr>stoMk = SpecBlock, stoUn = (\<lambda>b. case b of SpecBlock xs \<Rightarrow> Some xs | _ \<Rightarrow> None),
     stoZero = newSpec\<rparr>"

definition placementStore :: "(MemPlacement, ('m, 'l, 'x) Block) Store" where
  "placementStore = \<lparr>stoMk = PlacementBlock, stoUn = (\<lambda>b. case b of PlacementBlock xs \<Rightarrow> Some xs | _ \<Rightarrow> None),
     stoZero = \<lparr>mlZone = '''', mlNodeAffinity = NilSlice\<rparr>\<rparr>"

definition ownershipStore :: "(MemOwnershipStatus, ('m, 'l, 'x) Block) Store" where
  "ownershipStore = \<lparr>stoMk = OwnershipBlock, stoUn = (\<lambda>b. case b of OwnershipBlock xs \<Rightarrow> Some xs | _ \<Rightarrow> None),
     stoZero = \<lparr>moEpoch = 0, moState = GlobalStateUnset, moOwner = '''', moPlacements = NilSlice\<rparr>\<rparr>"

definition conditionStore :: "(ConditionStatus, ('m, 'l, 'x) Block) Store" where
  "conditionStore = \<lparr>stoMk = ConditionBlock, stoUn = (\<lambda>b. case b of ConditionBlock xs \<Rightarrow> Some xs | _ \<Rightarrow> None),
     stoZero = newCondition\<rparr>"

definition zoneStore :: "(MemZoneStatus, ('m, 'l, 'x) Block) Store" where
  "zoneStore = \<lparr>stoMk = ZoneBlock, stoUn = (\<lambda>b. case b of ZoneBlock xs \<Rightarrow> Some xs | _ \<Rightarrow> None),
     stoZero = \<lparr>mzZoneId = '''', mzZoneVersion = 0, mzChartVersion = '''', mzConditions = NilSlice\<rparr>\<rparr>"

definition statusStore :: "(MemAnyApplicationStatus, ('m, 'l, 'x) Block) Store" where
  "statusStore = \<lparr>stoMk = StatusBlock, stoUn = (\<lambda>b. case b of StatusBlock xs \<Rightarrow> Some xs | _ \<Rightarrow> None),
     stoZero = newStatus\<rparr>"

definition appStore :: "'m \<Rightarrow> ('m MemAnyApplication, ('m, 'l, 'x) Block) Store" where
  "appStore meta = \<lparr>stoMk = AppBlock, stoUn = (\<lambda>b. case b of AppBlock xs \<Rightarrow> Some xs | _ \<Rightarrow> None),
     stoZero = \<lparr>maTypeMeta = ('''', ''''), maObjectMeta = meta, maSpec = newSpec, maStatus = newStatus\<rparr>\<rparr>"

definition appsStore :: "'l \<Rightarrow> ('l MemAnyApplicationList, ('m, 'l, 'x) Block) Store" where
  "appsStore meta = \<lparr>stoMk = AppsBlock, stoUn = (\<lambda>b. case b of AppsBlock xs \<Rightarrow> Some xs | _ \<Rightarrow> None),
     stoZero = \<lparr>miTypeMeta = ('''', ''''), miListMeta = meta, miItems = NilSlice\<rparr>\<rparr>"

lemmas store_defs = intStore_def textStore_def sliceStore_def parameterStore_def helmStore_def sourceStore_def automatedStore_def backoffStore_def retryStore_def policyStore_def strategyStore_def recoverStore_def specStore_def placementStore_def ownershipStore_def conditionStore_def zoneStore_def statusStore_def appStore_def appsStore_def

lemma stores_ok [simp]:
  "store_ok intStore"
  "store_ok textStore"
  "store_ok sliceStore"
  "store_ok parameterStore"
  "store_ok helmStore"
  "store_ok sourceStore"
  "store_ok automatedStore"
  "store_ok backoffStore"
  "store_ok retryStore"
  "store_ok policyStore"
  "store_ok strategyStore"
  "store_ok recoverStore"
  "store_ok specStore"
  "store_ok placementStore"
  "store_ok ownershipStore"
  "store_ok conditionStore"
  "store_ok zoneStore"
  "store_ok statusStore"
  "store_ok (appStore meta)"
  "store_ok (appsStore meta)"
  by (simp_all add: store_ok_def store_defs)

section \<open>The copies\<close>

text \<open>\<open>HelmParameter\<close>, \<open>PlacementStrategySpec\<close>, \<open>RecoverStrategySpec\<close>, \<open>SyncPolicyAutomated\<close> and, its time being an instant,
  \<open>ConditionStatus\<close> are copied by the assignment.\<close>

definition HelmParameter_DeepCopyInto :: "HelmParameter \<Rightarrow> ('m, 'l, 'x) heap \<Rightarrow> HelmParameter \<times> ('m, 'l, 'x) heap" where
  "HelmParameter_DeepCopyInto s m = (s, m)"

definition PlacementStrategySpec_DeepCopyInto :: "PlacementStrategySpec \<Rightarrow> ('m, 'l, 'x) heap \<Rightarrow> PlacementStrategySpec \<times> ('m, 'l, 'x) heap" where
  "PlacementStrategySpec_DeepCopyInto s m = (s, m)"

definition RecoverStrategySpec_DeepCopyInto :: "RecoverStrategySpec \<Rightarrow> ('m, 'l, 'x) heap \<Rightarrow> RecoverStrategySpec \<times> ('m, 'l, 'x) heap" where
  "RecoverStrategySpec_DeepCopyInto s m = (s, m)"

definition SyncPolicyAutomated_DeepCopyInto :: "SyncPolicyAutomated \<Rightarrow> ('m, 'l, 'x) heap \<Rightarrow> SyncPolicyAutomated \<times> ('m, 'l, 'x) heap" where
  "SyncPolicyAutomated_DeepCopyInto s m = (s, m)"

definition ConditionStatus_DeepCopyInto :: "ConditionStatus \<Rightarrow> ('m, 'l, 'x) heap \<Rightarrow> ConditionStatus \<times> ('m, 'l, 'x) heap" where
  "ConditionStatus_DeepCopyInto s m = (s, m)"

definition ApplicationSourceHelm_DeepCopyInto :: "MemApplicationSourceHelm \<Rightarrow> ('m, 'l, 'x) heap \<Rightarrow> MemApplicationSourceHelm \<times> ('m, 'l, 'x) heap" where
  "ApplicationSourceHelm_DeepCopyInto s m = (case moveSlice parameterStore (mhParameters s) m of (x, m') \<Rightarrow> (s\<lparr>mhParameters := x\<rparr>, m'))"

definition ApplicationSourceSpec_DeepCopyInto :: "MemApplicationSourceSpec \<Rightarrow> ('m, 'l, 'x) heap \<Rightarrow> MemApplicationSourceSpec \<times> ('m, 'l, 'x) heap" where
  "ApplicationSourceSpec_DeepCopyInto s m = (case copyPointer helmStore ApplicationSourceHelm_DeepCopyInto (mxHelmSelector s) m of (x, m') \<Rightarrow> (s\<lparr>mxHelmSelector := x\<rparr>, m'))"

definition Backoff_DeepCopyInto :: "MemBackoff \<Rightarrow> ('m, 'l, 'x) heap \<Rightarrow> MemBackoff \<times> ('m, 'l, 'x) heap" where
  "Backoff_DeepCopyInto s m =
     (case copyPointer intStore Pair (mbFactor s) m of
        (x, m1) \<Rightarrow>
          (case copyPointer textStore Pair (mbMaxDuration s) m1 of
             (y, m2) \<Rightarrow> (s\<lparr>mbFactor := x, mbMaxDuration := y\<rparr>, m2)))"

definition RetryStrategy_DeepCopyInto :: "MemRetryStrategy \<Rightarrow> ('m, 'l, 'x) heap \<Rightarrow> MemRetryStrategy \<times> ('m, 'l, 'x) heap" where
  "RetryStrategy_DeepCopyInto s m = (case copyPointer backoffStore Backoff_DeepCopyInto (mrBackoff s) m of (x, m') \<Rightarrow> (s\<lparr>mrBackoff := x\<rparr>, m'))"

definition SyncPolicySpec_DeepCopyInto ::
  "MemSyncPolicySpec \<Rightarrow> ('m, 'l, 'x) heap \<Rightarrow> MemSyncPolicySpec \<times> ('m, 'l, 'x) heap" where
  "SyncPolicySpec_DeepCopyInto s m =
     (case copyPointer automatedStore Pair (mpAutomated s) m of
        (x, m1) \<Rightarrow>
          (case copyPointer sliceStore (moveSlice textStore) (mpSyncOptions s) m1 of
             (y, m2) \<Rightarrow>
               (case copyPointer retryStore RetryStrategy_DeepCopyInto (mpRetry s) m2 of
                  (z, m3) \<Rightarrow> (s\<lparr>mpAutomated := x, mpSyncOptions := y, mpRetry := z\<rparr>, m3))))"

definition AnyApplicationSpec_DeepCopyInto :: "MemAnyApplicationSpec \<Rightarrow> ('m, 'l, 'x) heap \<Rightarrow> MemAnyApplicationSpec \<times> ('m, 'l, 'x) heap" where
  "AnyApplicationSpec_DeepCopyInto s m =
     (case ApplicationSourceSpec_DeepCopyInto (msSource s) m of
        (x, m1) \<Rightarrow>
          (case SyncPolicySpec_DeepCopyInto (msSyncPolicy s) m1 of
             (y, m2) \<Rightarrow> (s\<lparr>msSource := x, msSyncPolicy := y\<rparr>, m2)))"

definition Placement_DeepCopyInto :: "MemPlacement \<Rightarrow> ('m, 'l, 'x) heap \<Rightarrow> MemPlacement \<times> ('m, 'l, 'x) heap" where
  "Placement_DeepCopyInto s m = (case moveSlice textStore (mlNodeAffinity s) m of (x, m') \<Rightarrow> (s\<lparr>mlNodeAffinity := x\<rparr>, m'))"

definition OwnershipStatus_DeepCopyInto :: "MemOwnershipStatus \<Rightarrow> ('m, 'l, 'x) heap \<Rightarrow> MemOwnershipStatus \<times> ('m, 'l, 'x) heap" where
  "OwnershipStatus_DeepCopyInto s m = (case copySlice placementStore Placement_DeepCopyInto (moPlacements s) m of (x, m') \<Rightarrow> (s\<lparr>moPlacements := x\<rparr>, m'))"

definition ZoneStatus_DeepCopyInto :: "MemZoneStatus \<Rightarrow> ('m, 'l, 'x) heap \<Rightarrow> MemZoneStatus \<times> ('m, 'l, 'x) heap" where
  "ZoneStatus_DeepCopyInto s m = (case copySlice conditionStore ConditionStatus_DeepCopyInto (mzConditions s) m of (x, m') \<Rightarrow> (s\<lparr>mzConditions := x\<rparr>, m'))"

definition AnyApplicationStatus_DeepCopyInto :: "MemAnyApplicationStatus \<Rightarrow> ('m, 'l, 'x) heap \<Rightarrow> MemAnyApplicationStatus \<times> ('m, 'l, 'x) heap" where
  "AnyApplicationStatus_DeepCopyInto s m =
     (case OwnershipStatus_DeepCopyInto (mtOwnership s) m of
        (x, m1) \<Rightarrow>
          (case copySlice zoneStore ZoneStatus_DeepCopyInto (mtZones s) m1 of
             (y, m2) \<Rightarrow> (s\<lparr>mtOwnership := x, mtZones := y\<rparr>, m2)))"

definition AnyApplication_DeepCopyInto ::
  "('m \<Rightarrow> ('m, 'l, 'x) heap \<Rightarrow> 'm \<times> ('m, 'l, 'x) heap) \<Rightarrow> 
     'm MemAnyApplication \<Rightarrow> ('m, 'l, 'x) heap \<Rightarrow> 'm MemAnyApplication \<times> ('m, 'l, 'x) heap" where
  "AnyApplication_DeepCopyInto copyMeta s m =
     (case copyMeta (maObjectMeta s) m of
        (x, m1) \<Rightarrow>
          (case AnyApplicationSpec_DeepCopyInto (maSpec s) m1 of
             (y, m2) \<Rightarrow>
               (case AnyApplicationStatus_DeepCopyInto (maStatus s) m2 of
                  (z, m3) \<Rightarrow> (s\<lparr>maObjectMeta := x, maSpec := y, maStatus := z\<rparr>, m3))))"

definition AnyApplicationList_DeepCopyInto ::
  "('m \<Rightarrow> ('m, 'l, 'x) heap \<Rightarrow> 'm \<times> ('m, 'l, 'x) heap) \<Rightarrow> ('l \<Rightarrow> ('m, 'l, 'x) heap \<Rightarrow> 'l \<times> ('m, 'l, 'x) heap) \<Rightarrow> 'm
     \<Rightarrow> 'l MemAnyApplicationList \<Rightarrow> ('m, 'l, 'x) heap \<Rightarrow> 'l MemAnyApplicationList \<times> ('m, 'l, 'x) heap" where
  "AnyApplicationList_DeepCopyInto copyMeta copyListMeta meta s m =
     (case copyListMeta (miListMeta s) m of
        (x, m1) \<Rightarrow>
          (case copySlice (appStore meta) (AnyApplication_DeepCopyInto copyMeta) (miItems s) m1 of
             (y, m2) \<Rightarrow> (s\<lparr>miListMeta := x, miItems := y\<rparr>, m2)))"

text \<open>\<open>DeepCopy\<close>: nil for nil, and otherwise a new value copied into. \<open>DeepCopyObject\<close> answers the same pointer, or the nil
  interface.\<close>

definition HelmParameter_DeepCopy :: "Pointer \<Rightarrow> ('m, 'l, 'x) heap \<Rightarrow> Pointer \<times> ('m, 'l, 'x) heap" where
  "HelmParameter_DeepCopy = copyPointer parameterStore HelmParameter_DeepCopyInto"

definition PlacementStrategySpec_DeepCopy :: "Pointer \<Rightarrow> ('m, 'l, 'x) heap \<Rightarrow> Pointer \<times> ('m, 'l, 'x) heap" where
  "PlacementStrategySpec_DeepCopy = copyPointer strategyStore PlacementStrategySpec_DeepCopyInto"

definition RecoverStrategySpec_DeepCopy :: "Pointer \<Rightarrow> ('m, 'l, 'x) heap \<Rightarrow> Pointer \<times> ('m, 'l, 'x) heap" where
  "RecoverStrategySpec_DeepCopy = copyPointer recoverStore RecoverStrategySpec_DeepCopyInto"

definition SyncPolicyAutomated_DeepCopy :: "Pointer \<Rightarrow> ('m, 'l, 'x) heap \<Rightarrow> Pointer \<times> ('m, 'l, 'x) heap" where
  "SyncPolicyAutomated_DeepCopy = copyPointer automatedStore SyncPolicyAutomated_DeepCopyInto"

definition ConditionStatus_DeepCopy :: "Pointer \<Rightarrow> ('m, 'l, 'x) heap \<Rightarrow> Pointer \<times> ('m, 'l, 'x) heap" where
  "ConditionStatus_DeepCopy = copyPointer conditionStore ConditionStatus_DeepCopyInto"

definition ApplicationSourceHelm_DeepCopy :: "Pointer \<Rightarrow> ('m, 'l, 'x) heap \<Rightarrow> Pointer \<times> ('m, 'l, 'x) heap" where
  "ApplicationSourceHelm_DeepCopy = copyPointer helmStore ApplicationSourceHelm_DeepCopyInto"

definition ApplicationSourceSpec_DeepCopy :: "Pointer \<Rightarrow> ('m, 'l, 'x) heap \<Rightarrow> Pointer \<times> ('m, 'l, 'x) heap" where
  "ApplicationSourceSpec_DeepCopy = copyPointer sourceStore ApplicationSourceSpec_DeepCopyInto"

definition Backoff_DeepCopy :: "Pointer \<Rightarrow> ('m, 'l, 'x) heap \<Rightarrow> Pointer \<times> ('m, 'l, 'x) heap" where
  "Backoff_DeepCopy = copyPointer backoffStore Backoff_DeepCopyInto"

definition RetryStrategy_DeepCopy :: "Pointer \<Rightarrow> ('m, 'l, 'x) heap \<Rightarrow> Pointer \<times> ('m, 'l, 'x) heap" where
  "RetryStrategy_DeepCopy = copyPointer retryStore RetryStrategy_DeepCopyInto"

definition SyncPolicySpec_DeepCopy :: "Pointer \<Rightarrow> ('m, 'l, 'x) heap \<Rightarrow> Pointer \<times> ('m, 'l, 'x) heap" where
  "SyncPolicySpec_DeepCopy = copyPointer policyStore SyncPolicySpec_DeepCopyInto"

definition AnyApplicationSpec_DeepCopy :: "Pointer \<Rightarrow> ('m, 'l, 'x) heap \<Rightarrow> Pointer \<times> ('m, 'l, 'x) heap" where
  "AnyApplicationSpec_DeepCopy = copyPointer specStore AnyApplicationSpec_DeepCopyInto"

definition Placement_DeepCopy :: "Pointer \<Rightarrow> ('m, 'l, 'x) heap \<Rightarrow> Pointer \<times> ('m, 'l, 'x) heap" where
  "Placement_DeepCopy = copyPointer placementStore Placement_DeepCopyInto"

definition OwnershipStatus_DeepCopy :: "Pointer \<Rightarrow> ('m, 'l, 'x) heap \<Rightarrow> Pointer \<times> ('m, 'l, 'x) heap" where
  "OwnershipStatus_DeepCopy = copyPointer ownershipStore OwnershipStatus_DeepCopyInto"

definition ZoneStatus_DeepCopy :: "Pointer \<Rightarrow> ('m, 'l, 'x) heap \<Rightarrow> Pointer \<times> ('m, 'l, 'x) heap" where
  "ZoneStatus_DeepCopy = copyPointer zoneStore ZoneStatus_DeepCopyInto"

definition AnyApplicationStatus_DeepCopy :: "Pointer \<Rightarrow> ('m, 'l, 'x) heap \<Rightarrow> Pointer \<times> ('m, 'l, 'x) heap" where
  "AnyApplicationStatus_DeepCopy = copyPointer statusStore AnyApplicationStatus_DeepCopyInto"

definition AnyApplication_DeepCopy ::
  "('m \<Rightarrow> ('m, 'l, 'x) heap \<Rightarrow> 'm \<times> ('m, 'l, 'x) heap) \<Rightarrow> 'm \<Rightarrow> Pointer \<Rightarrow> ('m, 'l, 'x) heap \<Rightarrow> Pointer \<times> ('m, 'l, 'x) heap" where
  "AnyApplication_DeepCopy copyMeta meta = copyPointer (appStore meta) (AnyApplication_DeepCopyInto copyMeta)"

definition AnyApplication_DeepCopyObject ::
  "('m \<Rightarrow> ('m, 'l, 'x) heap \<Rightarrow> 'm \<times> ('m, 'l, 'x) heap) \<Rightarrow> 'm \<Rightarrow> Pointer \<Rightarrow> ('m, 'l, 'x) heap \<Rightarrow> Pointer \<times> ('m, 'l, 'x) heap" where
  "AnyApplication_DeepCopyObject copyMeta meta p m =
     (case AnyApplication_DeepCopy copyMeta meta p m of
        (Some c, m') \<Rightarrow> (Some c, m')
      | (None, m') \<Rightarrow> (None, m'))"

definition AnyApplicationList_DeepCopy ::
  "('m \<Rightarrow> ('m, 'l, 'x) heap \<Rightarrow> 'm \<times> ('m, 'l, 'x) heap) \<Rightarrow> ('l \<Rightarrow> ('m, 'l, 'x) heap \<Rightarrow> 'l \<times> ('m, 'l, 'x) heap) \<Rightarrow> 'm \<Rightarrow> 'l
     \<Rightarrow> Pointer \<Rightarrow> ('m, 'l, 'x) heap \<Rightarrow> Pointer \<times> ('m, 'l, 'x) heap" where
  "AnyApplicationList_DeepCopy copyMeta copyListMeta meta listMeta =
     copyPointer (appsStore listMeta) (AnyApplicationList_DeepCopyInto copyMeta copyListMeta meta)"

definition AnyApplicationList_DeepCopyObject ::
  "('m \<Rightarrow> ('m, 'l, 'x) heap \<Rightarrow> 'm \<times> ('m, 'l, 'x) heap) \<Rightarrow> ('l \<Rightarrow> ('m, 'l, 'x) heap \<Rightarrow> 'l \<times> ('m, 'l, 'x) heap) \<Rightarrow> 'm \<Rightarrow> 'l
     \<Rightarrow> Pointer \<Rightarrow> ('m, 'l, 'x) heap \<Rightarrow> Pointer \<times> ('m, 'l, 'x) heap" where
  "AnyApplicationList_DeepCopyObject copyMeta copyListMeta meta listMeta p m =
     (case AnyApplicationList_DeepCopy copyMeta copyListMeta meta listMeta p m of
        (Some c, m') \<Rightarrow> (Some c, m')
      | (None, m') \<Rightarrow> (None, m'))"

section \<open>What the structs stand for\<close>

abbreviation plainValue :: "'b Memory \<Rightarrow> 'a \<Rightarrow> 'a option" where
  "plainValue m x \<equiv> Some x"

text \<open>The elements of a slice whose nil is not told from an empty one.\<close>

definition listOf :: "'a list option \<Rightarrow> 'a list" where
  "listOf v = (case v of None \<Rightarrow> [] | Some xs \<Rightarrow> xs)"

definition helmOf :: "MemApplicationSourceHelm \<Rightarrow> HelmParameter list option \<Rightarrow> ApplicationSourceHelm" where
  "helmOf s ps = \<lparr>helmRepository = mhRepository s, helmReleaseName = mhReleaseName s, helmChart = mhChart s,
     helmVersion = mhVersion s, helmNamespace = mhNamespace s, helmValues = mhValues s, helmParameters = listOf ps,
     helmSkipCrds = mhSkipCrds s\<rparr>"

definition helmValue :: "('m, 'l, 'x) heap \<Rightarrow> MemApplicationSourceHelm \<Rightarrow> ApplicationSourceHelm option" where
  "helmValue m s = map_option (helmOf s) (sliceValue parameterStore plainValue m (mhParameters s))"

definition sourceOf :: "MemApplicationSourceSpec \<Rightarrow> ApplicationSourceHelm option \<Rightarrow> ApplicationSourceSpec" where
  "sourceOf s h = \<lparr>srcHelmSelector = h\<rparr>"

definition sourceValue :: "('m, 'l, 'x) heap \<Rightarrow> MemApplicationSourceSpec \<Rightarrow> ApplicationSourceSpec option" where
  "sourceValue m s = map_option (sourceOf s) (pointerValue helmStore helmValue m (mxHelmSelector s))"

definition backoffOf :: "MemBackoff \<Rightarrow> int option \<Rightarrow> string option \<Rightarrow> Backoff" where
  "backoffOf s f d = \<lparr>boDuration = mbDuration s, boFactor = f, boMaxDuration = d\<rparr>"

definition backoffValue :: "('m, 'l, 'x) heap \<Rightarrow> MemBackoff \<Rightarrow> Backoff option" where
  "backoffValue m s =
     (case pointerValue intStore plainValue m (mbFactor s) of
        None \<Rightarrow> None
      | Some f \<Rightarrow> map_option (backoffOf s f) (pointerValue textStore plainValue m (mbMaxDuration s)))"

definition retryOf :: "MemRetryStrategy \<Rightarrow> Backoff option \<Rightarrow> RetryStrategy" where
  "retryOf s b = \<lparr>rsLimit = mrLimit s, rsBackoff = b\<rparr>"

definition retryValue :: "('m, 'l, 'x) heap \<Rightarrow> MemRetryStrategy \<Rightarrow> RetryStrategy option" where
  "retryValue m s = map_option (retryOf s) (pointerValue backoffStore backoffValue m (mrBackoff s))"

text \<open>The options are a pointer to a slice; a pointer to a nil slice stands for no options.\<close>

definition policyOf ::
  "MemSyncPolicySpec \<Rightarrow> SyncPolicyAutomated option \<Rightarrow> string list option option \<Rightarrow> RetryStrategy option \<Rightarrow> SyncPolicySpec" where
  "policyOf s a os r = \<lparr>spAutomated = a, spSyncOptions = map_option listOf os, spRetry = r\<rparr>"

definition policyValue :: "('m, 'l, 'x) heap \<Rightarrow> MemSyncPolicySpec \<Rightarrow> SyncPolicySpec option" where
  "policyValue m s =
     (case pointerValue automatedStore plainValue m (mpAutomated s) of
        None \<Rightarrow> None
      | Some a \<Rightarrow>
          (case pointerValue sliceStore (sliceValue textStore plainValue) m (mpSyncOptions s) of
             None \<Rightarrow> None
           | Some os \<Rightarrow> map_option (policyOf s a os) (pointerValue retryStore retryValue m (mpRetry s))))"

definition specOf :: "MemAnyApplicationSpec \<Rightarrow> ApplicationSourceSpec \<Rightarrow> SyncPolicySpec \<Rightarrow> AnyApplicationSpec" where
  "specOf s src pol = \<lparr>specSource = src, specZones = msZones s, specSyncPolicy = pol,
     specPlacementStrategy = msPlacementStrategy s, specRecoverStrategy = msRecoverStrategy s\<rparr>"

definition specValue :: "('m, 'l, 'x) heap \<Rightarrow> MemAnyApplicationSpec \<Rightarrow> AnyApplicationSpec option" where
  "specValue m s =
     (case sourceValue m (msSource s) of
        None \<Rightarrow> None
      | Some src \<Rightarrow> map_option (specOf s src) (policyValue m (msSyncPolicy s)))"

definition placementOf :: "MemPlacement \<Rightarrow> string list option \<Rightarrow> Placement" where
  "placementOf s ns = \<lparr>plZone = mlZone s, plNodeAffinity = listOf ns\<rparr>"

definition placementValue :: "('m, 'l, 'x) heap \<Rightarrow> MemPlacement \<Rightarrow> Placement option" where
  "placementValue m s = map_option (placementOf s) (sliceValue textStore plainValue m (mlNodeAffinity s))"

definition ownershipOf :: "MemOwnershipStatus \<Rightarrow> Placement list option \<Rightarrow> OwnershipStatus" where
  "ownershipOf s ps = \<lparr>osEpoch = moEpoch s, osState = moState s, osOwner = moOwner s, osPlacements = ps\<rparr>"

definition ownershipValue :: "('m, 'l, 'x) heap \<Rightarrow> MemOwnershipStatus \<Rightarrow> OwnershipStatus option" where
  "ownershipValue m s = map_option (ownershipOf s) (sliceValue placementStore placementValue m (moPlacements s))"

definition zoneStatusOf :: "MemZoneStatus \<Rightarrow> ConditionStatus list option \<Rightarrow> ZoneStatus" where
  "zoneStatusOf s cs = \<lparr>zsZoneId = mzZoneId s, zsZoneVersion = mzZoneVersion s, zsChartVersion = mzChartVersion s,
     zsConditions = listOf cs\<rparr>"

definition zoneValue :: "('m, 'l, 'x) heap \<Rightarrow> MemZoneStatus \<Rightarrow> ZoneStatus option" where
  "zoneValue m s = map_option (zoneStatusOf s) (sliceValue conditionStore plainValue m (mzConditions s))"

definition statusOf :: "MemAnyApplicationStatus \<Rightarrow> OwnershipStatus \<Rightarrow> ZoneStatus list option \<Rightarrow> AnyApplicationStatus" where
  "statusOf s ow zs = \<lparr>stOwnership = ow, stZones = listOf zs\<rparr>"

definition statusValue :: "('m, 'l, 'x) heap \<Rightarrow> MemAnyApplicationStatus \<Rightarrow> AnyApplicationStatus option" where
  "statusValue m s =
     (case ownershipValue m (mtOwnership s) of
        None \<Rightarrow> None
      | Some ow \<Rightarrow> map_option (statusOf s ow) (sliceValue zoneStore zoneValue m (mtZones s)))"

text \<open>A resource stands for its type, what its metadata stand for, its spec and its status.\<close>

type_synonym 'd resource = "(string \<times> string) \<times> 'd \<times> AnyApplicationSpec \<times> AnyApplicationStatus"

definition resourceOf :: "'m MemAnyApplication \<Rightarrow> 'd \<Rightarrow> AnyApplicationSpec \<Rightarrow> AnyApplicationStatus \<Rightarrow> 'd resource" where
  "resourceOf s d sp st = (maTypeMeta s, d, sp, st)"

definition resourceValue ::
  "(('m, 'l, 'x) heap \<Rightarrow> 'm \<Rightarrow> 'd option) \<Rightarrow> ('m, 'l, 'x) heap \<Rightarrow> 'm MemAnyApplication \<Rightarrow> 'd resource option" where
  "resourceValue metaValue m s =
     (case metaValue m (maObjectMeta s) of
        None \<Rightarrow> None
      | Some d \<Rightarrow>
          (case specValue m (maSpec s) of
             None \<Rightarrow> None
           | Some sp \<Rightarrow> map_option (resourceOf s d sp) (statusValue m (maStatus s))))"

definition resourcesOf :: "'l MemAnyApplicationList \<Rightarrow> 'k \<Rightarrow> 'd resource list option \<Rightarrow> (string \<times> string) \<times> 'k \<times> 'd resource list" where
  "resourcesOf s k rs = (miTypeMeta s, k, listOf rs)"

definition resourcesValue ::
  "(('m, 'l, 'x) heap \<Rightarrow> 'm \<Rightarrow> 'd option) \<Rightarrow> (('m, 'l, 'x) heap \<Rightarrow> 'l \<Rightarrow> 'k option) \<Rightarrow> 'm
     \<Rightarrow> ('m, 'l, 'x) heap \<Rightarrow> 'l MemAnyApplicationList \<Rightarrow> ((string \<times> string) \<times> 'k \<times> 'd resource list) option" where
  "resourcesValue metaValue listMetaValue meta m s =
     (case listMetaValue m (miListMeta s) of
        None \<Rightarrow> None
      | Some k \<Rightarrow> map_option (resourcesOf s k) (sliceValue (appStore meta) (resourceValue metaValue) m (miItems s)))"

lemmas value_defs = helmValue_def sourceValue_def backoffValue_def retryValue_def policyValue_def specValue_def placementValue_def
  ownershipValue_def zoneValue_def statusValue_def resourceValue_def resourcesValue_def

lemmas of_defs = listOf_def helmOf_def sourceOf_def backoffOf_def retryOf_def policyOf_def specOf_def placementOf_def ownershipOf_def
  zoneStatusOf_def statusOf_def resourceOf_def resourcesOf_def

section \<open>Every copy is a deep copy\<close>

lemmas plain_copy = deep_copy_plain [where f = "\<lambda>x. x"]
lemmas move_copy = deep_copy_move [where f = "\<lambda>x. x", OF stores_ok(2)] deep_copy_move [where f = "\<lambda>x. x", OF stores_ok(4)]

interpretation condition: deep_copy ConditionStatus_DeepCopyInto plainValue
  unfolding ConditionStatus_DeepCopyInto_def [abs_def] by (rule plain_copy)

interpretation helm: deep_copy ApplicationSourceHelm_DeepCopyInto helmValue
  unfolding ApplicationSourceHelm_DeepCopyInto_def [abs_def] helmValue_def [abs_def]
  by (rule deep_copy_struct [OF move_copy(2), where upd = "\<lambda>x s. s\<lparr>mhParameters := x\<rparr>"]) (simp_all add: of_defs)

interpretation source: deep_copy ApplicationSourceSpec_DeepCopyInto sourceValue
  unfolding ApplicationSourceSpec_DeepCopyInto_def [abs_def] sourceValue_def [abs_def]
  by (rule deep_copy_struct [OF deep_copy_pointer [OF _ helm.deep_copy_axioms], where upd = "\<lambda>x s. s\<lparr>mxHelmSelector := x\<rparr>"])
    (simp_all add: of_defs)

interpretation backoff: deep_copy Backoff_DeepCopyInto backoffValue
  unfolding Backoff_DeepCopyInto_def [abs_def] backoffValue_def [abs_def]
  by (rule deep_copy_struct2 [OF deep_copy_pointer [OF _ plain_copy] deep_copy_pointer [OF _ plain_copy],
        where upd = "\<lambda>s x y. s\<lparr>mbFactor := x, mbMaxDuration := y\<rparr>"]) (simp_all add: of_defs)

interpretation retry: deep_copy RetryStrategy_DeepCopyInto retryValue
  unfolding RetryStrategy_DeepCopyInto_def [abs_def] retryValue_def [abs_def]
  by (rule deep_copy_struct [OF deep_copy_pointer [OF _ backoff.deep_copy_axioms], where upd = "\<lambda>x s. s\<lparr>mrBackoff := x\<rparr>"])
    (simp_all add: of_defs)

interpretation policy: deep_copy SyncPolicySpec_DeepCopyInto policyValue
  unfolding SyncPolicySpec_DeepCopyInto_def [abs_def] policyValue_def [abs_def]
  by (rule deep_copy_struct3 [OF deep_copy_pointer [OF _ plain_copy] deep_copy_pointer [OF _ move_copy(1)]
        deep_copy_pointer [OF _ retry.deep_copy_axioms],
        where upd = "\<lambda>s x y z. s\<lparr>mpAutomated := x, mpSyncOptions := y, mpRetry := z\<rparr>"]) (simp_all add: of_defs)

interpretation spec: deep_copy AnyApplicationSpec_DeepCopyInto specValue
  unfolding AnyApplicationSpec_DeepCopyInto_def [abs_def] specValue_def [abs_def]
  by (rule deep_copy_struct2 [OF source.deep_copy_axioms policy.deep_copy_axioms,
        where upd = "\<lambda>s x y. s\<lparr>msSource := x, msSyncPolicy := y\<rparr>"]) (simp_all add: of_defs)

interpretation placement: deep_copy Placement_DeepCopyInto placementValue
  unfolding Placement_DeepCopyInto_def [abs_def] placementValue_def [abs_def]
  by (rule deep_copy_struct [OF move_copy(1), where upd = "\<lambda>x s. s\<lparr>mlNodeAffinity := x\<rparr>"]) (simp_all add: of_defs)

interpretation ownership: deep_copy OwnershipStatus_DeepCopyInto ownershipValue
  unfolding OwnershipStatus_DeepCopyInto_def [abs_def] ownershipValue_def [abs_def]
  by (rule deep_copy_struct [OF deep_copy_slice [OF _ placement.deep_copy_axioms], where upd = "\<lambda>x s. s\<lparr>moPlacements := x\<rparr>"])
    (simp_all add: of_defs)

interpretation zone: deep_copy ZoneStatus_DeepCopyInto zoneValue
  unfolding ZoneStatus_DeepCopyInto_def [abs_def] zoneValue_def [abs_def]
  by (rule deep_copy_struct [OF deep_copy_slice [OF _ condition.deep_copy_axioms], where upd = "\<lambda>x s. s\<lparr>mzConditions := x\<rparr>"])
    (simp_all add: of_defs)

interpretation status: deep_copy AnyApplicationStatus_DeepCopyInto statusValue
  unfolding AnyApplicationStatus_DeepCopyInto_def [abs_def] statusValue_def [abs_def]
  by (rule deep_copy_struct2 [OF ownership.deep_copy_axioms deep_copy_slice [OF _ zone.deep_copy_axioms],
        where upd = "\<lambda>s x y. s\<lparr>mtOwnership := x, mtZones := y\<rparr>"]) (simp_all add: of_defs)

lemma deep_copy_resource:
  assumes "deep_copy copyMeta metaValue"
  shows "deep_copy (AnyApplication_DeepCopyInto copyMeta) (resourceValue metaValue)"
  unfolding AnyApplication_DeepCopyInto_def [abs_def] resourceValue_def [abs_def]
  by (rule deep_copy_struct3 [OF assms spec.deep_copy_axioms status.deep_copy_axioms,
        where upd = "\<lambda>s x y z. s\<lparr>maObjectMeta := x, maSpec := y, maStatus := z\<rparr>"]) (simp_all add: of_defs)

lemma deep_copy_resources:
  assumes "deep_copy copyMeta metaValue" "deep_copy copyListMeta listMetaValue"
  shows "deep_copy (AnyApplicationList_DeepCopyInto copyMeta copyListMeta meta) (resourcesValue metaValue listMetaValue meta)"
  unfolding AnyApplicationList_DeepCopyInto_def [abs_def] resourcesValue_def [abs_def]
  by (rule deep_copy_struct2 [OF assms(2) deep_copy_slice [OF _ deep_copy_resource [OF assms(1)]],
        where upd = "\<lambda>s x y. s\<lparr>miListMeta := x, miItems := y\<rparr>"]) (simp_all add: of_defs)

text \<open>C19: a deep copy of a resource stands for the same type, metadata, spec and status, and shares nothing with the
  original: whatever is done to the cells there were before leaves the copy as it is, and
  whatever is done to the new ones leaves the original. A value handed on as a deep copy can therefore be
  changed like a value of its own.\<close>

theorem DeepCopy_apart:
  assumes meta: "deep_copy copyMeta metaValue" and ok: "memory_ok m"
    and old: "pointerValue (appStore zero) (resourceValue metaValue) m p = Some v"
    and run: "AnyApplication_DeepCopyObject copyMeta zero p m = (q, m')"
  shows "pointerValue (appStore zero) (resourceValue metaValue) m' p = Some v
    \<and> pointerValue (appStore zero) (resourceValue metaValue) m' q = Some v
    \<and> (\<forall>g. same_on {mmNext m..} m' g \<longrightarrow> pointerValue (appStore zero) (resourceValue metaValue) g q = Some v)
    \<and> (\<forall>g. same_on {..<mmNext m} m' g \<longrightarrow> pointerValue (appStore zero) (resourceValue metaValue) g p = Some v)"
proof -
  have dc: "deep_copy (AnyApplication_DeepCopy copyMeta zero) (pointerValue (appStore zero) (resourceValue metaValue))"
    unfolding AnyApplication_DeepCopy_def by (rule deep_copy_pointer [OF _ deep_copy_resource [OF meta]]) simp
  have "AnyApplication_DeepCopy copyMeta zero p m = (q, m')"
    using run by (auto simp: AnyApplication_DeepCopyObject_def split: prod.splits option.splits)
  from deep_copy.apart [OF dc ok old this] show ?thesis by blast
qed

section \<open>Example\<close>

text \<open>A resource with one zone and one condition, the metadata being a name and a slice of finalizers.\<close>

definition sampleCopyMeta :: "string \<times> Slice \<Rightarrow> (string \<times> Slice, 'l, 'x) heap \<Rightarrow> (string \<times> Slice) \<times> (string \<times> Slice, 'l, 'x) heap" where
  "sampleCopyMeta s m = (case moveSlice textStore (snd s) m of (x, m') \<Rightarrow> ((fst s, x), m'))"

definition sampleMetaValue :: "(string \<times> Slice, 'l, 'x) heap \<Rightarrow> string \<times> Slice \<Rightarrow> (string \<times> string list) option" where
  "sampleMetaValue m s = map_option (\<lambda>v. (fst s, listOf v)) (sliceValue textStore plainValue m (snd s))"

interpretation sampleMeta: deep_copy sampleCopyMeta sampleMetaValue
  unfolding sampleCopyMeta_def [abs_def] sampleMetaValue_def [abs_def]
  by (rule deep_copy_struct [OF move_copy(1), where upd = "\<lambda>x s. (fst s, x)"]) simp_all

definition sampleMemory :: "(string \<times> Slice, unit, unit) heap" where
  "sampleMemory =
     \<lparr>mmCells = (\<lambda>_. None)(0 := Some (ConditionBlock [newCondition\<lparr>condStatus := ''Healthy''\<rparr>]),
        1 := Some (ZoneBlock [\<lparr>mzZoneId = ''z'', mzZoneVersion = 1, mzChartVersion = ''1.0.0'', mzConditions = Slice 0 0 1\<rparr>]),
        2 := Some (TextBlock [''finalizer'']),
        3 := Some (AppBlock [\<lparr>maTypeMeta = (''AnyApplication'', ''v1''), maObjectMeta = (''app'', Slice 2 0 1), maSpec = newSpec,
               maStatus = newStatus\<lparr>mtZones := Slice 1 0 1\<rparr>\<rparr>])),
      mmNext = 4\<rparr>"

definition sampleRead :: "(string \<times> Slice, unit, unit) heap \<Rightarrow> Pointer \<Rightarrow> (string \<times> string list) resource option option" where
  "sampleRead m = pointerValue (appStore ('''', NilSlice)) (resourceValue sampleMetaValue) m"

text \<open>The conditions of the original are overwritten after the copy was made.\<close>

theorem DeepCopy_apart_witness:
  "case AnyApplication_DeepCopyObject sampleCopyMeta ('''', NilSlice) (Some (3, 0)) sampleMemory of
     (q, m') \<Rightarrow> sampleRead (overwrite 0 (ConditionBlock []) m') q = sampleRead sampleMemory (Some (3, 0))
       \<and> sampleRead (overwrite 0 (ConditionBlock []) m') (Some (3, 0)) = None"
proof -
  obtain q m' where run: "AnyApplication_DeepCopyObject sampleCopyMeta ('''', NilSlice) (Some (3, 0)) sampleMemory = (q, m')"
    by fastforce
  have ok: "memory_ok sampleMemory" by (simp add: memory_ok_def sampleMemory_def)
  have "sampleRead sampleMemory (Some (3, 0)) \<noteq> None" by code_simp
  then obtain v where old: "pointerValue (appStore ('''', NilSlice)) (resourceValue sampleMetaValue) sampleMemory (Some (3, 0)) = Some v"
    by (auto simp: sampleRead_def)
  have "same_on {mmNext sampleMemory..} m' (overwrite 0 (ConditionBlock []) m')"
    by (rule same_on_overwrite) (simp add: sampleMemory_def)
  with DeepCopy_apart [OF sampleMeta.deep_copy_axioms ok old run]
  have "sampleRead (overwrite 0 (ConditionBlock []) m') q = Some v" by (simp add: sampleRead_def)
  moreover have "case AnyApplication_DeepCopyObject sampleCopyMeta ('''', NilSlice) (Some (3, 0)) sampleMemory of
     (q, m') \<Rightarrow> sampleRead (overwrite 0 (ConditionBlock []) m') (Some (3, 0)) = None" by code_simp
  ultimately show ?thesis using old by (simp add: run sampleRead_def)
qed

end
