(* ===== verification/Routing.thy ===== *)
theory Routing
  imports HttpApi Helm
begin

text \<open>
  \<open>internal/httpapi/api/httpapi.gen.go\<close> and \<open>internal/httpapi/server.go\<close>: how a request of the HTTP API comes to its
  handler. The multiplexer is that of Go's \<open>net/http\<close> with patterns of a method and a path; binding a path
  parameter is the library \<open>oapi-codegen/runtime\<close>'s, an argument. What a middleware and a handler do is a
  function of the request and a state; headers but the content type, and where a redirection leads, are left out.
\<close>

section \<open>Requests and answers\<close>

record Request =
  rqMethod :: string
  rqPath :: string
  rqPathValues :: "(string \<times> string) list"

datatype Response = Replied Reply | TextReply int string | Redirected

type_synonym 's handler = "Request \<Rightarrow> 's \<Rightarrow> Response go \<times> 's"

definition PathValue :: "Request \<Rightarrow> string \<Rightarrow> string" where
  "PathValue r name = (case map_of (rqPathValues r) name of None \<Rightarrow> '''' | Some v \<Rightarrow> v)"

section \<open>The multiplexer\<close>

definition hexDigit :: "char \<Rightarrow> nat option" where
  "hexDigit c =
     (let n = of_char c :: nat
      in if 48 \<le> n \<and> n \<le> 57 then Some (n - 48)
         else if 97 \<le> n \<and> n \<le> 102 then Some (n - 87)
         else if 65 \<le> n \<and> n \<le> 70 then Some (n - 55)
         else None)"

text \<open>\<open>url.PathUnescape\<close>, and the multiplexer's use of it, which keeps a text that does not decode.\<close>

fun percentDecode :: "string \<Rightarrow> string option" where
  "percentDecode [] = Some []"
| "percentDecode (c # s) =
     (if c = CHR ''%'' then
        (case s of
           a # b # rest \<Rightarrow>
             (case (hexDigit a, hexDigit b) of
                (Some x, Some y) \<Rightarrow> map_option ((#) (char_of (16 * x + y))) (percentDecode rest)
              | _ \<Rightarrow> None)
         | _ \<Rightarrow> None)
      else map_option ((#) c) (percentDecode s))"

definition pathUnescape :: "string \<Rightarrow> string" where
  "pathUnescape s = (case percentDecode s of None \<Rightarrow> s | Some u \<Rightarrow> u)"

datatype PatternSegment = Literal string | Wildcard string

record Pattern =
  ptMethod :: string
  ptSegments :: "PatternSegment list"

definition parseSegment :: "string \<Rightarrow> PatternSegment" where
  "parseSegment s =
     (if s \<noteq> [] \<and> hd s = CHR ''{'' \<and> last s = CHR ''}'' then Wildcard (butlast (tl s)) else Literal (pathUnescape s))"

definition parsePattern :: "string \<Rightarrow> Pattern" where
  "parsePattern s =
     (case Split s '' '' of
        m # path \<Rightarrow> \<lparr>ptMethod = m, ptSegments = map parseSegment (tl (Split (Join path '' '') ''/''))\<rparr>
      | [] \<Rightarrow> \<lparr>ptMethod = '''', ptSegments = []\<rparr>)"

type_synonym 's mux = "(Pattern \<times> 's handler) list"

definition HandleFunc :: "'s mux \<Rightarrow> string \<Rightarrow> 's handler \<Rightarrow> 's mux" where
  "HandleFunc m pattern handler = m @ [(parsePattern pattern, handler)]"

text \<open>The segments of a path as they are matched: a trailing slash is a segment that is a slash, and so is an
  escaped one, which no wildcard takes.\<close>

definition pathSegments :: "string \<Rightarrow> string list" where
  "pathSegments path = map (\<lambda>seg. if seg = '''' then ''/'' else pathUnescape seg) (tl (Split path ''/''))"

fun matchPath :: "PatternSegment list \<Rightarrow> string list \<Rightarrow> (string \<times> string) list option" where
  "matchPath [] [] = Some []"
| "matchPath (Literal l # ps) (s # ss) = (if l = s then matchPath ps ss else None)"
| "matchPath (Wildcard w # ps) (s # ss) = (if s = ''/'' then None else map_option ((#) (w, s)) (matchPath ps ss))"
| "matchPath _ _ = None"

text \<open>A path is clean when \<open>path.Clean\<close> leaves it, up to a trailing slash; the others are redirected.\<close>

definition cleanPath :: "string \<Rightarrow> bool" where
  "cleanPath path \<longleftrightarrow>
     (let segs = Split path ''/''
      in hd segs = '''' \<and> tl segs \<noteq> [] \<and> list_all (\<lambda>s. s \<notin> {'''', ''.'', ''..''}) (butlast (tl segs))
         \<and> last segs \<notin> {''.'', ''..''})"

definition methodMatches :: "string \<Rightarrow> string \<Rightarrow> bool" where
  "methodMatches patternMethod m \<longleftrightarrow> patternMethod = m \<or> patternMethod = ''GET'' \<and> m = ''HEAD''"

text \<open>No two patterns of the program match the same path, so the first that matches is the one.\<close>

definition serveMux :: "'s mux \<Rightarrow> 's handler" where
  "serveMux m r s =
     (if rqPath r = ''*'' then (Inr (TextReply 400 ''''), s)
      else if rqMethod r \<noteq> ''CONNECT'' \<and> \<not> cleanPath (rqPath r) then (Inr Redirected, s)
      else
        (let found = List.map_filter (\<lambda>(p, h). map_option (\<lambda>vs. (p, h, vs)) (matchPath (ptSegments p) (pathSegments (rqPath r)))) m
         in case find (\<lambda>(p, h, vs). methodMatches (ptMethod p) (rqMethod r)) found of
              Some (p, h, vs) \<Rightarrow> h (r\<lparr>rqPathValues := vs\<rparr>) s
            | None \<Rightarrow>
                (Inr (if found = [] then TextReply 404 (''404 page not found'' @ [CHR 0x0A])
                      else TextReply 405 (''Method Not Allowed'' @ [CHR 0x0A])), s)))"

section \<open>Errors of parameters\<close>

datatype ParamError =
    UnescapedCookieParamError string GoError
  | UnmarshalingParamError string GoError
  | RequiredParamError string
  | RequiredHeaderError string GoError
  | InvalidParamFormatError string GoError
  | TooManyValuesForParamError string int

fun ParamError_Error :: "ParamError \<Rightarrow> string" where
  "ParamError_Error (UnescapedCookieParamError p err) = ''error unescaping cookie parameter '' @ [CHR 0x27] @ p @ [CHR 0x27]"
| "ParamError_Error (UnmarshalingParamError p err) = ''Error unmarshaling parameter '' @ p @ '' as JSON: '' @ Error err"
| "ParamError_Error (RequiredParamError p) = ''Query argument '' @ p @ '' is required, but not found''"
| "ParamError_Error (RequiredHeaderError p err) = ''Header parameter '' @ p @ '' is required, but not found''"
| "ParamError_Error (InvalidParamFormatError p err) = ''Invalid format for parameter '' @ p @ '': '' @ Error err"
| "ParamError_Error (TooManyValuesForParamError p n) = ''Expected one value for '' @ p @ '', got '' @ int_text n"

fun ParamError_Unwrap :: "ParamError \<Rightarrow> GoError option" where
  "ParamError_Unwrap (UnescapedCookieParamError p err) = Some err"
| "ParamError_Unwrap (UnmarshalingParamError p err) = Some err"
| "ParamError_Unwrap (RequiredHeaderError p err) = Some err"
| "ParamError_Unwrap (InvalidParamFormatError p err) = Some err"
| "ParamError_Unwrap _ = None"

section \<open>From a request to the handler\<close>

record 's ServerInterface =
  svGetApplicationSpec :: "string \<Rightarrow> string \<Rightarrow> 's \<Rightarrow> Reply go \<times> 's"
  svGetApplicationStatus :: "string \<Rightarrow> string \<Rightarrow> 's \<Rightarrow> Reply go \<times> 's"

record 's ServerInterfaceWrapper =
  siwHandler :: "'s ServerInterface"
  siwHandlerMiddlewares :: "('s handler \<Rightarrow> 's handler) list"
  siwErrorHandlerFunc :: "Request \<Rightarrow> ParamError \<Rightarrow> 's \<Rightarrow> Response go \<times> 's"

type_synonym paramBinding = "string \<Rightarrow> string \<Rightarrow> GoError + string"

definition asResponse :: "Reply go \<times> 's \<Rightarrow> Response go \<times> 's" where
  "asResponse x = (case x of (Inl p, s) \<Rightarrow> (Inl p, s) | (Inr reply, s) \<Rightarrow> (Inr (Replied reply), s))"

definition ServerInterfaceWrapper_GetApplicationSpec :: "paramBinding \<Rightarrow> 's ServerInterfaceWrapper \<Rightarrow> 's handler" where
  "ServerInterfaceWrapper_GetApplicationSpec bind siw r s =
     (case bind ''namespace'' (PathValue r ''namespace'') of
        Inl err \<Rightarrow> siwErrorHandlerFunc siw r (InvalidParamFormatError ''namespace'' err) s
      | Inr namespace \<Rightarrow>
          (case bind ''name'' (PathValue r ''name'') of
             Inl err \<Rightarrow> siwErrorHandlerFunc siw r (InvalidParamFormatError ''name'' err) s
           | Inr name \<Rightarrow>
               fold (\<lambda>middleware handler. middleware handler) (siwHandlerMiddlewares siw)
                 (\<lambda>r s. asResponse (svGetApplicationSpec (siwHandler siw) namespace name s)) r s))"

definition ServerInterfaceWrapper_GetApplicationStatus :: "paramBinding \<Rightarrow> 's ServerInterfaceWrapper \<Rightarrow> 's handler" where
  "ServerInterfaceWrapper_GetApplicationStatus bind siw r s =
     (case bind ''namespace'' (PathValue r ''namespace'') of
        Inl err \<Rightarrow> siwErrorHandlerFunc siw r (InvalidParamFormatError ''namespace'' err) s
      | Inr namespace \<Rightarrow>
          (case bind ''name'' (PathValue r ''name'') of
             Inl err \<Rightarrow> siwErrorHandlerFunc siw r (InvalidParamFormatError ''name'' err) s
           | Inr name \<Rightarrow>
               fold (\<lambda>middleware handler. middleware handler) (siwHandlerMiddlewares siw)
                 (\<lambda>r s. asResponse (svGetApplicationStatus (siwHandler siw) namespace name s)) r s))"

record 's StdHTTPServerOptions =
  opBaseURL :: string
  opBaseRouter :: "'s mux option"
  opMiddlewares :: "('s handler \<Rightarrow> 's handler) list"
  opErrorHandlerFunc :: "(Request \<Rightarrow> ParamError \<Rightarrow> 's \<Rightarrow> Response go \<times> 's) option"

definition badRequest :: "Request \<Rightarrow> ParamError \<Rightarrow> 's \<Rightarrow> Response go \<times> 's" where
  "badRequest r err s = (Inr (TextReply 400 (ParamError_Error err @ [CHR 0x0A])), s)"

definition HandlerWithOptions :: "paramBinding \<Rightarrow> 's ServerInterface \<Rightarrow> 's StdHTTPServerOptions \<Rightarrow> 's mux" where
  "HandlerWithOptions bind si options =
     (let m = (case opBaseRouter options of None \<Rightarrow> [] | Some router \<Rightarrow> router);
          errorHandler = (case opErrorHandlerFunc options of None \<Rightarrow> badRequest | Some f \<Rightarrow> f);
          wrapper = \<lparr>siwHandler = si, siwHandlerMiddlewares = opMiddlewares options, siwErrorHandlerFunc = errorHandler\<rparr>;
          m1 = HandleFunc m (''GET '' @ opBaseURL options @ ''/applications/{namespace}/{name}/specification'')
                 (ServerInterfaceWrapper_GetApplicationSpec bind wrapper)
      in HandleFunc m1 (''GET '' @ opBaseURL options @ ''/applications/{namespace}/{name}/status'')
           (ServerInterfaceWrapper_GetApplicationStatus bind wrapper))"

definition defaultOptions :: "'s StdHTTPServerOptions" where
  "defaultOptions = \<lparr>opBaseURL = '''', opBaseRouter = None, opMiddlewares = [], opErrorHandlerFunc = None\<rparr>"

definition Handler :: "paramBinding \<Rightarrow> 's ServerInterface \<Rightarrow> 's mux" where
  "Handler bind si = HandlerWithOptions bind si defaultOptions"

definition HandlerFromMux :: "paramBinding \<Rightarrow> 's ServerInterface \<Rightarrow> 's mux \<Rightarrow> 's mux" where
  "HandlerFromMux bind si m = HandlerWithOptions bind si (defaultOptions\<lparr>opBaseRouter := Some m\<rparr>)"

definition HandlerFromMuxWithBaseURL :: "paramBinding \<Rightarrow> 's ServerInterface \<Rightarrow> 's mux \<Rightarrow> string \<Rightarrow> 's mux" where
  "HandlerFromMuxWithBaseURL bind si m baseURL =
     HandlerWithOptions bind si (defaultOptions\<lparr>opBaseURL := baseURL, opBaseRouter := Some m\<rparr>)"

section \<open>The server\<close>

text \<open>The two handlers over one state, the cache of renderings and everything outside.\<close>

definition NewServer :: "('e, 'v, 'c, 'r, 'q) ServerImpl \<Rightarrow> ('e, 'v, Fields) syncState ServerInterface" where
  "NewServer srv =
     \<lparr>svGetApplicationSpec = ServerImpl_GetApplicationSpec srv,
      svGetApplicationStatus = (\<lambda>namespace name s.
        case ServerImpl_GetApplicationStatus srv namespace name (snd s) of (reply, e) \<Rightarrow> (reply, (fst s, e)))\<rparr>"

record 's ApiServer =
  apHandler :: "'s handler"
  apAddr :: string

definition NewHttpServer :: "paramBinding \<Rightarrow> string \<Rightarrow> ('e, 'v, 'c, 'r, 'q) ServerImpl \<Rightarrow> ('e, 'v, Fields) syncState ApiServer" where
  "NewHttpServer bind address srv =
     \<lparr>apHandler = serveMux (HandlerFromMux bind (NewServer srv) []), apAddr = address\<rparr>"

section \<open>The routes\<close>

text \<open>The reference: what the two routes of the API are, without patterns and wrappers.\<close>

definition bindBoth :: "paramBinding \<Rightarrow> (string \<Rightarrow> string \<Rightarrow> 's \<Rightarrow> Reply go \<times> 's) \<Rightarrow> string \<Rightarrow> string \<Rightarrow> 's \<Rightarrow> Response go \<times> 's" where
  "bindBoth bind f namespace name s =
     (case bind ''namespace'' namespace of
        Inl err \<Rightarrow> (Inr (TextReply 400 (''Invalid format for parameter namespace: '' @ Error err @ [CHR 0x0A])), s)
      | Inr ns \<Rightarrow>
          (case bind ''name'' name of
             Inl err \<Rightarrow> (Inr (TextReply 400 (''Invalid format for parameter name: '' @ Error err @ [CHR 0x0A])), s)
           | Inr n \<Rightarrow> asResponse (f ns n s)))"

definition routeOf :: "'s ServerInterface \<Rightarrow> string list \<Rightarrow> ((string \<Rightarrow> string \<Rightarrow> 's \<Rightarrow> Reply go \<times> 's) \<times> string \<times> string) option" where
  "routeOf si segs =
     (case segs of
        [root, namespace, name, what] \<Rightarrow>
          if root \<noteq> ''applications'' \<or> namespace = ''/'' \<or> name = ''/'' then None
          else if what = ''specification'' then Some (svGetApplicationSpec si, namespace, name)
          else if what = ''status'' then Some (svGetApplicationStatus si, namespace, name)
          else None
      | _ \<Rightarrow> None)"

definition routed :: "paramBinding \<Rightarrow> 's ServerInterface \<Rightarrow> 's handler" where
  "routed bind si r s =
     (if rqPath r = ''*'' then (Inr (TextReply 400 ''''), s)
      else if rqMethod r \<noteq> ''CONNECT'' \<and> \<not> cleanPath (rqPath r) then (Inr Redirected, s)
      else
        (case routeOf si (pathSegments (rqPath r)) of
           None \<Rightarrow> (Inr (TextReply 404 (''404 page not found'' @ [CHR 0x0A])), s)
         | Some (f, namespace, name) \<Rightarrow>
             if rqMethod r \<in> {''GET'', ''HEAD''} then bindBoth bind f namespace name s
             else (Inr (TextReply 405 (''Method Not Allowed'' @ [CHR 0x0A])), s)))"

lemma parsed_patterns:
  "parsePattern (''GET '' @ '''' @ ''/applications/{namespace}/{name}/specification'')
     = \<lparr>ptMethod = ''GET'', ptSegments = [Literal ''applications'', Wildcard ''namespace'', Wildcard ''name'', Literal ''specification'']\<rparr>"
  "parsePattern (''GET '' @ '''' @ ''/applications/{namespace}/{name}/status'')
     = \<lparr>ptMethod = ''GET'', ptSegments = [Literal ''applications'', Wildcard ''namespace'', Wildcard ''name'', Literal ''status'']\<rparr>"
  by code_simp+

lemma matched_path:
  "matchPath [Literal root, Wildcard a, Wildcard b, Literal what] segs =
     (case segs of
        [s1, s2, s3, s4] \<Rightarrow> if s1 = root \<and> s2 \<noteq> ''/'' \<and> s3 \<noteq> ''/'' \<and> s4 = what then Some [(a, s2), (b, s3)] else None
      | _ \<Rightarrow> None)"
  by (auto split: list.split)

lemmas handler_defs = HandlerFromMux_def HandlerWithOptions_def defaultOptions_def HandleFunc_def

text \<open>The wrapped handlers are called with the two parameters bound.\<close>

lemma wrapped:
  "ServerInterfaceWrapper_GetApplicationSpec bind \<lparr>siwHandler = si, siwHandlerMiddlewares = [], siwErrorHandlerFunc = badRequest\<rparr>
      (r\<lparr>rqPathValues := [(''namespace'', namespace), (''name'', name)]\<rparr>) s = bindBoth bind (svGetApplicationSpec si) namespace name s"
  "ServerInterfaceWrapper_GetApplicationStatus bind \<lparr>siwHandler = si, siwHandlerMiddlewares = [], siwErrorHandlerFunc = badRequest\<rparr>
      (r\<lparr>rqPathValues := [(''namespace'', namespace), (''name'', name)]\<rparr>) s = bindBoth bind (svGetApplicationStatus si) namespace name s"
  by (simp_all add: ServerInterfaceWrapper_GetApplicationSpec_def ServerInterfaceWrapper_GetApplicationStatus_def PathValue_def
      bindBoth_def badRequest_def split: sum.split)

lemma serveMux_routed:
  "serveMux (HandlerFromMux bind si []) r s = routed bind si r s"
proof -
  let ?segs = "pathSegments (rqPath r)"
  consider (long) s1 s2 s3 s4 where "?segs = [s1, s2, s3, s4]" | (other) "\<And>s1 s2 s3 s4. ?segs \<noteq> [s1, s2, s3, s4]" by blast
  then show ?thesis
  proof cases
    case long
    then show ?thesis
      by (simp add: serveMux_def routed_def handler_defs parsed_patterns [simplified] matched_path routeOf_def
          List.map_filter_simps methodMatches_def wrapped Let_def)
  next
    case other
    then have "routeOf si ?segs = None" "\<And>root a b what. matchPath [Literal root, Wildcard a, Wildcard b, Literal what] ?segs = None"
      by (auto simp: routeOf_def matched_path split: list.split)
    then show ?thesis
      by (simp add: serveMux_def routed_def handler_defs parsed_patterns [simplified] List.map_filter_simps Let_def)
  qed
qed

section \<open>Requests for an application\<close>

text \<open>Names as Kubernetes admits them: letters, digits, hyphens and dots, beginning with a letter or a digit.\<close>

definition plainName :: "string \<Rightarrow> bool" where
  "plainName s \<longleftrightarrow> s \<noteq> '''' \<and> hd s \<noteq> CHR ''.'' \<and> CHR ''/'' \<notin> set s \<and> CHR ''%'' \<notin> set s"

lemma splitAt_char: "c \<notin> set a \<Longrightarrow> splitAt [c] cur (a @ c # b) = (rev cur @ a) # splitAt [c] [] b"
  by (induction a arbitrary: cur) auto

lemma splitAt_char_end: "c \<notin> set a \<Longrightarrow> splitAt [c] cur a = [rev cur @ a]"
  by (induction a arbitrary: cur) auto

lemma percentDecode_plain: "CHR ''%'' \<notin> set s \<Longrightarrow> percentDecode s = Some s"
  by (induction s) auto

lemma plainName_unescape: "plainName s \<Longrightarrow> pathUnescape s = s \<and> s \<noteq> '''' \<and> s \<notin> {''.'', ''..'', ''/''}"
  by (auto simp: plainName_def pathUnescape_def percentDecode_plain)

lemma application_path:
  assumes "plainName namespace" "plainName name" "plainName what"
  shows "pathSegments (''/applications/'' @ namespace @ ''/'' @ name @ ''/'' @ what) = [''applications'', namespace, name, what]"
    and "cleanPath (''/applications/'' @ namespace @ ''/'' @ name @ ''/'' @ what)"
    and "''/applications/'' @ namespace @ ''/'' @ name @ ''/'' @ what \<noteq> ''*''"
proof -
  have applications: "pathUnescape ''applications'' = ''applications''" by code_simp
  have "splitAt ''/'' [] (''applications'' @ CHR ''/'' # namespace @ CHR ''/'' # name @ CHR ''/'' # what)
      = [''applications'', namespace, name, what]"
    using assms by (subst splitAt_char) (simp_all add: plainName_def splitAt_char splitAt_char_end del: splitAt.simps)
  then have "Split (''/applications/'' @ namespace @ ''/'' @ name @ ''/'' @ what) ''/'' = ['''', ''applications'', namespace, name, what]"
    using splitAt_char [of "CHR ''/''" "[]" "[]" "''applications'' @ CHR ''/'' # namespace @ CHR ''/'' # name @ CHR ''/'' # what"]
    by (simp add: Split_def del: splitAt.simps)
  with assms show "pathSegments (''/applications/'' @ namespace @ ''/'' @ name @ ''/'' @ what) = [''applications'', namespace, name, what]"
    and "cleanPath (''/applications/'' @ namespace @ ''/'' @ name @ ''/'' @ what)"
    by (auto simp: pathSegments_def cleanPath_def plainName_unescape applications dest: plainName_unescape)
  show "''/applications/'' @ namespace @ ''/'' @ name @ ''/'' @ what \<noteq> ''*''" by simp
qed

text \<open>C35: the server routes every request as the API says: the two paths of an application lead to the two handlers
  with the namespace and the name of the path, for GET and HEAD only; every other request is
  answered without a handler being run or anything being changed.\<close>

theorem NewHttpServer_routes:
  "apHandler (NewHttpServer bind address srv) r s = routed bind (NewServer srv) r s"
  by (simp add: NewHttpServer_def serveMux_routed)

text \<open>So a request for the report of an application is answered by its handler, on the server \<open>NewHttpServer\<close> makes.\<close>

lemma status_request_answered:
  assumes "plainName namespace" "plainName name"
    and "bind ''namespace'' namespace = Inr namespace" "bind ''name'' name = Inr name"
    and "rqMethod r = ''GET''" "rqPath r = ''/applications/'' @ namespace @ ''/'' @ name @ ''/'' @ ''status''"
  shows "apHandler (NewHttpServer bind address srv) r (cache, e) =
    asResponse (case ServerImpl_GetApplicationStatus srv namespace name e of (reply, e') \<Rightarrow> (reply, (cache, e')))"
proof -
  have w: "plainName ''status''" by (simp add: plainName_def)
  note path = application_path [OF assms(1,2) w, folded assms(6)]
  have "namespace \<noteq> ''/''" "name \<noteq> ''/''" using assms(1,2) by (auto simp: plainName_def)
  then have "routed bind (NewServer srv) r (cache, e) = bindBoth bind (svGetApplicationStatus (NewServer srv)) namespace name (cache, e)"
    by (simp add: routed_def path assms(5) routeOf_def)
  then show ?thesis
    by (simp add: NewHttpServer_def serveMux_routed bindBoth_def assms(3,4) NewServer_def)
qed

end
