(* ===== verification/SpecItems.thy ===== *)
theory SpecItems
  imports Resources
begin

text \<open>
  The resources of a specification as \<open>internal/httpapi/api/httpapi.gen.go\<close> keeps them: an item is a JSON text without
  a tag that says which of the two kinds it is. \<open>Resources\<close> works on the items as values; the lemmas here relate the two.
  The JSON forms of the two kinds and the merge of JSON texts are the libraries', an argument.
\<close>

section \<open>Items as texts\<close>

record ItemCodec =
  icMarshalPod :: "PodResources \<Rightarrow> GoError + string"
  icUnmarshalPod :: "string option \<Rightarrow> PodResources \<times> GoError option"
  icMarshalPVC :: "PVCResources \<Rightarrow> GoError + string"
  icUnmarshalPVC :: "string option \<Rightarrow> PVCResources \<times> GoError option"
  icJSONMerge :: "string option \<Rightarrow> string \<Rightarrow> string option \<times> GoError option"

record RawItem =
  union :: "string option"

definition AsPodResources :: "ItemCodec \<Rightarrow> RawItem \<Rightarrow> PodResources \<times> GoError option" where
  "AsPodResources ic t = icUnmarshalPod ic (union t)"

definition AsPVCResources :: "ItemCodec \<Rightarrow> RawItem \<Rightarrow> PVCResources \<times> GoError option" where
  "AsPVCResources ic t = icUnmarshalPVC ic (union t)"

text \<open>\<open>json.Marshal\<close> answers no text beside an error, and the item is overwritten with that.\<close>

definition fromMarshalled :: "GoError + string \<Rightarrow> RawItem \<Rightarrow> GoError option \<times> RawItem" where
  "fromMarshalled marshalled t =
     (case marshalled of
        Inl err \<Rightarrow> (Some err, t\<lparr>union := None\<rparr>)
      | Inr b \<Rightarrow> (None, t\<lparr>union := Some b\<rparr>))"

definition RawItem_FromPodResources :: "ItemCodec \<Rightarrow> PodResources \<Rightarrow> RawItem \<Rightarrow> GoError option \<times> RawItem" where
  "RawItem_FromPodResources ic v t = fromMarshalled (icMarshalPod ic v) t"

definition RawItem_FromPVCResources :: "ItemCodec \<Rightarrow> PVCResources \<Rightarrow> RawItem \<Rightarrow> GoError option \<times> RawItem" where
  "RawItem_FromPVCResources ic v t = fromMarshalled (icMarshalPVC ic v) t"

definition mergeMarshalled :: "ItemCodec \<Rightarrow> GoError + string \<Rightarrow> RawItem \<Rightarrow> GoError option \<times> RawItem" where
  "mergeMarshalled ic marshalled t =
     (case marshalled of
        Inl err \<Rightarrow> (Some err, t)
      | Inr b \<Rightarrow> (case icJSONMerge ic (union t) b of (merged, err) \<Rightarrow> (err, t\<lparr>union := merged\<rparr>)))"

definition MergePodResources :: "ItemCodec \<Rightarrow> PodResources \<Rightarrow> RawItem \<Rightarrow> GoError option \<times> RawItem" where
  "MergePodResources ic v t = mergeMarshalled ic (icMarshalPod ic v) t"

definition MergePVCResources :: "ItemCodec \<Rightarrow> PVCResources \<Rightarrow> RawItem \<Rightarrow> GoError option \<times> RawItem" where
  "MergePVCResources ic v t = mergeMarshalled ic (icMarshalPVC ic v) t"

text \<open>\<open>json.RawMessage\<close> is its own text, and null without one.\<close>

definition RawItem_MarshalJSON :: "RawItem \<Rightarrow> string" where
  "RawItem_MarshalJSON t = (case union t of None \<Rightarrow> ''null'' | Some b \<Rightarrow> b)"

definition RawItem_UnmarshalJSON :: "string \<Rightarrow> RawItem \<Rightarrow> RawItem" where
  "RawItem_UnmarshalJSON b t = t\<lparr>union := Some b\<rparr>"

section \<open>Items as values\<close>

text \<open>The text of an item, and the laws of the JSON forms: what was written reads back.\<close>

definition rawItem :: "ItemCodec \<Rightarrow> ApplicationSpec_Resources_Item \<Rightarrow> GoError option \<times> RawItem" where
  "rawItem ic i =
     (case i of
        FromPodResources v \<Rightarrow> RawItem_FromPodResources ic v \<lparr>union = None\<rparr>
      | FromPVCResources v \<Rightarrow> RawItem_FromPVCResources ic v \<lparr>union = None\<rparr>)"

definition item_codec_ok :: "ItemCodec \<Rightarrow> bool" where
  "item_codec_ok ic \<longleftrightarrow>
     (\<forall>v b. icMarshalPod ic v = Inr b \<longrightarrow> icUnmarshalPod ic (Some b) = (v, None))
     \<and> (\<forall>v b. icMarshalPVC ic v = Inr b \<longrightarrow> icUnmarshalPVC ic (Some b) = (v, None))"

lemma rawItem_reads_back:
  assumes "item_codec_ok ic" and "rawItem ic i = (None, t)"
  shows "case i of FromPodResources v \<Rightarrow> AsPodResources ic t = (v, None) | FromPVCResources v \<Rightarrow> AsPVCResources ic t = (v, None)"
  using assms by (auto simp: rawItem_def RawItem_FromPodResources_def RawItem_FromPVCResources_def fromMarshalled_def
      item_codec_ok_def AsPodResources_def AsPVCResources_def split: ApplicationSpec_Resources_Item.splits sum.splits)

text \<open>An item travels as its text alone: read as JSON, it is the item again.\<close>

lemma rawItem_travels:
  assumes "rawItem ic i = (None, t)"
  shows "RawItem_UnmarshalJSON (RawItem_MarshalJSON t) \<lparr>union = None\<rparr> = t"
  using assms by (auto simp: rawItem_def RawItem_FromPodResources_def RawItem_FromPVCResources_def fromMarshalled_def
      RawItem_UnmarshalJSON_def RawItem_MarshalJSON_def split: ApplicationSpec_Resources_Item.splits sum.splits)

text \<open>An error of the JSON form leaves an item that is null; a merge with one leaves the item alone.\<close>

lemma RawItem_errors:
  assumes "icMarshalPod ic v = Inl err"
  shows "RawItem_FromPodResources ic v t = (Some err, t\<lparr>union := None\<rparr>)" and "MergePodResources ic v t = (Some err, t)"
  using assms by (simp_all add: RawItem_FromPodResources_def fromMarshalled_def MergePodResources_def mergeMarshalled_def)

end
