(* ===== verification/JobContext.thy ===== *)
theory JobContext
  imports JobRegistry
begin

text \<open>
  \<open>internal/controller/job/async_job_context.go\<close>: what a job is given, with the tree of Go contexts behind its
  cancellation. The contexts are numbered as they are made; each knows the one it comes from and whether it was
  itself cancelled. The lemmas show that the two flags \<open>JobRegistry\<close> keeps, one for the table and one for each
  worker, are exactly what the contexts of the jobs say.
\<close>

section \<open>Contexts\<close>

type_synonym GoContexts = "(nat option \<times> bool) list"

definition contextWithCancel :: "nat \<Rightarrow> GoContexts \<Rightarrow> nat \<times> GoContexts" where
  "contextWithCancel parent cx = (length cx, cx @ [(Some parent, False)])"

definition cancelContext :: "nat \<Rightarrow> GoContexts \<Rightarrow> GoContexts" where
  "cancelContext c cx = cx[c := (fst (cx ! c), True)]"

text \<open>A context is done when it or one it comes from was cancelled.\<close>

function contextDone :: "GoContexts \<Rightarrow> nat \<Rightarrow> bool" where
  "contextDone cx c =
     (snd (cx ! c) \<or> (case fst (cx ! c) of None \<Rightarrow> False | Some p \<Rightarrow> if p < c then contextDone cx p else False))"
  by pat_completeness auto
termination by (relation "measure snd") auto

declare contextDone.simps [simp del]

section \<open>The context of a job\<close>

record ('h, 'k, 'a) AsyncJobContext =
  ctxHelmClient :: 'h
  ctxKubeClient :: 'k
  ctxContext :: nat
  ctxApplications :: 'a

definition NewAsyncJobContext :: "'h \<Rightarrow> 'k \<Rightarrow> nat \<Rightarrow> 'a \<Rightarrow> ('h, 'k, 'a) AsyncJobContext" where
  "NewAsyncJobContext helmClient kubeClient ctx syncManager =
     \<lparr>ctxHelmClient = helmClient, ctxKubeClient = kubeClient, ctxContext = ctx, ctxApplications = syncManager\<rparr>"

definition GetHelmClient :: "('h, 'k, 'a) AsyncJobContext \<Rightarrow> 'h" where
  "GetHelmClient a = ctxHelmClient a"

definition GetKubeClient :: "('h, 'k, 'a) AsyncJobContext \<Rightarrow> 'k" where
  "GetKubeClient a = ctxKubeClient a"

definition GetGoContext :: "('h, 'k, 'a) AsyncJobContext \<Rightarrow> nat" where
  "GetGoContext a = ctxContext a"

definition GetApplications :: "('h, 'k, 'a) AsyncJobContext \<Rightarrow> 'a" where
  "GetApplications a = ctxApplications a"

text \<open>The new context, the context its cancel function cancels, and the contexts there are now.\<close>

definition WithCancel :: "('h, 'k, 'a) AsyncJobContext \<Rightarrow> GoContexts \<Rightarrow> ('h, 'k, 'a) AsyncJobContext \<times> nat \<times> GoContexts" where
  "WithCancel a cx =
     (let (ctx, cx') = contextWithCancel (ctxContext a) cx
      in (\<lparr>ctxHelmClient = ctxHelmClient a, ctxKubeClient = ctxKubeClient a, ctxContext = ctx, ctxApplications = ctxApplications a\<rparr>,
          ctx, cx'))"

definition IsCancelledIn :: "('h, 'k, 'a) AsyncJobContext \<Rightarrow> GoContexts \<Rightarrow> bool" where
  "IsCancelledIn a cx = contextDone cx (ctxContext a)"

section \<open>The flags of the registry\<close>

lemma contextDone_append: "c < length cx \<Longrightarrow> contextDone (cx @ ys) c = contextDone cx c"
proof (induction c rule: less_induct)
  case (less c)
  then show ?case
    by (subst (1 2) contextDone.simps) (auto simp: nth_append split: option.split)
qed

lemma contextDone_root: "c < root \<Longrightarrow> contextDone (cancelContext root cx) c = contextDone cx c"
proof (induction c rule: less_induct)
  case (less c)
  then show ?case
    by (subst (1 2) contextDone.simps) (auto simp: cancelContext_def split: option.split)
qed

text \<open>The contexts belong to a registry: one for the table, made from the context of the program, and one for every
  worker that has begun, made from that of the table.\<close>

definition contexts_of :: "nat \<Rightarrow> nat \<Rightarrow> (nat \<Rightarrow> nat) \<Rightarrow> 'v Jobs \<Rightarrow> GoContexts \<Rightarrow> bool" where
  "contexts_of root table ctx j cx \<longleftrightarrow> root < table \<and> table < length cx \<and> cx ! table = (Some root, jbCancelled j)
     \<and> (\<forall>w < length (jbWorkers j). let k = jbWorkers j ! w in
          if jwCancelFunc k then table < ctx w \<and> ctx w < length cx \<and> cx ! ctx w = (Some table, jwCancelled k)
          else \<not> jwCancelled k)
     \<and> inj_on ctx {w. w < length (jbWorkers j) \<and> jwCancelFunc (jbWorkers j ! w)}"

text \<open>What a running job sees of its context is what the registry keeps, or that the program as a whole is ending.\<close>

lemma contexts_of_cancelled:
  assumes "contexts_of root table ctx j cx" and "w < length (jbWorkers j)" and "jwCancelFunc (jbWorkers j ! w)"
  shows "contextDone cx (ctx w) \<longleftrightarrow> contextDone cx root \<or> workerCancelled j w"
proof -
  have at: "root < table" "cx ! table = (Some root, jbCancelled j)" "table < ctx w" "cx ! ctx w = (Some table, jwCancelled (jbWorkers j ! w))"
    using assms by (auto simp: contexts_of_def Let_def)
  have "contextDone cx table \<longleftrightarrow> jbCancelled j \<or> contextDone cx root"
    by (subst contextDone.simps) (simp add: at(1,2))
  moreover have "contextDone cx (ctx w) \<longleftrightarrow> jwCancelled (jbWorkers j ! w) \<or> contextDone cx table"
    by (subst contextDone.simps) (simp add: at(3,4))
  ultimately show ?thesis by (auto simp: workerCancelled_def)
qed

lemma contexts_of_NewJobs:
  "root < length cx \<Longrightarrow> contexts_of root (length cx) ctx NewJobs (snd (contextWithCancel root cx))"
  by (simp add: contexts_of_def contextWithCancel_def NewJobs_def)

lemma contexts_of_StopAll:
  "contexts_of root table ctx j cx \<Longrightarrow> contexts_of root table ctx (StopAll j) (cancelContext table cx)"
  by (auto simp: contexts_of_def StopAll_def cancelContext_def Let_def nth_list_update)

lemma contexts_of_beginRun:
  assumes "contexts_of root table ctx j cx" and "w < length (jbWorkers j)" and "\<not> jwCancelFunc (jbWorkers j ! w)"
  shows "contexts_of root table (ctx(w := length cx)) (beginRun w j) (snd (contextWithCancel table cx))"
proof -
  have "inj_on (ctx(w := length cx)) {v. v < length (jbWorkers j) \<and> (v = w \<or> jwCancelFunc (jbWorkers j ! v))}"
    using assms by (auto simp: contexts_of_def inj_on_def Let_def)
  moreover have "{v. v < length (jbWorkers j) \<and> jwCancelFunc (jbWorkers (beginRun w j) ! v)}
      = {v. v < length (jbWorkers j) \<and> (v = w \<or> jwCancelFunc (jbWorkers j ! v))}"
    using assms(2) by (auto simp: beginRun_def updateWorker_nth split: if_splits)
  ultimately show ?thesis
    using assms by (auto simp: contexts_of_def contextWithCancel_def beginRun_def updateWorker_nth Let_def nth_append
        simp: updateWorker_def)
qed

text \<open>The step of \<open>Stop\<close> that calls the cancel function cancels the context of that worker and no other.\<close>

lemma contexts_of_cancel:
  assumes "contexts_of root table ctx j cx" and "w < length (jbWorkers j)" and "jwCancelFunc (jbWorkers j ! w)"
  shows "contexts_of root table ctx (fst (stopStep (AtCancel w) j)) (cancelContext (ctx w) cx)"
proof -
  have "ctx v \<noteq> ctx w" if "v < length (jbWorkers j)" "jwCancelFunc (jbWorkers j ! v)" "v \<noteq> w" for v
    using assms that by (auto simp: contexts_of_def inj_on_def)
  moreover have "{v. v < length (jbWorkers j) \<and> jwCancelFunc (jbWorkers (updateWorker w (\<lambda>k. k\<lparr>jwCancelled := True\<rparr>) j) ! v)}
      = {v. v < length (jbWorkers j) \<and> jwCancelFunc (jbWorkers j ! v)}"
    using assms(2,3) by (auto simp: updateWorker_nth split: if_splits)
  ultimately show ?thesis
    using assms by (auto simp: contexts_of_def cancelContext_def updateWorker_nth Let_def nth_list_update)
      (auto simp: updateWorker_def)
qed

end
