(* ===== verification/HelmSetup.thy ===== *)
theory HelmSetup
  imports Helm "HOL-Library.Word"
begin

text \<open>
  How a Helm client is made (\<open>NewHelmClient\<close> and \<open>RandClient\<close> of \<open>internal/helm\<close>), and the client and the table of
  scopes that stand in for it in tests (\<open>fake_client.go\<close>). Reading random bytes and making the library's client
  are arguments.
\<close>

section \<open>Names of clients\<close>

definition charset :: string where
  "charset = ''ABCDEFGHIJKLMNOPQRSTUVWXYZ0123456789''"

definition RandClient :: "(nat \<Rightarrow> 'e \<Rightarrow> (GoError + 8 word list) \<times> 'e) \<Rightarrow> 'e \<Rightarrow> (GoError + string) \<times> 'e" where
  "RandClient read e =
     (case read 8 e of
        (Inl err, e1) \<Rightarrow> (Inl err, e1)
      | (Inr randomBytes, e1) \<Rightarrow> (Inr (map (\<lambda>b. charset ! (unat b mod length charset)) randomBytes), e1))"

lemma RandClient_name:
  assumes "RandClient read e = (Inr name, e')" and "\<And>n bs. fst (read n e) = Inr bs \<Longrightarrow> length bs = n"
  shows "length name = 8 \<and> set name \<subseteq> set charset"
proof -
  from assms(1) obtain bs where bs: "fst (read 8 e) = Inr bs" "name = map (\<lambda>b. charset ! (unat b mod length charset)) bs"
    by (auto simp: RandClient_def split: prod.splits sum.splits)
  have "0 < length charset" by (simp add: charset_def)
  then have "charset ! (n mod length charset) \<in> set charset" for n by simp
  with bs assms(2) [OF bs(1)] show ?thesis by auto
qed

section \<open>Making a client\<close>

text \<open>The options; the logger is left out. \<open>'q\<close> is the configuration of the cluster, \<open>'k\<close> a Kubernetes version.\<close>

record ('q, 'k, 'e) HelmClientOptions =
  hoRestConfig :: 'q
  hoDebug :: bool
  hoLinting :: bool
  hoKubeVersion :: "'k option"
  hoClientId :: string
  hoBuildClusterScopeMap :: "('q \<Rightarrow> 'e \<Rightarrow> (GoError + (GVK \<rightharpoonup> bool)) \<times> 'e) option"

record 'q RestConfClientOptions =
  rcoDebug :: bool
  rcoLinting :: bool
  rcoRepositoryConfig :: string
  rcoRepositoryCache :: string
  rcoRestConfig :: 'q

record ('h, 'q, 'k, 'e) HelmClientImpl =
  hiClient :: "'h option"
  hiOptions :: "('q, 'k, 'e) HelmClientOptions"

definition defaultCachePath :: string where "defaultCachePath = ''/tmp/.helmcache''"
definition defaultRepositoryConfigPath :: string where "defaultRepositoryConfigPath = ''/tmp/.helmrepo''"

definition clientOptions :: "('q, 'k, 'e) HelmClientOptions \<Rightarrow> 'q RestConfClientOptions" where
  "clientOptions options =
     \<lparr>rcoDebug = hoDebug options, rcoLinting = hoLinting options,
      rcoRepositoryConfig = defaultRepositoryConfigPath @ ''-'' @ hoClientId options,
      rcoRepositoryCache = defaultCachePath @ ''-'' @ hoClientId options,
      rcoRestConfig = hoRestConfig options\<rparr>"

text \<open>The caller's options are written to, so they are a result as well, and the client holds them as they are after
  the call. A client comes back with the library's error too.\<close>

definition NewHelmClient ::
  "(nat \<Rightarrow> 'e \<Rightarrow> (GoError + 8 word list) \<times> 'e) \<Rightarrow> ('q \<Rightarrow> 'e \<Rightarrow> (GoError + (GVK \<rightharpoonup> bool)) \<times> 'e)
     \<Rightarrow> ('q RestConfClientOptions \<Rightarrow> 'e \<Rightarrow> ('h option \<times> GoError option) \<times> 'e) \<Rightarrow> ('q, 'k, 'e) HelmClientOptions \<Rightarrow> 'e
     \<Rightarrow> (('h, 'q, 'k, 'e) HelmClientImpl option \<times> GoError option) \<times> ('q, 'k, 'e) HelmClientOptions \<times> 'e" where
  "NewHelmClient read scopes newClient options e =
     (let o1 = options\<lparr>hoBuildClusterScopeMap := Some scopes\<rparr>;
          (named, e1) = (if hoClientId o1 = '''' then RandClient read e else (Inr (hoClientId o1), e))
      in case named of
           Inl err \<Rightarrow> ((None, Some err), o1, e1)
         | Inr clientId \<Rightarrow>
             (let o2 = o1\<lparr>hoClientId := clientId\<rparr>;
                  ((client, err), e2) = newClient (clientOptions o2) e1
              in ((Some \<lparr>hiClient = client, hiOptions = o2\<rparr>, err), o2, e2)))"

text \<open>Two clients share neither the file of the repositories nor the cache unless they have one name.\<close>

lemma clientOptions_apart:
  assumes "hoClientId a \<noteq> hoClientId b"
  shows "rcoRepositoryConfig (clientOptions a) \<noteq> rcoRepositoryConfig (clientOptions b)"
    and "rcoRepositoryCache (clientOptions a) \<noteq> rcoRepositoryCache (clientOptions b)"
  using assms by (simp_all add: clientOptions_def)

lemma NewHelmClient_keeps_name:
  assumes "hoClientId options \<noteq> ''''"
  shows "\<exists>c. NewHelmClient read scopes newClient options e
    = ((Some \<lparr>hiClient = fst c, hiOptions = options\<lparr>hoBuildClusterScopeMap := Some scopes\<rparr>\<rparr>, snd c),
       options\<lparr>hoBuildClusterScopeMap := Some scopes\<rparr>, snd (newClient (clientOptions options) e))
    \<and> c = fst (newClient (clientOptions options) e)"
  using assms by (simp add: NewHelmClient_def Let_def case_prod_beta clientOptions_def)

section \<open>Doubles for tests\<close>

definition BuildStaticGVKClusterScopeMapForTests :: "'q \<Rightarrow> 'e \<Rightarrow> (GoError + (GVK \<rightharpoonup> bool)) \<times> 'e" where
  "BuildStaticGVKClusterScopeMapForTests cfg e = (Inr (map_of [
     (('''', ''v1'', ''Namespace''), True),
     (('''', ''v1'', ''Node''), True),
     (('''', ''v1'', ''PersistentVolume''), True),
     (('''', ''v1'', ''Pod''), False),
     (('''', ''v1'', ''ConfigMap''), False),
     (('''', ''v1'', ''Secret''), False),
     (('''', ''v1'', ''Service''), False),
     (('''', ''v1'', ''PersistentVolumeClaim''), False),
     (('''', ''v1'', ''Event''), False),
     (('''', ''v1'', ''ServiceAccount''), False),
     ((''rbac.authorization.k8s.io'', ''v1'', ''ClusterRole''), True),
     ((''rbac.authorization.k8s.io'', ''v1'', ''ClusterRoleBinding''), True),
     ((''rbac.authorization.k8s.io'', ''v1'', ''Role''), False),
     ((''rbac.authorization.k8s.io'', ''v1'', ''RoleBinding''), False),
     ((''apps'', ''v1'', ''Deployment''), False),
     ((''apps'', ''v1'', ''StatefulSet''), False),
     ((''apps'', ''v1'', ''DaemonSet''), False),
     ((''apps'', ''v1'', ''ReplicaSet''), False),
     ((''batch'', ''v1'', ''Job''), False),
     ((''batch'', ''v1'', ''CronJob''), False),
     ((''networking.k8s.io'', ''v1'', ''Ingress''), False),
     ((''networking.k8s.io'', ''v1'', ''NetworkPolicy''), False),
     ((''networking.k8s.io'', ''v1'', ''IngressClass''), True),
     ((''autoscaling'', ''v1'', ''HorizontalPodAutoscaler''), False),
     ((''autoscaling'', ''v2'', ''HorizontalPodAutoscaler''), False),
     ((''scheduling.k8s.io'', ''v1'', ''PriorityClass''), True),
     ((''storage.k8s.io'', ''v1'', ''StorageClass''), True),
     ((''storage.k8s.io'', ''v1'', ''CSIDriver''), True),
     ((''storage.k8s.io'', ''v1'', ''VolumeAttachment''), True),
     ((''storage.k8s.io'', ''v1'', ''CSIStorageCapacity''), False),
     ((''apiregistration.k8s.io'', ''v1'', ''APIService''), True),
     ((''admissionregistration.k8s.io'', ''v1'', ''MutatingWebhookConfiguration''), True),
     ((''admissionregistration.k8s.io'', ''v1'', ''ValidatingWebhookConfiguration''), True)]), e)"

definition NewTestClient ::
  "(nat \<Rightarrow> 'e \<Rightarrow> (GoError + 8 word list) \<times> 'e) \<Rightarrow> ('q \<Rightarrow> 'e \<Rightarrow> (GoError + (GVK \<rightharpoonup> bool)) \<times> 'e)
     \<Rightarrow> ('q RestConfClientOptions \<Rightarrow> 'e \<Rightarrow> ('h option \<times> GoError option) \<times> 'e) \<Rightarrow> ('q, 'k, 'e) HelmClientOptions \<Rightarrow> 'e
     \<Rightarrow> (('h, 'q, 'k, 'e) HelmClientImpl option \<times> GoError option) \<times> ('q, 'k, 'e) HelmClientOptions \<times> 'e" where
  "NewTestClient read scopes newClient options e =
     (let ((client, err), o1, e1) = NewHelmClient read scopes newClient options e;
          o2 = o1\<lparr>hoBuildClusterScopeMap := Some BuildStaticGVKClusterScopeMapForTests\<rparr>
      in ((map_option (\<lambda>c. c\<lparr>hiOptions := o2\<rparr>) client, err), o2, e1))"

record FakeHelmClient =
  fhTemplate :: string

definition NewFakeHelmClient :: FakeHelmClient where
  "NewFakeHelmClient = \<lparr>fhTemplate = ''''\<rparr>"

definition MockTemplate :: "string \<Rightarrow> FakeHelmClient \<Rightarrow> FakeHelmClient" where
  "MockTemplate template c = c\<lparr>fhTemplate := template\<rparr>"

definition fakeVersions :: "('v, 'c) Semver \<Rightarrow> 'v list \<times> GoError option" where
  "fakeVersions sv =
     (case svNewVersion sv ''2.0.1'' of
        Inl err \<Rightarrow> ([], Some err)
      | Inr v \<Rightarrow> ([v], None))"

text \<open>The double as the client the chart store calls.\<close>

definition fakeHelm :: "('v, 'c) Semver \<Rightarrow> FakeHelmClient \<Rightarrow> ('e, 'v) HelmClient" where
  "fakeHelm sv c = \<lparr>
     hcAddOrUpdateChartRepo = (\<lambda>repoURL e. (Inr repoURL, e)),
     hcSyncRepositories = (\<lambda>e. (None, e)),
     hcFetchVersions = (\<lambda>repoURL chartName e. (fakeVersions sv, e)),
     hcTemplate = (\<lambda>args e. (Inr (fhTemplate c), e))\<rparr>"

text \<open>With the table of the tests a role of the cluster gets no namespace and a deployment gets one.\<close>

lemma static_scopes:
  assumes "fst (BuildStaticGVKClusterScopeMapForTests cfg e) = Inr scopes"
  shows "uGroupVersionKind oa obj = (''rbac.authorization.k8s.io'', ''v1'', ''ClusterRole'') \<Longrightarrow> AddNamespace oa n scopes obj = obj"
    and "uGroupVersionKind oa obj = (''apps'', ''v1'', ''Deployment'') \<Longrightarrow> uGetNamespace oa obj = '''' \<Longrightarrow>
      AddNamespace oa n scopes obj = uSetNamespace oa n obj"
  using assms by (auto simp: AddNamespace_def BuildStaticGVKClusterScopeMapForTests_def)

end
