(* ===== verification/Spec2Isabelle.thy ===== *)
theory Spec2Isabelle
  imports Federation Rollout Wiring Logs BundleJson DeepCopy Routing SpecItems JobContext HelmSetup
begin

text \<open>
  The AnyApplication controller, \<open>hiro.io/anyapplication\<close>: a Kubernetes controller that places an
  application, described by one \<open>AnyApplication\<close> resource, in one or more zones. Every zone runs the
  same program; the zones meet only in the status of the resource, which each of them reads, derives a
  new version of, and writes back under optimistic locking.

  \<^bold>\<open>The parts and the theories that model them\<close>, paths below \<open>src/\<close>.

  \<^item> \<open>Prelude\<close>: what all theories share: the collections \<open>status_simps\<close> and \<open>frame_simps\<close>, the outcome of a Go
    call that may panic (\<open>'a go\<close>, \<open>Inl\<close> a panic, \<open>Inr\<close> a return), errors as values, lists, \<open>int64\<close>.
  \<^item> \<open>ApiTypes\<close>, \<open>ZoneRegistry\<close>, \<open>StatusMethods\<close>: \<open>api/v1\<close>. The structs are records, the constant types
    datatypes, and a method that changes its receiver answers the changed value. \<open>ZoneRegistry\<close> states
    as a locale what the rest relies on when a zone's entry is looked up, ensured, changed or dropped.
  \<^item> \<open>Memory\<close>, \<open>DeepCopy\<close>: \<open>api/v1/zz_generated.deepcopy.go\<close>, on structs as they lie in memory, with pointers and
    slices. The other theories work on values; that a copy shares nothing with the original is what entitles them to.
  \<^item> \<open>Config\<close>, \<open>Versions\<close>: \<open>internal/config/config.go\<close> and \<open>internal/controller/types/chart.go\<close>.
  \<^item> \<open>StatusUpdater\<close>: \<open>internal/controller/status/update.go\<close> and \<open>events\<close>. The Kubernetes client is \<open>KubeEnv\<close>,
    functions over a state of everything outside.
  \<^item> \<open>AsyncJobs\<close>, \<open>JobCycles\<close>, \<open>JobRegistry\<close>: \<open>internal/controller/job\<close> and the job types: the five
    jobs as data, what their goroutines do at each tick, and the table of running jobs as a step
    relation between the table and its workers. \<open>JobContext\<close>: \<open>async_job_context.go\<close> and the Go contexts behind it,
    related to the flags of the table.
  \<^item> \<open>LocalBundle\<close>, \<open>BundleJson\<close>: \<open>internal/controller/local\<close>: one version of an application as it is found in the
    zone, and its JSON form.
  \<^item> \<open>GlobalFsm\<close>, \<open>LocalFsm\<close>, \<open>GlobalApplication\<close>: \<open>internal/controller/global\<close>: the two state machines and
    \<open>DeriveNewStatus\<close>, one pass that applies both.
  \<^item> \<open>StatusMerge\<close>, \<open>Controller\<close>: \<open>internal/controller/anyapplication_controller.go\<close> and
    \<open>reconciler/reconciler.go\<close>: the merge of a derived status into the stored one, and \<open>Reconcile\<close>.
  \<^item> \<open>Bringup\<close>, \<open>Rollout\<close>: passes of \<open>Reconcile\<close> in sequence, from a new resource to one that is handled, and with the
    placement job and its worker between the passes on to its deployment.
  \<^item> \<open>Federation\<close>: the controllers of several zones on one resource: the histories of its status.
  \<^item> \<open>Charts\<close>, \<open>SyncManager\<close>: \<open>internal/controller/sync\<close>: the chart store, and the service that renders,
    deploys, deletes and judges the resources of an application.
  \<^item> \<open>Helm\<close>, \<open>HelmSetup\<close>: \<open>internal/helm\<close>: repositories, versions and the post-processing of manifests; how a client is
    made, and its double for tests.
  \<^item> \<open>Unstructured\<close>, \<open>Resources\<close>, \<open>ErrorReports\<close>, \<open>HttpApi\<close>: \<open>internal/resources\<close>, \<open>internal/errorctx/report.go\<close> and
    \<open>internal/httpapi/api/impl.go\<close>: what an application asks of a zone, the report on it, and the
    two requests that answer them. \<open>Logs\<close>: \<open>internal/errorctx/logs.go\<close>: the logs and events the report quotes.
  \<^item> \<open>SpecItems\<close>, \<open>Routing\<close>: \<open>internal/httpapi/api/httpapi.gen.go\<close> and \<open>internal/httpapi/server.go\<close>: the items of a
    specification as JSON texts, and how a request comes to its handler.
  \<^item> \<open>Wiring\<close>: \<open>cmd/main.go\<close>: the two functions given to the cluster cache, and that what \<open>Helm\<close> renders is found by
    \<open>ErrorReports\<close> and \<open>SyncManager\<close> again.

  \<^bold>\<open>How the parts meet.\<close> \<open>Reconcile\<close> reads the resource, elects an owner when it has none, lets go of a deleted
  one, and otherwise loads the application (\<open>LoadApplication\<close> of \<open>SyncManager\<close>), runs \<open>DeriveNewStatus\<close>,
  merges the result (\<open>mergeStatus\<close> through \<open>UpdateStatus\<close>) and switches the job in the table. Jobs call the
  service and post conditions through \<open>UpdateCondition\<close>. \<open>Controller\<close> takes the job table through the
  locale \<open>async_jobs\<close>, interpreted on \<open>JobRegistry\<close>; the state machines take the job factory through
  \<open>job_factory\<close>, interpreted on \<open>AsyncJobFactoryImpl\<close>; the deep copies promise \<open>deep_copy\<close>, interpreted on each of
  them. \<open>Rollout\<close> runs the parts together: three passes, the placement job, its worker's end and a fourth pass.

  \<^bold>\<open>What the lemmas show.\<close> A pass keeps to its zone and keeps the status well formed, announces every job it
  schedules, does what the decision tables say, and does not panic once placements are decided. A
  status write that succeeds is one atomic step of the object's log. Over all interleavings of zones and stale reads
  one owner is elected for good and no zone touches another's entry (\<open>Federation\<close>). A new application with local placement
  that nobody else writes to gets its deployment started (\<open>Rollout\<close>). Jobs end within a
  number of ticks, report an undeployment done only when nothing is left, and the table holds only jobs
  that live. Cleanup touches the resources of its own instance only. Charts only get more versions, the newest admitted
  one is chosen. Manifests come out with labels under which the cache, the reports and the cleanup find them, resource totals are the sums of what the containers
  state, and the reports count what the pods and workloads say. A deep copy reads as the original did, in cells that were
  not there before, and leaves all others alone. The HTTP server answers exactly the two routes of its API. Where the code does not do what it means to,
  the lemmas say what it does: the two machines collide before placements are decided, instance ids collide, a job
  stopped too early runs on, a job can run without being in the table, a request for the specification panics without a chart, among others.

  \<^bold>\<open>Bounds.\<close> No definition needs fuel that the code does not have: the cycles of a job take the number of ticks
  as an argument, and the termination theorems give a number that is enough, whatever the answers; \<open>awaitFile\<close> has the ten
  attempts of the code; \<open>RetryOnConflict\<close> is a parameter of which it is only assumed that it runs the
  function again while it answers a conflict; the \<open>sampleRetry\<close> of the examples tries four times. \<open>sort.Slice\<close>
  is the insertion sort it is on at most twelve elements; a longer list of versions may come out with equal ones in
  another order. Replica counts are 32-bit words, zone versions are wrapped at 64 bits, and other integers do not
  come near their bounds.

  \<^bold>\<open>Parameters.\<close> Code that is not in the repository is an argument: the API server, the cluster cache and the
  GitOps engine (\<open>KubeEnv\<close>, \<open>SyncEnv\<close>, \<open>ReportEnv\<close>), semantic versions (\<open>Semver\<close>), Helm, YAML, URLs and
  discovery (\<open>HelmLib\<close>), JSON (\<open>JsonApi\<close>), pod logs (\<open>LogClient\<close>), accessors of unstructured objects (\<open>UnstructuredApi\<close>, \<open>ObjectApi\<close>), quantities
  (\<open>QuantityApi\<close>), the copies of Kubernetes metadata, the binding of a path parameter, random bytes, the clock and the order in which a Go map is ranged. What a theorem needs of them is a named
  hypothesis that states their documented behaviour, such as \<open>optimistic_store\<close>, \<open>retries_on_conflict\<close>, \<open>quiet_server\<close>,
  \<open>object_laws\<close> or \<open>quantity_laws\<close>, and the examples instantiate each with concrete functions. \<open>ToLower\<close> and
  \<open>TrimSpace\<close> are those of ASCII texts. Log lines are left out.

  \<^bold>\<open>Not modelled.\<close> The wiring of the program (the rest of \<open>cmd/main.go\<close>: flags, certificates, probes, and the order in which
  manager, caches and servers are started; \<open>Start\<close> of \<open>server.go\<close>, \<open>SetupWithManager\<close>, the scheme registration), the
  clock, \<open>getFullName\<close> and \<open>IsEmpty\<close> of \<open>sync/applications.go\<close>, which only serve log lines and tests, and the test doubles
  other than that of the Helm client: they are input and output or calls of libraries with no decision of their own.
\<close>

end
